(* ===== verification/Prelude.thy ===== *)
theory Prelude
  imports Complex_Main "HOL-Library.AList" "HOL-Library.Char_ord" "HOL-Library.List_Lexorder"
begin

text \<open>
  Shared vocabulary of the development.

  \<^item> Python exceptions are values of \<open>spot_error\<close>; a call that may raise returns
    \<open>spot_error + 'a\<close>, and \<open>bindE\<close> stops at the first error as an exception does.
    The classes kept apart are those the source tells apart: \<open>ValueError\<close>, its subclasses
    \<open>SpotAccountingViolation\<close>, \<open>GraphValidationError\<close> and pydantic's \<open>ValidationError\<close>, and the
    exceptions that an \<open>except ValueError\<close> does not catch.
  \<^item> A Python \<open>dict\<close> keeps insertion order and the source depends on it, so it is an
    association list; \<open>d[k] = v\<close> is \<open>AList.update\<close> (in place, or at the end) and
    \<open>d.get(k)\<close> is \<open>map_of\<close>.
  \<^item> \<open>str(n)\<close> of a natural number is \<open>nat_text\<close>.
  \<^item> The locale \<open>reducer\<close> is the contract of an operation that folds one input into a
    state, or raises, and keeps an invariant; its lemmas lift the contract to sequences
    of inputs.
\<close>

text \<open>The definitions that are unfolded to evaluate the model on a concrete session.\<close>

named_theorems eval

section \<open>Errors and results\<close>

datatype spot_error =
    ValueError string
  | AccountingViolation string
  | ValidationError string
  | KeyError
  | TypeError
  | ArithmeticError
  | AttributeError
  | StopIteration
  | RuntimeError string
  | GraphValidationError string

type_synonym 'a res = "spot_error + 'a"

fun is_value_error :: "spot_error \<Rightarrow> bool" where
  "is_value_error (ValueError _) = True"
| "is_value_error (AccountingViolation _) = True"
| "is_value_error (ValidationError _) = True"
| "is_value_error (GraphValidationError _) = True"
| "is_value_error _ = False"

text \<open>The text \<open>str(exc)\<close> of an exception.\<close>

fun error_text :: "spot_error \<Rightarrow> string" where
  "error_text (ValueError m) = m"
| "error_text (AccountingViolation m) = m"
| "error_text (ValidationError m) = m"
| "error_text (RuntimeError m) = m"
| "error_text (GraphValidationError m) = m"
| "error_text _ = []"

definition bindE :: "'a res \<Rightarrow> ('a \<Rightarrow> 'b res) \<Rightarrow> 'b res" where
  "bindE m f = (case m of Inl e \<Rightarrow> Inl e | Inr x \<Rightarrow> f x)"

text \<open>A guard that raises, and a left fold that may raise.\<close>

definition ensure :: "bool \<Rightarrow> spot_error \<Rightarrow> unit res" where
  "ensure c e = (if c then Inr () else Inl e)"

fun foldE :: "('s \<Rightarrow> 'x \<Rightarrow> 's res) \<Rightarrow> 's \<Rightarrow> 'x list \<Rightarrow> 's res" where
  "foldE f s [] = Inr s"
| "foldE f s (x # xs) = bindE (f s x) (\<lambda>s'. foldE f s' xs)"

lemma bindE_simps [simp]:
  "bindE (Inl e) f = Inl e" "bindE (Inr x) f = f x"
  by (simp_all add: bindE_def)

lemma bindE_eq_Inr [simp]: "bindE m f = Inr y \<longleftrightarrow> (\<exists>x. m = Inr x \<and> f x = Inr y)"
  by (auto simp: bindE_def split: sum.splits)

lemma ensure_eq_Inr [simp]: "ensure c e = Inr u \<longleftrightarrow> c"
  by (auto simp: ensure_def)

lemma ensure_eq_Inl [simp]: "ensure c e = Inl e' \<longleftrightarrow> \<not> c \<and> e = e'"
  by (auto simp: ensure_def)

lemma if_Inl_eq_Inr [simp]: "(if c then Inl e else m) = Inr y \<longleftrightarrow> \<not> c \<and> m = Inr y"
  by simp

lemma foldE_append: "foldE f s (xs @ ys) = bindE (foldE f s xs) (\<lambda>s'. foldE f s' ys)"
  by (induction xs arbitrary: s) (auto simp: bindE_def split: sum.splits)

section \<open>Reducers and their invariants\<close>

locale reducer =
  fixes step :: "'s \<Rightarrow> 'x \<Rightarrow> 's res"
    and inv :: "'s \<Rightarrow> bool"
  assumes step_inv: "inv s \<Longrightarrow> step s x = Inr s' \<Longrightarrow> inv s'"
begin

lemma fold_inv: "inv s \<Longrightarrow> foldE step s xs = Inr s' \<Longrightarrow> inv s'"
  by (induction xs arbitrary: s) (auto dest: step_inv)

end

text \<open>
  A reducer that also leaves some view of the state alone: the view of the result is the
  view of the start, whatever the inputs.
\<close>

locale framed_reducer =
  fixes step :: "'s \<Rightarrow> 'x \<Rightarrow> 's res"
    and view :: "'s \<Rightarrow> 'v"
  assumes step_view: "step s x = Inr s' \<Longrightarrow> view s' = view s"

sublocale framed_reducer \<subseteq> view_const: reducer step "\<lambda>s. view s = v" for v
  by unfold_locales (simp add: step_view)

context framed_reducer
begin

lemma fold_view: "foldE step s xs = Inr s' \<Longrightarrow> view s' = view s"
  using view_const.fold_inv [of s "view s"] by simp

end

section \<open>Lists\<close>

lemma in_map_filter: "x \<in> set (List.map_filter f xs) \<longleftrightarrow> (\<exists>y \<in> set xs. f y = Some x)"
  by (induction xs) (auto simp: List.map_filter_def)

section \<open>Dictionaries\<close>

type_synonym 'v dict = "(string \<times> 'v) list"

abbreviation dict_keys :: "'v dict \<Rightarrow> string list" where
  "dict_keys d \<equiv> map fst d"

abbreviation dict_values :: "'v dict \<Rightarrow> 'v list" where
  "dict_values d \<equiv> map snd d"

lemma map_of_update [simp]: "map_of (AList.update k v d) = (map_of d)(k \<mapsto> v)"
  by (simp add: update_conv')

lemma update_fresh: "map_of d k = None \<Longrightarrow> AList.update k v d = d @ [(k, v)]"
  by (induction d) (auto split: if_splits)

lemma map_of_SomeD_values: "map_of d k = Some v \<Longrightarrow> v \<in> set (dict_values d)"
  by (metis map_of_SomeD image_eqI set_map snd_conv)

lemma set_dict_values_update:
  "set (dict_values (AList.update k v d)) \<subseteq> insert v (set (dict_values d))"
  by (induction d) auto

text \<open>A sum over the values of a dictionary after one value is replaced.\<close>

lemma sum_list_update:
  fixes f :: "'v \<Rightarrow> rat"
  assumes "map_of d k = Some v"
  shows "sum_list (map f (dict_values (AList.update k w d)))
    = sum_list (map f (dict_values d)) - f v + f w"
  using assms by (induction d) (auto split: if_splits)

lemma length_update: "map_of d k = Some v \<Longrightarrow> length (AList.update k w d) = length d"
  by (induction d) (auto split: if_splits)

lemma keys_update_present: "map_of d k = Some v \<Longrightarrow> dict_keys (AList.update k w d) = dict_keys d"
  by (induction d) (auto split: if_splits)

section \<open>Text of natural numbers\<close>

definition digit_char :: "nat \<Rightarrow> char" where
  "digit_char d = char_of (48 + d)"

fun nat_text :: "nat \<Rightarrow> string" where
  "nat_text n = (if n < 10 then [digit_char n] else nat_text (n div 10) @ [digit_char (n mod 10)])"

declare nat_text.simps [simp del]

fun text_nat :: "nat \<Rightarrow> string \<Rightarrow> nat" where
  "text_nat acc [] = acc"
| "text_nat acc (c # cs) = text_nat (10 * acc + (of_char c - 48)) cs"

lemma of_char_digit: "d < 10 \<Longrightarrow> of_char (digit_char d) = (48 + d :: nat)"
  by (simp add: digit_char_def of_char_of)

lemma text_nat_append: "text_nat acc (xs @ [c]) = 10 * text_nat acc xs + (of_char c - 48)"
  by (induction xs arbitrary: acc) auto

lemma text_nat_text: "text_nat 0 (nat_text n) = n"
proof (induction n rule: nat_text.induct)
  case (1 n)
  show ?case
  proof (cases "n < 10")
    case True
    then show ?thesis by (simp add: nat_text.simps [of n] of_char_digit)
  next
    case False
    then have "text_nat 0 (nat_text (n div 10)) = n div 10" by (rule 1)
    then show ?thesis using False
      by (simp add: nat_text.simps [of n] text_nat_append of_char_digit)
  qed
qed

lemma nat_text_inject [simp]: "nat_text m = nat_text n \<longleftrightarrow> m = n"
  by (metis text_nat_text)

text \<open>The text of a Python \<open>int\<close>.\<close>

definition int_text :: "int \<Rightarrow> string" where
  "int_text i = (if i < 0 then CHR ''-'' # nat_text (nat (- i)) else nat_text (nat i))"

text \<open>\<open>x or y\<close> on an optional decimal: \<open>None\<close> and zero are both false.\<close>

definition or_else :: "rat option \<Rightarrow> rat \<Rightarrow> rat" where
  "or_else x y = (case x of None \<Rightarrow> y | Some v \<Rightarrow> if v = 0 then y else v)"

lemma or_else_pos: "0 < y \<Longrightarrow> (\<And>v. x = Some v \<Longrightarrow> 0 < v) \<Longrightarrow> 0 < or_else x y"
  by (auto simp: or_else_def split: option.splits)

end
