(* ===== verification/Rounding.thy ===== *)
theory Rounding
  imports Complex_Main
begin

text \<open>
  Rounding a rational to \<open>p\<close> significant digits in base \<open>b\<close>, ties to even. This is what one
  operation of Python's \<open>decimal\<close> does in a context with \<open>b = 10\<close> and precision \<open>p\<close>
  (\<open>ROUND_HALF_EVEN\<close> is the default rounding of \<open>decimal.Context\<close>): the exact result is
  computed, then rounded once.

  \<open>round_sig\<close> is executable: the position of the leading digit (\<open>magnitude\<close>) is found from the
  digit counts of numerator and denominator. The section on its laws shows that it is odd,
  monotone, keeps signs, leaves every number that fits the precision alone and always
  returns one that fits. The locale \<open>rounding\<close> keeps just those laws; what the accounting
  needs of rounded arithmetic is derived in it once.
\<close>

section \<open>Rounding to significant digits\<close>

definition round_half_even :: "rat \<Rightarrow> int" where
  "round_half_even x =
     (let f = \<lfloor>x\<rfloor>; d = x - of_int f
      in if d < 1 / 2 then f
         else if 1 / 2 < d then f + 1
         else if even f then f else f + 1)"

fun digit_count :: "nat \<Rightarrow> nat \<Rightarrow> nat" where
  "digit_count b n = (if n = 0 \<or> b \<le> 1 then 0 else Suc (digit_count b (n div b)))"

declare digit_count.simps [simp del]

definition magnitude :: "nat \<Rightarrow> rat \<Rightarrow> int" where
  "magnitude b x =
     (let (n, d) = quotient_of \<bar>x\<bar>;
          k = int (digit_count b (nat n)) - int (digit_count b (nat d))
      in if of_nat b powi k \<le> \<bar>x\<bar> then k else k - 1)"

definition round_sig :: "nat \<Rightarrow> nat \<Rightarrow> rat \<Rightarrow> rat" where
  "round_sig b p x =
     (if x = 0 then 0
      else let q = of_nat b powi (magnitude b x - int p + 1)
           in of_int (round_half_even (x / q)) * q)"

section \<open>Laws of the rounding function\<close>

lemma round_half_even_of_int [simp]: "round_half_even (of_int n) = n"
  by (simp add: round_half_even_def)

lemma round_half_even_mono:
  assumes "x \<le> y"
  shows "round_half_even x \<le> round_half_even y"
proof -
  have f: "\<lfloor>x\<rfloor> \<le> \<lfloor>y\<rfloor>" using assms by (rule floor_mono)
  show ?thesis
  proof (cases "\<lfloor>x\<rfloor> = \<lfloor>y\<rfloor>")
    case True
    then show ?thesis using assms by (auto simp: round_half_even_def Let_def)
  next
    case False
    with f have "\<lfloor>x\<rfloor> + 1 \<le> \<lfloor>y\<rfloor>" by simp
    then show ?thesis by (auto simp: round_half_even_def Let_def)
  qed
qed

lemma floor_uminus_rat:
  fixes x :: rat
  shows "\<lfloor>- x\<rfloor> = (if x = of_int \<lfloor>x\<rfloor> then - \<lfloor>x\<rfloor> else - \<lfloor>x\<rfloor> - 1)"
  by (metis ceiling_altdef ceiling_def minus_diff_eq diff_minus_eq_add add.commute
      minus_add_distrib uminus_add_conv_diff minus_minus)

lemma round_half_even_uminus: "round_half_even (- x) = - round_half_even x"
proof (cases "x = of_int \<lfloor>x\<rfloor>")
  case True
  then have "- x = of_int (- \<lfloor>x\<rfloor>)" by simp
  then show ?thesis using True by (metis round_half_even_of_int)
next
  case False
  define f where "f = \<lfloor>x\<rfloor>"
  define d where "d = x - of_int f"
  have fl: "\<lfloor>- x\<rfloor> = - f - 1" using False floor_uminus_rat [of x] by (simp add: f_def)
  have d': "- x - of_int (- f - 1) = 1 - d" by (simp add: d_def)
  have l: "round_half_even (- x) = (if 1 - d < 1/2 then - f - 1 else if 1/2 < 1 - d then - f else if even f then - f else - f - 1)"
    unfolding round_half_even_def fl Let_def using d' by auto
  have r: "round_half_even x = (if d < 1/2 then f else if 1/2 < d then f + 1 else if even f then f else f + 1)"
    unfolding round_half_even_def Let_def f_def d_def by simp
  show ?thesis unfolding l r by auto
qed

lemma digit_count_bounds:
  assumes "1 < b" "0 < n"
  shows "b ^ (digit_count b n - 1) \<le> n \<and> n < b ^ digit_count b n \<and> 0 < digit_count b n"
  using assms
proof (induction b n rule: digit_count.induct)
  case (1 b n)
  show ?case
  proof (cases "n < b")
    case True
    then have "n div b = 0" by simp
    then have "digit_count b n = 1" using 1 by (simp add: digit_count.simps [of b n] digit_count.simps [of b 0])
    then show ?thesis using True 1 by simp
  next
    case False
    then have pos: "0 < n div b" using 1 by (simp add: div_greater_zero_iff)
    let ?k = "digit_count b (n div b)"
    have IH: "b ^ (?k - 1) \<le> n div b" "n div b < b ^ ?k" "0 < ?k"
      using 1 pos by auto
    have dc: "digit_count b n = Suc ?k" using 1 by (simp add: digit_count.simps [of b n])
    have "b ^ ?k = b * b ^ (?k - 1)" using IH(3) by (cases ?k) auto
    also have "\<dots> \<le> b * (n div b)" using IH(1) by simp
    also have "\<dots> \<le> n" by simp
    finally have lo: "b ^ ?k \<le> n" .
    have "n < b * (n div b + 1)" using 1 by (metis Suc_eq_plus1 dividend_less_div_times mult.commute mult_Suc_right add.commute less_trans zero_less_one)
    also have "\<dots> \<le> b * b ^ ?k" using IH(2) by (intro mult_le_mono) auto
    finally have hi: "n < b ^ Suc ?k" by simp
    show ?thesis using lo hi dc by simp
  qed
qed

lemma powi_le_iff:
  fixes B :: rat
  assumes "1 < B"
  shows "B powi i \<le> B powi j \<longleftrightarrow> i \<le> j"
  using assms power_int_increasing [of i j B] power_int_strict_increasing [of j i B]
  by (auto simp: not_le [symmetric])

lemma powi_less_iff:
  fixes B :: rat
  assumes "1 < B"
  shows "B powi i < B powi j \<longleftrightarrow> i < j"
  using powi_le_iff [OF assms, of j i] by (simp add: not_le [symmetric])

lemma magnitude_bounds:
  assumes b: "1 < b" and x: "x \<noteq> 0"
  shows "of_nat b powi magnitude b x \<le> \<bar>x\<bar> \<and> \<bar>x\<bar> < of_nat b powi (magnitude b x + 1)"
proof -
  obtain n d where q: "quotient_of \<bar>x\<bar> = (n, d)" by fastforce
  have xeq: "\<bar>x\<bar> = of_int n / of_int d" using q by (rule quotient_of_div)
  have d: "0 < d" using q by (rule quotient_of_denom_pos)
  have "0 < \<bar>x\<bar>" using x by simp
  then have n: "0 < n" using xeq d by (simp add: zero_less_divide_iff)
  let ?B = "of_nat b :: rat"
  have B: "1 < ?B" using b by simp
  let ?i = "digit_count b (nat n)" and ?j = "digit_count b (nat d)"
  have N: "b ^ (?i - 1) \<le> nat n" "nat n < b ^ ?i" "0 < ?i"
    using digit_count_bounds [OF b, of "nat n"] n by auto
  have D: "b ^ (?j - 1) \<le> nat d" "nat d < b ^ ?j" "0 < ?j"
    using digit_count_bounds [OF b, of "nat d"] d by auto
  have n1: "?B ^ (?i - 1) \<le> of_int n" and n2: "of_int n < ?B ^ ?i"
    using N n by (metis of_nat_le_iff of_nat_power of_nat_nat less_imp_le, metis of_nat_less_iff of_nat_power of_nat_nat less_imp_le)
  have d1: "?B ^ (?j - 1) \<le> of_int d" and d2: "of_int d < ?B ^ ?j"
    using D d by (metis of_nat_le_iff of_nat_power of_nat_nat less_imp_le, metis of_nat_less_iff of_nat_power of_nat_nat less_imp_le)
  let ?k = "int ?i - int ?j"
  have B0: "0 < ?B" using B by simp
  have hi: "\<bar>x\<bar> < ?B powi (?k + 1)"
  proof -
    have "\<bar>x\<bar> < ?B ^ ?i / ?B ^ (?j - 1)"
      unfolding xeq using n n2 d1 B0
      by (intro frac_less) auto
    also have "\<dots> = ?B powi (int ?i - int (?j - 1))"
      using B0 by (simp add: power_int_diff)
    also have "int ?i - int (?j - 1) = ?k + 1" using D(3) by simp
    finally show ?thesis .
  qed
  have lo: "?B powi (?k - 1) \<le> \<bar>x\<bar>"
  proof -
    have "?B powi (?k - 1) = ?B powi (int (?i - 1) - int ?j)" using N(3) by (simp add: algebra_simps)
    also have "\<dots> = ?B ^ (?i - 1) / ?B ^ ?j" using B0 by (simp add: power_int_diff)
    also have "\<dots> \<le> of_int n / of_int d" using n1 d2 d n B0 by (intro frac_le) auto
    finally show ?thesis using xeq by simp
  qed
  show ?thesis
    using hi lo by (auto simp: magnitude_def q Let_def)
qed

lemma magnitude_unique:
  assumes b: "1 < b" and x: "x \<noteq> 0"
    and "of_nat b powi k \<le> \<bar>x\<bar>" "\<bar>x\<bar> < of_nat b powi (k + 1)"
  shows "magnitude b x = k"
proof -
  have B: "1 < (of_nat b :: rat)" using b by simp
  have 1: "(of_nat b :: rat) powi magnitude b x < of_nat b powi (k + 1)"
    using magnitude_bounds [OF b x] assms(4) by linarith
  have 2: "(of_nat b :: rat) powi k < of_nat b powi (magnitude b x + 1)"
    using magnitude_bounds [OF b x] assms(3) by linarith
  have "magnitude b x < k + 1" using 1 B by (rule powi_less_iff [THEN iffD1, rotated])
  moreover have "k < magnitude b x + 1" using 2 B by (rule powi_less_iff [THEN iffD1, rotated])
  ultimately show ?thesis by simp
qed

definition representable :: "nat \<Rightarrow> nat \<Rightarrow> rat \<Rightarrow> bool" where
  "representable b p x \<longleftrightarrow> (\<exists>n e. x = of_int n * of_nat b powi e \<and> \<bar>n\<bar> < int b ^ p)"

lemma round_sig_zero [simp]: "round_sig b p 0 = 0"
  by (simp add: round_sig_def)

lemma magnitude_uminus [simp]: "magnitude b (- x) = magnitude b x"
  by (simp add: magnitude_def)

lemma round_sig_uminus: "round_sig b p (- x) = - round_sig b p x"
proof -
  have "- x / q = - (x / q)" for q :: rat by simp
  then show ?thesis
    by (simp only: round_sig_def Let_def magnitude_uminus round_half_even_uminus
        neg_equal_0_iff_equal split: if_split) simp
qed

lemma scaled_bounds:
  fixes b p :: nat and x :: rat
  assumes b: "1 < b" and p: "0 < p" and x: "0 < x"
  defines "q \<equiv> of_nat b powi (magnitude b x - int p + 1)"
  shows "of_nat b ^ (p - 1) \<le> x / q" "x / q < of_nat b ^ p" "0 < q"
proof -
  let ?B = "of_nat b :: rat"
  have B0: "0 < ?B" using b by simp
  show q0: "0 < q" unfolding q_def using B0 by simp
  have m: "?B powi magnitude b x \<le> x" "x < ?B powi (magnitude b x + 1)"
    using magnitude_bounds [OF b, of x] x by auto
  have "?B ^ (p - 1) * q = ?B powi (int (p - 1) + (magnitude b x - int p + 1))"
    unfolding q_def using B0 by (simp add: power_int_add)
  also have "int (p - 1) + (magnitude b x - int p + 1) = magnitude b x" using p by simp
  finally show "?B ^ (p - 1) \<le> x / q" using m(1) q0 by (simp add: pos_le_divide_eq)
  have "?B ^ p * q = ?B powi (int p + (magnitude b x - int p + 1))"
    unfolding q_def using B0 by (subst power_int_add) auto
  also have "int p + (magnitude b x - int p + 1) = magnitude b x + 1" by simp
  finally show "x / q < ?B ^ p" using m(2) q0 by (simp add: pos_divide_less_eq)
qed

lemma round_sig_pos_bounds:
  fixes b p :: nat and x :: rat
  assumes b: "1 < b" and p: "0 < p" and x: "0 < x"
  shows "of_nat b powi magnitude b x \<le> round_sig b p x"
    "round_sig b p x \<le> of_nat b powi (magnitude b x + 1)"
proof -
  let ?B = "of_nat b :: rat"
  define q where "q = ?B powi (magnitude b x - int p + 1)"
  note sb = scaled_bounds [OF b p x, folded q_def]
  have B0: "0 < ?B" using b by simp
  have r: "round_sig b p x = of_int (round_half_even (x / q)) * q"
    using x by (simp add: round_sig_def q_def Let_def)
  have "int b ^ (p - 1) \<le> round_half_even (x / q)"
    using round_half_even_mono [OF sb(1)] round_half_even_of_int [of "int b ^ (p - 1)"] by simp
  then have lo: "?B ^ (p - 1) \<le> of_int (round_half_even (x / q))"
    by (metis of_int_le_iff of_int_of_nat_eq of_int_power)
  have "round_half_even (x / q) \<le> int b ^ p"
    using round_half_even_mono [OF less_imp_le [OF sb(2)]] round_half_even_of_int [of "int b ^ p"] by simp
  then have hi: "of_int (round_half_even (x / q)) \<le> ?B ^ p"
    by (metis of_int_le_iff of_int_of_nat_eq of_int_power)
  have "?B powi magnitude b x = ?B powi (int (p - 1) + (magnitude b x - int p + 1))" using p by simp
  also have "\<dots> = ?B ^ (p - 1) * q" unfolding q_def using B0 by (subst power_int_add) auto
  also have "\<dots> \<le> round_sig b p x" unfolding r using lo sb(3) by simp
  finally show "?B powi magnitude b x \<le> round_sig b p x" .
  have "round_sig b p x \<le> ?B ^ p * q" unfolding r using hi sb(3) by simp
  also have "\<dots> = ?B powi (int p + (magnitude b x - int p + 1))"
    unfolding q_def using B0 by (subst power_int_add) auto
  finally show "round_sig b p x \<le> ?B powi (magnitude b x + 1)" by simp
qed

lemma round_sig_pos:
  assumes "1 < b" "0 < p" "0 < x"
  shows "0 < round_sig b p x"
proof -
  have "0 < (of_nat b :: rat) powi magnitude b x" using assms by simp
  also have "\<dots> \<le> round_sig b p x" using assms by (rule round_sig_pos_bounds)
  finally show ?thesis .
qed

lemma round_sig_mono_pos:
  assumes b: "1 < b" and p: "0 < p" and x: "0 < x" and xy: "x \<le> y"
  shows "round_sig b p x \<le> round_sig b p y"
proof -
  have y: "0 < y" using x xy by simp
  have B: "1 < (of_nat b :: rat)" using b by simp
  have "(of_nat b :: rat) powi magnitude b x < of_nat b powi (magnitude b y + 1)"
    using magnitude_bounds [OF b, of x] magnitude_bounds [OF b, of y] x y xy by fastforce
  then have m: "magnitude b x \<le> magnitude b y" using powi_less_iff [OF B] by simp
  show ?thesis
  proof (cases "magnitude b x = magnitude b y")
    case True
    have "x / q \<le> y / q" if "0 < q" for q :: rat using xy that by (simp add: divide_right_mono)
    then show ?thesis
      using True x y scaled_bounds(3) [OF b p x]
      by (simp add: round_sig_def Let_def round_half_even_mono)
  next
    case False
    then have "magnitude b x + 1 \<le> magnitude b y" using m by simp
    then have "(of_nat b :: rat) powi (magnitude b x + 1) \<le> of_nat b powi magnitude b y"
      using powi_le_iff [OF B] by simp
    then show ?thesis
      using round_sig_pos_bounds [OF b p x] round_sig_pos_bounds [OF b p y] by linarith
  qed
qed

lemma round_sig_mono:
  assumes b: "1 < b" and p: "0 < p" and xy: "x \<le> y"
  shows "round_sig b p x \<le> round_sig b p y"
proof (cases "0 < x")
  case True
  then show ?thesis using round_sig_mono_pos [OF b p _ xy] by simp
next
  case x: False
  show ?thesis
  proof (cases "0 < y")
    case True
    have "round_sig b p x \<le> 0"
    proof (cases "x = 0")
      case False
      then have "0 < - x" using x by simp
      from round_sig_pos [OF b p this] show ?thesis by (simp add: round_sig_uminus)
    qed simp
    also have "\<dots> \<le> round_sig b p y" using round_sig_pos [OF b p True] by simp
    finally show ?thesis .
  next
    case y: False
    show ?thesis
    proof (cases "y = 0")
      case True
      then show ?thesis using x round_sig_pos [OF b p, of "- x"]
        by (cases "x = 0") (auto simp: round_sig_uminus)
    next
      case False
      then have "0 < - y" "- y \<le> - x" using y xy by auto
      from round_sig_mono_pos [OF b p this] show ?thesis by (simp add: round_sig_uminus)
    qed
  qed
qed

lemma representable_uminus: "representable b p x \<Longrightarrow> representable b p (- x)"
  unfolding representable_def by (metis abs_minus_cancel minus_mult_left of_int_minus)

lemma round_sig_representable_pos:
  assumes b: "1 < b" and p: "0 < p" and x: "0 < x" and r: "representable b p x"
  shows "round_sig b p x = x"
proof -
  let ?B = "of_nat b :: rat"
  have B: "1 < ?B" and B0: "0 < ?B" using b by auto
  obtain n e where xe: "x = of_int n * ?B powi e" and n: "\<bar>n\<bar> < int b ^ p"
    using r unfolding representable_def by blast
  have "of_int n < ?B ^ p"
    using n by (metis abs_less_iff of_int_less_iff of_int_of_nat_eq of_int_power)
  then have "x < ?B ^ p * ?B powi e" unfolding xe using B0 by simp
  also have "\<dots> = ?B powi (int p + e)" using B0 by (simp add: power_int_add)
  finally have "?B powi magnitude b x < ?B powi (int p + e)"
    using magnitude_bounds [OF b, of x] x by auto
  then have m: "magnitude b x < int p + e" using powi_less_iff [OF B] by simp
  define q where "q = ?B powi (magnitude b x - int p + 1)"
  have q0: "0 < q" unfolding q_def using B0 by simp
  define k where "k = nat (e - (magnitude b x - int p + 1))"
  have ek: "e = int k + (magnitude b x - int p + 1)" unfolding k_def using m by simp
  have "?B powi (int k + (magnitude b x - int p + 1)) = ?B ^ k * q"
    unfolding q_def using B0 by (subst power_int_add) auto
  then have "x = of_int n * (?B ^ k * q)" using xe ek by metis
  then have "x / q = of_int n * ?B ^ k" using q0 by simp
  also have "\<dots> = of_int (n * int b ^ k)" by simp
  finally have i: "x / q = of_int (n * int b ^ k)" .
  have "round_sig b p x = of_int (round_half_even (x / q)) * q"
    using x by (simp add: round_sig_def q_def Let_def)
  also have "\<dots> = x / q * q" unfolding i by (simp only: round_half_even_of_int)
  also have "\<dots> = x" using q0 by simp
  finally show ?thesis .
qed

lemma round_sig_representable:
  assumes b: "1 < b" and p: "0 < p" and r: "representable b p x"
  shows "round_sig b p x = x"
proof (cases x "0 :: rat" rule: linorder_cases)
  case less
  then have "round_sig b p (- x) = - x"
    using round_sig_representable_pos [OF b p _ representable_uminus [OF r]] by simp
  then show ?thesis by (simp add: round_sig_uminus)
next
  case equal
  then show ?thesis by simp
next
  case greater
  then show ?thesis using round_sig_representable_pos [OF b p _ r] by simp
qed

lemma round_sig_exact:
  assumes b: "1 < b" and p: "0 < p" and x: "x = of_int n / of_nat b ^ k"
    and n: "\<bar>x\<bar> * of_nat b ^ k < of_nat b ^ p"
  shows "round_sig b p x = x"
proof (rule round_sig_representable [OF b p])
  have "\<bar>of_int n :: rat\<bar> < of_nat b ^ p" using n b unfolding x by simp
  then have "of_int \<bar>n\<bar> < (of_int (int b ^ p) :: rat)" by simp
  then have "\<bar>n\<bar> < int b ^ p" by (simp only: of_int_less_iff)
  moreover have "x = of_int n * of_nat b powi (- int k)"
    unfolding x by (simp add: power_int_minus divide_inverse)
  ultimately show "representable b p x" unfolding representable_def by blast
qed

lemma representable_round_sig:
  assumes b: "1 < b" and p: "0 < p"
  shows "representable b p (round_sig b p x)"
proof -
  have pos: "representable b p (round_sig b p x)" if x: "0 < x" for x
  proof -
    let ?B = "of_nat b :: rat"
    have B0: "0 < ?B" using b by simp
    define e where "e = magnitude b x - int p + 1"
    define n where "n = round_half_even (x / ?B powi e)"
    have r: "round_sig b p x = of_int n * ?B powi e"
      using x by (simp add: round_sig_def n_def e_def Let_def)
    note sb = scaled_bounds [OF b p x, folded e_def]
    have "round_half_even (x / ?B powi e) \<le> round_half_even (of_int (int b ^ p))"
      by (rule round_half_even_mono) (use sb(2) in simp)
    then have hi: "n \<le> int b ^ p" unfolding n_def by (simp only: round_half_even_of_int)
    have "0 < round_sig b p x" using round_sig_pos [OF b p x] .
    then have n0: "0 < n" unfolding r using zero_less_power_int [OF B0, of e]
      by (simp add: zero_less_mult_iff)
    show ?thesis
    proof (cases "n = int b ^ p")
      case False
      then show ?thesis unfolding representable_def r using hi n0 by (intro exI [of _ n] exI [of _ e]) auto
    next
      case True
      have "round_sig b p x = of_int (int b ^ (p - 1)) * ?B powi (e + 1)"
        unfolding r True using B0 p by (cases p) (auto simp: power_int_add)
      moreover have "\<bar>int b ^ (p - 1)\<bar> < int b ^ p" using b p by (simp add: power_strict_increasing)
      ultimately show ?thesis unfolding representable_def by blast
    qed
  qed
  show ?thesis
  proof (cases x "0 :: rat" rule: linorder_cases)
    case less
    then have "representable b p (- round_sig b p (- x))" using pos representable_uminus by simp
    then show ?thesis by (simp add: round_sig_uminus)
  next
    case equal
    then show ?thesis using b by (auto simp: representable_def intro!: exI [of _ 0])
  next
    case greater
    then show ?thesis by (rule pos)
  qed
qed

section \<open>What clients of a rounding context may use\<close>

locale rounding =
  fixes rnd :: "rat \<Rightarrow> rat"
  assumes rnd_mono: "x \<le> y \<Longrightarrow> rnd x \<le> rnd y"
    and rnd_uminus: "rnd (- x) = - rnd x"
    and rnd_pos: "0 < x \<Longrightarrow> 0 < rnd x"
    and rnd_idem: "rnd (rnd x) = rnd x"
begin

lemma rnd_zero [simp]: "rnd 0 = 0"
  using rnd_uminus [of 0] by simp

lemma rnd_neg: "x < 0 \<Longrightarrow> rnd x < 0"
  using rnd_pos [of "- x"] by (simp add: rnd_uminus)

lemma rnd_nonneg_iff: "0 \<le> rnd x \<longleftrightarrow> 0 \<le> x"
  using rnd_mono [of 0 x] rnd_neg [of x] by fastforce

lemma rnd_eq_0_iff: "rnd x = 0 \<longleftrightarrow> x = 0"
  by (metis linorder_less_linear rnd_neg rnd_pos rnd_zero less_irrefl)

lemma rnd_pos_iff: "0 < rnd x \<longleftrightarrow> 0 < x"
  by (metis rnd_eq_0_iff rnd_nonneg_iff order_less_le)

lemma rnd_le_fixed: "rnd c = c \<Longrightarrow> x \<le> c \<Longrightarrow> rnd x \<le> c"
  using rnd_mono [of x c] by simp

lemma fixed_le_rnd: "rnd c = c \<Longrightarrow> c \<le> x \<Longrightarrow> c \<le> rnd x"
  using rnd_mono [of c x] by simp

text \<open>A comparison of a difference with zero survives the rounding of the difference.\<close>

lemma rnd_diff_nonneg_iff: "0 \<le> rnd (a - b) \<longleftrightarrow> b \<le> a"
  by (simp add: rnd_nonneg_iff)

end

text \<open>Every base and precision that \<open>round_sig\<close> is used at gives a rounding context.\<close>

lemma rounding_round_sig:
  assumes "1 < b" "0 < p"
  shows "rounding (round_sig b p)"
proof
  fix x y :: rat
  show "x \<le> y \<Longrightarrow> round_sig b p x \<le> round_sig b p y" using assms by (rule round_sig_mono)
  show "round_sig b p (- x) = - round_sig b p x" by (rule round_sig_uminus)
  show "0 < x \<Longrightarrow> 0 < round_sig b p x" using assms by (rule round_sig_pos)
  show "round_sig b p (round_sig b p x) = round_sig b p x"
    using assms by (simp add: round_sig_representable representable_round_sig)
qed

end
