(* ===== verification/Spot_Numbers.thy ===== *)
theory Spot_Numbers
  imports Prelude Rounding
begin

text \<open>
  \<open>src/koval/engine/spot_numbers.py\<close>: bounded decimal input and the arithmetic of the Spot
  lane. A \<open>Decimal\<close> is represented by its value, a rational; two Decimals that differ only
  in trailing zeros are one value, as they are to Python's \<open>==\<close> and to \<open>decimal_text\<close>, so the
  exponent test of \<open>number\<close> is made on the shortest form. Every function of the lane runs
  under \<open>@exact\<close>, a context of 256 digits, so each \<open>+ - * /\<close> is the exact operation followed by
  \<open>rnd\<close>. Division raises on a zero divisor.
\<close>

section \<open>Arithmetic under \<open>exact\<close>\<close>

definition rnd :: "rat \<Rightarrow> rat" where
  "rnd = round_sig 10 256"

definition dadd :: "rat \<Rightarrow> rat \<Rightarrow> rat" where
  "dadd a b = rnd (a + b)"

definition dsub :: "rat \<Rightarrow> rat \<Rightarrow> rat" where
  "dsub a b = rnd (a - b)"

definition dmul :: "rat \<Rightarrow> rat \<Rightarrow> rat" where
  "dmul a b = rnd (a * b)"

definition ddiv :: "rat \<Rightarrow> rat \<Rightarrow> rat res" where
  "ddiv a b = (if b = 0 then Inl ArithmeticError else Inr (rnd (a / b)))"

text \<open>Division by a constant of the source (2, 100, 10000), which cannot raise.\<close>

definition dquot :: "rat \<Rightarrow> rat \<Rightarrow> rat" where
  "dquot a b = rnd (a / b)"

text \<open>\<open>sum(values, ZERO)\<close> adds from the left, rounding at each addition.\<close>

definition dsum :: "rat list \<Rightarrow> rat" where
  "dsum xs = foldl dadd 0 xs"

text \<open>\<open>a % b\<close>: the remainder of truncated division; a quotient of more than 256 digits raises.\<close>

definition truncate_rat :: "rat \<Rightarrow> int" where
  "truncate_rat x = (if 0 \<le> x then \<lfloor>x\<rfloor> else \<lceil>x\<rceil>)"

definition dmod :: "rat \<Rightarrow> rat \<Rightarrow> rat res" where
  "dmod a b =
     (if b = 0 \<or> 10 ^ 256 \<le> \<bar>truncate_rat (a / b)\<bar> then Inl ArithmeticError
      else Inr (rnd (a - b * of_int (truncate_rat (a / b)))))"

section \<open>Input bounds\<close>

definition multiple_of_10_powi :: "nat \<Rightarrow> rat \<Rightarrow> bool" where
  "multiple_of_10_powi k x \<longleftrightarrow> x * 10 ^ k = of_int \<lfloor>x * 10 ^ k\<rfloor>"

definition number_ok :: "rat \<Rightarrow> bool" where
  "number_ok x \<longleftrightarrow> \<bar>x\<bar> \<le> 10 ^ 100 \<and> multiple_of_10_powi 300 x"

definition number :: "rat \<Rightarrow> rat res" where
  "number x = (if number_ok x then Inr x else Inl (ValueError ''invalid or oversized Spot decimal''))"

definition input_number_ok :: "rat \<Rightarrow> bool" where
  "input_number_ok x \<longleftrightarrow> number_ok x \<and> 0 \<le> x \<and> x \<le> 10 ^ 18 \<and> multiple_of_10_powi 18 x"

text \<open>The field types of the models: assigning or constructing an invalid one raises.\<close>

definition nonneg_ok :: "rat \<Rightarrow> bool" where
  "nonneg_ok x \<longleftrightarrow> number_ok x \<and> 0 \<le> x"

definition positive_ok :: "rat \<Rightarrow> bool" where
  "positive_ok x \<longleftrightarrow> input_number_ok x \<and> 0 < x"

definition nonneg_field :: "rat \<Rightarrow> rat res" where
  "nonneg_field x = (if nonneg_ok x then Inr x else Inl (ValidationError ''nonnegative number required''))"

definition number_field :: "rat \<Rightarrow> rat res" where
  "number_field x = (if number_ok x then Inr x else Inl (ValidationError ''number out of bounds''))"

section \<open>Steps and ticks\<close>

definition floor_step :: "rat \<Rightarrow> rat \<Rightarrow> rat res" where
  "floor_step v step = bindE (ddiv v step) (\<lambda>q. Inr (dmul (of_int \<lfloor>q\<rfloor>) step))"

definition ceil_step :: "rat \<Rightarrow> rat \<Rightarrow> rat res" where
  "ceil_step v step = bindE (ddiv v step) (\<lambda>q. Inr (dmul (of_int \<lceil>q\<rceil>) step))"

section \<open>The context as a rounding context\<close>

interpretation dec: rounding rnd
  unfolding rnd_def by (rule rounding_round_sig) simp_all

text \<open>A multiple of \<open>10\<close> to the power \<open>- k\<close> of fewer than 256 digits is not rounded.\<close>

lemma multipleE:
  assumes "multiple_of_10_powi k x"
  obtains n where "x = of_int n / 10 ^ k"
  using assms by (metis multiple_of_10_powi_def nonzero_mult_div_cancel_right power_not_zero
      zero_neq_numeral)

lemma multipleI: "x = of_int n / 10 ^ k \<Longrightarrow> multiple_of_10_powi k x"
  by (simp add: multiple_of_10_powi_def)

lemma multiple_zero [simp]: "multiple_of_10_powi k 0"
  by (simp add: multiple_of_10_powi_def)

lemma multiple_of_int [simp]: "multiple_of_10_powi k (of_int n)"
  by (rule multipleI [of _ "n * 10 ^ k"]) simp

lemma multiple_add: "multiple_of_10_powi k x \<Longrightarrow> multiple_of_10_powi k y \<Longrightarrow> multiple_of_10_powi k (x + y)"
  by (metis multipleE multipleI add_divide_distrib of_int_add)

lemma multiple_minus: "multiple_of_10_powi k x \<Longrightarrow> multiple_of_10_powi k (- x)"
  by (metis multipleE multipleI minus_divide_left of_int_minus)

lemma multiple_diff: "multiple_of_10_powi k x \<Longrightarrow> multiple_of_10_powi k y \<Longrightarrow> multiple_of_10_powi k (x - y)"
  using multiple_add [OF _ multiple_minus] by fastforce

lemma multiple_mult:
  assumes "multiple_of_10_powi k x" "multiple_of_10_powi l y"
  shows "multiple_of_10_powi (k + l) (x * y)"
proof -
  obtain m n where "x = of_int m / 10 ^ k" "y = of_int n / 10 ^ l"
    using assms by (meson multipleE)
  then have "x * y = of_int (m * n) / 10 ^ (k + l)" by (simp add: power_add)
  then show ?thesis by (rule multipleI)
qed

lemma multiple_weaken:
  assumes "multiple_of_10_powi k x" "k \<le> l"
  shows "multiple_of_10_powi l x"
proof -
  have "multiple_of_10_powi (k + (l - k)) (x * of_int 1)"
    by (rule multiple_mult [OF assms(1) multiple_of_int])
  then show ?thesis using assms(2) by simp
qed

lemma rnd_exact:
  assumes "multiple_of_10_powi k x" "\<bar>x\<bar> * 10 ^ k < 10 ^ 256"
  shows "rnd x = x"
proof -
  obtain n where x: "x = of_int n / 10 ^ k" using assms(1) by (rule multipleE)
  show ?thesis unfolding rnd_def
    by (rule round_sig_exact [of 10 256 x n k])
      (use x assms(2) in \<open>simp_all only: of_nat_numeral one_less_numeral_iff zero_less_numeral semiring_norm\<close>)
qed

lemma rnd_of_int:
  assumes "\<bar>n\<bar> < 10 ^ 256"
  shows "rnd (of_int n) = of_int n"
proof (rule rnd_exact [of 0])
  have "of_int \<bar>n\<bar> < (of_int (10 ^ 256) :: rat)" using assms by (simp only: of_int_less_iff)
  then show "\<bar>of_int n :: rat\<bar> * 10 ^ 0 < 10 ^ 256"
    by (simp only: of_int_power of_int_numeral of_int_abs power_0 mult_1_right)
qed simp

text \<open>Evaluation rules for concrete decimals of at most 18 places below \<open>10^36\<close>.\<close>

lemma multiple_of_fraction:
  assumes "d dvd 10 ^ k" "d \<noteq> 0"
  shows "multiple_of_10_powi k (of_int n / of_int d)"
proof -
  obtain c where "10 ^ k = d * c" using assms(1) by (rule dvdE)
  then have c: "(10 :: rat) ^ k = of_int d * of_int c" by (metis of_int_mult of_int_numeral of_int_power)
  then have "of_int c \<noteq> (0 :: rat)" by auto
  then have "(of_int n / of_int d :: rat) = of_int (n * c) / 10 ^ k"
    using assms(2) by (simp add: c)
  then show ?thesis by (rule multipleI)
qed

lemma rnd_fraction:
  assumes "d dvd 10 ^ 18" "0 < d" "\<bar>n\<bar> \<le> 10 ^ 36"
  shows "rnd (of_int n / of_int d) = of_int n / of_int d"
proof (rule rnd_exact [of 18])
  show "multiple_of_10_powi 18 (of_int n / of_int d)" using assms by (intro multiple_of_fraction) auto
  have "\<bar>of_int n / of_int d\<bar> \<le> (of_int \<bar>n\<bar> :: rat)"
  proof -
    have "\<bar>of_int n\<bar> / of_int d \<le> \<bar>of_int n :: rat\<bar> / 1"
      using assms(2) by (intro divide_left_mono) auto
    then show ?thesis using assms(2) by simp
  qed
  also have "(of_int \<bar>n\<bar> :: rat) \<le> of_int (10 ^ 36)" using assms(3) by (simp only: of_int_le_iff)
  finally have "\<bar>of_int n / of_int d :: rat\<bar> * 10 ^ 18 \<le> 10 ^ 36 * 10 ^ 18"
    by (intro mult_right_mono) (simp_all only: of_int_power of_int_numeral zero_le_power zero_le_numeral)
  also have "\<dots> = (10 :: rat) ^ (36 + 18)" by (simp only: power_add)
  also have "\<dots> < 10 ^ 256" by (rule power_strict_increasing) simp_all
  finally show "\<bar>of_int n / of_int d\<bar> * 10 ^ 18 < (10 :: rat) ^ 256" .
qed

lemma rnd_one [simp]: "rnd 1 = 1"
  using rnd_exact [of 0 1] multiple_of_int [of 0 1] by simp

lemma rnd_numeral_div [simp]:
  assumes "(numeral d :: int) dvd 10 ^ 18" "(numeral m :: int) \<le> 10 ^ 36"
  shows "rnd (numeral m / numeral d) = numeral m / numeral d"
    "rnd (- (numeral m / numeral d)) = - (numeral m / numeral d)"
  using rnd_fraction [of "numeral d" "numeral m"] assms
  by (simp_all only: abs_numeral of_int_numeral dec.rnd_uminus zero_less_numeral)

lemma rnd_numeral [simp]:
  assumes "(numeral m :: int) \<le> 10 ^ 36"
  shows "rnd (numeral m) = numeral m" "rnd (- numeral m) = - numeral m"
  using rnd_fraction [of 1 "numeral m"] assms
  by (simp_all only: abs_numeral of_int_numeral of_int_1 div_by_1 dec.rnd_uminus one_dvd zero_less_one)

lemma rnd_one_div [simp]:
  assumes "(numeral d :: int) dvd 10 ^ 18"
  shows "rnd (1 / numeral d) = 1 / numeral d"
proof -
  have "(1 :: int) \<le> 10 ^ 36" by (rule one_le_power) simp
  then show ?thesis using rnd_fraction [of "numeral d" 1] assms
    by (simp only: abs_one of_int_numeral of_int_1 zero_less_numeral)
qed

lemma number_okI:
  assumes "multiple_of_10_powi 18 x" "\<bar>x\<bar> \<le> 10 ^ 36"
  shows "number_ok x"
proof -
  have "(10 :: rat) ^ 36 \<le> 10 ^ 100" by (rule power_increasing) simp_all
  then have "\<bar>x\<bar> \<le> 10 ^ 100" using assms(2) by (rule order_trans [rotated])
  moreover have "multiple_of_10_powi 300 x" using assms(1) by (rule multiple_weaken) simp
  ultimately show ?thesis unfolding number_ok_def by blast
qed

lemma multiple_numeral [simp]:
  "multiple_of_10_powi k 1" "multiple_of_10_powi k (numeral m)"
  using multiple_of_int [of k 1] multiple_of_int [of k "numeral m"]
  by (simp_all only: of_int_1 of_int_numeral)

lemma multiple_numeral_div [simp]:
  assumes "(numeral d :: int) dvd 10 ^ k"
  shows "multiple_of_10_powi k (numeral m / numeral d)" "multiple_of_10_powi k (1 / numeral d)"
  using multiple_of_fraction [of "numeral d" k "numeral m"] multiple_of_fraction [of "numeral d" k 1] assms
  by (simp_all only: of_int_1 of_int_numeral zero_neq_numeral not_False_eq_True simp_thms neq_commute)

lemma number_ok_numeral [simp]:
  "number_ok 0" "number_ok 1"
  "(numeral m :: int) \<le> 10 ^ 36 \<Longrightarrow> number_ok (numeral m)"
  "(numeral d :: int) dvd 10 ^ 18 \<Longrightarrow> number_ok (1 / numeral d)"
  "(numeral d :: int) dvd 10 ^ 18 \<Longrightarrow> (numeral m :: int) \<le> 10 ^ 36 \<Longrightarrow> number_ok (numeral m / numeral d)"
proof -
  have of_int_le: "\<bar>n\<bar> \<le> 10 ^ 36 \<Longrightarrow> \<bar>of_int n :: rat\<bar> \<le> 10 ^ 36" for n :: int
    by (metis of_int_abs of_int_le_iff of_int_numeral of_int_power)
  have frac: "number_ok (of_int n / of_int d)" if "d dvd 10 ^ 18" "0 < d" "\<bar>n\<bar> \<le> 10 ^ 36" for n d :: int
  proof (rule number_okI)
    show "multiple_of_10_powi 18 (of_int n / of_int d)" using that by (intro multiple_of_fraction) auto
    have "\<bar>of_int n :: rat\<bar> / of_int d \<le> \<bar>of_int n\<bar> / 1"
      using that(2) by (intro divide_left_mono) auto
    then show "\<bar>of_int n / of_int d :: rat\<bar> \<le> 10 ^ 36"
      using of_int_le [OF that(3)] that(2) by simp
  qed
  have one: "(\<bar>1\<bar> :: int) \<le> 10 ^ 36" by simp
  show "number_ok 0" "number_ok 1"
    using frac [of 1 0] frac [of 1 1] by simp_all
  show "(numeral m :: int) \<le> 10 ^ 36 \<Longrightarrow> number_ok (numeral m)"
    using frac [of 1 "numeral m"] by (simp only: abs_numeral of_int_numeral of_int_1 div_by_1 one_dvd zero_less_one)
  show "(numeral d :: int) dvd 10 ^ 18 \<Longrightarrow> number_ok (1 / numeral d)"
    using frac [OF _ _ one, of "numeral d"] by (simp only: of_int_numeral of_int_1 zero_less_numeral)
  show "(numeral d :: int) dvd 10 ^ 18 \<Longrightarrow> (numeral m :: int) \<le> 10 ^ 36 \<Longrightarrow> number_ok (numeral m / numeral d)"
    using frac [of "numeral d" "numeral m"] by (simp only: abs_numeral of_int_numeral zero_less_numeral)
qed

section \<open>Sums and signs\<close>

lemma dsub_nonneg_iff: "0 \<le> dsub a b \<longleftrightarrow> b \<le> a"
  by (simp add: dsub_def dec.rnd_nonneg_iff)

lemma dsub_zero_iff [simp]: "dsub a b = 0 \<longleftrightarrow> a = b"
  by (simp add: dsub_def dec.rnd_eq_0_iff)

lemma dadd_nonneg: "0 \<le> a \<Longrightarrow> 0 \<le> b \<Longrightarrow> 0 \<le> dadd a b"
  by (simp add: dadd_def dec.rnd_nonneg_iff)

lemma dmul_nonneg: "0 \<le> a \<Longrightarrow> 0 \<le> b \<Longrightarrow> 0 \<le> dmul a b"
  by (simp add: dmul_def dec.rnd_nonneg_iff)

lemma dmul_pos: "0 < a \<Longrightarrow> 0 < b \<Longrightarrow> 0 < dmul a b"
  by (simp add: dmul_def dec.rnd_pos_iff)

lemma dmul_zero [simp]: "dmul 0 b = 0" "dmul a 0 = 0"
  by (simp_all add: dmul_def)

lemma ddiv_eq_Inr: "ddiv a b = Inr q \<longleftrightarrow> b \<noteq> 0 \<and> q = rnd (a / b)"
  by (auto simp: ddiv_def)

lemma dsum_Nil [simp]: "dsum [] = 0"
  by (simp add: dsum_def)

lemma dsum_snoc: "dsum (xs @ [x]) = dadd (dsum xs) x"
  by (simp add: dsum_def)

lemma dsum_nonneg: "\<forall>x \<in> set xs. 0 \<le> x \<Longrightarrow> 0 \<le> dsum xs"
  by (induction xs rule: rev_induct) (auto simp: dsum_snoc dadd_nonneg)

text \<open>
  \<open>fits256 k y\<close>: a multiple of \<open>10\<close> to the power \<open>- k\<close> that is no larger than \<open>y\<close> has fewer than 256
  digits. It is antitone in \<open>y\<close>, and sums of multiples of one power of ten are exact while
  their absolute values stay within it.
\<close>

definition fits256 :: "nat \<Rightarrow> rat \<Rightarrow> bool" where
  "fits256 k y \<longleftrightarrow> y * 10 ^ k < 10 ^ 256"

lemma fits256_mono: "fits256 k y \<Longrightarrow> x \<le> y \<Longrightarrow> fits256 k x"
  unfolding fits256_def
  by (meson mult_right_mono order_le_less_trans zero_le_numeral zero_le_power)

lemma rnd_fits256: "multiple_of_10_powi k x \<Longrightarrow> fits256 k \<bar>x\<bar> \<Longrightarrow> rnd x = x"
  unfolding fits256_def by (rule rnd_exact)

lemma dadd_fits256: "multiple_of_10_powi k a \<Longrightarrow> multiple_of_10_powi k b \<Longrightarrow> fits256 k \<bar>a + b\<bar> \<Longrightarrow> dadd a b = a + b"
  unfolding dadd_def by (intro rnd_fits256 multiple_add)

lemma dsub_fits256: "multiple_of_10_powi k a \<Longrightarrow> multiple_of_10_powi k b \<Longrightarrow> fits256 k \<bar>a - b\<bar> \<Longrightarrow> dsub a b = a - b"
  unfolding dsub_def by (intro rnd_fits256 multiple_diff)

lemma dsum_exact:
  assumes "\<forall>x \<in> set xs. multiple_of_10_powi k x" "fits256 k (sum_list (map abs xs))"
  shows "dsum xs = sum_list xs" "multiple_of_10_powi k (sum_list xs)"
proof -
  have "dsum xs = sum_list xs \<and> multiple_of_10_powi k (sum_list xs)"
    using assms
  proof (induction xs rule: rev_induct)
    case (snoc x xs)
    have "fits256 k (sum_list (map abs xs))" using snoc.prems(2) by (rule fits256_mono) simp
    with snoc have IH: "dsum xs = sum_list xs" "multiple_of_10_powi k (sum_list xs)" by auto
    have "\<bar>sum_list xs\<bar> \<le> sum_list (map abs xs)" by (rule sum_list_abs)
    then have "fits256 k \<bar>sum_list xs + x\<bar>" using snoc.prems(2) by (elim fits256_mono) simp
    then show ?case using IH snoc.prems(1) by (simp add: dsum_snoc dadd_fits256 multiple_add)
  qed simp
  then show "dsum xs = sum_list xs" "multiple_of_10_powi k (sum_list xs)" by auto
qed

section \<open>Steps are exact on bounded decimals\<close>

text \<open>
  The quotient of the two decimals is rounded before it is floored, so it could round up to
  the next integer; a decimal of at most 100 places below \<open>10^60\<close> is too far from the next
  multiple of the step for that. The bounds hold of every price and quantity that enters
  the lane through an \<open>InputNumber\<close> and of its products with such numbers.
\<close>

definition step_operand :: "rat \<Rightarrow> bool" where
  "step_operand v \<longleftrightarrow> multiple_of_10_powi 100 v \<and> 0 \<le> v \<and> v \<le> 10 ^ 60"

lemma pow10_less: "i < j \<Longrightarrow> (10 :: rat) ^ i < 10 ^ j"
  by (rule power_strict_increasing) simp_all

lemma positive_step:
  assumes "positive_ok s"
  obtains S where "s = of_int S / 10 ^ 18" "0 < S" "S \<le> 10 ^ 36" "1 / 10 ^ 18 \<le> s" "s \<le> 10 ^ 18"
proof -
  have "multiple_of_10_powi 18 s" and pos: "0 < s" and le: "s \<le> 10 ^ 18"
    using assms by (auto simp: positive_ok_def input_number_ok_def simp del: power_numeral)
  then obtain S where S: "s = of_int S / 10 ^ 18" by (meson multipleE)
  have S0: "0 < S" using pos unfolding S by (simp add: zero_less_divide_iff)
  have "(of_int S :: rat) \<le> 10 ^ 18 * 10 ^ 18" using le unfolding S by (simp add: pos_divide_le_eq)
  then have "(of_int S :: rat) \<le> of_int (10 ^ 36)" by simp
  then have "S \<le> 10 ^ 36" by (simp only: of_int_le_iff)
  moreover have "1 / 10 ^ 18 \<le> s" unfolding S using S0 by (intro divide_right_mono) auto
  ultimately show thesis using that S S0 le by blast
qed

lemma quotient_gap:
  assumes v: "step_operand v" and s: "positive_ok s"
  shows "0 \<le> v / s" "v / s \<le> 10 ^ 78"
    "v / s < of_int k \<Longrightarrow> v / s \<le> of_int k - 1 / 10 ^ 118"
    "of_int k < v / s \<Longrightarrow> of_int k + 1 / 10 ^ 118 \<le> v / s"
proof -
  obtain S where S: "s = of_int S / 10 ^ 18" "0 < S" "S \<le> 10 ^ 36" "1 / 10 ^ 18 \<le> s"
    using positive_step [OF s] by metis
  obtain V where V: "v = of_int V / 10 ^ 100" using v unfolding step_operand_def by (meson multipleE)
  have v0: "0 \<le> v" "v \<le> 10 ^ 60" using v unfolding step_operand_def by auto
  have s0: "0 < s" using S by simp
  show "0 \<le> v / s" using v0 s0 by simp
  have "v / s \<le> 10 ^ 60 / (1 / 10 ^ 18)" using v0 S(4) s0 by (intro frac_le) auto
  also have "\<dots> = (10 :: rat) ^ (60 + 18)" by (simp add: power_add)
  finally show "v / s \<le> 10 ^ 78" by simp
  define M where "M = S * 10 ^ 82"
  have M0: "0 < M" and M: "M \<le> 10 ^ 118"
  proof -
    show "0 < M" unfolding M_def using S(2) by simp
    have "S * 10 ^ 82 \<le> 10 ^ 36 * 10 ^ 82" using S(3) by (rule mult_right_mono) simp
    then show "M \<le> 10 ^ 118" unfolding M_def by (simp flip: power_add)
  qed
  have q: "v / s = of_int V / of_int M" unfolding V S(1) M_def by simp
  have Mr: "0 < (of_int M :: rat)" using M0 by simp
  have "(of_int M :: rat) \<le> of_int (10 ^ 118)" using M by (simp only: of_int_le_iff)
  then have inv: "1 / 10 ^ 118 \<le> 1 / (of_int M :: rat)"
    using Mr by (intro divide_left_mono) auto
  show "v / s \<le> of_int k - 1 / 10 ^ 118" if "v / s < of_int k"
  proof -
    have "(of_int V :: rat) < of_int (k * M)" using that Mr unfolding q by (simp add: pos_divide_less_eq)
    then have "V + 1 \<le> k * M" by (simp only: of_int_less_iff zless_imp_add1_zle)
    then have "(of_int (V + 1) :: rat) \<le> of_int (k * M)" by (simp only: of_int_le_iff)
    then have "of_int V / of_int M + 1 / of_int M \<le> (of_int k :: rat)"
      using Mr by (simp add: pos_divide_le_eq flip: add_divide_distrib)
    then show ?thesis using inv unfolding q by linarith
  qed
  show "of_int k + 1 / 10 ^ 118 \<le> v / s" if "of_int k < v / s"
  proof -
    have "(of_int (k * M) :: rat) < of_int V" using that Mr unfolding q by (simp add: pos_less_divide_eq)
    then have "k * M + 1 \<le> V" by (simp only: of_int_less_iff zless_imp_add1_zle)
    then have "(of_int (k * M + 1) :: rat) \<le> of_int V" by (simp only: of_int_le_iff)
    then have "of_int k + 1 / of_int M \<le> (of_int V / of_int M :: rat)"
      using Mr by (simp add: pos_le_divide_eq algebra_simps)
    then show ?thesis using inv unfolding q by linarith
  qed
qed

lemma rnd_bounded_118:
  assumes "multiple_of_10_powi 118 x" "\<bar>x\<bar> \<le> 10 ^ 79"
  shows "rnd x = x"
proof (rule rnd_exact [OF assms(1)])
  have "\<bar>x\<bar> * 10 ^ 118 \<le> 10 ^ 79 * 10 ^ 118" using assms(2) by (rule mult_right_mono) simp
  also have "\<dots> = (10 :: rat) ^ (79 + 118)" by (simp only: power_add)
  also have "\<dots> < 10 ^ 256" by (rule pow10_less) simp
  finally show "\<bar>x\<bar> * 10 ^ 118 < 10 ^ 256" .
qed

lemma near_integer_fixed:
  assumes "- 1 \<le> k" "of_int k \<le> (10 :: rat) ^ 78 + 1" "e \<in> {0, 1 / 10 ^ 118, - (1 / 10 ^ 118)}"
  shows "rnd (of_int k + e) = of_int k + e"
proof (rule rnd_bounded_118)
  have eps: "multiple_of_10_powi 118 (1 / 10 ^ 118)" by (rule multipleI [of _ 1]) (simp only: of_int_1)
  have "multiple_of_10_powi 118 e"
    using assms(3) eps multiple_minus [OF eps] multiple_zero by (elim insertE emptyE) (simp_all only:)
  then show "multiple_of_10_powi 118 (of_int k + e)" by (intro multiple_add multiple_of_int)
  define T where "T = (10 :: rat) ^ 78"
  define E where "E = 1 / (10 :: rat) ^ 118"
  have T: "1 \<le> T" unfolding T_def by (rule one_le_power) simp
  have E: "0 < E" "E \<le> 1" unfolding E_def by (simp_all only: zero_less_divide_1_iff zero_less_power
        divide_le_eq_1_pos one_le_power zero_less_numeral one_le_numeral)
  have "T * 10 = 10 ^ 79" unfolding T_def by (simp only: flip: power_Suc2) simp
  moreover have "e = 0 \<or> e = E \<or> e = - E" using assms(3) unfolding E_def by blast
  moreover have "of_int k \<le> T + 1" using assms(2) unfolding T_def .
  moreover have "(-1 :: rat) \<le> of_int k" using assms(1) by linarith
  ultimately show "\<bar>of_int k + e\<bar> \<le> 10 ^ 79" using T E by (elim disjE) linarith+
qed

lemma quotient_rounding:
  assumes v: "step_operand v" and s: "positive_ok s"
  shows "\<lfloor>rnd (v / s)\<rfloor> = \<lfloor>v / s\<rfloor>" "\<lceil>rnd (v / s)\<rceil> = \<lceil>v / s\<rceil>"
proof -
  define T where "T = (10 :: rat) ^ 78"
  define E where "E = 1 / (10 :: rat) ^ 118"
  have E: "0 < E" unfolding E_def by (simp only: zero_less_divide_1_iff zero_less_power zero_less_numeral)
  note gap = quotient_gap [OF v s, folded T_def E_def]
  note fixed = near_integer_fixed [folded T_def E_def]
  define n m where "n = \<lfloor>v / s\<rfloor>" and "m = \<lceil>v / s\<rceil>"
  have n: "0 \<le> n" "of_int n \<le> v / s" "v / s < of_int n + 1" unfolding n_def using gap(1) by linarith+
  have m: "0 \<le> m" "v / s \<le> of_int m" "of_int m < v / s + 1" unfolding m_def using gap(1) by linarith+
  have "rnd (of_int n + 0) = of_int n + 0" by (rule fixed) (use n gap(2) in simp_all)
  then have "of_int n \<le> rnd (v / s)" using n(2) dec.fixed_le_rnd by simp
  moreover have "rnd (v / s) \<le> of_int (n + 1) + - E"
  proof (rule dec.rnd_le_fixed)
    show "rnd (of_int (n + 1) + - E) = of_int (n + 1) + - E"
      by (rule fixed) (use n gap(2) in simp_all)
    show "v / s \<le> of_int (n + 1) + - E" using gap(3) [of "n + 1"] n(3) by simp
  qed
  ultimately show "\<lfloor>rnd (v / s)\<rfloor> = \<lfloor>v / s\<rfloor>" unfolding n_def [symmetric]
    using E by (intro floor_unique) simp_all
  have "rnd (of_int m + 0) = of_int m + 0" by (rule fixed) (use m gap(2) in simp_all)
  then have "rnd (v / s) \<le> of_int m" using m(2) dec.rnd_le_fixed by simp
  moreover have "of_int (m - 1) + E \<le> rnd (v / s)"
  proof (rule dec.fixed_le_rnd)
    show "rnd (of_int (m - 1) + E) = of_int (m - 1) + E"
      by (rule fixed) (use m gap(2) in simp_all)
    show "of_int (m - 1) + E \<le> v / s" using gap(4) [of "m - 1"] m(3) by simp
  qed
  ultimately show "\<lceil>rnd (v / s)\<rceil> = \<lceil>v / s\<rceil>" unfolding m_def [symmetric]
    using E by (intro ceiling_unique) simp_all
qed

lemma step_multiple_exact:
  assumes s: "positive_ok s" and le: "\<bar>of_int n * s\<bar> \<le> 10 ^ 79"
  shows "dmul (of_int n) s = of_int n * s"
proof -
  have "multiple_of_10_powi 18 s"
    using s by (auto simp: positive_ok_def input_number_ok_def simp del: power_numeral)
  then have "multiple_of_10_powi (100 + 18) (of_int n * s)"
    by (intro multiple_mult multiple_of_int)
  then show ?thesis unfolding dmul_def using le by (intro rnd_bounded_118) simp_all
qed

lemma floor_step_value:
  assumes v: "step_operand v" and s: "positive_ok s"
  shows "floor_step v s = Inr (of_int \<lfloor>v / s\<rfloor> * s)"
proof -
  have s0: "0 < s" using s by (simp add: positive_ok_def)
  have v0: "0 \<le> v" "v \<le> 10 ^ 60" using v by (auto simp: step_operand_def)
  let ?n = "\<lfloor>v / s\<rfloor>"
  have le: "of_int ?n * s \<le> v" using s0 by (simp add: floor_divide_lower)
  have "0 \<le> of_int ?n * s" using v0 s0 by simp
  then have "\<bar>of_int ?n * s\<bar> \<le> 10 ^ 79" using le v0 by simp
  then show ?thesis
    using s0 by (simp add: floor_step_def ddiv_def quotient_rounding [OF v s] step_multiple_exact [OF s])
qed

text \<open>
  On a bounded decimal and a valid step, \<open>floor_step\<close> returns the largest multiple of the
  step that is not above the value, exactly: neither the rounded division nor the rounded
  product of the 256-digit context moves it.
\<close>

theorem floor_step_greatest_multiple:
  assumes v: "step_operand v" and s: "positive_ok s"
  shows "\<exists>n r. floor_step v s = Inr r \<and> r = of_int n * s \<and> r \<le> v \<and> v < r + s"
proof -
  have s0: "0 < s" using s by (simp add: positive_ok_def)
  then have "of_int \<lfloor>v / s\<rfloor> * s \<le> v" by (rule floor_divide_lower)
  moreover have "v < of_int \<lfloor>v / s\<rfloor> * s + s" using floor_divide_upper [OF s0, of v] by (simp add: algebra_simps)
  ultimately show ?thesis using floor_step_value [OF v s] by blast
qed

theorem floor_step_greatest_multiple_witness:
  "\<exists>n r. floor_step (1037 / 100) (1 / 4) = Inr r \<and> r = of_int n * (1 / 4) \<and> r \<le> 1037 / 100 \<and> 1037 / 100 < r + 1 / 4"
  by (rule floor_step_greatest_multiple)
    (simp_all add: step_operand_def positive_ok_def input_number_ok_def number_ok_def)

text \<open>
  On a bounded decimal and a valid step, \<open>ceil_step\<close> returns the smallest multiple of the
  step that is not below the value, exactly.
\<close>

theorem ceil_step_least_multiple:
  assumes v: "step_operand v" and s: "positive_ok s"
  shows "\<exists>n r. ceil_step v s = Inr r \<and> r = of_int n * s \<and> v \<le> r \<and> r < v + s"
proof -
  obtain S where s0: "0 < s" and s18: "s \<le> 10 ^ 18" using s positive_step [OF s] by (metis positive_ok_def)
  have v0: "0 \<le> v" "v \<le> 10 ^ 60" using v by (auto simp: step_operand_def)
  let ?n = "\<lceil>v / s\<rceil>"
  have ge: "v \<le> of_int ?n * s" using s0 by (simp add: ceiling_divide_upper)
  have lt: "of_int ?n * s < v + s" using ceiling_divide_lower [OF s0, of v] by (simp add: algebra_simps)
  have "\<bar>of_int ?n * s\<bar> \<le> 10 ^ 79" using ge lt v0 s18 by simp
  then have "ceil_step v s = Inr (of_int ?n * s)"
    using s0 by (simp add: ceil_step_def ddiv_def quotient_rounding [OF v s] step_multiple_exact [OF s])
  then show ?thesis using ge lt by blast
qed

theorem ceil_step_least_multiple_witness:
  "\<exists>n r. ceil_step (1037 / 100) (1 / 4) = Inr r \<and> r = of_int n * (1 / 4) \<and> 1037 / 100 \<le> r \<and> r < 1037 / 100 + 1 / 4"
  by (rule ceil_step_least_multiple)
    (simp_all add: step_operand_def positive_ok_def input_number_ok_def number_ok_def)

end
