(* ===== verification/Spot_Models.thy ===== *)
theory Spot_Models
  imports Spot_Numbers
begin

text \<open>
  \<open>src/koval/engine/spot_multi_order/models.py\<close> and the recipe parameters of
  \<open>src/koval/strategy/schemas.py\<close>: the vocabulary of the Spot multi-order lane. A pydantic model is
  a record (fields whose type is a single literal are left out), an enumeration of strings
  is a datatype, and validation is a function \<open>validate_*\<close> that returns the value or raises.
  Values that the source keeps as canonical decimal text inside a \<open>dict\<close> (fee records,
  controller slots) are kept here as the decimal they stand for.
\<close>

section \<open>Field types\<close>

definition id_ok :: "string \<Rightarrow> bool" where
  "id_ok s \<longleftrightarrow> 1 \<le> length s \<and> length s \<le> 128 \<and>
     list_all (\<lambda>c. c \<notin> set [CHR '' '', CHR 0x09, CHR 0x0A, CHR 0x0B, CHR 0x0C, CHR 0x0D]) s"

definition count_ok :: "int \<Rightarrow> bool" where
  "count_ok n \<longleftrightarrow> 0 \<le> n \<and> n \<le> 2 ^ 63 - 1"

definition hex64_ok :: "string \<Rightarrow> bool" where
  "hex64_ok s \<longleftrightarrow> length s = 64 \<and> list_all (\<lambda>c. c \<in> set ''0123456789abcdef'') s"

definition opt_ok :: "('a \<Rightarrow> bool) \<Rightarrow> 'a option \<Rightarrow> bool" where
  "opt_ok P x \<longleftrightarrow> (case x of None \<Rightarrow> True | Some v \<Rightarrow> P v)"

datatype side = Buy | Sell
datatype order_type = Market | Limit
datatype purpose = Base | Addition | GridBuy | GridSell | Target | Flatten
datatype status = Pending | CancelPending | Accepted | Partial | Filled | Canceled | Expired
  | Rejected | Unknown
datatype terminal_action = StopAndHold | StopAndFlatten
datatype run_mode = PaperMode | HistoricalMode
datatype evidence_status = Historical | CurrentSnapshot | Approximation | SyntheticFixture
datatype ctl_phase = Idle | BasePending | Active | Stopping | Reconciling | StoppedHolding
  | Complete | StoppedFlat | Containment | StoppedWithDust
datatype unknown_outcome = UnknownSubmit | UnknownCancel

definition TERMINAL :: "status list" where
  "TERMINAL = [Filled, Canceled, Expired, Rejected]"

definition is_terminal :: "status \<Rightarrow> bool" where
  "is_terminal s \<longleftrightarrow> s \<in> set TERMINAL"

lemma is_terminal_simps [simp]:
  "is_terminal Filled" "is_terminal Canceled" "is_terminal Expired" "is_terminal Rejected"
  "\<not> is_terminal Pending" "\<not> is_terminal CancelPending" "\<not> is_terminal Accepted"
  "\<not> is_terminal Partial" "\<not> is_terminal Unknown"
  by (simp_all add: is_terminal_def TERMINAL_def)

section \<open>Recipe parameters\<close>

record dca_params =
  dp_budget_quote :: rat
  dp_fee_reserve_quote :: rat
  dp_base_quote :: rat
  dp_addition_quote :: rat
  dp_max_additions :: int
  dp_deviation_pct :: rat
  dp_take_profit_pct :: rat
  dp_stop_loss_pct :: rat

record grid_params =
  gp_budget_quote :: rat
  gp_fee_reserve_quote :: rat
  gp_lower_price :: rat
  gp_upper_price :: rat
  gp_intervals :: int
  gp_quantity_per_slot :: rat
  gp_stop_price :: rat

datatype recipe = Dca dca_params | Grid grid_params

fun is_dca :: "recipe \<Rightarrow> bool" where
  "is_dca (Dca _) = True"
| "is_dca (Grid _) = False"

definition dca_params_ok :: "dca_params \<Rightarrow> bool" where
  "dca_params_ok p \<longleftrightarrow>
     positive_ok (dp_budget_quote p) \<and> input_number_ok (dp_fee_reserve_quote p) \<and>
     positive_ok (dp_base_quote p) \<and> positive_ok (dp_addition_quote p) \<and>
     0 \<le> dp_max_additions p \<and> dp_max_additions p \<le> 64 \<and>
     positive_ok (dp_deviation_pct p) \<and> dp_deviation_pct p < 100 \<and>
     positive_ok (dp_take_profit_pct p) \<and> dp_take_profit_pct p \<le> 1000 \<and>
     positive_ok (dp_stop_loss_pct p) \<and> dp_stop_loss_pct p < 100"

definition validate_dca :: "dca_params \<Rightarrow> dca_params res" where
  "validate_dca p =
     (if \<not> dca_params_ok p then Inl (ValidationError ''DCA parameter'')
      else if dp_stop_loss_pct p \<le> dmul (of_int (dp_max_additions p)) (dp_deviation_pct p)
      then Inl (ValidationError ''DCA additions must remain above the basket stop'')
      else if dp_budget_quote p <
          dadd (dadd (dp_base_quote p) (dmul (of_int (dp_max_additions p)) (dp_addition_quote p)))
            (dp_fee_reserve_quote p)
      then Inl (ValidationError ''DCA cash budget cannot fund all additions'')
      else Inr p)"

definition grid_params_ok :: "grid_params \<Rightarrow> bool" where
  "grid_params_ok p \<longleftrightarrow>
     positive_ok (gp_budget_quote p) \<and> input_number_ok (gp_fee_reserve_quote p) \<and>
     positive_ok (gp_lower_price p) \<and> positive_ok (gp_upper_price p) \<and>
     1 \<le> gp_intervals p \<and> gp_intervals p \<le> 64 \<and>
     positive_ok (gp_quantity_per_slot p) \<and> positive_ok (gp_stop_price p)"

definition validate_grid :: "grid_params \<Rightarrow> grid_params res" where
  "validate_grid p =
     (if \<not> grid_params_ok p then Inl (ValidationError ''Grid parameter'')
      else if \<not> (gp_stop_price p < gp_lower_price p \<and> gp_lower_price p < gp_upper_price p)
      then Inl (ValidationError ''Grid requires stop < lower < upper'')
      else if gp_budget_quote p \<le> gp_fee_reserve_quote p
      then Inl (ValidationError ''Grid fee reserve exhausts cash budget'')
      else Inr p)"

fun validate_recipe :: "recipe \<Rightarrow> recipe res" where
  "validate_recipe (Dca p) = bindE (validate_dca p) (\<lambda>p. Inr (Dca p))"
| "validate_recipe (Grid p) = bindE (validate_grid p) (\<lambda>p. Inr (Grid p))"

section \<open>Session binding, instrument evidence and fill policy\<close>

text \<open>\<open>timeframe_ms\<close> of \<open>src/koval/exchanges/base.py\<close>.\<close>

definition timeframe_table :: "int dict" where
  "timeframe_table =
     [(''1m'', 60000), (''5m'', 300000), (''15m'', 900000), (''1h'', 3600000),
      (''4h'', 14400000), (''1d'', 86400000)]"

definition timeframe_ms :: "string \<Rightarrow> int res" where
  "timeframe_ms tf =
     (case map_of timeframe_table tf of
        None \<Rightarrow> Inl (ValueError ''unknown timeframe'')
      | Some ms \<Rightarrow> Inr ms)"

record spot_binding =
  bd_account_id :: string
  bd_session_id :: string
  bd_symbol :: string
  bd_base_asset :: string
  bd_quote_asset :: string
  bd_mode :: run_mode
  bd_timeframe :: string
  bd_graph_sha256 :: string
  bd_software_identity :: string
  bd_policy_sha256 :: string
  bd_instrument_sha256 :: string
  bd_initial_quote_cash :: rat
  bd_end_of_data_policy :: terminal_action
  bd_evaluation_start_ms :: "int option"
  bd_evaluation_end_ms :: "int option"
  bd_initial_peak_equity :: "rat option"

definition binding_fields_ok :: "spot_binding \<Rightarrow> bool" where
  "binding_fields_ok b \<longleftrightarrow>
     id_ok (bd_account_id b) \<and> id_ok (bd_session_id b) \<and> id_ok (bd_symbol b) \<and>
     id_ok (bd_base_asset b) \<and> id_ok (bd_quote_asset b) \<and> id_ok (bd_timeframe b) \<and>
     hex64_ok (bd_graph_sha256 b) \<and> id_ok (bd_software_identity b) \<and>
     hex64_ok (bd_policy_sha256 b) \<and> hex64_ok (bd_instrument_sha256 b) \<and>
     positive_ok (bd_initial_quote_cash b) \<and>
     opt_ok count_ok (bd_evaluation_start_ms b) \<and> opt_ok count_ok (bd_evaluation_end_ms b) \<and>
     opt_ok positive_ok (bd_initial_peak_equity b)"

definition validate_binding :: "spot_binding \<Rightarrow> spot_binding res" where
  "validate_binding b =
     (if \<not> binding_fields_ok b then Inl (ValidationError ''binding field'')
      else if bd_base_asset b = bd_quote_asset b \<or> bd_symbol b \<noteq> bd_base_asset b @ bd_quote_asset b
      then Inl (ValidationError ''Spot asset/symbol identity mismatch'')
      else case timeframe_ms (bd_timeframe b) of
        Inl _ \<Rightarrow> Inl (ValidationError ''unknown timeframe'')
      | Inr _ \<Rightarrow>
          (case (bd_evaluation_start_ms b, bd_evaluation_end_ms b) of
             (None, None) \<Rightarrow> Inr b
           | (Some s, Some e) \<Rightarrow>
               if e \<le> s then Inl (ValidationError ''invalid evaluation boundaries'') else Inr b
           | _ \<Rightarrow> Inl (ValidationError ''evaluation boundaries must be supplied together'')))"

record spot_instrument =
  in_evidence_id :: string
  in_symbol :: string
  in_base_asset :: string
  in_quote_asset :: string
  in_source :: string
  in_status :: evidence_status
  in_effective_from_ms :: int
  in_effective_to_ms :: int
  in_acquired_at_ms :: int
  in_price_tick :: rat
  in_quantity_step :: rat
  in_market_quantity_step :: rat
  in_minimum_quantity :: rat
  in_maximum_quantity :: rat
  in_minimum_notional :: rat
  in_maximum_notional :: rat
  in_minimum_price :: rat
  in_maximum_price :: rat
  in_maximum_open_orders :: int
  in_market_minimum_quantity :: "rat option"
  in_market_maximum_quantity :: "rat option"
  in_apply_notional_to_market :: bool
  in_price_band_low :: "rat option"
  in_price_band_high :: "rat option"
  in_price_band_source :: "string option"
  in_unknown_active_filters :: "string list"

definition instrument_fields_ok :: "spot_instrument \<Rightarrow> bool" where
  "instrument_fields_ok i \<longleftrightarrow>
     id_ok (in_evidence_id i) \<and> id_ok (in_symbol i) \<and> id_ok (in_base_asset i) \<and>
     id_ok (in_quote_asset i) \<and> 1 \<le> length (in_source i) \<and> length (in_source i) \<le> 2048 \<and>
     count_ok (in_effective_from_ms i) \<and> count_ok (in_effective_to_ms i) \<and>
     count_ok (in_acquired_at_ms i) \<and>
     positive_ok (in_price_tick i) \<and> positive_ok (in_quantity_step i) \<and>
     positive_ok (in_market_quantity_step i) \<and> positive_ok (in_minimum_quantity i) \<and>
     positive_ok (in_maximum_quantity i) \<and> positive_ok (in_minimum_notional i) \<and>
     positive_ok (in_maximum_notional i) \<and> positive_ok (in_minimum_price i) \<and>
     positive_ok (in_maximum_price i) \<and>
     1 \<le> in_maximum_open_orders i \<and> in_maximum_open_orders i \<le> 1024 \<and>
     opt_ok positive_ok (in_market_minimum_quantity i) \<and>
     opt_ok positive_ok (in_market_maximum_quantity i) \<and>
     opt_ok positive_ok (in_price_band_low i) \<and> opt_ok positive_ok (in_price_band_high i)"

definition validate_instrument :: "spot_instrument \<Rightarrow> spot_instrument res" where
  "validate_instrument i =
     (if \<not> instrument_fields_ok i then Inl (ValidationError ''instrument field'')
      else if in_effective_to_ms i < in_effective_from_ms i \<or> in_unknown_active_filters i \<noteq> []
      then Inl (ValidationError ''invalid coverage or unsupported active filters'')
      else if in_base_asset i @ in_quote_asset i \<noteq> in_symbol i \<or> in_base_asset i = in_quote_asset i
      then Inl (ValidationError ''instrument identity mismatch'')
      else if in_maximum_price i < in_minimum_price i
        \<or> in_maximum_quantity i < in_minimum_quantity i
        \<or> in_maximum_notional i < in_minimum_notional i
      then Inl (ValidationError ''inverted instrument bounds'')
      else case (in_price_band_low i, in_price_band_high i) of
        (None, None) \<Rightarrow> Inr i
      | (Some low, Some high) \<Rightarrow>
          if in_price_band_source i \<in> {None, Some []} \<or> high \<le> low
          then Inl (ValidationError ''invalid price-band evidence'') else Inr i
      | _ \<Rightarrow> Inl (ValidationError ''price bands must be paired''))"

record spot_policy =
  pl_policy_id :: string
  pl_maker_fee_bps :: rat
  pl_taker_fee_bps :: rat
  pl_fee_asset :: string
  pl_fee_source :: string
  pl_buy_quote_fee_cap_bps :: rat
  pl_sell_base_fee_cap_bps :: rat
  pl_spread_bps :: rat
  pl_slippage_bps :: rat
  pl_maximum_volume_participation :: rat
  pl_expires_after_bars :: "int option"
  pl_third_asset_quote_price :: "rat option"
  pl_third_asset_allowance_quote :: rat

definition validate_policy :: "spot_policy \<Rightarrow> spot_policy res" where
  "validate_policy p =
     (if id_ok (pl_policy_id p) \<and>
         input_number_ok (pl_maker_fee_bps p) \<and> pl_maker_fee_bps p < 10000 \<and>
         input_number_ok (pl_taker_fee_bps p) \<and> pl_taker_fee_bps p < 10000 \<and>
         id_ok (pl_fee_asset p) \<and> 1 \<le> length (pl_fee_source p) \<and> length (pl_fee_source p) \<le> 2048 \<and>
         input_number_ok (pl_buy_quote_fee_cap_bps p) \<and> pl_buy_quote_fee_cap_bps p < 10000 \<and>
         input_number_ok (pl_sell_base_fee_cap_bps p) \<and> pl_sell_base_fee_cap_bps p < 10000 \<and>
         input_number_ok (pl_spread_bps p) \<and> pl_spread_bps p \<le> 1000 \<and>
         input_number_ok (pl_slippage_bps p) \<and> pl_slippage_bps p \<le> 1000 \<and>
         positive_ok (pl_maximum_volume_participation p) \<and>
         pl_maximum_volume_participation p \<le> 1 \<and>
         opt_ok (\<lambda>n. 1 \<le> n \<and> n \<le> 1000000) (pl_expires_after_bars p) \<and>
         opt_ok positive_ok (pl_third_asset_quote_price p) \<and>
         input_number_ok (pl_third_asset_allowance_quote p)
      then Inr p else Inl (ValidationError ''fill policy field''))"

text \<open>A price inside the band, which validation has paired.\<close>

definition in_band :: "spot_instrument \<Rightarrow> rat \<Rightarrow> bool" where
  "in_band i p =
     (case (in_price_band_low i, in_price_band_high i) of
        (None, _) \<Rightarrow> True
      | (Some low, Some high) \<Rightarrow> low \<le> p \<and> p \<le> high
      | (Some _, None) \<Rightarrow> False)"

section \<open>Order intents\<close>

record spot_intent =
  it_account_id :: string
  it_session_id :: string
  it_symbol :: string
  it_intent_id :: string
  it_client_order_id :: string
  it_cycle_id :: string
  it_slot_id :: string
  it_generation :: int
  it_side :: side
  it_order_type :: order_type
  it_purpose :: purpose
  it_quantity :: "rat option"
  it_quote_notional_cap :: "rat option"
  it_limit_price :: "rat option"
  it_activation_bar :: int
  it_expires_after_bars :: "int option"
  it_requested_quantity :: "rat option"
  it_requested_price :: "rat option"
  it_parent_order_id :: "string option"
  it_terminal_command_id :: "string option"

definition intent_fields_ok :: "spot_intent \<Rightarrow> bool" where
  "intent_fields_ok i \<longleftrightarrow>
     id_ok (it_account_id i) \<and> id_ok (it_session_id i) \<and> id_ok (it_symbol i) \<and>
     id_ok (it_intent_id i) \<and> id_ok (it_client_order_id i) \<and> id_ok (it_cycle_id i) \<and>
     id_ok (it_slot_id i) \<and> count_ok (it_generation i) \<and>
     opt_ok nonneg_ok (it_quantity i) \<and> opt_ok nonneg_ok (it_quote_notional_cap i) \<and>
     opt_ok nonneg_ok (it_limit_price i) \<and> count_ok (it_activation_bar i) \<and>
     opt_ok count_ok (it_expires_after_bars i) \<and> opt_ok nonneg_ok (it_requested_quantity i) \<and>
     opt_ok nonneg_ok (it_requested_price i) \<and> opt_ok id_ok (it_parent_order_id i) \<and>
     opt_ok id_ok (it_terminal_command_id i)"

fun purpose_side :: "purpose \<Rightarrow> side" where
  "purpose_side Base = Buy"
| "purpose_side Addition = Buy"
| "purpose_side GridBuy = Buy"
| "purpose_side _ = Sell"

text \<open>
  The size test is \<open>(self.quantity or self.quote_notional_cap) <= 0\<close>. A zero quantity is false,
  so the expression falls through to the cap, which is then \<open>None\<close>, and comparing \<open>None\<close>
  raises \<open>TypeError\<close>.
\<close>

fun order_size_check :: "rat option \<Rightarrow> rat option \<Rightarrow> unit res" where
  "order_size_check (Some q) cap =
     (if q \<noteq> 0 then ensure (0 < q) (ValidationError ''order size must be positive'')
      else (case cap of
              None \<Rightarrow> Inl TypeError
            | Some c \<Rightarrow> ensure (0 < c) (ValidationError ''order size must be positive'')))"
| "order_size_check None (Some c) = ensure (0 < c) (ValidationError ''order size must be positive'')"
| "order_size_check None None = Inl TypeError"

definition validate_intent :: "spot_intent \<Rightarrow> spot_intent res" where
  "validate_intent i =
     (if \<not> intent_fields_ok i then Inl (ValidationError ''order intent field'')
      else if (it_quantity i = None) = (it_quote_notional_cap i = None)
      then Inl (ValidationError ''order requires quantity XOR quote_notional_cap'')
      else bindE (order_size_check (it_quantity i) (it_quote_notional_cap i)) (\<lambda>_.
        if it_side i = Sell \<and> it_quantity i = None
        then Inl (ValidationError ''SELL requires actual base quantity'')
        else if it_order_type i = Limit \<and>
            (case it_limit_price i of None \<Rightarrow> True | Some p \<Rightarrow> p \<le> 0)
        then Inl (ValidationError ''limit order requires positive limit price'')
        else if it_order_type i = Market \<and> it_limit_price i \<noteq> None
        then Inl (ValidationError ''market order has no limit price'')
        else if it_side i \<noteq> purpose_side (it_purpose i)
        then Inl (ValidationError ''order purpose/side mismatch'')
        else Inr i))"

record spot_replace =
  rp_command_id :: string
  rp_account_id :: string
  rp_session_id :: string
  rp_symbol :: string
  rp_client_order_id :: string
  rp_generation :: int
  rp_replacement :: spot_intent

definition validate_replace :: "spot_replace \<Rightarrow> spot_replace res" where
  "validate_replace r =
     (if id_ok (rp_command_id r) \<and> id_ok (rp_account_id r) \<and> id_ok (rp_session_id r) \<and>
         id_ok (rp_symbol r) \<and> id_ok (rp_client_order_id r) \<and> count_ok (rp_generation r)
      then bindE (validate_intent (rp_replacement r)) (\<lambda>_. Inr r)
      else Inl (ValidationError ''replacement field''))"

section \<open>Execution events\<close>

record spot_fee =
  fe_asset :: string
  fe_quantity :: rat
  fe_quote_value :: "rat option"
  fe_source :: "string option"

record spot_event =
  ev_event_id :: string
  ev_account_id :: string
  ev_session_id :: string
  ev_symbol :: string
  ev_client_order_id :: string
  ev_exchange_order_id :: "string option"
  ev_generation :: int
  ev_source_sequence :: int
  ev_timestamp_ms :: int
  ev_side :: side
  ev_purpose :: purpose
  ev_status :: status
  ev_trade_id :: "string option"
  ev_quantity :: rat
  ev_price :: "rat option"
  ev_quote_notional :: rat
  ev_cumulative_quantity :: rat
  ev_cumulative_quote :: rat
  ev_fees :: "spot_fee list"

definition fee_ok :: "spot_fee \<Rightarrow> bool" where
  "fee_ok f \<longleftrightarrow> id_ok (fe_asset f) \<and> nonneg_ok (fe_quantity f) \<and> opt_ok nonneg_ok (fe_quote_value f)"

definition event_fields_ok :: "spot_event \<Rightarrow> bool" where
  "event_fields_ok e \<longleftrightarrow>
     id_ok (ev_event_id e) \<and> id_ok (ev_account_id e) \<and> id_ok (ev_session_id e) \<and>
     id_ok (ev_symbol e) \<and> id_ok (ev_client_order_id e) \<and> opt_ok id_ok (ev_exchange_order_id e) \<and>
     count_ok (ev_generation e) \<and> 1 \<le> ev_source_sequence e \<and> ev_source_sequence e \<le> 2 ^ 63 - 1 \<and>
     count_ok (ev_timestamp_ms e) \<and> ev_status e \<notin> {Pending, CancelPending} \<and>
     opt_ok id_ok (ev_trade_id e) \<and> nonneg_ok (ev_quantity e) \<and> opt_ok nonneg_ok (ev_price e) \<and>
     nonneg_ok (ev_quote_notional e) \<and> nonneg_ok (ev_cumulative_quantity e) \<and>
     nonneg_ok (ev_cumulative_quote e) \<and> list_all fee_ok (ev_fees e)"

definition fill_shape_ok :: "spot_event \<Rightarrow> bool" where
  "fill_shape_ok e \<longleftrightarrow>
     (if ev_quantity e \<noteq> 0
      then ev_trade_id e \<noteq> None \<and>
           (case ev_price e of
              None \<Rightarrow> False
            | Some p \<Rightarrow> p \<noteq> 0 \<and> dmul (ev_quantity e) p = ev_quote_notional e) \<and>
           ev_status e \<notin> {Accepted, Unknown, Rejected}
      else ev_price e = None \<and> ev_quote_notional e = 0 \<and> ev_fees e = [] \<and> ev_trade_id e = None)"

definition validate_event :: "spot_event \<Rightarrow> spot_event res" where
  "validate_event e =
     (if \<not> event_fields_ok e then Inl (ValidationError ''execution event field'')
      else if \<not> fill_shape_ok e
      then Inl (ValidationError
        (if ev_quantity e \<noteq> 0 then ''invalid execution delta/notional''
         else ''zero delta status must have no price/notional/fees/trade''))
      else if ev_status e \<notin> {Rejected, Unknown} \<and> ev_exchange_order_id e = None
      then Inl (ValidationError ''accepted execution requires order identity'')
      else Inr e)"

section \<open>Orders, lots, account and controller\<close>

record spot_order =
  od_intent :: spot_intent
  od_status :: status
  od_exchange_order_id :: "string option"
  od_filled_quantity :: rat
  od_filled_quote :: rat
  od_reserved_quote :: rat
  od_reserved_base :: rat
  od_terminal_reconciled :: bool
  od_cancel_command_id :: "string option"
  od_accepted_sequence :: int
  od_allocations :: "rat dict"
  od_terminal_bar :: "int option"
  od_unknown_outcome :: "unknown_outcome option"

record spot_lot =
  lt_lot_id :: string
  lt_slot_id :: string
  lt_creation_sequence :: int
  lt_quantity :: rat
  lt_cost :: rat
  lt_bought_base :: rat
  lt_bought_quote :: rat

record fee_record =
  fr_asset :: string
  fr_quantity :: rat
  fr_side :: side
  fr_lot_id :: "string option"
  fr_remaining_weight :: rat
  fr_quote_value :: "rat option"

record spot_account =
  ac_quote_cash :: rat
  ac_allocation_cash :: rat
  ac_net_base :: rat
  ac_remaining_cost :: rat
  ac_realized_profit :: rat
  ac_bought_base :: rat
  ac_bought_quote :: rat
  ac_cleanup_reserve :: rat
  ac_cycle_reserve :: rat
  ac_fees_by_asset :: "rat dict"
  ac_valued_third_fees :: rat
  ac_fee_records :: "fee_record dict"
  ac_lots :: "spot_lot dict"

datatype ctl_slot =
    DcaSlot (slot_price: rat)
  | GridSlot (slot_bid: rat) (slot_ask: rat) (slot_quantity: rat)
      (slot_requested_quantity: rat) (slot_paused: "string option")

record spot_controller =
  ct_phase :: ctl_phase
  ct_cycle :: int
  ct_anchor :: "rat option"
  ct_stop :: "rat option"
  ct_desired_target :: "rat option"
  ct_slots :: "ctl_slot dict"
  ct_last_cycle_bar :: int
  ct_terminal_command_id :: "string option"
  ct_terminal_action :: "terminal_action option"
  ct_terminal_reason :: "string option"
  ct_close_generation :: int
  ct_refusal_reason :: "string option"
  ct_cycle_base_start :: rat
  ct_cycle_quote_start :: rat
  ct_last_close_observation :: int

definition initial_controller :: spot_controller where
  "initial_controller =
     \<lparr> ct_phase = Idle, ct_cycle = 0, ct_anchor = None, ct_stop = None, ct_desired_target = None,
       ct_slots = [], ct_last_cycle_bar = - 1, ct_terminal_command_id = None,
       ct_terminal_action = None, ct_terminal_reason = None, ct_close_generation = 0,
       ct_refusal_reason = None, ct_cycle_base_start = 0, ct_cycle_quote_start = 0,
       ct_last_close_observation = 0 \<rparr>"

section \<open>Reports, valuations and observations\<close>

record order_fact =
  of_generation :: int
  of_status :: status
  of_cumulative_quantity :: rat
  of_cumulative_quote :: rat
  of_reserved_quote :: rat
  of_reserved_base :: rat

record fee_valuation =
  vl_valuation_id :: string
  vl_account_id :: string
  vl_session_id :: string
  vl_fee_id :: string
  vl_asset :: string
  vl_quantity :: rat
  vl_quote_value :: rat
  vl_valuation_timestamp_ms :: int
  vl_source :: string
  vl_evidence_id :: string
  vl_content_sha256 :: string

definition validate_valuation :: "fee_valuation \<Rightarrow> fee_valuation res" where
  "validate_valuation v =
     (if id_ok (vl_valuation_id v) \<and> id_ok (vl_account_id v) \<and> id_ok (vl_session_id v) \<and>
         id_ok (vl_fee_id v) \<and> id_ok (vl_asset v) \<and> nonneg_ok (vl_quantity v) \<and>
         nonneg_ok (vl_quote_value v) \<and> count_ok (vl_valuation_timestamp_ms v) \<and>
         1 \<le> length (vl_source v) \<and> id_ok (vl_evidence_id v) \<and> hex64_ok (vl_content_sha256 v)
      then Inr v else Inl (ValidationError ''fee valuation field''))"

record spot_reconciliation =
  rc_account_id :: string
  rc_session_id :: string
  rc_symbol :: string
  rc_revision :: int
  rc_complete :: bool
  rc_source_sequence :: int
  rc_quote_cash :: rat
  rc_net_base :: rat
  rc_orders :: "order_fact dict"
  rc_working_order_ids :: "string list"
  rc_events :: "spot_event list"
  rc_fee_valuations :: "fee_valuation list"

definition reconciliation_fields_ok :: "spot_reconciliation \<Rightarrow> bool" where
  "reconciliation_fields_ok r \<longleftrightarrow>
     id_ok (rc_account_id r) \<and> id_ok (rc_session_id r) \<and> id_ok (rc_symbol r) \<and>
     count_ok (rc_revision r) \<and> count_ok (rc_source_sequence r) \<and>
     nonneg_ok (rc_quote_cash r) \<and> nonneg_ok (rc_net_base r)"

definition validate_reconciliation :: "spot_reconciliation \<Rightarrow> spot_reconciliation res" where
  "validate_reconciliation r =
     (if \<not> reconciliation_fields_ok r then Inl (ValidationError ''reconciliation field'')
      else bindE (foldE (\<lambda>_ e. bindE (validate_event e) (\<lambda>_. Inr ())) () (rc_events r)) (\<lambda>_. Inr r))"

datatype price_phase = PhOpen | PhDescending | PhAscending | PhClose

fun phase_index :: "price_phase \<Rightarrow> int" where
  "phase_index PhOpen = 0"
| "phase_index PhDescending = 1"
| "phase_index PhAscending = 2"
| "phase_index PhClose = 3"

record price_payload =
  pp_price :: rat
  pp_bar_index :: int
  pp_phase :: price_phase
  pp_crossing_index :: "int option"
  pp_bar_id :: "string option"

record candle =
  cd_timestamp :: rat
  cd_open :: rat
  cd_high :: rat
  cd_low :: rat
  cd_close :: rat
  cd_volume :: rat

record closed_bar_payload =
  cb_bar_index :: int
  cb_close :: rat
  cb_start :: bool
  cb_stop_hold :: bool
  cb_stop_flatten :: bool
  cb_ohlcv :: "candle option"
  cb_decision_timestamp_ms :: "int option"

text \<open>The OHLCV test shared by the closed-bar payload and \<open>SpotPaperSessionV1.on_candle\<close>.\<close>

definition candle_shape_ok :: "candle \<Rightarrow> bool" where
  "candle_shape_ok c \<longleftrightarrow>
     0 \<le> cd_timestamp c \<and> cd_timestamp c = of_int \<lfloor>cd_timestamp c\<rfloor> \<and>
     0 < min (min (cd_open c) (cd_high c)) (min (cd_low c) (cd_close c)) \<and>
     0 \<le> cd_volume c \<and>
     cd_low c \<le> min (cd_open c) (cd_close c) \<and> max (cd_open c) (cd_close c) \<le> cd_high c"

definition candle_numbers_ok :: "candle \<Rightarrow> bool" where
  "candle_numbers_ok c \<longleftrightarrow>
     number_ok (cd_timestamp c) \<and> number_ok (cd_open c) \<and> number_ok (cd_high c) \<and>
     number_ok (cd_low c) \<and> number_ok (cd_close c) \<and> number_ok (cd_volume c)"

definition validate_price_payload :: "price_payload \<Rightarrow> price_payload res" where
  "validate_price_payload p =
     (if nonneg_ok (pp_price p) \<and> count_ok (pp_bar_index p) \<and> opt_ok count_ok (pp_crossing_index p) \<and>
         opt_ok id_ok (pp_bar_id p)
      then Inr p else Inl (ValidationError ''price payload field''))"

definition validate_closed_bar :: "closed_bar_payload \<Rightarrow> closed_bar_payload res" where
  "validate_closed_bar p =
     (if \<not> (count_ok (cb_bar_index p) \<and> nonneg_ok (cb_close p) \<and>
            opt_ok candle_numbers_ok (cb_ohlcv p) \<and> opt_ok count_ok (cb_decision_timestamp_ms p))
      then Inl (ValidationError ''closed bar field'')
      else case cb_ohlcv p of
        None \<Rightarrow> Inr p
      | Some c \<Rightarrow>
          if candle_shape_ok c \<and> cd_close c = cb_close p then Inr p
          else Inl (ValidationError ''invalid closed candle OHLCV''))"

record spot_command =
  cm_command_id :: string
  cm_action :: "terminal_action option"
  cm_reason :: "string option"

datatype payload =
    ClosedBar closed_bar_payload
  | Price price_payload
  | Executions "spot_event list"
  | Command spot_command
  | Reconciliation spot_reconciliation
  | FeeValuation fee_valuation

record spot_observation =
  ob_observation_id :: string
  ob_sequence :: int
  ob_timestamp_ms :: int
  ob_payload :: payload

section \<open>Decisions and the session state\<close>

datatype decision =
    SubmitD spot_intent
  | CancelD (cancel_order: string) (cancel_generation: int) (cancel_command: string)
  | ProtectionD (protection_stop: rat)

record spot_decision =
  dn_intents :: "decision list"
  dn_controller :: "spot_controller option"
  dn_cycle_reserve :: "rat option"
  dn_cleanup_reserve :: "rat option"

record lot_release =
  lr_lot_id :: string
  lr_quantity :: rat
  lr_cost :: rat

datatype trace_entry =
    TrSubmit spot_intent rat rat
  | TrCancel string int string
  | TrLotRelease string "lot_release list" rat
  | TrFeeValuation fee_valuation
  | TrExecution spot_event
  | TrReconciliation int
  | TrCommand spot_command
  | TrProtection rat
  | TrContainment string
  | TrAmbiguity int "rat list"

record equity_point =
  eq_timestamp_ms :: int
  eq_net_equity :: rat
  eq_inventory :: rat

record spot_state =
  ss_binding :: spot_binding
  ss_recipe :: recipe
  ss_instrument :: spot_instrument
  ss_policy :: spot_policy
  ss_account :: spot_account
  ss_controller :: spot_controller
  ss_orders :: "spot_order dict"
  ss_events :: "spot_event dict"
  ss_trade_ids :: "string dict"
  ss_event_sequence :: int
  ss_buffered_events :: "spot_event dict"
  ss_reconciliation_required :: bool
  ss_reconciliation_revision :: int
  ss_quarantine :: "(spot_event \<times> string) list"
  ss_observations :: "string dict"
  ss_observation_sequence :: int
  ss_bar_index :: int
  ss_last_candle :: "candle option"
  ss_liquidity_used :: rat
  ss_liquidity_allowance :: rat
  ss_mark :: "rat option"
  ss_peak_equity :: rat
  ss_maximum_drawdown :: rat
  ss_trace :: "trace_entry list"
  ss_equity_curve :: "equity_point list"
  ss_commands :: "spot_command dict"
  ss_valuations :: "fee_valuation dict"
  ss_history :: "candle list"
  ss_journal_sequence :: int
  ss_journal_sha256 :: "string option"
  ss_stop_reference_bar :: "int option"
  ss_fee_reconciliation_required :: bool
  ss_replacements :: "spot_replace dict"
  ss_finished :: bool
  ss_bar_in_progress :: bool
  ss_pending_observation :: "spot_observation option"
  ss_price_bar :: int
  ss_price_phase :: int
  ss_price_crossing_index :: int
  ss_crossing_digests :: "string dict"
  ss_bar_ids :: "string dict"
  ss_closed_bar_digests :: "string dict"

record spot_transition =
  tr_state :: spot_state
  tr_decisions :: spot_decision
  tr_records :: "trace_entry list"

section \<open>Hashed content\<close>

text \<open>
  \<open>spot_content_hash\<close> is SHA-256 over the canonical JSON of a value. The digest is a parameter
  \<open>H\<close> of the definitions that use it; \<open>content\<close> lists the values the lane hashes: two fill
  models, order and cancellation identities, observations, price crossings, closed bars,
  exported states and journal records.
\<close>

record journal_record =
  jr_session_id :: string
  jr_sequence :: int
  jr_previous_sha256 :: "string option"
  jr_kind :: string
  jr_state :: spot_state
  jr_state_sha256 :: string

datatype content =
    CPolicy spot_policy
  | CInstrument spot_instrument
  | CIntent string string int string purpose int
  | CCancel string "string option"
  | CObservation spot_observation
  | CCrossing rat price_phase
  | CClosedBar closed_bar_payload
  | CState spot_state
  | CRecord journal_record

type_synonym digest = "content \<Rightarrow> string"

end
