(* ===== verification/Spot_Account.thy ===== *)
theory Spot_Account
  imports Spot_Models "HOL-Library.Product_Lexorder"
begin

text \<open>
  \<open>src/koval/engine/spot_multi_order/account.py\<close>: attributed execution accounting and per-order
  reservations. Each public function takes the session state and returns the next one or
  raises; the source works on a deep copy, so an error leaves no trace of a partial update
  and the model simply drops it. Assignments to the fields of a pydantic model are
  validated: \<open>nonneg_field\<close> and \<open>number_field\<close> stand where the source assigns.
\<close>

section \<open>Free balances\<close>

definition reserved_quote :: "spot_state \<Rightarrow> rat" where
  "reserved_quote s = dsum (map od_reserved_quote (dict_values (ss_orders s)))"

definition reserved_base :: "spot_state \<Rightarrow> rat" where
  "reserved_base s = dsum (map od_reserved_base (dict_values (ss_orders s)))"

definition free_quote :: "spot_state \<Rightarrow> rat" where
  "free_quote s =
     dsub (dsub (dsub (ac_allocation_cash (ss_account s)) (reserved_quote s))
       (ac_cleanup_reserve (ss_account s))) (ac_cycle_reserve (ss_account s))"

definition free_base :: "spot_state \<Rightarrow> rat" where
  "free_base s = dsub (ac_net_base (ss_account s)) (reserved_base s)"

definition attributed :: "spot_state \<Rightarrow> string \<Rightarrow> string \<Rightarrow> string option \<Rightarrow> unit res" where
  "attributed s acct sess symb =
     (if (acct, sess) \<noteq> (bd_account_id (ss_binding s), bd_session_id (ss_binding s))
      then Inl (ValueError ''Spot account/session mismatch'')
      else case symb of
        None \<Rightarrow> Inr ()
      | Some y \<Rightarrow>
          if y \<noteq> bd_symbol (ss_binding s) then Inl (ValueError ''Spot symbol mismatch'')
          else Inr ())"

definition available_lots :: "spot_state \<Rightarrow> spot_intent \<Rightarrow> spot_lot list" where
  "available_lots s i =
     (let lots = sort_key (\<lambda>l. (lt_creation_sequence l, lt_lot_id l))
                   (dict_values (ac_lots (ss_account s)))
      in if \<not> is_dca (ss_recipe s) \<and> it_purpose i = GridSell
         then (let own = filter (\<lambda>l. lt_slot_id l = it_slot_id i) lots
               in case it_parent_order_id i of
                    None \<Rightarrow> own
                  | Some p \<Rightarrow> filter (\<lambda>l. lt_lot_id l = p) own)
         else lots)"

definition fee_unvalued :: "fee_record \<Rightarrow> bool" where
  "fee_unvalued f \<longleftrightarrow> fr_quote_value f = None \<and> fr_quantity f \<noteq> 0"

definition has_unvalued_fee :: "spot_state \<Rightarrow> bool" where
  "has_unvalued_fee s \<longleftrightarrow> list_ex fee_unvalued (dict_values (ac_fee_records (ss_account s)))"

definition truthy :: "string option \<Rightarrow> bool" where
  "truthy x \<longleftrightarrow> x \<noteq> None \<and> x \<noteq> Some []"

lemma truthy_Some [simp]: "truthy (Some (c # cs))" "\<not> truthy None" "\<not> truthy (Some [])"
  by (simp_all add: truthy_def)

section \<open>Admission of an order\<close>

definition lineage :: "spot_intent \<Rightarrow> string \<times> string \<times> purpose" where
  "lineage i = (it_cycle_id i, it_slot_id i, it_purpose i)"

text \<open>The write barriers, identity and capacity tests that precede an admission.\<close>

definition submit_barrier :: "spot_state \<Rightarrow> spot_intent \<Rightarrow> unit res" where
  "submit_barrier s i =
     (if ss_reconciliation_required s \<or> ss_quarantine s \<noteq> []
      then Inl (ValueError ''Spot reconciliation required before another write'')
      else if it_side i = Buy \<and> (ss_fee_reconciliation_required s \<or> has_unvalued_fee s)
      then Inl (ValueError ''unvalued fee requires valuation and reconciliation before BUY'')
      else Inr ())"

definition submit_capacity :: "spot_state \<Rightarrow> spot_intent \<Rightarrow> unit res" where
  "submit_capacity s i =
     (if ct_terminal_action (ss_controller s) \<noteq> None \<and> it_purpose i \<noteq> Flatten
      then Inl (ValueError ''terminal barrier freezes new orders'')
      else if in_maximum_open_orders (ss_instrument s)
          \<le> int (length (filter (\<lambda>r. \<not> od_terminal_reconciled r) (dict_values (ss_orders s))))
      then Inl (ValueError ''owned open order capacity exhausted'')
      else if list_ex (\<lambda>old. lineage (od_intent old) = lineage i \<and>
             (\<not> od_terminal_reconciled old \<or> it_generation i \<le> it_generation (od_intent old)))
           (dict_values (ss_orders s))
      then Inl (ValueError ''stale or overlapping order generation'')
      else Inr ())"

text \<open>The quantity, price and notional bounds of the instrument evidence.\<close>

definition minimum_for :: "spot_instrument \<Rightarrow> order_type \<Rightarrow> rat" where
  "minimum_for r t =
     (if t = Market then or_else (in_market_minimum_quantity r) (in_minimum_quantity r)
      else in_minimum_quantity r)"

definition maximum_for :: "spot_instrument \<Rightarrow> order_type \<Rightarrow> rat" where
  "maximum_for r t =
     (if t = Market then or_else (in_market_maximum_quantity r) (in_maximum_quantity r)
      else in_maximum_quantity r)"

definition step_for :: "spot_instrument \<Rightarrow> order_type \<Rightarrow> rat" where
  "step_for r t = (if t = Market then in_market_quantity_step r else in_quantity_step r)"

definition quantity_evidence :: "spot_instrument \<Rightarrow> spot_intent \<Rightarrow> unit res" where
  "quantity_evidence r i =
     (case it_quantity i of
        None \<Rightarrow> Inr ()
      | Some q \<Rightarrow>
          bindE (dmod q (step_for r (it_order_type i))) (\<lambda>m.
            ensure (m = 0 \<and> minimum_for r (it_order_type i) \<le> q \<and> q \<le> maximum_for r (it_order_type i))
              (ValueError ''order violates quantity evidence'')))"

definition price_evidence :: "spot_instrument \<Rightarrow> spot_intent \<Rightarrow> unit res" where
  "price_evidence r i =
     (case it_limit_price i of
        None \<Rightarrow> Inr ()
      | Some p \<Rightarrow>
          bindE (dmod p (in_price_tick r)) (\<lambda>m.
            if m \<noteq> 0 \<or> \<not> (in_minimum_price r \<le> p \<and> p \<le> in_maximum_price r)
            then Inl (ValueError ''order violates price evidence'')
            else if \<not> in_band r p
            then Inl (ValueError ''order violates price-band evidence'')
            else case (case it_quantity i of
                         Some q \<Rightarrow> Some (dmul q p)
                       | None \<Rightarrow> it_quote_notional_cap i) of
              None \<Rightarrow> Inl TypeError
            | Some n \<Rightarrow>
                ensure (in_minimum_notional r \<le> n \<and> n \<le> in_maximum_notional r)
                  (ValueError ''order violates notional evidence'')))"

definition new_order :: "spot_state \<Rightarrow> spot_intent \<Rightarrow> spot_order" where
  "new_order s i =
     \<lparr> od_intent = i, od_status = Pending, od_exchange_order_id = None, od_filled_quantity = 0,
       od_filled_quote = 0, od_reserved_quote = 0, od_reserved_base = 0,
       od_terminal_reconciled = False, od_cancel_command_id = None,
       od_accepted_sequence = int (length (ss_orders s)) + 1, od_allocations = [],
       od_terminal_bar = None, od_unknown_outcome = None \<rparr>"

definition fee_factor :: "rat \<Rightarrow> rat" where
  "fee_factor bps = dadd 1 (dquot bps 10000)"

text \<open>
  A BUY reserves its worst notional and quote fee; a base or addition order first takes
  what it can from the cycle reserve.
\<close>

definition reserve_buy :: "spot_state \<Rightarrow> spot_intent \<Rightarrow> spot_order \<Rightarrow> (spot_state \<times> spot_order) res" where
  "reserve_buy s i r =
     (case (case it_quote_notional_cap i of
              Some c \<Rightarrow> Some c
            | None \<Rightarrow>
                (case (it_quantity i, it_limit_price i) of
                   (Some q, Some p) \<Rightarrow> if p = 0 then None else Some (dmul q p)
                 | _ \<Rightarrow> None)) of
        None \<Rightarrow> Inl (ValueError ''market BUY requires a bounded quote cap'')
      | Some n \<Rightarrow>
          bindE (nonneg_field (dmul n (fee_factor (pl_buy_quote_fee_cap_bps (ss_policy s))))) (\<lambda>rq.
          let transfer = (if it_purpose i \<in> {Base, Addition}
                          then min (ac_cycle_reserve (ss_account s)) rq else 0)
          in bindE (nonneg_field (dsub (ac_cycle_reserve (ss_account s)) transfer)) (\<lambda>cy.
          let c = s\<lparr>ss_account := (ss_account s)\<lparr>ac_cycle_reserve := cy\<rparr>\<rparr>
          in if free_quote c < rq then Inl (ValueError ''insufficient reserved quote cash'')
             else Inr (c, r\<lparr>od_reserved_quote := rq\<rparr>))))"

text \<open>A SELL reserves base and the maximum base fee, and claims the lots it will release.\<close>

definition allocation :: "spot_order \<Rightarrow> string \<Rightarrow> rat" where
  "allocation r lid = (case map_of (od_allocations r) lid of None \<Rightarrow> 0 | Some q \<Rightarrow> q)"

definition lot_used :: "spot_state \<Rightarrow> string \<Rightarrow> rat" where
  "lot_used s lid = dsum (map (\<lambda>r. allocation r lid) (dict_values (ss_orders s)))"

fun claim_lots :: "spot_state \<Rightarrow> rat \<Rightarrow> rat dict \<Rightarrow> spot_lot list \<Rightarrow> rat \<times> rat dict" where
  "claim_lots s remaining al [] = (remaining, al)"
| "claim_lots s remaining al (l # ls) =
     (let take = min (dsub (lt_quantity l) (lot_used s (lt_lot_id l))) remaining
      in if 0 < take
         then claim_lots s (dsub remaining take) (AList.update (lt_lot_id l) take al) ls
         else claim_lots s remaining al ls)"

definition reserve_sell :: "spot_state \<Rightarrow> spot_intent \<Rightarrow> spot_order \<Rightarrow> (spot_state \<times> spot_order) res" where
  "reserve_sell s i r =
     (case it_quantity i of
        None \<Rightarrow> Inl TypeError
      | Some q \<Rightarrow>
          bindE (nonneg_field (dmul q (fee_factor (pl_sell_base_fee_cap_bps (ss_policy s))))) (\<lambda>rb.
            if free_base s < rb then Inl (ValueError ''SELL exceeds free base inventory'')
            else let (remaining, al) = claim_lots s rb [] (available_lots s i)
                 in if remaining \<noteq> 0
                    then Inl (ValueError ''SELL exceeds attributed lot inventory'')
                    else Inr (s, r\<lparr>od_reserved_base := rb, od_allocations := al\<rparr>)))"

definition admit_order :: "spot_state \<Rightarrow> spot_intent \<Rightarrow> spot_state res" where
  "admit_order s i =
     bindE (submit_capacity s i) (\<lambda>_.
     bindE (quantity_evidence (ss_instrument s) i) (\<lambda>_.
     bindE (price_evidence (ss_instrument s) i) (\<lambda>_.
     bindE (if it_side i = Buy then reserve_buy s i (new_order s i)
            else reserve_sell s i (new_order s i)) (\<lambda>(c, r).
     Inr (c\<lparr>ss_orders := AList.update (it_client_order_id i) r (ss_orders c),
            ss_trace := ss_trace c @ [TrSubmit i (od_reserved_quote r) (od_reserved_base r)]\<rparr>)))))"

definition submit_spot_order :: "spot_state \<Rightarrow> spot_intent \<Rightarrow> spot_state res" where
  "submit_spot_order s i0 =
     bindE (validate_intent i0) (\<lambda>i.
     bindE (attributed s (it_account_id i) (it_session_id i) (Some (it_symbol i))) (\<lambda>_.
     bindE (submit_barrier s i) (\<lambda>_.
     case map_of (ss_orders s) (it_client_order_id i) of
       Some previous \<Rightarrow>
         if od_intent previous = i then Inr s
         else Inl (ValueError ''conflicting Spot order identity'')
     | None \<Rightarrow> admit_order s i)))"

section \<open>Cancellation and replacement\<close>

definition put_order :: "spot_state \<Rightarrow> string \<Rightarrow> spot_order \<Rightarrow> spot_state" where
  "put_order s k r = s\<lparr>ss_orders := AList.update k r (ss_orders s)\<rparr>"

definition cancel_spot_order :: "spot_state \<Rightarrow> string \<Rightarrow> string \<Rightarrow> int \<Rightarrow> spot_state res" where
  "cancel_spot_order s k command_id generation =
     (if ss_reconciliation_required s \<or> ss_quarantine s \<noteq> []
      then Inl (ValueError ''Spot reconciliation required before cancellation'')
      else case map_of (ss_orders s) k of
        None \<Rightarrow> Inl KeyError
      | Some r \<Rightarrow>
          if it_generation (od_intent r) \<noteq> generation
          then Inl (ValueError ''stale cancellation generation'')
          else if truthy (od_cancel_command_id r) \<and> od_cancel_command_id r \<noteq> Some command_id
          then Inl (ValueError ''conflicting pending cancellation'')
          else if od_terminal_reconciled r \<or> truthy (od_cancel_command_id r) then Inr s
          else Inr ((put_order s k
                 (r\<lparr>od_cancel_command_id := Some command_id,
                    od_status := (if is_terminal (od_status r) then od_status r else CancelPending)\<rparr>))
               \<lparr>ss_trace := ss_trace s @ [TrCancel k generation command_id]\<rparr>))"

definition replace_spot_order :: "spot_state \<Rightarrow> spot_replace \<Rightarrow> spot_state res" where
  "replace_spot_order s q0 =
     bindE (validate_replace q0) (\<lambda>q.
     bindE (attributed s (rp_account_id q) (rp_session_id q) (Some (rp_symbol q))) (\<lambda>_.
     if ss_reconciliation_required s \<or> ss_quarantine s \<noteq> []
     then Inl (ValueError ''Spot reconciliation required before replacement'')
     else case map_of (ss_orders s) (rp_client_order_id q) of
       None \<Rightarrow> Inl KeyError
     | Some old \<Rightarrow>
         let new = rp_replacement q in
         bindE (attributed s (it_account_id new) (it_session_id new) (Some (it_symbol new))) (\<lambda>_.
         if it_generation (od_intent old) \<noteq> rp_generation q
            \<or> it_generation new \<noteq> rp_generation q + 1
         then Inl (ValueError ''stale replacement generation'')
         else if (lineage new, it_side new) \<noteq> (lineage (od_intent old), it_side (od_intent old))
            \<or> it_client_order_id new = rp_client_order_id q
         then Inl (ValueError ''replacement order lineage mismatch'')
         else if (case map_of (ss_replacements s) (rp_client_order_id q) of
                    None \<Rightarrow> False | Some prior \<Rightarrow> prior \<noteq> q)
         then Inl (ValueError ''conflicting pending replacement'')
         else let c = s\<lparr>ss_replacements := AList.update (rp_client_order_id q) q (ss_replacements s)\<rparr>
              in if od_terminal_reconciled old then submit_spot_order c new
                 else cancel_spot_order c (rp_client_order_id q) (rp_command_id q) (rp_generation q))))"

section \<open>Lot release of a SELL\<close>

text \<open>
  A DCA release takes from every lot in proportion and gives the roundoff to the last one; a
  Grid release takes what the order claimed. The shares are computed first, then each lot,
  its cost and the weights of its deferred fees are reduced.
\<close>

fun dca_shares :: "rat \<Rightarrow> rat \<Rightarrow> spot_lot list \<Rightarrow> (spot_lot \<times> rat) list res" where
  "dca_shares removed tot [] = Inr []"
| "dca_shares removed tot (l # ls) =
     bindE (if removed = tot then Inr (lt_quantity l)
            else ddiv (dmul removed (lt_quantity l)) tot) (\<lambda>q.
     bindE (dca_shares removed tot ls) (\<lambda>rest. Inr ((l, q) # rest)))"

definition settle_last :: "rat \<Rightarrow> rat \<Rightarrow> (spot_lot \<times> rat) list \<Rightarrow> (spot_lot \<times> rat) list" where
  "settle_last removed tot shares =
     (if shares = [] \<or> removed = tot then shares
      else butlast shares @
        [(fst (last shares), dsub removed (dsum (map snd (butlast shares))))])"

fun grid_shares :: "spot_order \<Rightarrow> rat \<Rightarrow> spot_lot list \<Rightarrow> rat \<times> (spot_lot \<times> rat) list" where
  "grid_shares r remaining [] = (remaining, [])"
| "grid_shares r remaining (l # ls) =
     (let take = min (allocation r (lt_lot_id l)) remaining
      in if take \<noteq> 0
         then (let (rem, sh) = grid_shares r (dsub remaining take) ls in (rem, (l, take) # sh))
         else grid_shares r remaining ls)"

definition reduce_weight :: "string \<Rightarrow> rat \<Rightarrow> fee_record \<Rightarrow> fee_record" where
  "reduce_weight lid ratio f =
     (if fr_side f = Buy \<and> fr_lot_id f = Some lid
      then f\<lparr>fr_remaining_weight := dmul (fr_remaining_weight f) (dsub 1 ratio)\<rparr> else f)"

record release_state =
  rl_account :: spot_account
  rl_order :: spot_order
  rl_released :: rat
  rl_allocations :: "lot_release list"

definition release_lot :: "release_state \<Rightarrow> spot_lot \<times> rat \<Rightarrow> release_state res" where
  "release_lot x share =
     (let l = fst share; take = snd share; a = rl_account x in
      bindE (ddiv (dmul (lt_cost l) take) (lt_quantity l)) (\<lambda>cost.
      bindE (ddiv take (lt_quantity l)) (\<lambda>ratio.
      let fees = map (\<lambda>(k, f). (k, reduce_weight (lt_lot_id l) ratio f)) (ac_fee_records a) in
      bindE (nonneg_field (dsub (lt_quantity l) take)) (\<lambda>q.
      bindE (nonneg_field (dsub (lt_cost l) cost)) (\<lambda>c.
      Inr (x\<lparr>rl_account := a\<lparr>ac_fee_records := fees,
               ac_lots := AList.update (lt_lot_id l) (l\<lparr>lt_quantity := q, lt_cost := c\<rparr>) (ac_lots a)\<rparr>,
             rl_order := (rl_order x)\<lparr>od_allocations :=
               AList.update (lt_lot_id l) (max 0 (dsub (allocation (rl_order x) (lt_lot_id l)) take))
                 (od_allocations (rl_order x))\<rparr>,
             rl_released := dadd (rl_released x) cost,
             rl_allocations := rl_allocations x @
               [\<lparr>lr_lot_id = lt_lot_id l, lr_quantity = take, lr_cost = cost\<rparr>]\<rparr>))))))"

definition lot_of :: "spot_account \<Rightarrow> spot_lot \<Rightarrow> spot_lot" where
  "lot_of a l = (case map_of (ac_lots a) (lt_lot_id l) of None \<Rightarrow> l | Some l' \<Rightarrow> l')"

text \<open>The basket is authoritative: the last lot takes what the totals leave.\<close>

definition settle_basket ::
  "rat \<Rightarrow> rat \<Rightarrow> rat \<Rightarrow> spot_lot list \<Rightarrow> release_state \<Rightarrow> release_state res" where
  "settle_basket removed tot basket_cost lots x =
     bindE (if removed = tot then Inr basket_cost
            else ddiv (dmul basket_cost removed) tot) (\<lambda>released.
     let a = rl_account x; l = lot_of a (last lots); others = map (lot_of a) (butlast lots) in
     bindE (nonneg_field (dsub (dsub tot removed) (dsum (map lt_quantity others)))) (\<lambda>q.
     bindE (nonneg_field (dsub (dsub basket_cost released) (dsum (map lt_cost others)))) (\<lambda>c.
     Inr (x\<lparr>rl_account := a\<lparr>ac_lots :=
              AList.update (lt_lot_id l) (l\<lparr>lt_quantity := q, lt_cost := c\<rparr>) (ac_lots a)\<rparr>,
            rl_released := released\<rparr>))))"

definition consume_lots :: "spot_state \<Rightarrow> spot_order \<Rightarrow> rat \<Rightarrow> rat \<Rightarrow> (spot_state \<times> spot_order \<times> rat) res" where
  "consume_lots s r removed sold =
     (let a = ss_account s; dca = is_dca (ss_recipe s);
          tot = ac_net_base a; basket_cost = ac_remaining_cost a;
          lots = (if dca then filter (\<lambda>l. lt_quantity l \<noteq> 0) (available_lots s (od_intent r)) else []);
          start = \<lparr>rl_account = a, rl_order = r, rl_released = 0, rl_allocations = []\<rparr>
      in bindE (if dca
                then bindE (dca_shares removed tot lots) (\<lambda>sh. Inr (settle_last removed tot sh))
                else (let (rem, sh) = grid_shares r removed (available_lots s (od_intent r))
                      in if rem \<noteq> 0
                         then Inl (AccountingViolation ''SELL exceeds its reserved lot inventory'')
                         else Inr sh)) (\<lambda>shares.
         bindE (foldE release_lot start shares) (\<lambda>x.
         bindE (if dca \<and> shares \<noteq> [] then settle_basket removed tot basket_cost lots x else Inr x) (\<lambda>y.
         Inr (s\<lparr>ss_account := rl_account y,
                ss_trace := ss_trace s @
                  [TrLotRelease (it_client_order_id (od_intent r)) (rl_allocations x) sold]\<rparr>,
              rl_order y, rl_released y)))))"

section \<open>Accounting of a fill\<close>

text \<open>\<open>_value_fee\<close>: the economic value of a third-asset fee enters cost or profit.\<close>

definition value_fee :: "spot_state \<Rightarrow> string \<Rightarrow> rat \<Rightarrow> spot_state res" where
  "value_fee s fee_id v =
     (let a = ss_account s in
      case map_of (ac_fee_records a) fee_id of
        None \<Rightarrow> Inl KeyError
      | Some f \<Rightarrow>
          if pl_third_asset_allowance_quote (ss_policy s) < dadd (ac_valued_third_fees a) v
          then Inl (AccountingViolation ''third-asset economic fee allowance exceeded'')
          else
            bindE (nonneg_field (dadd (ac_valued_third_fees a) v)) (\<lambda>vt.
            let a1 = a\<lparr>ac_fee_records := AList.update fee_id (f\<lparr>fr_quote_value := Some v\<rparr>) (ac_fee_records a),
                       ac_valued_third_fees := vt\<rparr> in
            if fr_side f = Buy
            then (let remaining = dmul v (fr_remaining_weight f) in
              bindE (nonneg_field (dadd (ac_remaining_cost a1) remaining)) (\<lambda>rc.
              case fr_lot_id f of
                None \<Rightarrow> Inl KeyError
              | Some lid \<Rightarrow>
                (case map_of (ac_lots a1) lid of
                   None \<Rightarrow> Inl KeyError
                 | Some l \<Rightarrow>
                     bindE (nonneg_field (dadd (lt_cost l) remaining)) (\<lambda>lc.
                     bindE (number_field (dsub (ac_realized_profit a1) (dsub v remaining))) (\<lambda>rp.
                     Inr (s\<lparr>ss_account := a1\<lparr>ac_remaining_cost := rc,
                            ac_lots := AList.update lid (l\<lparr>lt_cost := lc\<rparr>) (ac_lots a1),
                            ac_realized_profit := rp\<rparr>\<rparr>))))))
            else
              bindE (number_field (dsub (ac_realized_profit a1) v)) (\<lambda>rp.
              Inr (s\<lparr>ss_account := a1\<lparr>ac_realized_profit := rp\<rparr>\<rparr>))))"

definition asset_fee :: "string \<Rightarrow> spot_fee list \<Rightarrow> rat" where
  "asset_fee asset fees = dsum (map fe_quantity (filter (\<lambda>f. fe_asset f = asset) fees))"

text \<open>The declared cost policy: what an execution may charge.\<close>

definition fee_policy_check :: "spot_state \<Rightarrow> spot_event \<Rightarrow> rat \<Rightarrow> rat \<Rightarrow> unit res" where
  "fee_policy_check s e base_fee quote_fee =
     (let p = ss_policy s; rate_cap = max (pl_maker_fee_bps p) (pl_taker_fee_bps p) in
      if ev_side e = Buy \<and> dquot (dmul (ev_quantity e) rate_cap) 10000 < base_fee
         \<or> ev_side e = Sell \<and> dquot (dmul (ev_quote_notional e) rate_cap) 10000 < quote_fee
      then Inl (AccountingViolation ''execution fee exceeds declared cost policy'')
      else if ev_side e = Buy
         \<and> dquot (dmul (ev_quote_notional e) (pl_buy_quote_fee_cap_bps p)) 10000 < quote_fee
      then Inl (AccountingViolation ''BUY quote fee exceeds policy cap'')
      else if ev_side e = Sell
         \<and> dquot (dmul (ev_quantity e) (pl_sell_base_fee_cap_bps p)) 10000 < base_fee
      then Inl (AccountingViolation ''SELL base fee exceeds policy cap'')
      else Inr ())"

definition fresh_lot :: "spot_event \<Rightarrow> spot_order \<Rightarrow> spot_lot" where
  "fresh_lot e r =
     \<lparr> lt_lot_id = ev_client_order_id e, lt_slot_id = it_slot_id (od_intent r),
       lt_creation_sequence = ev_source_sequence e, lt_quantity = 0, lt_cost = 0,
       lt_bought_base = 0, lt_bought_quote = 0 \<rparr>"

definition fill_buy :: "spot_state \<Rightarrow> spot_event \<Rightarrow> spot_order \<Rightarrow> rat \<Rightarrow> rat \<Rightarrow> (spot_state \<times> spot_order) res" where
  "fill_buy s e r base_fee quote_fee =
     (let a = ss_account s; debit = dadd (ev_quote_notional e) quote_fee;
          net = dsub (ev_quantity e) base_fee in
      if net \<le> 0 \<or> od_reserved_quote r < debit \<or> ac_allocation_cash a < debit
      then Inl (AccountingViolation ''BUY exceeds reserved cash or acquired base'')
      else
        bindE (nonneg_field (dsub (ac_quote_cash a) debit)) (\<lambda>cash.
        bindE (nonneg_field (dsub (ac_allocation_cash a) debit)) (\<lambda>alloc.
        bindE (nonneg_field (dadd (ac_net_base a) net)) (\<lambda>nb.
        bindE (nonneg_field (dadd (ac_remaining_cost a) debit)) (\<lambda>rc.
        bindE (nonneg_field (dadd (ac_bought_base a) (ev_quantity e))) (\<lambda>bb.
        bindE (nonneg_field (dadd (ac_bought_quote a) (ev_quote_notional e))) (\<lambda>bq.
        let l = (case map_of (ac_lots a) (ev_client_order_id e) of
                   Some l \<Rightarrow> l | None \<Rightarrow> fresh_lot e r) in
        bindE (nonneg_field (dadd (lt_quantity l) net)) (\<lambda>lq.
        bindE (nonneg_field (dadd (lt_cost l) debit)) (\<lambda>lc.
        bindE (nonneg_field (dadd (lt_bought_base l) (ev_quantity e))) (\<lambda>lb.
        bindE (nonneg_field (dadd (lt_bought_quote l) (ev_quote_notional e))) (\<lambda>lbq.
        bindE (nonneg_field (dsub (od_reserved_quote r) debit)) (\<lambda>rq.
        Inr (s\<lparr>ss_account := a\<lparr>ac_quote_cash := cash, ac_allocation_cash := alloc,
                 ac_net_base := nb, ac_remaining_cost := rc, ac_bought_base := bb,
                 ac_bought_quote := bq,
                 ac_lots := AList.update (ev_client_order_id e)
                   (l\<lparr>lt_quantity := lq, lt_cost := lc, lt_bought_base := lb, lt_bought_quote := lbq\<rparr>)
                   (ac_lots a)\<rparr>\<rparr>,
             r\<lparr>od_reserved_quote := rq\<rparr>)))))))))))))"

definition fill_sell :: "spot_state \<Rightarrow> spot_event \<Rightarrow> spot_order \<Rightarrow> rat \<Rightarrow> rat \<Rightarrow> (spot_state \<times> spot_order) res" where
  "fill_sell s e r base_fee quote_fee =
     (let removed = dadd (ev_quantity e) base_fee in
      if od_reserved_base r < removed \<or> ac_net_base (ss_account s) < removed
      then Inl (AccountingViolation ''SELL exceeds reserved base inventory'')
      else
        bindE (consume_lots s r removed (ev_quantity e)) (\<lambda>(s1, r1, released).
        let proceeds = dsub (ev_quote_notional e) quote_fee; a = ss_account s1 in
        if proceeds < 0 then Inl (AccountingViolation ''SELL quote fee exceeds proceeds'')
        else
          bindE (nonneg_field (dadd (ac_quote_cash a) proceeds)) (\<lambda>cash.
          bindE (nonneg_field (dadd (ac_allocation_cash a) proceeds)) (\<lambda>alloc.
          bindE (nonneg_field (dsub (ac_net_base a) removed)) (\<lambda>nb.
          bindE (nonneg_field (dsub (ac_remaining_cost a) released)) (\<lambda>rc.
          bindE (number_field (dadd (ac_realized_profit a) (dsub proceeds released))) (\<lambda>rp.
          bindE (nonneg_field (dsub (od_reserved_base r1) removed)) (\<lambda>rb.
          Inr (s1\<lparr>ss_account := a\<lparr>ac_quote_cash := cash, ac_allocation_cash := alloc,
                   ac_net_base := nb, ac_remaining_cost := rc, ac_realized_profit := rp\<rparr>\<rparr>,
               r1\<lparr>od_reserved_base := rb\<rparr>)))))))))"

text \<open>One iteration of the fee loop of \<open>_account_fill\<close>.\<close>

definition third_asset :: "spot_state \<Rightarrow> string \<Rightarrow> bool" where
  "third_asset s asset \<longleftrightarrow>
     asset \<noteq> bd_base_asset (ss_binding s) \<and> asset \<noteq> bd_quote_asset (ss_binding s)"

definition record_fee :: "spot_event \<Rightarrow> spot_state \<Rightarrow> nat \<times> spot_fee \<Rightarrow> spot_state res" where
  "record_fee e s x =
     (let (index, fee) = x; a = ss_account s; asset = fe_asset fee;
          fee_id = ev_event_id e @ '':'' @ nat_text index;
          third = third_asset s asset;
          prior = (case map_of (ac_fees_by_asset a) asset of None \<Rightarrow> 0 | Some v \<Rightarrow> v);
          unit_price = (if asset = bd_base_asset (ss_binding s)
                        then (case ev_price e of None \<Rightarrow> 0 | Some p \<Rightarrow> p) else 1);
          f = \<lparr> fr_asset = asset, fr_quantity = fe_quantity fee, fr_side = ev_side e,
                fr_lot_id = (if ev_side e = Buy then Some (ev_client_order_id e) else None),
                fr_remaining_weight = (if ev_side e = Buy then 1 else 0),
                fr_quote_value = (if third then None else Some (dmul (fe_quantity fee) unit_price)) \<rparr>;
          s1 = s\<lparr>ss_account := a\<lparr>
                 ac_fees_by_asset := AList.update asset (dadd prior (fe_quantity fee)) (ac_fees_by_asset a),
                 ac_fee_records := AList.update fee_id f (ac_fee_records a)\<rparr>\<rparr>
      in if third \<and> fe_quantity fee \<noteq> 0
         then (case fe_quote_value fee of
                 None \<Rightarrow>
                   Inr (s1\<lparr>ss_controller := (ss_controller s1)\<lparr>ct_refusal_reason := Some ''unvalued_fee''\<rparr>,
                           ss_fee_reconciliation_required := True\<rparr>)
               | Some v \<Rightarrow>
                   if truthy (fe_source fee) then value_fee s1 fee_id v
                   else Inl (ValueError ''valued third-asset fee requires provenance''))
         else Inr s1)"

definition account_fill :: "spot_state \<Rightarrow> spot_event \<Rightarrow> spot_order \<Rightarrow> (spot_state \<times> spot_order) res" where
  "account_fill s e r =
     (let base_fee = asset_fee (bd_base_asset (ss_binding s)) (ev_fees e);
          quote_fee = asset_fee (bd_quote_asset (ss_binding s)) (ev_fees e) in
      bindE (fee_policy_check s e base_fee quote_fee) (\<lambda>_.
      bindE (if ev_side e = Buy then fill_buy s e r base_fee quote_fee
             else fill_sell s e r base_fee quote_fee) (\<lambda>(s1, r1).
      let s2 = put_order s1 (ev_client_order_id e) r1 in
      bindE (foldE (record_fee e) s2 (enumerate 0 (ev_fees e))) (\<lambda>s3.
      if free_quote s3 < 0 \<or> free_base s3 < 0
      then Inl (AccountingViolation ''fill violates another order's reservation'')
      else Inr (s3, r1)))))"

section \<open>Fee valuation\<close>

definition apply_spot_fee_valuation :: "spot_state \<Rightarrow> fee_valuation \<Rightarrow> spot_state res" where
  "apply_spot_fee_valuation s v0 =
     bindE (validate_valuation v0) (\<lambda>v.
     bindE (attributed s (vl_account_id v) (vl_session_id v) None) (\<lambda>_.
     case map_of (ss_valuations s) (vl_valuation_id v) of
       Some prior \<Rightarrow>
         if prior \<noteq> v then Inl (ValueError ''conflicting fee valuation ID'') else Inr s
     | None \<Rightarrow>
         (case map_of (ac_fee_records (ss_account s)) (vl_fee_id v) of
            None \<Rightarrow> Inl (ValueError ''unattributed or already valued fee'')
          | Some f \<Rightarrow>
              if fr_quote_value f \<noteq> None \<or> (fr_asset f, fr_quantity f) \<noteq> (vl_asset v, vl_quantity v)
              then Inl (ValueError ''unattributed or already valued fee'')
              else bindE (value_fee s (vl_fee_id v) (vl_quote_value v)) (\<lambda>c.
                Inr (c\<lparr>ss_valuations := AList.update (vl_valuation_id v) v (ss_valuations c),
                       ss_trace := ss_trace c @ [TrFeeValuation v]\<rparr>)))))"

section \<open>Execution events\<close>

definition prior_event :: "spot_state \<Rightarrow> string \<Rightarrow> spot_event option" where
  "prior_event s eid =
     (case map_of (ss_events s) eid of
        Some e \<Rightarrow> Some e
      | None \<Rightarrow>
          (case map_of (ss_buffered_events s) eid of
             Some e \<Rightarrow> Some e
           | None \<Rightarrow> map_option fst (List.find (\<lambda>(e, _). ev_event_id e = eid) (ss_quarantine s))))"

text \<open>An event out of sequence, or for a reconciled order, waits in the reorder buffer.\<close>

definition buffer_event :: "spot_state \<Rightarrow> spot_event \<Rightarrow> spot_state res" where
  "buffer_event s e =
     (if 1024 \<le> length (ss_buffered_events s)
      then Inl (ValueError ''execution reorder buffer exhausted'')
      else if list_ex (\<lambda>x. ev_source_sequence x = ev_source_sequence e) (dict_values (ss_events s))
         \<or> list_ex (\<lambda>x. ev_source_sequence x = ev_source_sequence e) (dict_values (ss_buffered_events s))
      then Inl (ValueError ''conflicting execution sequence'')
      else Inr (s\<lparr>ss_buffered_events := AList.update (ev_event_id e) e (ss_buffered_events s),
                 ss_reconciliation_required := True\<rparr>))"

definition overfill :: "spot_order \<Rightarrow> spot_event \<Rightarrow> bool" where
  "overfill r e \<longleftrightarrow>
     (case it_quantity (od_intent r) of None \<Rightarrow> False | Some q \<Rightarrow> q < ev_cumulative_quantity e) \<or>
     (case it_quote_notional_cap (od_intent r) of None \<Rightarrow> False | Some c \<Rightarrow> c < ev_cumulative_quote e)"

text \<open>The accounted state, or the violation text when the execution must be quarantined.\<close>

definition try_fill :: "spot_state \<Rightarrow> spot_event \<Rightarrow> spot_order \<Rightarrow> (string + spot_state \<times> spot_order) res" where
  "try_fill s e r =
     (if overfill r e then Inr (Inl ''attributed order overfill exceeds reservation'')
      else if ev_quantity e \<noteq> 0
      then (case account_fill s e r of
              Inl (AccountingViolation m) \<Rightarrow> Inr (Inl m)
            | Inl err \<Rightarrow> Inl err
            | Inr y \<Rightarrow> Inr (Inr y))
      else Inr (Inr (s, r)))"

definition next_outcome :: "spot_order \<Rightarrow> spot_event \<Rightarrow> unknown_outcome option" where
  "next_outcome r e =
     (if ev_status e = Unknown
      then Some (if truthy (od_cancel_command_id r) then UnknownCancel else UnknownSubmit)
      else if is_terminal (ev_status e) \<or> od_unknown_outcome r = Some UnknownSubmit then None
      else od_unknown_outcome r)"

definition settle_order :: "spot_state \<Rightarrow> spot_event \<Rightarrow> spot_order \<Rightarrow> spot_order" where
  "settle_order s e r =
     (let outcome = next_outcome r e in
      r\<lparr>od_filled_quantity := ev_cumulative_quantity e,
        od_filled_quote := ev_cumulative_quote e,
        od_exchange_order_id := ev_exchange_order_id e,
        od_unknown_outcome := outcome,
        od_status :=
          (if outcome \<noteq> None then Unknown
           else if truthy (od_cancel_command_id r) \<and> \<not> is_terminal (ev_status e) then CancelPending
           else ev_status e),
        od_terminal_bar :=
          (if is_terminal (ev_status e) then Some (ss_bar_index s) else od_terminal_bar r)\<rparr>)"

definition commit_event :: "spot_state \<Rightarrow> spot_event \<Rightarrow> spot_order \<Rightarrow> spot_state" where
  "commit_event s e r =
     (put_order s (ev_client_order_id e) (settle_order s e r))
       \<lparr>ss_reconciliation_required := (ss_reconciliation_required s \<or> ev_status e = Unknown),
        ss_events := AList.update (ev_event_id e) e (ss_events s),
        ss_trade_ids := (case ev_trade_id e of
            None \<Rightarrow> ss_trade_ids s | Some t \<Rightarrow> AList.update t (ev_event_id e) (ss_trade_ids s)),
        ss_event_sequence := ev_source_sequence e,
        ss_trace := ss_trace s @ [TrExecution e]\<rparr>"

definition apply_in_sequence :: "spot_state \<Rightarrow> spot_event \<Rightarrow> spot_order \<Rightarrow> spot_state res" where
  "apply_in_sequence s e r =
     (if ev_cumulative_quantity e \<noteq> dadd (od_filled_quantity r) (ev_quantity e)
         \<or> ev_cumulative_quote e \<noteq> dadd (od_filled_quote r) (ev_quote_notional e)
      then Inl (ValueError ''execution cumulative totals mismatch'')
      else if is_terminal (od_status r)
      then Inl (ValueError ''new execution after terminal watermark'')
      else bindE (try_fill s e r) (\<lambda>y.
        case y of
          Inl m \<Rightarrow> Inr (s\<lparr>ss_quarantine := ss_quarantine s @ [(e, m)], ss_reconciliation_required := True\<rparr>)
        | Inr (c, r') \<Rightarrow> Inr (commit_event c e r')))"

definition apply_spot_event :: "spot_state \<Rightarrow> spot_event \<Rightarrow> spot_state res" where
  "apply_spot_event s e0 =
     bindE (validate_event e0) (\<lambda>e.
     bindE (attributed s (ev_account_id e) (ev_session_id e) (Some (ev_symbol e))) (\<lambda>_.
     case prior_event s (ev_event_id e) of
       Some previous \<Rightarrow>
         if previous \<noteq> e then Inl (ValueError ''conflicting Spot event_id'') else Inr s
     | None \<Rightarrow>
         (case map_of (ss_orders s) (ev_client_order_id e) of
            None \<Rightarrow> Inl (ValueError ''Spot account/order/generation mismatch'')
          | Some r \<Rightarrow>
              if (ev_generation e, ev_side e, ev_purpose e)
                 \<noteq> (it_generation (od_intent r), it_side (od_intent r), it_purpose (od_intent r))
              then Inl (ValueError ''Spot account/order/generation mismatch'')
              else if truthy (od_exchange_order_id r)
                 \<and> ev_exchange_order_id e \<noteq> od_exchange_order_id r
              then Inl (ValueError ''Spot exchange order mismatch'')
              else if (case ev_trade_id e of
                         None \<Rightarrow> False | Some t \<Rightarrow> map_of (ss_trade_ids s) t \<noteq> None)
              then Inl (ValueError ''conflicting/reused trade ID'')
              else if ev_source_sequence e \<noteq> ss_event_sequence s + 1 \<or> od_terminal_reconciled r
              then buffer_event s e
              else apply_in_sequence s e r)))"

section \<open>Reconciliation\<close>

definition order_fact_of :: "spot_order \<Rightarrow> order_fact" where
  "order_fact_of r =
     \<lparr> of_generation = it_generation (od_intent r), of_status = od_status r,
       of_cumulative_quantity = od_filled_quantity r, of_cumulative_quote = od_filled_quote r,
       of_reserved_quote = od_reserved_quote r, of_reserved_base = od_reserved_base r \<rparr>"

definition paper_reconciliation :: "spot_state \<Rightarrow> spot_reconciliation" where
  "paper_reconciliation s =
     \<lparr> rc_account_id = bd_account_id (ss_binding s), rc_session_id = bd_session_id (ss_binding s),
       rc_symbol = bd_symbol (ss_binding s), rc_revision = ss_reconciliation_revision s + 1,
       rc_complete = True, rc_source_sequence = ss_event_sequence s,
       rc_quote_cash = ac_quote_cash (ss_account s), rc_net_base = ac_net_base (ss_account s),
       rc_orders = map (\<lambda>(k, r). (k, order_fact_of r)) (ss_orders s),
       rc_working_order_ids =
         map fst (filter (\<lambda>(k, r). \<not> is_terminal (od_status r)) (ss_orders s)),
       rc_events = [], rc_fee_valuations = [] \<rparr>"

definition dict_eq :: "'v dict \<Rightarrow> 'v dict \<Rightarrow> bool" where
  "dict_eq d d' \<longleftrightarrow>
     set (dict_keys d) = set (dict_keys d') \<and>
     list_all (\<lambda>k. map_of d k = map_of d' k) (dict_keys d)"

definition reconcile_order :: "spot_order \<Rightarrow> spot_order res" where
  "reconcile_order r =
     (if od_unknown_outcome r \<noteq> None
      then Inl (ValueError ''unknown submit/cancel outcome remains unreconciled'')
      else if is_terminal (od_status r)
      then Inr (r\<lparr>od_reserved_quote := 0, od_reserved_base := 0, od_allocations := [],
                 od_terminal_reconciled := True\<rparr>)
      else if od_status r = Unknown
      then Inl (ValueError ''unknown intent outcome remains unreconciled'')
      else Inr r)"

fun reconcile_orders :: "spot_order dict \<Rightarrow> spot_order dict res" where
  "reconcile_orders [] = Inr []"
| "reconcile_orders ((k, r) # d) =
     bindE (reconcile_order r) (\<lambda>r'. bindE (reconcile_orders d) (\<lambda>d'. Inr ((k, r') # d')))"

definition reconcile_agrees :: "spot_state \<Rightarrow> spot_reconciliation \<Rightarrow> unit res" where
  "reconcile_agrees c q =
     (if ss_buffered_events c \<noteq> [] \<or> rc_source_sequence q \<noteq> ss_event_sequence c
         \<or> rc_quote_cash q \<noteq> ac_quote_cash (ss_account c)
         \<or> rc_net_base q \<noteq> ac_net_base (ss_account c)
         \<or> set (dict_keys (rc_orders q)) \<noteq> set (dict_keys (ss_orders c))
      then Inl (ValueError ''Spot reconciliation account/order mismatch'')
      else if \<not> distinct (rc_working_order_ids q)
      then Inl (ValueError ''duplicate reconciled order identity'')
      else if \<not> dict_eq (rc_orders q) (rc_orders (paper_reconciliation c))
         \<or> set (rc_working_order_ids q) \<noteq> set (rc_working_order_ids (paper_reconciliation c))
      then Inl (ValueError ''Spot reconciliation order/reservation mismatch'')
      else Inr ())"

definition clear_fee_barrier :: "spot_state \<Rightarrow> spot_state" where
  "clear_fee_barrier c =
     (if has_unvalued_fee c then c
      else c\<lparr>ss_fee_reconciliation_required := False,
             ss_controller :=
               (if ct_refusal_reason (ss_controller c) = Some ''unvalued_fee''
                then (ss_controller c)\<lparr>ct_refusal_reason := None\<rparr> else ss_controller c)\<rparr>)"

definition reconcile_spot_state :: "spot_state \<Rightarrow> spot_reconciliation \<Rightarrow> spot_state res" where
  "reconcile_spot_state s q0 =
     bindE (validate_reconciliation q0) (\<lambda>q.
     bindE (attributed s (rc_account_id q) (rc_session_id q) (Some (rc_symbol q))) (\<lambda>_.
     if \<not> rc_complete q \<or> rc_revision q \<le> ss_reconciliation_revision s \<or> ss_quarantine s \<noteq> []
     then Inl (ValueError ''complete newer reconciliation required; unresolved quarantine'')
     else
       bindE (foldE apply_spot_event (s\<lparr>ss_buffered_events := []\<rparr>)
         (sort_key ev_source_sequence (rc_events q @ dict_values (ss_buffered_events s)))) (\<lambda>c1.
       bindE (foldE apply_spot_fee_valuation c1 (rc_fee_valuations q)) (\<lambda>c2.
       bindE (reconcile_agrees c2 q) (\<lambda>_.
       bindE (reconcile_orders (ss_orders c2)) (\<lambda>os.
       let c3 = clear_fee_barrier (c2\<lparr>ss_orders := os, ss_reconciliation_required := False\<rparr>) in
       Inr (c3\<lparr>ss_reconciliation_revision := rc_revision q,
               ss_trace := ss_trace c3 @ [TrReconciliation (rc_revision q)]\<rparr>)))))))"

end
