(* ===== verification/Spot_Controllers.thy ===== *)
theory Spot_Controllers
  imports Spot_Account
begin

text \<open>
  \<open>src/koval/engine/spot_multi_order/controllers.py\<close> and \<open>grid_points\<close> of \<open>state.py\<close>: the bounded DCA
  and Grid decisions. A decision function reads the session state and returns the next
  controller, the two reserves it owns and a list of typed intents. The source mutates its
  private copy of the state and appends to \<open>decisions\<close>; here both are threaded.
\<close>

section \<open>Intents\<close>

definition cycle_text :: "spot_state \<Rightarrow> string" where
  "cycle_text s = ''c'' @ int_text (ct_cycle (ss_controller s))"

definition owned :: "spot_state \<Rightarrow> purpose option \<Rightarrow> spot_order list" where
  "owned s p =
     filter (\<lambda>r. (p = None \<or> p = Some (it_purpose (od_intent r))) \<and>
                 it_cycle_id (od_intent r) = cycle_text s) (dict_values (ss_orders s))"

definition max_or :: "int \<Rightarrow> int list \<Rightarrow> int" where
  "max_or d xs = (case xs of [] \<Rightarrow> d | y # ys \<Rightarrow> foldl max y ys)"

record intent_args =
  ia_price :: "rat option"
  ia_quantity :: "rat option"
  ia_quote :: "rat option"
  ia_parent :: "string option"
  ia_activation :: "int option"

definition no_args :: intent_args where
  "no_args = \<lparr>ia_price = None, ia_quantity = None, ia_quote = None, ia_parent = None, ia_activation = None\<rparr>"

definition next_generation :: "spot_state \<Rightarrow> purpose \<Rightarrow> string \<Rightarrow> int" where
  "next_generation s p slot =
     max_or (- 1) (map (\<lambda>r. it_generation (od_intent r))
       (filter (\<lambda>r. it_slot_id (od_intent r) = slot) (owned s (Some p)))) + 1"

definition intent_key :: "digest \<Rightarrow> spot_state \<Rightarrow> purpose \<Rightarrow> string \<Rightarrow> int \<Rightarrow> string" where
  "intent_key H s p slot g =
     ''sm1-'' @ take 32 (H (CIntent (bd_account_id (ss_binding s)) (bd_session_id (ss_binding s))
       (ct_cycle (ss_controller s)) slot p g))"

definition requested_quantity_of :: "spot_state \<Rightarrow> purpose \<Rightarrow> string \<Rightarrow> rat option \<Rightarrow> rat option res" where
  "requested_quantity_of s p slot quantity =
     (if p = GridBuy
      then (case map_of (ct_slots (ss_controller s)) slot of
              Some (GridSlot _ _ _ rq _) \<Rightarrow> Inr (Some rq)
            | _ \<Rightarrow> Inl KeyError)
      else Inr quantity)"

definition new_intent :: "digest \<Rightarrow> spot_state \<Rightarrow> purpose \<Rightarrow> string \<Rightarrow> intent_args \<Rightarrow> spot_intent res" where
  "new_intent H s p slot args =
     (let g = next_generation s p slot; key = intent_key H s p slot g in
      bindE (requested_quantity_of s p slot (ia_quantity args)) (\<lambda>rq.
      validate_intent
        \<lparr> it_account_id = bd_account_id (ss_binding s), it_session_id = bd_session_id (ss_binding s),
          it_symbol = bd_symbol (ss_binding s), it_intent_id = key, it_client_order_id = key,
          it_cycle_id = cycle_text s, it_slot_id = slot, it_generation = g,
          it_side = purpose_side p,
          it_order_type = (if ia_price args \<noteq> None then Limit else Market),
          it_purpose = p, it_quantity = ia_quantity args, it_quote_notional_cap = ia_quote args,
          it_limit_price = ia_price args,
          it_activation_bar = (case ia_activation args of None \<Rightarrow> ss_bar_index s + 1 | Some b \<Rightarrow> b),
          it_expires_after_bars = pl_expires_after_bars (ss_policy s),
          it_requested_quantity = rq, it_requested_price = ia_price args,
          it_parent_order_id = ia_parent args,
          it_terminal_command_id =
            (if p = Flatten then ct_terminal_command_id (ss_controller s) else None) \<rparr>))"

text \<open>\<open>submit\<close> and \<open>cancel\<close> append to the decision list.\<close>

definition submit_decision ::
  "digest \<Rightarrow> spot_state \<Rightarrow> purpose \<Rightarrow> string \<Rightarrow> intent_args \<Rightarrow> decision list \<Rightarrow> decision list res" where
  "submit_decision H s p slot args ds =
     bindE (new_intent H s p slot args) (\<lambda>i. Inr (ds @ [SubmitD i]))"

definition cancel_decision :: "digest \<Rightarrow> string option \<Rightarrow> decision list \<Rightarrow> spot_order \<Rightarrow> decision list" where
  "cancel_decision H reason ds r =
     (if \<not> od_terminal_reconciled r \<and> \<not> is_terminal (od_status r) \<and> \<not> truthy (od_cancel_command_id r)
      then ds @ [CancelD (it_client_order_id (od_intent r)) (it_generation (od_intent r))
             (''cancel-'' @ take 32 (H (CCancel (it_client_order_id (od_intent r)) reason)))]
      else ds)"

definition sell_quantity :: "spot_state \<Rightarrow> rat option \<Rightarrow> bool \<Rightarrow> rat res" where
  "sell_quantity s quantity market =
     (let available = (case quantity of None \<Rightarrow> free_base s | Some q \<Rightarrow> q);
          step = (if market then in_market_quantity_step (ss_instrument s)
                  else in_quantity_step (ss_instrument s))
      in bindE (ddiv available (fee_factor (pl_sell_base_fee_cap_bps (ss_policy s)))) (\<lambda>q.
         floor_step
           (if market
            then min q (or_else (in_market_maximum_quantity (ss_instrument s))
                          (in_maximum_quantity (ss_instrument s)))
            else q) step))"

section \<open>Terminal actions\<close>

definition set_controller :: "spot_state \<Rightarrow> spot_controller \<Rightarrow> spot_state" where
  "set_controller s c = s\<lparr>ss_controller := c\<rparr>"

definition trigger_terminal :: "spot_state \<Rightarrow> terminal_action \<Rightarrow> string \<Rightarrow> string option \<Rightarrow> spot_state" where
  "trigger_terminal s action reason command_id =
     (let c = ss_controller s in
      if reason = ''target'' \<and> ct_terminal_action c \<noteq> None \<and> ct_terminal_reason c \<noteq> Some ''target''
      then s
      else if ct_terminal_action c = Some StopAndFlatten \<and> action = StopAndHold then s
      else set_controller s
        (c\<lparr>ct_terminal_action := Some action, ct_terminal_reason := Some reason,
           ct_terminal_command_id :=
             (if truthy command_id then command_id
              else Some (''terminal-'' @ int_text (ct_cycle c) @ ''-'' @ reason)),
           ct_phase := Stopping\<rparr>))"

definition set_phase :: "spot_state \<Rightarrow> ctl_phase \<Rightarrow> spot_state" where
  "set_phase s p = set_controller s ((ss_controller s)\<lparr>ct_phase := p\<rparr>)"

text \<open>The close order itself, once every predecessor is reconciled and base remains.\<close>

definition close_decisions ::
  "digest \<Rightarrow> spot_state \<Rightarrow> spot_order list \<Rightarrow> decision list \<Rightarrow> (spot_state \<times> decision list) res" where
  "close_decisions H s closes ds =
     (let c = ss_controller s; i = ss_instrument s in
      if closes \<noteq> [] \<and> od_status (last closes) \<noteq> Filled
         \<and> it_terminal_command_id (od_intent (last closes)) = ct_terminal_command_id c
      then Inr (set_phase s Containment, ds)
      else
        bindE (sell_quantity s None True) (\<lambda>quantity.
        if quantity < or_else (in_market_minimum_quantity i) (in_minimum_quantity i)
           \<or> (case ss_mark s of
                None \<Rightarrow> True
              | Some m \<Rightarrow> in_apply_notional_to_market i \<and> dmul quantity m < in_minimum_notional i)
        then Inr (set_phase s StoppedWithDust, ds)
        else if closes \<noteq> [] \<and> ss_observation_sequence s \<le> ct_last_close_observation c
        then Inr (s, ds)
        else
          let activation = (if ct_terminal_reason c = Some ''stop'' \<and> closes = []
                            then ss_bar_index s else ss_bar_index s + 1) in
          bindE (submit_decision H s Flatten ''basket''
              (no_args\<lparr>ia_quantity := Some quantity, ia_activation := Some activation\<rparr>) ds) (\<lambda>ds'.
          Inr (set_controller s
                 (c\<lparr>ct_last_close_observation := ss_observation_sequence s,
                    ct_close_generation := ct_close_generation c + 1\<rparr>), ds'))))"

definition terminal_decisions ::
  "digest \<Rightarrow> spot_state \<Rightarrow> decision list \<Rightarrow> (spot_state \<times> decision list) res" where
  "terminal_decisions H s ds =
     (if ss_reconciliation_required s \<or> ss_quarantine s \<noteq> []
      then Inr (set_phase s Reconciling, ds)
      else
        let c = ss_controller s;
            predecessors = filter (\<lambda>r. it_purpose (od_intent r) \<noteq> Flatten) (dict_values (ss_orders s));
            ds1 = foldl (cancel_decision H (ct_terminal_command_id c)) ds predecessors
        in if list_ex (\<lambda>r. \<not> od_terminal_reconciled r) predecessors then Inr (s, ds1)
           else
             let s1 = s\<lparr>ss_account := (ss_account s)\<lparr>ac_cycle_reserve := 0, ac_cleanup_reserve := 0\<rparr>\<rparr> in
             if ct_terminal_action c = Some StopAndHold then Inr (set_phase s1 StoppedHolding, ds1)
             else
               let closes = owned s1 (Some Flatten) in
               if list_ex (\<lambda>r. \<not> od_terminal_reconciled r) closes then Inr (s1, ds1)
               else if ac_net_base (ss_account s1) = 0
               then Inr (set_controller s1
                      (c\<lparr>ct_phase := (if ct_terminal_reason c \<in> {Some ''target'', Some ''empty_base''}
                                      then Complete else StoppedFlat),
                         ct_last_cycle_bar := (if ct_phase c = Complete then ct_last_cycle_bar c
                                               else ss_bar_index s1)\<rparr>), ds1)
               else close_decisions H s1 closes ds1)"

section \<open>Safety common to both recipes\<close>

fun target_touched :: "spot_state \<Rightarrow> rat option \<Rightarrow> spot_order list \<Rightarrow> bool res" where
  "target_touched s mark [] = Inr False"
| "target_touched s mark (r # rs) =
     (if \<not> is_terminal (od_status r) \<and> it_activation_bar (od_intent r) \<le> ss_bar_index s
         \<and> od_status r \<noteq> Pending
      then (case (mark, it_limit_price (od_intent r)) of
              (Some m, Some p) \<Rightarrow> if p \<le> m then Inr True else target_touched s mark rs
            | _ \<Rightarrow> Inl TypeError)
      else target_touched s mark rs)"

definition stop_touched :: "spot_state \<Rightarrow> bool res" where
  "stop_touched s =
     (case ct_stop (ss_controller s) of
        None \<Rightarrow> Inr False
      | Some stop \<Rightarrow>
          if ac_net_base (ss_account s) = 0 then Inr False
          else case ss_mark s of
            None \<Rightarrow> Inl TypeError
          | Some m \<Rightarrow> Inr (m \<le> stop \<and> ct_phase (ss_controller s) \<noteq> StoppedHolding))"

fun is_price :: "payload \<Rightarrow> bool" where
  "is_price (Price _) = True"
| "is_price _ = False"

fun target_executed :: "payload \<Rightarrow> bool" where
  "target_executed (Executions es) = list_ex (\<lambda>e. ev_purpose e = Target \<and> 0 < ev_quantity e) es"
| "target_executed _ = False"

definition common_safety ::
  "digest \<Rightarrow> spot_state \<Rightarrow> payload \<Rightarrow> decision list \<Rightarrow> (bool \<times> spot_state \<times> decision list) res" where
  "common_safety H s p ds =
     bindE (if is_price p then stop_touched s else Inr False) (\<lambda>stopped.
     let s1 = (if stopped then trigger_terminal s StopAndFlatten ''stop'' None else s);
         s2 = (if target_executed p then trigger_terminal s1 StopAndFlatten ''target'' None else s1) in
     bindE (if is_price p \<and> ct_terminal_action (ss_controller s2) = None
            then target_touched s2 (ss_mark s2) (owned s2 (Some Target)) else Inr False) (\<lambda>touched.
     let s3 = (if touched then trigger_terminal s2 StopAndFlatten ''target'' None else s2) in
     if ct_terminal_action (ss_controller s3) \<noteq> None
     then bindE (terminal_decisions H s3 ds) (\<lambda>(s4, ds'). Inr (True, s4, ds'))
     else Inr (ss_reconciliation_required s3 \<or> ss_quarantine s3 \<noteq> [], s3, ds)))"

section \<open>DCA\<close>

definition is_submit :: "decision \<Rightarrow> bool" where
  "is_submit d = (case d of SubmitD _ \<Rightarrow> True | _ \<Rightarrow> False)"

definition stop_and_close ::
  "digest \<Rightarrow> spot_state \<Rightarrow> string \<Rightarrow> decision list \<Rightarrow> (spot_state \<times> decision list) res" where
  "stop_and_close H s reason ds = terminal_decisions H (trigger_terminal s StopAndFlatten reason None) ds"

fun replace_stale_targets ::
  "digest \<Rightarrow> rat \<Rightarrow> rat \<Rightarrow> decision list \<Rightarrow> spot_order list \<Rightarrow> decision list res" where
  "replace_stale_targets H desired quantity ds [] = Inr ds"
| "replace_stale_targets H desired quantity ds (r # rs) =
     (case it_quantity (od_intent r) of
        None \<Rightarrow> Inl TypeError
      | Some q \<Rightarrow>
          replace_stale_targets H desired quantity
            (if it_limit_price (od_intent r) \<noteq> Some desired \<or> dsub q (od_filled_quantity r) \<noteq> quantity
             then cancel_decision H (Some ''target_replace'') ds r else ds) rs)"

definition dca_target :: "digest \<Rightarrow> spot_state \<Rightarrow> decision list \<Rightarrow> (spot_state \<times> decision list) res" where
  "dca_target H s ds =
     (let c = ss_controller s; rules = ss_instrument s in
      if ac_net_base (ss_account s) = 0 then Inr (s, ds)
      else
        bindE (sell_quantity s (Some (ac_net_base (ss_account s))) False) (\<lambda>quantity.
        case (case ct_desired_target c of
                None \<Rightarrow> None
              | Some d \<Rightarrow>
                  if \<not> (in_minimum_price rules \<le> d \<and> d \<le> in_maximum_price rules)
                     \<or> in_maximum_quantity rules < quantity
                     \<or> in_maximum_notional rules < dmul quantity d \<or> \<not> in_band rules d
                  then None else Some d) of
          None \<Rightarrow>
            stop_and_close H (set_controller s (c\<lparr>ct_refusal_reason := Some ''target_constraints''\<rparr>))
              ''target_constraints'' (filter (\<lambda>d. \<not> is_submit d) ds)
        | Some d \<Rightarrow>
            if quantity < in_minimum_quantity rules \<or> dmul quantity d < in_minimum_notional rules
            then Inr (set_controller s (c\<lparr>ct_refusal_reason := Some ''target_dust''\<rparr>), ds)
            else
              let working = filter (\<lambda>r. \<not> od_terminal_reconciled r) (owned s (Some Target)) in
              bindE (replace_stale_targets H d quantity ds working) (\<lambda>ds1.
              if working \<noteq> [] then Inr (s, ds1)
              else bindE (submit_decision H s Target ''basket''
                     (no_args\<lparr>ia_price := Some d, ia_quantity := Some quantity\<rparr>) ds1) (\<lambda>ds2.
                   Inr (s, ds2)))))"

definition dca_maximum :: "dca_params \<Rightarrow> spot_policy \<Rightarrow> rat" where
  "dca_maximum p pol =
     dmul (dadd (dp_base_quote p) (dmul (of_int (dp_max_additions p)) (dp_addition_quote p)))
       (fee_factor (pl_buy_quote_fee_cap_bps pol))"

definition dca_start ::
  "digest \<Rightarrow> dca_params \<Rightarrow> spot_state \<Rightarrow> decision list \<Rightarrow> (spot_state \<times> decision list) res" where
  "dca_start H p s ds =
     (let c = ss_controller s; maximum = dca_maximum p (ss_policy s) in
      if ac_allocation_cash (ss_account s) < dadd maximum (dp_fee_reserve_quote p)
      then Inr (set_controller s (c\<lparr>ct_refusal_reason := Some ''insufficient_cycle_cash''\<rparr>), ds)
      else
        bindE (nonneg_field maximum) (\<lambda>m.
        let s1 = s\<lparr>ss_controller := initial_controller\<lparr>ct_cycle := ct_cycle c + 1,
                     ct_phase := BasePending, ct_last_cycle_bar := ct_last_cycle_bar c,
                     ct_cycle_base_start := ac_bought_base (ss_account s),
                     ct_cycle_quote_start := ac_bought_quote (ss_account s)\<rparr>,
                   ss_account := (ss_account s)\<lparr>ac_cleanup_reserve := dp_fee_reserve_quote p,
                     ac_cycle_reserve := m\<rparr>\<rparr> in
        bindE (submit_decision H s1 Base ''base'' (no_args\<lparr>ia_quote := Some (dp_base_quote p)\<rparr>) ds) (\<lambda>ds'.
        Inr (s1, ds'))))"

fun ladder_levels :: "dca_params \<Rightarrow> rat \<Rightarrow> rat \<Rightarrow> int list \<Rightarrow> rat list res" where
  "ladder_levels p vwap tick [] = Inr []"
| "ladder_levels p vwap tick (i # is) =
     bindE (floor_step (dmul vwap (dsub 1 (dquot (dmul (of_int i) (dp_deviation_pct p)) 100))) tick) (\<lambda>l.
     bindE (ladder_levels p vwap tick is) (\<lambda>ls. Inr (l # ls)))"

definition ladder_slots :: "rat list \<Rightarrow> ctl_slot dict \<Rightarrow> ctl_slot dict" where
  "ladder_slots levels slots =
     foldl (\<lambda>d (i, l). AList.update (nat_text i) (DcaSlot l) d) slots (enumerate 1 levels)"

text \<open>The ladder is fixed once, from the reconciled base order.\<close>

definition arm_ladder :: "dca_params \<Rightarrow> spot_state \<Rightarrow> rat \<Rightarrow> rat \<Rightarrow> spot_state res" where
  "arm_ladder p s vwap stop =
     bindE (nonneg_field vwap) (\<lambda>anchor.
     bindE (ladder_levels p vwap (in_price_tick (ss_instrument s)) [1..dp_max_additions p]) (\<lambda>levels.
     let c = (ss_controller s)\<lparr>ct_anchor := Some anchor\<rparr> in
     Inr (set_controller s
       (if \<not> distinct levels \<or> list_ex (\<lambda>l. l \<le> stop) levels
        then c\<lparr>ct_refusal_reason := Some ''normalized_additions_invalid''\<rparr>
        else c\<lparr>ct_slots := ladder_slots levels (ct_slots c), ct_phase := Active\<rparr>))))"

fun submit_additions ::
  "digest \<Rightarrow> dca_params \<Rightarrow> spot_state \<Rightarrow> decision list \<Rightarrow> ctl_slot dict \<Rightarrow> decision list res" where
  "submit_additions H p s ds [] = Inr ds"
| "submit_additions H p s ds ((slot, details) # rest) =
     (case details of
        GridSlot _ _ _ _ _ \<Rightarrow> Inl KeyError
      | DcaSlot price \<Rightarrow>
          bindE (ddiv (dp_addition_quote p) price) (\<lambda>raw.
          bindE (floor_step raw (in_quantity_step (ss_instrument s))) (\<lambda>quantity.
          bindE (submit_decision H s Addition slot
              (no_args\<lparr>ia_price := Some price, ia_quantity := Some quantity\<rparr>) ds) (\<lambda>ds'.
          submit_additions H p s ds' rest))))"

definition first_fill :: "spot_state \<Rightarrow> spot_order \<Rightarrow> spot_event option" where
  "first_fill s base =
     List.find (\<lambda>e. ev_client_order_id e = it_client_order_id (od_intent base) \<and> ev_quantity e \<noteq> 0)
       (dict_values (ss_events s))"

definition raise_stop :: "spot_state \<Rightarrow> rat \<Rightarrow> decision list \<Rightarrow> (spot_state \<times> decision list) res" where
  "raise_stop s stop ds =
     (let c = ss_controller s in
      if (case ct_stop c of None \<Rightarrow> True | Some old \<Rightarrow> old < stop)
      then bindE (nonneg_field stop) (\<lambda>v.
        Inr (set_controller s (c\<lparr>ct_stop := Some v\<rparr>), ds @ [ProtectionD stop]))
      else Inr (s, ds))"

text \<open>The stop and the desired target that the fills of the cycle imply.\<close>

definition dca_protect ::
  "dca_params \<Rightarrow> spot_state \<Rightarrow> spot_order \<Rightarrow> rat \<Rightarrow> rat \<Rightarrow> decision list \<Rightarrow> (spot_state \<times> decision list \<times> rat) res" where
  "dca_protect p s base fp vwap ds =
     bindE (ceil_step (dmul (max fp vwap) (dsub 1 (dquot (dp_stop_loss_pct p) 100)))
              (in_price_tick (ss_instrument s))) (\<lambda>stop.
     bindE (raise_stop s stop ds) (\<lambda>(s1, ds1).
     let c = ss_controller s1; a = ss_account s1 in
     bindE (ddiv (dsub (ac_bought_quote a) (ct_cycle_quote_start c))
              (dsub (ac_bought_base a) (ct_cycle_base_start c))) (\<lambda>average.
     bindE (ceil_step (dmul average (dadd 1 (dquot (dp_take_profit_pct p) 100)))
              (in_price_tick (ss_instrument s))) (\<lambda>desired.
     bindE (nonneg_field desired) (\<lambda>d.
     Inr (set_controller s1 (c\<lparr>ct_desired_target := Some d\<rparr>), ds1,
          case ct_stop c of None \<Rightarrow> stop | Some v \<Rightarrow> v))))))"

text \<open>The ladder, its additions and the target of a basket that is above its stop.\<close>

definition dca_follow ::
  "digest \<Rightarrow> dca_params \<Rightarrow> spot_state \<Rightarrow> spot_order \<Rightarrow> rat \<Rightarrow> rat \<Rightarrow> decision list \<Rightarrow> (spot_state \<times> decision list) res" where
  "dca_follow H p s base vwap armed ds =
     (if (case ss_mark s of None \<Rightarrow> False | Some m \<Rightarrow> m \<le> armed)
      then stop_and_close H s ''stop'' ds
      else
        bindE (if od_terminal_reconciled base \<and> ct_anchor (ss_controller s) = None
               then arm_ladder p s vwap armed else Inr s) (\<lambda>s1.
        let c = ss_controller s1 in
        bindE (if \<not> truthy (ct_refusal_reason c) \<and> owned s1 (Some Addition) = [] \<and> ct_slots c \<noteq> []
               then submit_additions H p s1 ds (ct_slots c) else Inr ds) (\<lambda>ds1.
        dca_target H s1 ds1)))"

definition dca_active ::
  "digest \<Rightarrow> dca_params \<Rightarrow> spot_state \<Rightarrow> spot_order \<Rightarrow> decision list \<Rightarrow> (spot_state \<times> decision list) res" where
  "dca_active H p s base ds =
     (case first_fill s base of
        None \<Rightarrow> Inl StopIteration
      | Some first \<Rightarrow>
          bindE (ddiv (od_filled_quote base) (od_filled_quantity base)) (\<lambda>vwap.
          case ev_price first of
            None \<Rightarrow> Inl TypeError
          | Some fp \<Rightarrow>
              bindE (dca_protect p s base fp vwap ds) (\<lambda>(s1, ds1, armed).
              dca_follow H p s1 base vwap armed ds1)))"

definition wants_start :: "spot_state \<Rightarrow> payload \<Rightarrow> bool" where
  "wants_start s p \<longleftrightarrow>
     (case p of ClosedBar b \<Rightarrow> cb_start b \<and> ct_last_cycle_bar (ss_controller s) < ss_bar_index s | _ \<Rightarrow> False)"

definition dca_step ::
  "digest \<Rightarrow> dca_params \<Rightarrow> spot_state \<Rightarrow> payload \<Rightarrow> decision list \<Rightarrow> (spot_state \<times> decision list) res" where
  "dca_step H p0 s payload ds =
     bindE (validate_dca p0) (\<lambda>p.
     if ct_phase (ss_controller s) \<in> {Idle, Complete} \<and> wants_start s payload
     then dca_start H p s ds
     else case owned s (Some Base) of
       [] \<Rightarrow> Inr (s, ds)
     | base # _ \<Rightarrow>
         if od_filled_quantity base \<noteq> 0 then dca_active H p s base ds
         else if od_terminal_reconciled base then stop_and_close H s ''empty_base'' ds
         else Inr (s, ds))"

section \<open>Grid\<close>

definition grid_point :: "grid_params \<Rightarrow> spot_instrument \<Rightarrow> int \<Rightarrow> rat res" where
  "grid_point p i k =
     bindE (ddiv (dmul (dsub (gp_upper_price p) (gp_lower_price p)) (of_int k)) (of_int (gp_intervals p))) (\<lambda>d.
     floor_step (dadd (gp_lower_price p) d) (in_price_tick i))"

fun grid_point_list :: "grid_params \<Rightarrow> spot_instrument \<Rightarrow> int list \<Rightarrow> rat list res" where
  "grid_point_list p i [] = Inr []"
| "grid_point_list p i (k # ks) =
     bindE (grid_point p i k) (\<lambda>x. bindE (grid_point_list p i ks) (\<lambda>xs. Inr (x # xs)))"

definition grid_points :: "grid_params \<Rightarrow> spot_instrument \<Rightarrow> rat list res" where
  "grid_points p i =
     bindE (grid_point_list p i [0..gp_intervals p]) (\<lambda>points.
     case points of
       [] \<Rightarrow> Inl KeyError
     | p0 # _ \<Rightarrow>
         if \<not> distinct points \<or> p0 \<le> 0
         then Inl (ValueError ''normalized duplicate or nonpositive Grid levels'')
         else if \<not> (in_minimum_price i \<le> p0 \<and> p0 < last points \<and> last points \<le> in_maximum_price i)
         then Inl (ValueError ''Grid prices outside instrument evidence'')
         else if p0 \<le> gp_stop_price p
         then Inl (ValueError ''normalized Grid stop must remain below range'')
         else Inr points)"

text \<open>The bids strictly below the mark, each paired with its bid and the next point as ask.\<close>

definition selected_slots :: "rat list \<Rightarrow> rat \<Rightarrow> (nat \<times> rat \<times> rat) list" where
  "selected_slots points mark =
     filter (\<lambda>(_, bid, _). bid < mark) (enumerate 0 (zip (butlast points) (tl points)))"

fun arm_slots ::
  "digest \<Rightarrow> rat \<Rightarrow> rat \<Rightarrow> spot_state \<Rightarrow> decision list \<Rightarrow> (nat \<times> rat \<times> rat) list \<Rightarrow> (spot_state \<times> decision list) res" where
  "arm_slots H quantity requested s ds [] = Inr (s, ds)"
| "arm_slots H quantity requested s ds ((i, bid, ask) # rest) =
     (let slot = nat_text i; c = ss_controller s;
          s1 = set_controller s (c\<lparr>ct_slots :=
                 AList.update slot (GridSlot bid ask quantity requested None) (ct_slots c)\<rparr>) in
      bindE (submit_decision H s1 GridBuy slot
          (no_args\<lparr>ia_price := Some bid, ia_quantity := Some quantity\<rparr>) ds) (\<lambda>ds'.
      arm_slots H quantity requested s1 ds' rest))"

definition grid_start ::
  "digest \<Rightarrow> grid_params \<Rightarrow> spot_state \<Rightarrow> decision list \<Rightarrow> (spot_state \<times> decision list) res" where
  "grid_start H p s ds =
     bindE (grid_points p (ss_instrument s)) (\<lambda>points.
     case ss_mark s of None \<Rightarrow> Inl TypeError | Some mark \<Rightarrow>
     if \<not> (hd points \<le> mark \<and> mark \<le> last points)
     then Inl (ValueError ''Grid activation must lie within its range'')
     else
       let selected = selected_slots points mark in
       if selected = [] then Inl (ValueError ''Grid activation has no strictly lower bids'')
       else
         bindE (floor_step (gp_quantity_per_slot p) (in_quantity_step (ss_instrument s))) (\<lambda>quantity.
         let required = dsum (map (\<lambda>(_, bid, _).
               dmul (dmul quantity bid) (fee_factor (pl_buy_quote_fee_cap_bps (ss_policy s)))) selected) in
         if free_quote s < required
         then Inl (ValueError ''insufficient all-in Grid cash/fee budget'')
         else
           bindE (ceil_step (gp_stop_price p) (in_price_tick (ss_instrument s))) (\<lambda>stop.
           bindE (nonneg_field stop) (\<lambda>v.
           if hd points \<le> v then Inl (ValueError ''normalized stop overlaps Grid levels'')
           else
             let c = ss_controller s in
             arm_slots H quantity (gp_quantity_per_slot p)
               (set_controller s (c\<lparr>ct_cycle := ct_cycle c + 1, ct_phase := Active, ct_stop := Some v\<rparr>))
               ds selected))))"

definition pause_slot :: "spot_state \<Rightarrow> string \<Rightarrow> string option \<Rightarrow> spot_state" where
  "pause_slot s slot reason =
     (let c = ss_controller s in
      case map_of (ct_slots c) slot of
        Some (GridSlot bid ask q rq _) \<Rightarrow>
          set_controller s (c\<lparr>ct_slots := AList.update slot (GridSlot bid ask q rq reason) (ct_slots c)\<rparr>)
      | _ \<Rightarrow> s)"

text \<open>Rearm a finished slot on a later closed bar, or record why it is paused.\<close>

definition rearm_slot ::
  "digest \<Rightarrow> grid_params \<Rightarrow> spot_state \<Rightarrow> decision list \<Rightarrow> string \<Rightarrow> rat \<Rightarrow> rat \<Rightarrow> (spot_state \<times> decision list) res" where
  "rearm_slot H p s ds slot bid quantity =
     (let required = dmul (dmul quantity bid) (fee_factor (pl_buy_quote_fee_cap_bps (ss_policy s))) in
      case ss_mark s of None \<Rightarrow> Inl TypeError | Some mark \<Rightarrow>
      if gp_upper_price p < mark \<or> free_quote s < required
      then Inr (pause_slot s slot
             (Some (if gp_upper_price p < mark then ''outside_upper'' else ''insufficient_cash'')), ds)
      else
        let s1 = pause_slot s slot None in
        bindE (submit_decision H s1 GridBuy slot
            (no_args\<lparr>ia_price := Some bid, ia_quantity := Some quantity\<rparr>) ds) (\<lambda>ds'.
        Inr (s1, ds')))"

fun is_closed_bar :: "payload \<Rightarrow> bool" where
  "is_closed_bar (ClosedBar _) = True"
| "is_closed_bar _ = False"

definition grid_slot ::
  "digest \<Rightarrow> grid_params \<Rightarrow> payload \<Rightarrow> spot_state \<times> decision list \<Rightarrow> string \<times> ctl_slot \<Rightarrow> (spot_state \<times> decision list) res" where
  "grid_slot H p payload x entry =
     (let (s, ds) = x; (slot, details) = entry;
          buys = filter (\<lambda>r. it_slot_id (od_intent r) = slot) (owned s (Some GridBuy)) in
      if buys = [] then Inr (s, ds)
      else
        let buy = last buys; bid_id = it_client_order_id (od_intent buy) in
        if \<not> od_terminal_reconciled buy then Inr (s, ds)
        else
          let sells = filter (\<lambda>r. it_parent_order_id (od_intent r) = Some bid_id) (owned s (Some GridSell)) in
          if list_ex (\<lambda>r. \<not> od_terminal_reconciled r) sells then Inr (s, ds)
          else case details of
            DcaSlot _ \<Rightarrow> Inl KeyError
          | GridSlot bid ask amount _ _ \<Rightarrow>
              let remaining = (case map_of (ac_lots (ss_account s)) bid_id of None \<Rightarrow> 0 | Some l \<Rightarrow> lt_quantity l) in
              bindE (sell_quantity s (Some remaining) False) (\<lambda>quantity.
              if in_minimum_quantity (ss_instrument s) \<le> quantity
                 \<and> in_minimum_notional (ss_instrument s) \<le> dmul quantity ask
              then bindE (submit_decision H s GridSell slot
                     (no_args\<lparr>ia_price := Some ask, ia_quantity := Some quantity, ia_parent := Some bid_id\<rparr>) ds) (\<lambda>ds'.
                   Inr (s, ds'))
              else
                let last_terminal = max_or (ss_bar_index s)
                      (List.map_filter od_terminal_bar (buy # sells)) in
                if \<not> is_closed_bar payload \<or> ss_bar_index s \<le> last_terminal then Inr (s, ds)
                else rearm_slot H p s ds slot bid amount))"

definition grid_step ::
  "digest \<Rightarrow> grid_params \<Rightarrow> spot_state \<Rightarrow> payload \<Rightarrow> decision list \<Rightarrow> (spot_state \<times> decision list) res" where
  "grid_step H p0 s payload ds =
     bindE (validate_grid p0) (\<lambda>p.
     if ct_phase (ss_controller s) = Idle \<and> (case payload of ClosedBar b \<Rightarrow> cb_start b | _ \<Rightarrow> False)
     then grid_start H p s ds
     else if ct_phase (ss_controller s) \<noteq> Active then Inr (s, ds)
     else foldE (grid_slot H p payload) (s, ds) (ct_slots (ss_controller s)))"

section \<open>Decisions\<close>

definition decide :: "digest \<Rightarrow> spot_state \<Rightarrow> payload \<Rightarrow> spot_decision res" where
  "decide H s payload =
     (let c = ss_controller s;
          restart = (ct_phase c = Complete \<and> wants_start s payload);
          s0 = (if restart then set_controller s (c\<lparr>ct_terminal_action := None\<rparr>) else s) in
      bindE (common_safety H s0 payload []) (\<lambda>(handled, s1, ds1).
      bindE (if handled then Inr (s1, ds1)
             else case ss_recipe s1 of
               Dca p \<Rightarrow> dca_step H p s1 payload ds1
             | Grid p \<Rightarrow> grid_step H p s1 payload ds1) (\<lambda>(s2, ds2).
      Inr \<lparr> dn_intents = ds2, dn_controller = Some (ss_controller s2),
            dn_cycle_reserve = Some (ac_cycle_reserve (ss_account s2)),
            dn_cleanup_reserve = Some (ac_cleanup_reserve (ss_account s2)) \<rparr>)))"

end
