(* ===== verification/Spot_State.thy ===== *)
theory Spot_State
  imports Spot_Controllers
begin

text \<open>
  \<open>src/koval/engine/spot_multi_order/state.py\<close>: construction of a session, its report, and the
  checksummed export and restore of its state.
\<close>

section \<open>Construction\<close>

definition recipe_budget :: "recipe \<Rightarrow> rat" where
  "recipe_budget r = (case r of Dca p \<Rightarrow> dp_budget_quote p | Grid p \<Rightarrow> gp_budget_quote p)"

definition recipe_fee_reserve :: "recipe \<Rightarrow> rat" where
  "recipe_fee_reserve r = (case r of Dca p \<Rightarrow> dp_fee_reserve_quote p | Grid p \<Rightarrow> gp_fee_reserve_quote p)"

definition fee_caps_check :: "spot_binding \<Rightarrow> spot_policy \<Rightarrow> unit res" where
  "fee_caps_check b pol =
     (let worst = max (pl_maker_fee_bps pol) (pl_taker_fee_bps pol) in
      if pl_fee_asset pol = bd_quote_asset b \<and> pl_buy_quote_fee_cap_bps pol < worst
      then Inl (ValueError ''BUY fee reserve cap below configured costs'')
      else if pl_fee_asset pol = bd_base_asset b \<and> pl_sell_base_fee_cap_bps pol < worst
      then Inl (ValueError ''SELL base fee reserve cap below configured costs'')
      else if pl_fee_asset pol \<notin> {bd_base_asset b, bd_quote_asset b}
         \<and> (pl_third_asset_quote_price pol \<in> {None, Some 0} \<or> pl_third_asset_allowance_quote pol = 0)
      then Inl (ValueError ''third-asset paper fees require valuation evidence and allowance'')
      else Inr ())"

definition recipe_check :: "spot_instrument \<Rightarrow> spot_policy \<Rightarrow> recipe \<Rightarrow> unit res" where
  "recipe_check i pol r =
     (case r of
        Dca p \<Rightarrow>
          if in_maximum_open_orders i < max 2 (dp_max_additions p + 1)
          then Inl (ValueError ''insufficient owned order capacity for DCA base/target/additions'')
          else if dp_budget_quote p < dadd (dca_maximum p pol) (dp_fee_reserve_quote p)
          then Inl (ValueError ''all-in DCA budget cannot fund BUYs plus fee reserve'')
          else Inr ()
      | Grid p \<Rightarrow>
          bindE (grid_points p i) (\<lambda>_.
          bindE (floor_step (gp_quantity_per_slot p) (in_quantity_step i)) (\<lambda>q.
          ensure (in_minimum_quantity i \<le> q) (ValueError ''normalized Grid quantity below minimum''))))"

definition initial_account :: "rat \<Rightarrow> rat \<Rightarrow> rat \<Rightarrow> spot_account" where
  "initial_account cash budget reserve =
     \<lparr> ac_quote_cash = cash, ac_allocation_cash = budget, ac_net_base = 0, ac_remaining_cost = 0,
       ac_realized_profit = 0, ac_bought_base = 0, ac_bought_quote = 0,
       ac_cleanup_reserve = reserve, ac_cycle_reserve = 0, ac_fees_by_asset = [],
       ac_valued_third_fees = 0, ac_fee_records = [], ac_lots = [] \<rparr>"

definition initial_state :: "spot_binding \<Rightarrow> recipe \<Rightarrow> spot_instrument \<Rightarrow> spot_policy \<Rightarrow> spot_state" where
  "initial_state b r i pol =
     \<lparr> ss_binding = b, ss_recipe = r, ss_instrument = i, ss_policy = pol,
       ss_account = initial_account (bd_initial_quote_cash b) (recipe_budget r) (recipe_fee_reserve r),
       ss_controller = initial_controller, ss_orders = [], ss_events = [], ss_trade_ids = [],
       ss_event_sequence = 0, ss_buffered_events = [], ss_reconciliation_required = False,
       ss_reconciliation_revision = 0, ss_quarantine = [], ss_observations = [],
       ss_observation_sequence = 0, ss_bar_index = - 1, ss_last_candle = None,
       ss_liquidity_used = 0, ss_liquidity_allowance = 0, ss_mark = None,
       ss_peak_equity = or_else (bd_initial_peak_equity b) (bd_initial_quote_cash b),
       ss_maximum_drawdown = 0, ss_trace = [], ss_equity_curve = [], ss_commands = [],
       ss_valuations = [], ss_history = [], ss_journal_sequence = 0, ss_journal_sha256 = None,
       ss_stop_reference_bar = None, ss_fee_reconciliation_required = False, ss_replacements = [],
       ss_finished = False, ss_bar_in_progress = False, ss_pending_observation = None,
       ss_price_bar = - 1, ss_price_phase = - 1, ss_price_crossing_index = 0,
       ss_crossing_digests = [], ss_bar_ids = [], ss_closed_bar_digests = [] \<rparr>"

definition create_spot_session ::
  "digest \<Rightarrow> spot_binding \<Rightarrow> recipe \<Rightarrow> spot_instrument \<Rightarrow> spot_policy \<Rightarrow> spot_state res" where
  "create_spot_session H b0 r0 i0 pol0 =
     bindE (validate_binding b0) (\<lambda>b.
     bindE (validate_recipe r0) (\<lambda>r.
     bindE (validate_instrument i0) (\<lambda>i.
     bindE (validate_policy pol0) (\<lambda>pol.
     if bd_policy_sha256 b \<noteq> H (CPolicy pol) \<or> bd_instrument_sha256 b \<noteq> H (CInstrument i)
     then Inl (ValueError ''Spot policy/instrument content binding mismatch'')
     else if (bd_symbol b, bd_base_asset b, bd_quote_asset b) \<noteq> (in_symbol i, in_base_asset i, in_quote_asset i)
     then Inl (ValueError ''Spot instrument identity mismatch'')
     else
       bindE (fee_caps_check b pol) (\<lambda>_.
       if bd_initial_quote_cash b < recipe_budget r
       then Inl (ValueError ''recipe exceeds allocated starting cash'')
       else bindE (recipe_check i pol r) (\<lambda>_. Inr (initial_state b r i pol)))))))"

section \<open>Report\<close>

record spot_report =
  rt_quote_cash :: rat
  rt_allocation_cash :: rat
  rt_quote_reserved :: rat
  rt_order_quote_reserved :: rat
  rt_cycle_quote_reserved :: rat
  rt_cleanup_quote_reserved :: rat
  rt_free_quote :: rat
  rt_base_quantity :: rat
  rt_base_reserved :: rat
  rt_free_base :: rat
  rt_inventory_cost :: rat
  rt_gross_bought_base :: rat
  rt_gross_buy_notional :: rat
  rt_gross_average :: "rat option"
  rt_fee_adjusted_unit_cost :: "rat option"
  rt_realized_profit :: "rat option"
  rt_marked_inventory :: rat
  rt_gross_equity :: rat
  rt_net_equity :: "rat option"
  rt_unvalued_fees :: "string list"
  rt_fees_by_asset :: "rat dict"
  rt_terminal_holding :: rat
  rt_reconciliation_required :: bool
  rt_maximum_drawdown :: rat
  rt_instrument_usage :: evidence_status

definition ratio_or_none :: "rat \<Rightarrow> rat \<Rightarrow> rat option" where
  "ratio_or_none a b = (if b = 0 then None else Some (rnd (a / b)))"

definition spot_execution_report :: "spot_state \<Rightarrow> rat \<Rightarrow> spot_report res" where
  "spot_execution_report s mark0 =
     bindE (number mark0) (\<lambda>mark.
     if mark \<le> 0 then Inl (ValueError ''positive mark required'')
     else
       let a = ss_account s;
           unvalued = map fst (filter (\<lambda>(_, f). fee_unvalued f) (ac_fee_records a));
           gross = dadd (ac_quote_cash a) (dmul (ac_net_base a) mark);
           hidden = (unvalued \<noteq> [] \<or> ss_quarantine s \<noteq> [])
       in Inr
         \<lparr> rt_quote_cash = ac_quote_cash a, rt_allocation_cash = ac_allocation_cash a,
           rt_quote_reserved = dadd (dadd (reserved_quote s) (ac_cycle_reserve a)) (ac_cleanup_reserve a),
           rt_order_quote_reserved = reserved_quote s, rt_cycle_quote_reserved = ac_cycle_reserve a,
           rt_cleanup_quote_reserved = ac_cleanup_reserve a, rt_free_quote = free_quote s,
           rt_base_quantity = ac_net_base a, rt_base_reserved = reserved_base s,
           rt_free_base = free_base s, rt_inventory_cost = ac_remaining_cost a,
           rt_gross_bought_base = ac_bought_base a, rt_gross_buy_notional = ac_bought_quote a,
           rt_gross_average = ratio_or_none (ac_bought_quote a) (ac_bought_base a),
           rt_fee_adjusted_unit_cost = ratio_or_none (ac_remaining_cost a) (ac_net_base a),
           rt_realized_profit = (if hidden then None else Some (ac_realized_profit a)),
           rt_marked_inventory = dmul (ac_net_base a) mark, rt_gross_equity = gross,
           rt_net_equity = (if hidden then None else Some (dsub gross (ac_valued_third_fees a))),
           rt_unvalued_fees = unvalued, rt_fees_by_asset = ac_fees_by_asset a,
           rt_terminal_holding = ac_net_base a,
           rt_reconciliation_required = ss_reconciliation_required s,
           rt_maximum_drawdown = ss_maximum_drawdown s,
           rt_instrument_usage =
             (if bd_mode (ss_binding s) = HistoricalMode \<and> in_status (ss_instrument s) = CurrentSnapshot
              then Approximation else in_status (ss_instrument s)) \<rparr>)"

section \<open>Export and restore\<close>

record spot_document =
  dc_version :: string
  dc_state :: spot_state
  dc_sha256 :: string

definition export_spot_state :: "digest \<Rightarrow> spot_state \<Rightarrow> spot_document" where
  "export_spot_state H s =
     \<lparr> dc_version = ''koval_spot_session_state_v1'', dc_state = s, dc_sha256 = H (CState s) \<rparr>"

text \<open>The fields that validating a stored state checks again.\<close>

definition account_fields_ok :: "spot_account \<Rightarrow> bool" where
  "account_fields_ok a \<longleftrightarrow>
     nonneg_ok (ac_quote_cash a) \<and> nonneg_ok (ac_allocation_cash a) \<and> nonneg_ok (ac_net_base a) \<and>
     nonneg_ok (ac_remaining_cost a) \<and> number_ok (ac_realized_profit a) \<and>
     nonneg_ok (ac_bought_base a) \<and> nonneg_ok (ac_bought_quote a) \<and>
     nonneg_ok (ac_cleanup_reserve a) \<and> nonneg_ok (ac_cycle_reserve a) \<and>
     list_all number_ok (dict_values (ac_fees_by_asset a)) \<and> nonneg_ok (ac_valued_third_fees a) \<and>
     list_all (\<lambda>l. id_ok (lt_lot_id l) \<and> id_ok (lt_slot_id l) \<and> count_ok (lt_creation_sequence l) \<and>
        nonneg_ok (lt_quantity l) \<and> nonneg_ok (lt_cost l) \<and> nonneg_ok (lt_bought_base l) \<and>
        nonneg_ok (lt_bought_quote l)) (dict_values (ac_lots a))"

definition order_fields_ok :: "spot_order \<Rightarrow> bool" where
  "order_fields_ok r \<longleftrightarrow>
     validate_intent (od_intent r) = Inr (od_intent r) \<and>
     nonneg_ok (od_filled_quantity r) \<and> nonneg_ok (od_filled_quote r) \<and>
     nonneg_ok (od_reserved_quote r) \<and> nonneg_ok (od_reserved_base r) \<and>
     count_ok (od_accepted_sequence r) \<and> list_all number_ok (dict_values (od_allocations r))"

definition state_fields_ok :: "spot_state \<Rightarrow> bool" where
  "state_fields_ok s \<longleftrightarrow>
     account_fields_ok (ss_account s) \<and> list_all order_fields_ok (dict_values (ss_orders s)) \<and>
     list_all (\<lambda>e. validate_event e = Inr e) (dict_values (ss_events s)) \<and>
     list_all (\<lambda>e. validate_event e = Inr e) (dict_values (ss_buffered_events s)) \<and>
     count_ok (ss_event_sequence s) \<and> count_ok (ss_reconciliation_revision s) \<and>
     count_ok (ss_observation_sequence s) \<and> nonneg_ok (ss_liquidity_used s) \<and>
     nonneg_ok (ss_liquidity_allowance s) \<and> opt_ok nonneg_ok (ss_mark s) \<and>
     nonneg_ok (ss_peak_equity s) \<and> nonneg_ok (ss_maximum_drawdown s) \<and>
     count_ok (ss_journal_sequence s) \<and> count_ok (ss_price_crossing_index s)"

definition restore_checks :: "spot_state \<Rightarrow> unit res" where
  "restore_checks s =
     (let a = ss_account s; lots = dict_values (ac_lots a) in
      if free_quote s < 0 \<or> free_base s < 0
         \<or> ac_net_base a \<noteq> dsum (map lt_quantity lots)
         \<or> 1 / 10 ^ 240 < \<bar>dsub (ac_remaining_cost a) (dsum (map lt_cost lots))\<bar>
      then Inl (ValueError ''Spot restore account/reservation mismatch'')
      else if ss_liquidity_allowance s < ss_liquidity_used s
         \<or> ss_event_sequence s \<noteq> int (length (ss_events s))
      then Inl (ValueError ''Spot restore execution/liquidity mismatch'')
      else if list_ex (\<lambda>(k, r). k \<noteq> it_client_order_id (od_intent r)
             \<or> (it_account_id (od_intent r), it_session_id (od_intent r), it_symbol (od_intent r))
               \<noteq> (bd_account_id (ss_binding s), bd_session_id (ss_binding s), bd_symbol (ss_binding s)))
           (ss_orders s)
      then Inl (ValueError ''Spot restore order identity mismatch'')
      else Inr ())"

definition restore_spot_state :: "digest \<Rightarrow> spot_document \<Rightarrow> spot_binding \<Rightarrow> spot_state res" where
  "restore_spot_state H d expected =
     (if dc_version d \<noteq> ''koval_spot_session_state_v1'' \<or> dc_sha256 d \<noteq> H (CState (dc_state d))
      then Inl (ValueError ''Spot restore version or integrity mismatch'')
      else
        let s = dc_state d in
        if \<not> state_fields_ok s then Inl (ValidationError ''session state field'')
        else
          bindE (validate_binding expected) (\<lambda>b.
          if ss_binding s \<noteq> b then Inl (ValueError ''Spot restore binding/software mismatch'')
          else
            bindE (create_spot_session H (ss_binding s) (ss_recipe s) (ss_instrument s) (ss_policy s)) (\<lambda>_.
            bindE (restore_checks s) (\<lambda>_. Inr s))))"

end
