(* ===== verification/Spot_Execution.thy ===== *)
theory Spot_Execution
  imports Spot_State
begin

text \<open>
  \<open>src/koval/engine/spot_multi_order/execution.py\<close>: one observation is folded into the session
  state, the recipe decides, and the decisions are admitted. The function is split at the
  steps of the source: what the observation changes (\<open>observe_*\<close>, \<open>ingest\<close>), the decision,
  and the routing of its intents with containment of an admission failure.
\<close>

section \<open>Observations\<close>

definition validate_observation :: "spot_observation \<Rightarrow> spot_observation res" where
  "validate_observation o0 =
     (if id_ok (ob_observation_id o0) \<and> count_ok (ob_sequence o0) \<and> count_ok (ob_timestamp_ms o0)
      then Inr o0 else Inl (ValidationError ''observation field''))"

text \<open>
  The effect of an observation: the updated state, or the updated state of a repeated market
  observation, which \<open>advance_spot\<close> returns at once.
\<close>

datatype ingested = Ingested spot_state payload | Repeated spot_state

definition set_mark :: "spot_state \<Rightarrow> int \<Rightarrow> rat \<Rightarrow> spot_state res" where
  "set_mark s index price =
     bindE (number price) (\<lambda>mark.
     if mark \<le> 0 then Inl (ValueError ''Spot observation price must be positive'')
     else Inr (s\<lparr>ss_bar_index := index, ss_mark := Some mark\<rparr>))"

text \<open>\<open>bar_id\<close>, the crossing and the identity \<open>index:bar_id:crossing\<close> of a price observation.\<close>

definition price_bar_id :: "spot_state \<Rightarrow> price_payload \<Rightarrow> string" where
  "price_bar_id s p =
     (case pp_bar_id p of
        Some b \<Rightarrow> b
      | None \<Rightarrow> (case map_of (ss_bar_ids s) (int_text (pp_bar_index p)) of
                  Some b \<Rightarrow> b | None \<Rightarrow> int_text (pp_bar_index p)))"

definition price_crossing :: "spot_state \<Rightarrow> price_payload \<Rightarrow> int" where
  "price_crossing s p =
     (case pp_crossing_index p of
        Some c \<Rightarrow> c
      | None \<Rightarrow> if ss_price_bar s = pp_bar_index p then ss_price_crossing_index s + 1 else 1)"

definition crossing_identity :: "spot_state \<Rightarrow> price_payload \<Rightarrow> string" where
  "crossing_identity s p =
     int_text (pp_bar_index p) @ '':'' @ price_bar_id s p @ '':'' @ int_text (price_crossing s p)"

definition observe_price :: "digest \<Rightarrow> spot_state \<Rightarrow> price_payload \<Rightarrow> ingested res" where
  "observe_price H s p0 =
     bindE (validate_price_payload p0) (\<lambda>p.
     let index = pp_bar_index p; bar_key = int_text index; bar_id = price_bar_id s p;
         phase = phase_index (pp_phase p); crossing = price_crossing s p;
         identity = crossing_identity s p;
         crossing_digest = H (CCrossing (pp_price p) (pp_phase p)) in
     if index < ss_bar_index s then Inl (ValueError ''stale/invalid Spot bar index'')
     else if map_of (ss_bar_ids s) bar_key \<notin> {None, Some bar_id}
     then Inl (ValueError ''conflicting price candle identity'')
     else
       let s1 = s\<lparr>ss_bar_ids := AList.update bar_key bar_id (ss_bar_ids s)\<rparr>;
           prior = map_of (ss_crossing_digests s1) identity in
       if truthy prior
       then (if prior \<noteq> Some crossing_digest then Inl (ValueError ''conflicting price crossing'')
             else Inr (Repeated s1))
       else if ss_price_bar s1 = index
          \<and> (phase < ss_price_phase s1 \<or> crossing \<le> ss_price_crossing_index s1)
       then Inl (ValueError ''causal price phase/crossing regression'')
       else if map_of (ss_closed_bar_digests s1) bar_key \<noteq> None
       then Inl (ValueError ''price crossing after closed candle decision'')
       else if \<not> count_ok crossing then Inl (ValidationError ''price_crossing_index'')
       else
         bindE (set_mark
             (s1\<lparr>ss_crossing_digests := AList.update identity crossing_digest (ss_crossing_digests s1),
                 ss_price_bar := index, ss_price_phase := phase, ss_price_crossing_index := crossing\<rparr>)
             index (pp_price p)) (\<lambda>s2.
         Inr (Ingested s2 (Price p))))"

definition observe_closed_bar :: "digest \<Rightarrow> spot_state \<Rightarrow> string \<Rightarrow> closed_bar_payload \<Rightarrow> ingested res" where
  "observe_closed_bar H s oid p0 =
     bindE (validate_closed_bar p0) (\<lambda>p.
     let index = cb_bar_index p; bar_key = int_text index; closed_digest = H (CClosedBar p) in
     if index < ss_bar_index s then Inl (ValueError ''stale/invalid Spot bar index'')
     else case map_of (ss_closed_bar_digests s) bar_key of
       Some prior \<Rightarrow>
         if prior \<noteq> closed_digest then Inl (ValueError ''conflicting closed candle identity'')
         else Inr (Repeated s)
     | None \<Rightarrow>
         bindE (set_mark
             (s\<lparr>ss_closed_bar_digests := AList.update bar_key closed_digest (ss_closed_bar_digests s)\<rparr>)
             index (cb_close p)) (\<lambda>s1.
         Inr (Ingested
           (if cb_stop_flatten p \<or> cb_stop_hold p
            then trigger_terminal s1 (if cb_stop_flatten p then StopAndFlatten else StopAndHold)
                   ''signal'' (Some oid)
            else s1) (ClosedBar p))))"

definition observe_command :: "spot_state \<Rightarrow> spot_command \<Rightarrow> spot_state res" where
  "observe_command s c =
     (case cm_action c of
        None \<Rightarrow> Inl (ValueError ''invalid terminal command'')
      | Some action \<Rightarrow>
          let key = cm_command_id c in
          if map_of (ss_commands s) key \<notin> {None, Some c}
          then Inl (ValueError ''conflicting command ID'')
          else
            let s1 = trigger_terminal (s\<lparr>ss_commands := AList.update key c (ss_commands s)\<rparr>) action
                  (case cm_reason c of None \<Rightarrow> ''manual'' | Some r \<Rightarrow> r) (Some key)
            in Inr (s1\<lparr>ss_trace := ss_trace s1 @ [TrCommand c]\<rparr>))"

definition ingest :: "digest \<Rightarrow> spot_state \<Rightarrow> spot_observation \<Rightarrow> ingested res" where
  "ingest H s ob =
     (let keep = (\<lambda>r. bindE r (\<lambda>s'. Inr (Ingested s' (ob_payload ob)))) in
      case ob_payload ob of
        Executions es \<Rightarrow> keep (foldE apply_spot_event s es)
      | Reconciliation q \<Rightarrow> keep (reconcile_spot_state s q)
      | FeeValuation v \<Rightarrow> keep (apply_spot_fee_valuation s v)
      | Price p \<Rightarrow> observe_price H s p
      | ClosedBar p \<Rightarrow> observe_closed_bar H s (ob_observation_id ob) p
      | Command c \<Rightarrow> keep (observe_command s c))"

section \<open>Routing\<close>

definition route :: "spot_state \<Rightarrow> decision \<Rightarrow> spot_state res" where
  "route s d =
     (case d of
        SubmitD i \<Rightarrow> submit_spot_order s i
      | CancelD k g cid \<Rightarrow> cancel_spot_order s k cid g
      | ProtectionD stop \<Rightarrow> Inr (s\<lparr>ss_trace := ss_trace s @ [TrProtection stop]\<rparr>))"

definition contain :: "digest \<Rightarrow> spot_state \<Rightarrow> string \<Rightarrow> (spot_state \<times> spot_decision) res" where
  "contain H routing_base reason =
     (let s0 = set_controller routing_base ((ss_controller routing_base)
             \<lparr>ct_refusal_reason := Some (''admission_failure:'' @ reason)\<rparr>);
          s1 = trigger_terminal s0 StopAndFlatten ''admission_failure'' None in
      bindE (terminal_decisions H s1 []) (\<lambda>(s2, safe).
      bindE (foldE route (s2\<lparr>ss_trace := ss_trace s2 @ [TrContainment reason]\<rparr>) safe) (\<lambda>s3.
      Inr (s3, \<lparr> dn_intents = safe, dn_controller = Some (ss_controller s3),
                 dn_cycle_reserve = Some (ac_cycle_reserve (ss_account s3)),
                 dn_cleanup_reserve = Some (ac_cleanup_reserve (ss_account s3)) \<rparr>))))"

text \<open>The controller and the reserves of a decision enter the candidate before routing.\<close>

definition adopt_decision :: "spot_state \<Rightarrow> spot_decision \<Rightarrow> spot_state res" where
  "adopt_decision s d =
     (case (dn_controller d, dn_cycle_reserve d, dn_cleanup_reserve d) of
        (Some c, Some cy, Some cl) \<Rightarrow>
          Inr (s\<lparr>ss_controller := c,
                 ss_account := (ss_account s)\<lparr>ac_cycle_reserve := cy, ac_cleanup_reserve := cl\<rparr>\<rparr>)
      | _ \<Rightarrow> Inl (ValidationError ''decision without controller''))"

definition route_decision :: "digest \<Rightarrow> spot_state \<Rightarrow> spot_decision \<Rightarrow> (spot_state \<times> spot_decision) res" where
  "route_decision H routing_base d =
     (case foldE route routing_base (dn_intents d) of
        Inr s \<Rightarrow> Inr (s, d)
      | Inl e \<Rightarrow>
          if is_value_error e \<and> ac_net_base (ss_account routing_base) \<noteq> 0
          then contain H routing_base (error_text e)
          else Inl e)"

section \<open>The transition\<close>

definition empty_decision :: spot_decision where
  "empty_decision =
     \<lparr> dn_intents = [], dn_controller = None, dn_cycle_reserve = None, dn_cleanup_reserve = None \<rparr>"

definition unchanged :: "spot_state \<Rightarrow> spot_transition" where
  "unchanged s = \<lparr> tr_state = s, tr_decisions = empty_decision, tr_records = [] \<rparr>"

definition accept_observation :: "spot_state \<Rightarrow> spot_observation \<Rightarrow> string \<Rightarrow> spot_state" where
  "accept_observation s ob d =
     s\<lparr>ss_observations := AList.update (ob_observation_id ob) d (ss_observations s),
       ss_observation_sequence := ob_sequence ob\<rparr>"

definition transition :: "digest \<Rightarrow> spot_state \<Rightarrow> payload \<Rightarrow> nat \<Rightarrow> spot_transition res" where
  "transition H s payload before =
     bindE (decide H s payload) (\<lambda>d.
     bindE (adopt_decision s d) (\<lambda>routing_base.
     bindE (route_decision H routing_base d) (\<lambda>(s', d').
     Inr \<lparr> tr_state = s', tr_decisions = d', tr_records = drop before (ss_trace s') \<rparr>)))"

definition advance_spot :: "digest \<Rightarrow> spot_state \<Rightarrow> spot_observation \<Rightarrow> spot_transition res" where
  "advance_spot H s ob0 =
     bindE (validate_observation ob0) (\<lambda>ob.
     let d = H (CObservation ob); prior = map_of (ss_observations s) (ob_observation_id ob) in
     if truthy prior
     then (if prior \<noteq> Some d then Inl (ValueError ''conflicting observation ID'') else Inr (unchanged s))
     else if ob_sequence ob \<noteq> ss_observation_sequence s + 1
     then Inl (ValueError ''Spot observation sequence mismatch'')
     else
       bindE (ingest H (accept_observation s ob d) ob) (\<lambda>y.
       case y of
         Repeated s' \<Rightarrow> Inr (unchanged s')
       | Ingested s' payload \<Rightarrow> transition H s' payload (length (ss_trace s))))"

end
