(* ===== verification/Spot_Matching.thy ===== *)
theory Spot_Matching
  imports Spot_Account
begin

text \<open>
  \<open>src/koval/engine/spot_multi_order/matching.py\<close>: which orders may match on the current bar, the
  adverse execution price, and the execution event that the paper lane models for a
  reference price.
\<close>

definition eligible :: "spot_state \<Rightarrow> spot_order \<Rightarrow> bool" where
  "eligible s r \<longleftrightarrow>
     \<not> is_terminal (od_status r) \<and> od_status r \<noteq> Unknown \<and>
     it_activation_bar (od_intent r) \<le> ss_bar_index s"

definition cost_fraction :: "spot_policy \<Rightarrow> rat" where
  "cost_fraction pol = dquot (dadd (dquot (pl_spread_bps pol) 2) (pl_slippage_bps pol)) 10000"

definition execution_price :: "spot_state \<Rightarrow> spot_order \<Rightarrow> rat \<Rightarrow> rat res" where
  "execution_price s r reference =
     (let f = cost_fraction (ss_policy s); tick = in_price_tick (ss_instrument s);
          buy = (it_side (od_intent r) = Buy) in
      bindE (if buy then ceil_step (dmul reference (dadd 1 f)) tick
             else floor_step (dmul reference (dsub 1 f)) tick) (\<lambda>price.
      Inr (case it_limit_price (od_intent r) of
             None \<Rightarrow> price
           | Some limit \<Rightarrow> if buy then min price limit else max price limit)))"

definition paper_event_base :: "spot_state \<Rightarrow> spot_order \<Rightarrow> status \<Rightarrow> int \<Rightarrow> spot_event" where
  "paper_event_base s r st ts =
     (let i = od_intent r; n = int_text (ss_event_sequence s + 1) in
      \<lparr> ev_event_id = ''paper-e'' @ n,
        ev_account_id = bd_account_id (ss_binding s), ev_session_id = bd_session_id (ss_binding s),
        ev_symbol = bd_symbol (ss_binding s), ev_client_order_id = it_client_order_id i,
        ev_exchange_order_id = Some (''paper-'' @ it_client_order_id i),
        ev_generation = it_generation i, ev_source_sequence = ss_event_sequence s + 1,
        ev_timestamp_ms = ts, ev_side = it_side i, ev_purpose = it_purpose i, ev_status = st,
        ev_trade_id = None, ev_quantity = 0, ev_price = None, ev_quote_notional = 0,
        ev_cumulative_quantity = od_filled_quantity r, ev_cumulative_quote = od_filled_quote r,
        ev_fees = [] \<rparr>)"

definition status_event :: "spot_state \<Rightarrow> spot_order \<Rightarrow> status \<Rightarrow> int \<Rightarrow> spot_event res" where
  "status_event s r st ts = validate_event (paper_event_base s r st ts)"

text \<open>The single fee record of a modelled execution, in the asset of the policy.\<close>

definition modeled_fees :: "spot_state \<Rightarrow> rat \<Rightarrow> rat \<Rightarrow> spot_fee list res" where
  "modeled_fees s fee_notional price =
     (let pol = ss_policy s; b = ss_binding s; asset = pl_fee_asset pol in
      bindE (if asset = bd_base_asset b then ddiv fee_notional price
             else if asset = bd_quote_asset b then Inr fee_notional
             else (case pl_third_asset_quote_price pol of
                     None \<Rightarrow> Inl TypeError
                   | Some tp \<Rightarrow> ddiv fee_notional tp)) (\<lambda>qty.
      Inr (if qty = 0 then []
           else [\<lparr> fe_asset = asset, fe_quantity = qty,
                   fe_quote_value = (if asset \<notin> {bd_base_asset b, bd_quote_asset b}
                                     then Some fee_notional else None),
                   fe_source = Some (pl_fee_source pol) \<rparr>])))"

definition requested_size :: "spot_state \<Rightarrow> spot_order \<Rightarrow> rat \<Rightarrow> rat res" where
  "requested_size s r price =
     (let i = od_intent r in
      bindE (case it_quote_notional_cap i of
               Some cap \<Rightarrow> ddiv (dsub cap (od_filled_quote r)) price
             | None \<Rightarrow>
                 (case it_quantity i of
                    None \<Rightarrow> Inl TypeError
                  | Some q \<Rightarrow> Inr (dsub q (od_filled_quantity r)))) (\<lambda>raw.
      floor_step raw (step_for (ss_instrument s) (it_order_type i))))"

definition market_size_refused :: "spot_state \<Rightarrow> spot_order \<Rightarrow> rat \<Rightarrow> rat \<Rightarrow> bool" where
  "market_size_refused s r price requested \<longleftrightarrow>
     (let rules = ss_instrument s; n = dmul requested price in
      it_order_type (od_intent r) = Market \<and> od_filled_quantity r = 0 \<and>
      (requested < minimum_for rules Market \<or> maximum_for rules Market < requested \<or>
       in_apply_notional_to_market rules \<and>
         \<not> (in_minimum_notional rules \<le> n \<and> n \<le> in_maximum_notional rules)))"

definition fully_filled :: "spot_state \<Rightarrow> spot_order \<Rightarrow> rat \<Rightarrow> rat \<Rightarrow> rat \<Rightarrow> rat \<Rightarrow> bool res" where
  "fully_filled s r price requested quantity notional =
     (case it_quote_notional_cap (od_intent r) of
        None \<Rightarrow> Inr (quantity = requested)
      | Some cap \<Rightarrow>
          bindE (ddiv (dsub (dsub cap (od_filled_quote r)) notional) price) (\<lambda>raw.
          bindE (floor_step raw (step_for (ss_instrument s) (it_order_type (od_intent r)))) (\<lambda>rest.
          Inr (rest = 0))))"

definition fill_event ::
  "spot_state \<Rightarrow> spot_order \<Rightarrow> rat \<Rightarrow> rat \<Rightarrow> rat \<Rightarrow> bool \<Rightarrow> int \<Rightarrow> spot_event res" where
  "fill_event s r price requested quantity at_open ts =
     (let notional = dmul quantity price;
          taker = (it_order_type (od_intent r) = Market \<or> at_open);
          rate = (if taker then pl_taker_fee_bps (ss_policy s) else pl_maker_fee_bps (ss_policy s));
          fee_notional = dquot (dmul notional rate) 10000 in
      bindE (modeled_fees s fee_notional price) (\<lambda>fees.
      bindE (fully_filled s r price requested quantity notional) (\<lambda>full.
      validate_event
        ((paper_event_base s r (if full then Filled else Partial) ts)
           \<lparr>ev_trade_id := Some (''paper-t'' @ int_text (ss_event_sequence s + 1)),
            ev_quantity := quantity, ev_price := Some price, ev_quote_notional := notional,
            ev_cumulative_quantity := dadd (od_filled_quantity r) quantity,
            ev_cumulative_quote := dadd (od_filled_quote r) notional,
            ev_fees := fees\<rparr>))))"

definition modeled_event ::
  "spot_state \<Rightarrow> spot_order \<Rightarrow> rat \<Rightarrow> bool \<Rightarrow> int \<Rightarrow> spot_event option res" where
  "modeled_event s r reference at_open ts =
     bindE (execution_price s r reference) (\<lambda>price.
     let rules = ss_instrument s in
     if \<not> (in_minimum_price rules \<le> price \<and> price \<le> in_maximum_price rules) \<or> \<not> in_band rules price
     then bindE (status_event s r Rejected ts) (\<lambda>e. Inr (Some e))
     else
       bindE (requested_size s r price) (\<lambda>requested.
       if market_size_refused s r price requested
       then bindE (status_event s r Rejected ts) (\<lambda>e. Inr (Some e))
       else
         bindE (floor_step (min requested (dsub (ss_liquidity_allowance s) (ss_liquidity_used s)))
                  (step_for rules (it_order_type (od_intent r)))) (\<lambda>quantity.
         if quantity \<le> 0 then Inr None
         else bindE (fill_event s r price requested quantity at_open ts) (\<lambda>e. Inr (Some e)))))"

end
