(* ===== verification/Effects.thy ===== *)
theory Effects
  imports Prelude
begin

text \<open>
  Methods of a mutable object. Unlike the reducers of the prelude they keep what they did
  before an exception, so a method is a function from the object to a result and the object it
  leaves. The locale \<open>stable\<close> is the contract of a relation between an object and what a method
  leaves of it, whether the method returned or raised; its rules follow the structure of a
  method, so that a property of the primitive effects becomes one of the whole method.
\<close>

section \<open>Methods\<close>

type_synonym ('s, 'a) eff = "'s \<Rightarrow> 'a res \<times> 's"

definition returnP :: "'a \<Rightarrow> ('s, 'a) eff" where
  "returnP x s = (Inr x, s)"

definition raiseP :: "spot_error \<Rightarrow> ('s, 'a) eff" where
  "raiseP e s = (Inl e, s)"

definition bindP :: "('s, 'a) eff \<Rightarrow> ('a \<Rightarrow> ('s, 'b) eff) \<Rightarrow> ('s, 'b) eff" where
  "bindP m f s = (case m s of (Inl e, s') \<Rightarrow> (Inl e, s') | (Inr x, s') \<Rightarrow> f x s')"

definition liftP :: "'a res \<Rightarrow> ('s, 'a) eff" where
  "liftP r s = (r, s)"

definition getP :: "('s \<Rightarrow> 'a) \<Rightarrow> ('s, 'a) eff" where
  "getP f s = (Inr (f s), s)"

definition modifyP :: "('s \<Rightarrow> 's) \<Rightarrow> ('s, unit) eff" where
  "modifyP f s = (Inr (), f s)"

definition whenP :: "bool \<Rightarrow> ('s, unit) eff \<Rightarrow> ('s, unit) eff" where
  "whenP c m = (if c then m else returnP ())"

definition ensureP :: "bool \<Rightarrow> spot_error \<Rightarrow> ('s, unit) eff" where
  "ensureP c e = (if c then returnP () else raiseP e)"

fun forP :: "'x list \<Rightarrow> ('x \<Rightarrow> ('s, unit) eff) \<Rightarrow> ('s, unit) eff" where
  "forP [] f = returnP ()"
| "forP (x # xs) f = bindP (f x) (\<lambda>_. forP xs f)"

text \<open>\<open>try: m except Exception: f(self); raise\<close>.\<close>

definition on_errorP :: "('s, 'a) eff \<Rightarrow> ('s \<Rightarrow> 's) \<Rightarrow> ('s, 'a) eff" where
  "on_errorP m f s = (case m s of (Inl e, s') \<Rightarrow> (Inl e, f s') | (Inr x, s') \<Rightarrow> (Inr x, s'))"

text \<open>\<open>try: m except Exception: h(); raise\<close>, where the handler may raise in its turn.\<close>

definition handleP :: "('s, 'a) eff \<Rightarrow> ('s, unit) eff \<Rightarrow> ('s, 'a) eff" where
  "handleP m h s =
     (case m s of
        (Inr x, s') \<Rightarrow> (Inr x, s')
      | (Inl e, s') \<Rightarrow> (case h s' of (Inl e', s'') \<Rightarrow> (Inl e', s'') | (Inr _, s'') \<Rightarrow> (Inl e, s'')))"

lemmas effect_defs = returnP_def raiseP_def bindP_def liftP_def getP_def modifyP_def whenP_def ensureP_def
  on_errorP_def handleP_def

section \<open>Relations that methods keep\<close>

definition keeps :: "('s \<Rightarrow> 's \<Rightarrow> bool) \<Rightarrow> ('s, 'a) eff \<Rightarrow> bool" where
  "keeps R m \<longleftrightarrow> (\<forall>s. R s (snd (m s)))"

lemma keepsI: "(\<And>s. R s (snd (m s))) \<Longrightarrow> keeps R m"
  by (simp add: keeps_def)

lemma keepsD: "keeps R m \<Longrightarrow> m s = (r, s') \<Longrightarrow> R s s'"
  by (metis keeps_def snd_conv)

locale stable =
  fixes R :: "'s \<Rightarrow> 's \<Rightarrow> bool"
  assumes stable_refl: "R s s"
    and stable_trans: "R s t \<Longrightarrow> R t u \<Longrightarrow> R s u"
begin

lemma keeps_pure:
  "keeps R (returnP x)" "keeps R (raiseP e)" "keeps R (liftP r)" "keeps R (getP f)" "keeps R (ensureP c e)"
  by (auto simp: keeps_def effect_defs stable_refl)

lemma keeps_modify: "(\<And>s. R s (f s)) \<Longrightarrow> keeps R (modifyP f)"
  by (simp add: keeps_def modifyP_def)

lemma keeps_bind:
  assumes "keeps R m" "\<And>x. keeps R (f x)"
  shows "keeps R (bindP m f)"
proof (rule keepsI)
  fix s
  show "R s (snd (bindP m f s))"
  proof (cases "m s")
    case (Pair r t)
    have "R s t" using keepsD [OF assms(1) Pair] .
    then show ?thesis using Pair assms(2) stable_trans by (cases r) (auto simp: bindP_def keeps_def)
  qed
qed

lemma keeps_when: "(c \<Longrightarrow> keeps R m) \<Longrightarrow> keeps R (whenP c m)"
  using keeps_pure(1) by (auto simp: whenP_def)

lemma keeps_if: "(c \<Longrightarrow> keeps R m) \<Longrightarrow> (\<not> c \<Longrightarrow> keeps R n) \<Longrightarrow> keeps R (if c then m else n)"
  by simp

lemma keeps_for: "(\<And>x. keeps R (f x)) \<Longrightarrow> keeps R (forP xs f)"
  by (induction xs) (simp_all add: keeps_pure keeps_bind)

lemma keeps_on_error:
  assumes "keeps R m" "\<And>s. R s (f s)"
  shows "keeps R (on_errorP m f)"
proof (rule keepsI)
  fix s
  obtain r t where m: "m s = (r, t)" by fastforce
  have "R s t" "R s (f t)" using keepsD [OF assms(1) m] stable_trans [OF _ assms(2) [of t]] by blast+
  then show "R s (snd (on_errorP m f s))" using m by (cases r) (auto simp: on_errorP_def)
qed

lemma keeps_handle:
  assumes "keeps R m" "keeps R h"
  shows "keeps R (handleP m h)"
proof (rule keepsI)
  fix s
  obtain r t where m: "m s = (r, t)" by fastforce
  obtain r' u where h: "h t = (r', u)" by fastforce
  show "R s (snd (handleP m h s))"
    using keepsD [OF assms(1) m] stable_trans [OF keepsD [OF assms(1) m] keepsD [OF assms(2) h]] m h
    by (cases r; cases r') (auto simp: handleP_def)
qed

lemma keeps_cases:
  "keeps R m \<Longrightarrow> (\<And>y. keeps R (f y)) \<Longrightarrow> keeps R (case z of None \<Rightarrow> m | Some y \<Rightarrow> f y)"
  "(\<And>a b. keeps R (g a b)) \<Longrightarrow> keeps R (case p of (a, b) \<Rightarrow> g a b)"
  "keeps R m \<Longrightarrow> (\<And>y ys. keeps R (h y ys)) \<Longrightarrow> keeps R (case zs of [] \<Rightarrow> m | y # ys \<Rightarrow> h y ys)"
  by (simp_all split: option.split prod.split list.split)

lemmas keeps_rules = keeps_cases keeps_pure keeps_bind keeps_when keeps_if keeps_for keeps_on_error keeps_handle

end

section \<open>What a method establishes when it returns\<close>

definition returns :: "('s \<Rightarrow> bool) \<Rightarrow> ('s, 'a) eff \<Rightarrow> ('a \<Rightarrow> 's \<Rightarrow> bool) \<Rightarrow> bool" where
  "returns P m Q \<longleftrightarrow> (\<forall>s x t. P s \<longrightarrow> m s = (Inr x, t) \<longrightarrow> Q x t)"

lemma returnsD: "returns P m Q \<Longrightarrow> P s \<Longrightarrow> m s = (Inr x, t) \<Longrightarrow> Q x t"
  by (auto simp: returns_def)

lemma returns_weaken:
  "returns P m Q \<Longrightarrow> (\<And>s. P' s \<Longrightarrow> P s) \<Longrightarrow> (\<And>x t. Q x t \<Longrightarrow> Q' x t) \<Longrightarrow> returns P' m Q'"
  unfolding returns_def by blast

lemma returns_bind:
  assumes "returns P m M" "\<And>x. returns (M x) (f x) Q"
  shows "returns P (bindP m f) Q"
  unfolding returns_def
proof (intro allI impI)
  fix s y u assume s: "P s" "bindP m f s = (Inr y, u)"
  obtain r t where m: "m s = (r, t)" by fastforce
  show "Q y u"
  proof (cases r)
    case (Inl e)
    then show ?thesis using s m by (simp add: bindP_def)
  next
    case (Inr x)
    have "M x t" using returnsD [OF assms(1) s(1)] m Inr by simp
    then show ?thesis using returnsD [OF assms(2) [of x]] s m Inr by (simp add: bindP_def)
  qed
qed

lemma returns_pure:
  "(\<And>s. P s \<Longrightarrow> Q x s) \<Longrightarrow> returns P (returnP x) Q"
  "returns P (raiseP e) Q'"
  "(\<And>s. P s \<Longrightarrow> T (g s) s) \<Longrightarrow> returns P (getP g) T"
  "(\<And>s. P s \<Longrightarrow> U () (f s)) \<Longrightarrow> returns P (modifyP f) U"
  "(\<And>s y. P s \<Longrightarrow> r = Inr y \<Longrightarrow> V y s) \<Longrightarrow> returns P (liftP r) V"
  "(\<And>s. P s \<Longrightarrow> c \<Longrightarrow> U () s) \<Longrightarrow> returns P (ensureP c e') U"
  by (auto simp: returns_def effect_defs split: if_splits)

lemma returns_if:
  "(c \<Longrightarrow> returns P m Q) \<Longrightarrow> (\<not> c \<Longrightarrow> returns P n Q) \<Longrightarrow> returns P (if c then m else n) Q"
  by simp

lemma returns_when:
  "(c \<Longrightarrow> returns P m Q) \<Longrightarrow> (\<And>s. \<not> c \<Longrightarrow> P s \<Longrightarrow> Q () s) \<Longrightarrow> returns P (whenP c m) Q"
  by (simp add: whenP_def returns_def returnP_def)

text \<open>A handler that raises again never returns, so it establishes nothing.\<close>

lemma returns_handle: "returns P m Q \<Longrightarrow> returns P (handleP m h) Q"
  by (auto simp: returns_def handleP_def split: prod.splits sum.splits)

lemma returns_on_error: "returns P m Q \<Longrightarrow> returns P (on_errorP m f) Q"
  by (auto simp: returns_def on_errorP_def split: prod.splits sum.splits)

text \<open>What holds of the object afterwards, whether the method returned or raised.\<close>

definition always :: "('s \<Rightarrow> bool) \<Rightarrow> ('s, 'a) eff \<Rightarrow> ('s \<Rightarrow> bool) \<Rightarrow> bool" where
  "always P m Q \<longleftrightarrow> (\<forall>s. P s \<longrightarrow> Q (snd (m s)))"

lemma always_bind:
  assumes "returns P m M" "\<And>s e t. P s \<Longrightarrow> m s = (Inl e, t) \<Longrightarrow> Q t" "\<And>x. always (M x) (f x) Q"
  shows "always P (bindP m f) Q"
  unfolding always_def
proof (intro allI impI)
  fix s assume s: "P s"
  obtain r t where m: "m s = (r, t)" by fastforce
  show "Q (snd (bindP m f s))"
  proof (cases r)
    case (Inl e)
    then show ?thesis using assms(2) [OF s] m by (simp add: bindP_def)
  next
    case (Inr x)
    then have "M x t" using returnsD [OF assms(1) s] m by simp
    then show ?thesis using assms(3) m Inr by (simp add: bindP_def always_def)
  qed
qed

end
