(* ===== verification/Spot_Paper.thy ===== *)
theory Spot_Paper
  imports Spot_Execution Spot_Matching Effects "HOL-Library.List_Lexorder" "HOL-Library.Product_Lexorder"
begin

text \<open>
  \<open>src/koval/engine/spot_multi_order/paper.py\<close>: the paper session. It turns a candle into
  observations, feeds them to \<open>advance_spot\<close> and journals every state before it becomes
  current. Unlike the reducers below it, the session is mutated in place and keeps what it
  did before an exception, so a method is a function from the session to a result and the
  session it leaves (\<open>'a paper\<close>).

  Parameters, gathered in \<open>env\<close>: the content digest, the caller's journal sink, which may
  raise, and the bar function of the assembled strategy with its own state \<open>'g\<close>, which returns
  the recipe request. \<open>ps_journal\<close> lists the records the sink has accepted.
\<close>

section \<open>Sessions and their effects\<close>

record recipe_request =
  rr_start :: bool
  rr_stop_hold :: bool
  rr_stop_flatten :: bool

record 'g env =
  en_digest :: digest
  en_sink :: "journal_record \<Rightarrow> string \<Rightarrow> spot_error option"
  en_on_bar :: "'g \<Rightarrow> spot_state \<Rightarrow> int \<Rightarrow> ('g \<times> recipe_request option) res"

record 'g session =
  ps_state :: spot_state
  ps_failed :: bool
  ps_timestamp :: int
  ps_fresh :: bool
  ps_strategy :: 'g
  ps_journal :: "(journal_record \<times> string) list"

type_synonym ('g, 'a) paper = "('g session, 'a) eff"

definition stateP :: "('g, spot_state) paper" where
  "stateP = getP ps_state"

definition lookupP :: "string \<Rightarrow> ('g, spot_order) paper" where
  "lookupP k =
     bindP stateP (\<lambda>s. case map_of (ss_orders s) k of None \<Rightarrow> raiseP KeyError | Some r \<Rightarrow> returnP r)"

text \<open>The constructor, from the parts of the graph it reads: its capabilities, digest and recipes.\<close>

definition new_session ::
  "'g env \<Rightarrow> 'g \<Rightarrow> bool \<Rightarrow> string \<Rightarrow> recipe list \<Rightarrow> spot_binding \<Rightarrow> spot_instrument \<Rightarrow> spot_policy \<Rightarrow> 'g session res" where
  "new_session env g supported graph_sha256 recipes b0 i pol =
     bindE (validate_binding b0) (\<lambda>b.
     if bd_mode b \<noteq> PaperMode \<or> \<not> supported
     then Inl (ValueError ''unsupported Spot paper execution capabilities/mode'')
     else if bd_graph_sha256 b \<noteq> graph_sha256
     then Inl (ValueError ''graph binding and synchronous on_record required'')
     else case recipes of
       [r] \<Rightarrow>
         bindE (create_spot_session (en_digest env) b r i pol) (\<lambda>s.
         Inr \<lparr> ps_state = s, ps_failed = False, ps_timestamp = 0, ps_fresh = True,
               ps_strategy = g, ps_journal = [] \<rparr>)
     | _ \<Rightarrow> Inl (ValueError ''exactly one Spot recipe required''))"

section \<open>Journal and observations\<close>

definition journal_entry :: "digest \<Rightarrow> spot_state \<Rightarrow> spot_state \<Rightarrow> string \<Rightarrow> journal_record" where
  "journal_entry H s candidate kind =
     \<lparr> jr_session_id = bd_session_id (ss_binding candidate), jr_sequence = ss_journal_sequence s + 1,
       jr_previous_sha256 = ss_journal_sha256 s, jr_kind = kind, jr_state = candidate,
       jr_state_sha256 = dc_sha256 (export_spot_state H candidate) \<rparr>"

definition persist :: "'g env \<Rightarrow> spot_state \<Rightarrow> string \<Rightarrow> ('g, unit) paper" where
  "persist env candidate kind p =
     (if ps_failed p then (Inl (RuntimeError ''Spot storage failed; restore a fresh session''), p)
      else
        let record = journal_entry (en_digest env) (ps_state p) candidate kind;
            sha = en_digest env (CRecord record) in
        case en_sink env record sha of
          Some e \<Rightarrow> (Inl e, p\<lparr>ps_failed := True\<rparr>)
        | None \<Rightarrow>
            (Inr (), p\<lparr>ps_state := candidate\<lparr>ss_journal_sequence := jr_sequence record,
                                 ss_journal_sha256 := Some sha\<rparr>,
                       ps_fresh := False, ps_journal := ps_journal p @ [(record, sha)]\<rparr>))"

definition update_state :: "'g env \<Rightarrow> (spot_state \<Rightarrow> spot_state) \<Rightarrow> string \<Rightarrow> ('g, unit) paper" where
  "update_state env f kind = bindP stateP (\<lambda>s. persist env (f s) kind)"

fun kind_text :: "payload \<Rightarrow> string" where
  "kind_text (ClosedBar _) = ''closed_bar''"
| "kind_text (Price _) = ''price''"
| "kind_text (Executions _) = ''executions''"
| "kind_text (Command _) = ''command''"
| "kind_text (Reconciliation _) = ''reconciliation''"
| "kind_text (FeeValuation _) = ''fee_valuation''"

definition next_observation :: "'g session \<Rightarrow> payload \<Rightarrow> spot_observation" where
  "next_observation p payload =
     (let n = ss_observation_sequence (ps_state p) + 1 in
      \<lparr> ob_observation_id = ''paper-o'' @ int_text n, ob_sequence = n,
        ob_timestamp_ms = ps_timestamp p, ob_payload = payload \<rparr>)"

definition advanceP :: "'g env \<Rightarrow> spot_observation \<Rightarrow> ('g, spot_state) paper" where
  "advanceP env ob p =
     (case advance_spot (en_digest env) (ps_state p) ob of
        Inl e \<Rightarrow> (Inl e, p\<lparr>ps_failed := True\<rparr>)
      | Inr t \<Rightarrow> (Inr (tr_state t), p))"

definition observe :: "'g env \<Rightarrow> payload \<Rightarrow> ('g, unit) paper" where
  "observe env payload p =
     bindP (liftP (validate_observation (next_observation p payload))) (\<lambda>ob.
     bindP (update_state env (\<lambda>s. s\<lparr>ss_pending_observation := Some ob\<rparr>) ''observation_received'') (\<lambda>_.
     bindP (advanceP env ob) (\<lambda>s'.
     persist env (s'\<lparr>ss_pending_observation := None\<rparr>) (kind_text payload)))) p"

definition execution :: "'g env \<Rightarrow> spot_event \<Rightarrow> ('g, unit) paper" where
  "execution env e = observe env (Executions [e])"

section \<open>Draining\<close>

definition status_execution :: "'g env \<Rightarrow> spot_order \<Rightarrow> status \<Rightarrow> ('g, unit) paper" where
  "status_execution env r st p =
     bindP (liftP (status_event (ps_state p) r st (ps_timestamp p))) (execution env) p"

definition find_status :: "spot_state \<Rightarrow> status \<Rightarrow> spot_order option" where
  "find_status s st = List.find (\<lambda>r. od_status r = st) (dict_values (ss_orders s))"

text \<open>One iteration of the drain loop: whether it must go on.\<close>

definition drain_step :: "'g env \<Rightarrow> ('g, bool) paper" where
  "drain_step env =
     bindP stateP (\<lambda>s.
     if ss_reconciliation_required s \<or> ss_quarantine s \<noteq> [] then returnP False
     else case find_status s Pending of
       Some r \<Rightarrow> bindP (status_execution env r Accepted) (\<lambda>_. returnP True)
     | None \<Rightarrow>
         (case find_status s CancelPending of
            Some r \<Rightarrow> bindP (status_execution env r Canceled) (\<lambda>_. returnP True)
          | None \<Rightarrow>
              if list_ex (\<lambda>r. is_terminal (od_status r) \<and> \<not> od_terminal_reconciled r)
                   (dict_values (ss_orders s))
              then bindP (liftP (validate_reconciliation (paper_reconciliation s))) (\<lambda>q.
                   bindP (observe env (Reconciliation q)) (\<lambda>_. returnP True))
              else returnP False))"

fun drain_loop :: "'g env \<Rightarrow> nat \<Rightarrow> ('g, unit) paper" where
  "drain_loop env 0 = raiseP (RuntimeError ''Spot transition drain did not converge'')"
| "drain_loop env (Suc n) =
     bindP (drain_step env) (\<lambda>more. if more then drain_loop env n else returnP ())"

definition drain :: "'g env \<Rightarrow> ('g, unit) paper" where
  "drain env = drain_loop env 512"

section \<open>Prices and matching\<close>

definition price :: "'g env \<Rightarrow> rat \<Rightarrow> price_phase \<Rightarrow> ('g, unit) paper" where
  "price env x phase =
     bindP stateP (\<lambda>s.
     bindP (observe env (Price \<lparr> pp_price = x, pp_bar_index = ss_bar_index s, pp_phase = phase,
                                 pp_crossing_index = None, pp_bar_id = None \<rparr>)) (\<lambda>_.
     drain env))"

definition add_liquidity :: "spot_state \<Rightarrow> rat \<Rightarrow> spot_state res" where
  "add_liquidity s q =
     bindE (nonneg_field (dadd (ss_liquidity_used s) q)) (\<lambda>v. Inr (s\<lparr>ss_liquidity_used := v\<rparr>))"

definition match :: "'g env \<Rightarrow> string \<Rightarrow> rat \<Rightarrow> bool \<Rightarrow> ('g, unit) paper" where
  "match env key reference at_open =
     bindP (lookupP key) (\<lambda>r.
     bindP (\<lambda>p. (modeled_event (ps_state p) r reference at_open (ps_timestamp p), p)) (\<lambda>ev.
     case ev of
       None \<Rightarrow> returnP ()
     | Some e \<Rightarrow>
         bindP (whenP (ev_quantity e \<noteq> 0)
             (bindP stateP (\<lambda>s.
              bindP (liftP (add_liquidity s (ev_quantity e))) (\<lambda>s'.
              persist env s' ''liquidity_allocation'')))) (\<lambda>_.
         bindP (execution env e) (\<lambda>_.
         drain env))))"

definition priority :: "spot_order \<Rightarrow> int \<times> int \<times> string" where
  "priority r =
     ((if it_purpose (od_intent r) = Flatten then 0 else if it_side (od_intent r) = Sell then 1 else 2),
      od_accepted_sequence r, it_client_order_id (od_intent r))"

text \<open>Whether a SELL works at the reference, and the pass over the SELLs at one point.\<close>

definition sell_works :: "spot_state \<Rightarrow> spot_order \<Rightarrow> rat \<Rightarrow> bool \<Rightarrow> bool res" where
  "sell_works s r reference at_open =
     (if \<not> eligible s r \<or> it_side (od_intent r) \<noteq> Sell then Inr False
      else if it_order_type (od_intent r) = Market
      then Inr (at_open \<or> (it_purpose (od_intent r) = Flatten
             \<and> ct_terminal_reason (ss_controller s) = Some ''stop''
             \<and> ss_stop_reference_bar s \<noteq> Some (ss_bar_index s)))
      else case it_limit_price (od_intent r) of
        None \<Rightarrow> Inl TypeError
      | Some limit \<Rightarrow> Inr (limit \<le> reference))"

definition sell_at :: "'g env \<Rightarrow> rat \<Rightarrow> bool \<Rightarrow> spot_order \<Rightarrow> ('g, unit) paper" where
  "sell_at env reference at_open old =
     (let key = it_client_order_id (od_intent old) in
      bindP (lookupP key) (\<lambda>r.
      bindP stateP (\<lambda>s.
      bindP (liftP (sell_works s r reference at_open)) (\<lambda>works.
      whenP works
        (bindP (match env (it_client_order_id (od_intent r)) reference at_open) (\<lambda>_.
         whenP (it_purpose (od_intent r) = Flatten \<and> \<not> at_open)
           (update_state env (\<lambda>s. s\<lparr>ss_stop_reference_bar := Some (ss_bar_index s)\<rparr>)
             ''stop_reference_consumed'')))))))"

text \<open>The pass over the BUYs; \<open>True\<close> when a fill put the basket at its stop.\<close>

definition at_stop :: "spot_state \<Rightarrow> rat \<Rightarrow> bool" where
  "at_stop s reference \<longleftrightarrow>
     (case ct_stop (ss_controller s) of None \<Rightarrow> False | Some stop \<Rightarrow> reference \<le> stop)
     \<and> ac_net_base (ss_account s) \<noteq> 0"

definition buy_works :: "spot_state \<Rightarrow> spot_order \<Rightarrow> rat \<Rightarrow> bool \<Rightarrow> bool" where
  "buy_works s r reference at_open \<longleftrightarrow>
     eligible s r \<and> it_side (od_intent r) = Buy \<and>
     \<not> (it_order_type (od_intent r) = Market \<and> \<not> at_open) \<and>
     (case it_limit_price (od_intent r) of None \<Rightarrow> True | Some limit \<Rightarrow> reference \<le> limit)"

fun buy_pass :: "'g env \<Rightarrow> rat \<Rightarrow> bool \<Rightarrow> spot_order list \<Rightarrow> ('g, bool) paper" where
  "buy_pass env reference at_open [] = returnP False"
| "buy_pass env reference at_open (old # rest) =
     bindP (lookupP (it_client_order_id (od_intent old))) (\<lambda>r.
     bindP stateP (\<lambda>s.
     if ct_terminal_action (ss_controller s) \<noteq> None \<or> ss_reconciliation_required s
     then returnP False
     else if \<not> buy_works s r reference at_open then buy_pass env reference at_open rest
     else
       bindP (match env (it_client_order_id (od_intent r)) reference at_open) (\<lambda>_.
       bindP stateP (\<lambda>s'.
       if at_stop s' reference then returnP True
       else buy_pass env reference at_open rest))))"

fun point :: "'g env \<Rightarrow> nat \<Rightarrow> rat \<Rightarrow> price_phase \<Rightarrow> bool \<Rightarrow> ('g, unit) paper" where
  "point env 0 reference phase at_open = raiseP (RuntimeError ''maximum recursion depth exceeded'')"
| "point env (Suc depth) reference phase at_open =
     bindP stateP (\<lambda>s.
     bindP (whenP (at_stop s reference \<and> ct_phase (ss_controller s) \<noteq> StoppedHolding)
              (price env reference phase)) (\<lambda>_.
     bindP stateP (\<lambda>s1.
     let initial = sort_key priority (dict_values (ss_orders s1)) in
     bindP (forP initial (sell_at env reference at_open)) (\<lambda>_.
     bindP (price env reference phase) (\<lambda>_.
     bindP (buy_pass env reference at_open initial) (\<lambda>again.
     whenP again (point env depth reference phase False)))))))"

text \<open>The depth at which Python itself gives up a recursion.\<close>

definition recursion_limit :: nat where
  "recursion_limit = 1000"

section \<open>Legs of a candle\<close>

definition leg_candidates :: "spot_state \<Rightarrow> bool \<Rightarrow> rat \<Rightarrow> rat \<Rightarrow> rat list" where
  "leg_candidates s descending cursor end_price =
     end_price # List.map_filter (\<lambda>r.
        if eligible s r
        then (case it_limit_price (od_intent r) of
                None \<Rightarrow> None
              | Some x \<Rightarrow>
                  if descending \<and> it_side (od_intent r) = Buy \<and> end_price \<le> x \<and> x < cursor
                     \<or> \<not> descending \<and> it_side (od_intent r) = Sell \<and> cursor < x \<and> x \<le> end_price
                  then Some x else None)
        else None) (dict_values (ss_orders s)) @
     (case ct_stop (ss_controller s) of
        None \<Rightarrow> []
      | Some stop \<Rightarrow>
          if descending \<and> ac_net_base (ss_account s) \<noteq> 0 \<and> end_price \<le> stop \<and> stop < cursor
          then [stop] else [])"

definition following :: "bool \<Rightarrow> rat list \<Rightarrow> rat" where
  "following descending xs = (if descending then foldl max (hd xs) (tl xs) else foldl min (hd xs) (tl xs))"

text \<open>The loop of \<open>_leg\<close>, with a bound on its iterations.\<close>

fun leg_loop :: "'g env \<Rightarrow> nat \<Rightarrow> bool \<Rightarrow> rat \<Rightarrow> rat \<Rightarrow> price_phase \<Rightarrow> ('g, unit) paper" where
  "leg_loop env n descending cursor end_price phase =
     (if cursor = end_price then returnP ()
      else case n of
        0 \<Rightarrow> raiseP (RuntimeError ''price path bound exceeded'')
      | Suc m \<Rightarrow>
          bindP stateP (\<lambda>s.
          let x = following descending (leg_candidates s descending cursor end_price) in
          bindP (point env recursion_limit x phase False) (\<lambda>_.
          leg_loop env m descending x end_price phase)))"

declare leg_loop.simps [simp del]

definition leg :: "'g env \<Rightarrow> nat \<Rightarrow> rat \<Rightarrow> rat \<Rightarrow> price_phase \<Rightarrow> ('g, unit) paper" where
  "leg env bound start end_price phase = leg_loop env bound (end_price < start) start end_price phase"

section \<open>Candles\<close>

definition DEFAULT_HISTORY_BARS :: nat where
  "DEFAULT_HISTORY_BARS = 1000"

definition last_bars :: "'a list \<Rightarrow> 'a list" where
  "last_bars xs = drop (length xs - DEFAULT_HISTORY_BARS) xs"

text \<open>The input checks of \<open>on_candle\<close>: \<open>True\<close> for an exact repeat of the last candle.\<close>

definition candle_check :: "spot_state \<Rightarrow> candle \<Rightarrow> bool res" where
  "candle_check s c =
     (if \<not> candle_numbers_ok c then Inl (ValueError ''invalid or oversized Spot decimal'')
      else bindE (timeframe_ms (bd_timeframe (ss_binding s))) (\<lambda>interval.
        if \<not> candle_shape_ok c \<or> \<lfloor>cd_timestamp c\<rfloor> mod interval \<noteq> 0
        then Inl (ValueError ''invalid Spot OHLCV candle'')
        else bindE (case ss_last_candle s of
            None \<Rightarrow> Inr False
          | Some prev \<Rightarrow>
              if cd_timestamp c = cd_timestamp prev
              then (if c = prev then Inr True else Inl (ValueError ''conflicting reconnect candle''))
              else if cd_timestamp c \<noteq> dadd (cd_timestamp prev) (of_int interval)
              then Inl (ValueError ''Spot candle gap or out-of-order input'')
              else Inr False) (\<lambda>repeat.
          if repeat then Inr True
          else if (case bd_evaluation_end_ms (ss_binding s) of
                     None \<Rightarrow> False | Some t \<Rightarrow> of_int t \<le> cd_timestamp c)
          then Inl (ValueError ''candle outside evaluation interval'')
          else if in_status (ss_instrument s) = Historical
             \<and> \<not> (of_int (in_effective_from_ms (ss_instrument s)) \<le> cd_timestamp c
                  \<and> cd_timestamp c \<le> of_int (in_effective_to_ms (ss_instrument s)))
          then Inl (ValueError ''historical instrument evidence does not cover candle'')
          else Inr False)))"

text \<open>The candidate that \<open>on_candle\<close> persists first, with the limit prices the bar spans.\<close>

definition spanned_levels :: "spot_state \<Rightarrow> candle \<Rightarrow> rat list" where
  "spanned_levels s c =
     filter (\<lambda>x. cd_low c \<le> x \<and> x \<le> cd_high c)
       (List.map_filter (\<lambda>r. it_limit_price (od_intent r))
         (filter (eligible s) (dict_values (ss_orders s))))"

definition receive_candle :: "spot_state \<Rightarrow> candle \<Rightarrow> spot_state res" where
  "receive_candle s c =
     bindE (nonneg_field (dmul (cd_volume c) (pl_maximum_volume_participation (ss_policy s)))) (\<lambda>allowance.
     let s1 = s\<lparr>ss_bar_index := ss_bar_index s + 1, ss_bar_in_progress := True,
                ss_last_candle := Some c, ss_history := last_bars (ss_history s @ [c]),
                ss_liquidity_allowance := allowance, ss_liquidity_used := 0\<rparr>;
         levels = spanned_levels s1 c in
     Inr (if 1 < length levels
          then s1\<lparr>ss_trace := ss_trace s1 @ [TrAmbiguity (ss_bar_index s1) levels]\<rparr> else s1))"

definition expire_order :: "'g env \<Rightarrow> spot_order \<Rightarrow> ('g, unit) paper" where
  "expire_order env r =
     bindP stateP (\<lambda>s.
     whenP (eligible s r \<and>
            (case it_expires_after_bars (od_intent r) of
               None \<Rightarrow> False
             | Some n \<Rightarrow> n \<noteq> 0 \<and> it_activation_bar (od_intent r) + n \<le> ss_bar_index s))
       (status_execution env r Expired))"

definition run_strategy :: "'g env \<Rightarrow> int \<Rightarrow> ('g, recipe_request option) paper" where
  "run_strategy env decision_ms p =
     (case en_on_bar env (ps_strategy p) (ps_state p) decision_ms of
        Inl e \<Rightarrow> (Inl e, p)
      | Inr (g, req) \<Rightarrow> (Inr req, p\<lparr>ps_strategy := g\<rparr>))"

definition closed_bar_of :: "spot_state \<Rightarrow> candle \<Rightarrow> int \<Rightarrow> recipe_request option \<Rightarrow> closed_bar_payload" where
  "closed_bar_of s c decision_ms req =
     \<lparr> cb_bar_index = ss_bar_index s, cb_close = cd_close c,
       cb_start =
         (case req of
            None \<Rightarrow> False
          | Some r \<Rightarrow> rr_start r \<and>
              (case bd_evaluation_start_ms (ss_binding s) of
                 None \<Rightarrow> True | Some t \<Rightarrow> of_int t \<le> cd_timestamp c)),
       cb_stop_hold = (case req of None \<Rightarrow> False | Some r \<Rightarrow> rr_stop_hold r),
       cb_stop_flatten = (case req of None \<Rightarrow> False | Some r \<Rightarrow> rr_stop_flatten r),
       cb_ohlcv = None, cb_decision_timestamp_ms = Some decision_ms \<rparr>"

text \<open>The equity point of the closed bar: peak, drawdown and curve.\<close>

definition record_equity :: "spot_state \<Rightarrow> rat \<Rightarrow> int \<Rightarrow> spot_state res" where
  "record_equity s close decision_ms =
     bindE (spot_execution_report s close) (\<lambda>report.
     case rt_net_equity report of
       None \<Rightarrow> Inr s
     | Some equity \<Rightarrow>
         bindE (nonneg_field (max (ss_peak_equity s) equity)) (\<lambda>peak.
         bindE (ddiv (dsub peak equity) peak) (\<lambda>drawdown.
         bindE (nonneg_field (max (ss_maximum_drawdown s) drawdown)) (\<lambda>dd.
         Inr (s\<lparr>ss_peak_equity := peak, ss_maximum_drawdown := dd,
                ss_equity_curve := ss_equity_curve s @
                  [\<lparr> eq_timestamp_ms = decision_ms, eq_net_equity = equity,
                     eq_inventory = ac_net_base (ss_account s) \<rparr>]\<rparr>)))))"

definition close_bar :: "spot_state \<Rightarrow> rat \<Rightarrow> int \<Rightarrow> spot_state res" where
  "close_bar s close decision_ms =
     bindE (record_equity s close decision_ms) (\<lambda>s1. Inr (s1\<lparr>ss_bar_in_progress := False\<rparr>))"

text \<open>
  Every price at which a leg can stop is a limit price, the stop or the end of the leg; the
  bound of a leg is the number of ticks it spans, plus one.
\<close>

definition leg_bound :: "spot_state \<Rightarrow> rat \<Rightarrow> rat \<Rightarrow> nat" where
  "leg_bound s a b = Suc (nat \<lceil>\<bar>a - b\<bar> / in_price_tick (ss_instrument s)\<rceil>)"

definition play_candle :: "'g env \<Rightarrow> candle \<Rightarrow> ('g, unit) paper" where
  "play_candle env c =
     bindP stateP (\<lambda>s.
     bindP (forP (dict_values (ss_orders s)) (expire_order env)) (\<lambda>_.
     bindP (drain env) (\<lambda>_.
     bindP (point env recursion_limit (cd_open c) PhOpen True) (\<lambda>_.
     bindP (leg env (leg_bound s (cd_open c) (cd_low c)) (cd_open c) (cd_low c) PhDescending) (\<lambda>_.
     bindP (leg env (leg_bound s (cd_low c) (cd_high c)) (cd_low c) (cd_high c) PhAscending) (\<lambda>_.
     bindP (leg env (leg_bound s (cd_high c) (cd_close c)) (cd_high c) (cd_close c) PhClose) (\<lambda>_.
     price env (cd_close c) PhClose)))))))"

definition decide_bar :: "'g env \<Rightarrow> candle \<Rightarrow> int \<Rightarrow> ('g, unit) paper" where
  "decide_bar env c decision_ms =
     bindP (run_strategy env decision_ms) (\<lambda>req.
     bindP stateP (\<lambda>s.
     bindP (observe env (ClosedBar (closed_bar_of s c decision_ms req))) (\<lambda>_.
     bindP (drain env) (\<lambda>_.
     bindP stateP (\<lambda>s1.
     bindP (liftP (close_bar s1 (cd_close c) decision_ms)) (\<lambda>s2.
     persist env s2 ''candle_processed''))))))"

definition set_timestamp :: "int \<Rightarrow> ('g, unit) paper" where
  "set_timestamp t p = (Inr (), p\<lparr>ps_timestamp := t\<rparr>)"

definition on_candle :: "'g env \<Rightarrow> candle \<Rightarrow> ('g, unit) paper" where
  "on_candle env c p =
     (if ps_failed p then (Inl (RuntimeError ''Spot storage failed; restore a fresh session''), p)
      else if ss_finished (ps_state p)
      then (Inl (ValueError ''Spot paper session has reached end of data''), p)
      else if ss_bar_in_progress (ps_state p)
      then (Inl (RuntimeError ''incomplete candle requires fresh recovery''), p)
      else
        bindP (liftP (candle_check (ps_state p) c)) (\<lambda>repeat.
        if repeat then returnP ()
        else
          bindP (liftP (timeframe_ms (bd_timeframe (ss_binding (ps_state p))))) (\<lambda>interval.
          bindP (set_timestamp \<lfloor>cd_timestamp c\<rfloor>) (\<lambda>_.
          bindP (liftP (receive_candle (ps_state p) c)) (\<lambda>s1.
          bindP (persist env s1 ''candle_received'') (\<lambda>_.
          bindP (play_candle env c) (\<lambda>_.
          decide_bar env c (\<lfloor>cd_timestamp c\<rfloor> + interval))))))) p)"

section \<open>Commands, end of data and recovery\<close>

definition command :: "'g env \<Rightarrow> spot_command \<Rightarrow> ('g, unit) paper" where
  "command env c = bindP (observe env (Command c)) (\<lambda>_. drain env)"

definition finish_order :: "'g env \<Rightarrow> spot_order \<Rightarrow> ('g, unit) paper" where
  "finish_order env r =
     bindP stateP (\<lambda>s.
     case ss_mark s of
       None \<Rightarrow> returnP ()
     | Some mark \<Rightarrow>
         whenP (it_purpose (od_intent r) = Flatten \<and> \<not> is_terminal (od_status r))
           (match env (it_client_order_id (od_intent r)) mark False))"

definition finish :: "'g env \<Rightarrow> terminal_action option \<Rightarrow> ('g, unit) paper" where
  "finish env policy =
     bindP stateP (\<lambda>s.
     let action = (case policy of None \<Rightarrow> bd_end_of_data_policy (ss_binding s) | Some a \<Rightarrow> a) in
     if ss_finished s
     then (if (case map_of (ss_commands s) ''end-of-data'' of
                 None \<Rightarrow> True | Some prior \<Rightarrow> cm_action prior \<noteq> Some action)
           then raiseP (ValueError ''conflicting end-of-data policy'') else returnP ())
     else
       bindP (command env \<lparr> cm_command_id = ''end-of-data'', cm_action = Some action,
                            cm_reason = Some ''end_of_data'' \<rparr>) (\<lambda>_.
       bindP stateP (\<lambda>s1.
       bindP (whenP (action = StopAndFlatten \<and> \<not> ss_reconciliation_required s1)
           (forP (dict_values (ss_orders s1)) (finish_order env))) (\<lambda>_.
       update_state env (\<lambda>s. s\<lparr>ss_finished := True\<rparr>) ''end_of_data''))))"

definition replay_record ::
  "digest \<Rightarrow> spot_binding \<Rightarrow> spot_state \<Rightarrow> journal_record \<times> string \<Rightarrow> spot_state res" where
  "replay_record H b s x =
     (let (record, sha) = x in
      if H (CRecord record) \<noteq> sha \<or> jr_sequence record \<noteq> ss_journal_sequence s + 1
         \<or> jr_previous_sha256 record \<noteq> ss_journal_sha256 s
      then Inl (ValueError ''incomplete or conflicting journal suffix'')
      else
        bindE (restore_spot_state H \<lparr> dc_version = ''koval_spot_session_state_v1'',
            dc_state = jr_state record, dc_sha256 = jr_state_sha256 record \<rparr> b) (\<lambda>s'.
        Inr (s'\<lparr>ss_journal_sequence := jr_sequence record, ss_journal_sha256 := Some sha\<rparr>)))"

definition restore_state ::
  "'g env \<Rightarrow> spot_document \<Rightarrow> (journal_record \<times> string) list \<Rightarrow> ('g, unit) paper" where
  "restore_state env document suffix p =
     (if \<not> ps_fresh p \<or> ps_failed p then (Inl (ValueError ''restore requires a fresh paper session''), p)
      else
        let b = ss_binding (ps_state p); H = en_digest env in
        case bindE (restore_spot_state H document b) (\<lambda>s. foldE (replay_record H b) s suffix) of
          Inl e \<Rightarrow> (Inl e, p)
        | Inr s \<Rightarrow>
            if ss_bar_in_progress s \<or> ss_pending_observation s \<noteq> None
            then (Inl (ValueError
              ''incomplete candle checkpoint requires complete committed journal suffix''), p)
            else (Inr (), p\<lparr>ps_state := s,
                 ps_timestamp := (case ss_last_candle s of None \<Rightarrow> 0 | Some c \<Rightarrow> \<lfloor>cd_timestamp c\<rfloor>),
                 ps_fresh := False\<rparr>))"

end
