(* ===== verification/Account_Facts.thy ===== *)
theory Account_Facts
  imports Spot_Account
begin

text \<open>
  What each accounting operation changes, as facts about its result. The loops of
  \<open>account.py\<close> (over lots and over fees) are \<open>framed_reducer\<close>s: each iteration leaves a frame
  of the state alone, so the loop does. The later theories use only these facts.
\<close>

section \<open>Assignments and dictionary updates\<close>

lemma nonneg_field_eq [simp]: "nonneg_field x = Inr y \<longleftrightarrow> nonneg_ok x \<and> y = x"
  by (auto simp: nonneg_field_def)

lemma number_field_eq [simp]: "number_field x = Inr y \<longleftrightarrow> number_ok x \<and> y = x"
  by (auto simp: number_field_def)

lemma nonneg_okD [dest]: "nonneg_ok x \<Longrightarrow> 0 \<le> x"
  by (simp add: nonneg_ok_def)

lemma values_view_update:
  "map_of d k = Some r \<Longrightarrow> f r' = f r \<Longrightarrow>
   map (f \<circ> snd) (AList.update k r' d) = map (f \<circ> snd) d"
  by (induction d) (auto split: if_splits)

lemma update_update: "AList.update k x (AList.update k y d) = AList.update k x d"
  by (induction d) auto

section \<open>Releasing lots\<close>

definition order_core :: "spot_order \<Rightarrow> spot_order" where
  "order_core r = r\<lparr>od_allocations := []\<rparr>"

definition account_core :: "spot_account \<Rightarrow> spot_account" where
  "account_core a = a\<lparr>ac_fee_records := [], ac_lots := []\<rparr>"

lemma order_coreD:
  assumes "order_core r' = order_core r"
  shows "r' = r\<lparr>od_allocations := od_allocations r'\<rparr>"
  using assms by (cases r; cases r') (simp add: order_core_def)

lemma account_coreD:
  assumes "account_core a' = account_core a"
  shows "a' = a\<lparr>ac_fee_records := ac_fee_records a', ac_lots := ac_lots a'\<rparr>"
  using assms by (cases a; cases a') (simp add: account_core_def)

interpretation release: framed_reducer release_lot
    "\<lambda>x. (order_core (rl_order x), account_core (rl_account x))"
  by unfold_locales (auto simp: release_lot_def Let_def order_core_def account_core_def)

lemma settle_basketD:
  assumes "settle_basket removed tot cost lots x = Inr y"
  shows "rl_order y = rl_order x" "account_core (rl_account y) = account_core (rl_account x)"
  using assms by (auto simp: settle_basket_def Let_def account_core_def)

lemma consume_lotsD:
  assumes "consume_lots s r removed sold = Inr (s1, r1, released)"
  shows "order_core r1 = order_core r"
    and "account_core (ss_account s1) = account_core (ss_account s)"
    and "\<exists>a t. s1 = s\<lparr>ss_account := a, ss_trace := ss_trace s @ [t]\<rparr>"
proof -
  let ?start = "\<lparr>rl_account = ss_account s, rl_order = r, rl_released = 0, rl_allocations = []\<rparr>"
  obtain shares x y where x: "foldE release_lot ?start shares = Inr x"
    and y: "y = x \<or> (\<exists>lots. settle_basket removed (ac_net_base (ss_account s))
                 (ac_remaining_cost (ss_account s)) lots x = Inr y)"
    and s1: "s1 = s\<lparr>ss_account := rl_account y, ss_trace := ss_trace s @
              [TrLotRelease (it_client_order_id (od_intent r)) (rl_allocations x) sold]\<rparr>"
    and r1: "r1 = rl_order y"
    using assms supply foldE.simps [simp del]
    by (auto simp: consume_lots_def Let_def split: if_splits)
  have "order_core (rl_order x) = order_core r \<and> account_core (rl_account x) = account_core (ss_account s)"
    using release.fold_view [OF x] by simp
  then show "order_core r1 = order_core r" "account_core (ss_account s1) = account_core (ss_account s)"
    using y settle_basketD by (auto simp: s1 r1)
  show "\<exists>a t. s1 = s\<lparr>ss_account := a, ss_trace := ss_trace s @ [t]\<rparr>" unfolding s1 by blast
qed

section \<open>Recording fees\<close>

text \<open>The state without what the fee loop and a valuation may change.\<close>

definition fee_frame :: "spot_state \<Rightarrow> spot_state" where
  "fee_frame s =
     s\<lparr>ss_account := (ss_account s)\<lparr>ac_fees_by_asset := [], ac_fee_records := [],
         ac_valued_third_fees := 0, ac_remaining_cost := 0, ac_lots := [], ac_realized_profit := 0\<rparr>,
       ss_controller := (ss_controller s)\<lparr>ct_refusal_reason := None\<rparr>,
       ss_fee_reconciliation_required := False\<rparr>"

lemma fee_frameD:
  assumes "fee_frame s' = fee_frame s"
  shows "\<exists>a x b. s' = s\<lparr>ss_account := a, ss_controller := (ss_controller s)\<lparr>ct_refusal_reason := x\<rparr>,
           ss_fee_reconciliation_required := b\<rparr>"
    and "ss_account s' = (ss_account s)\<lparr>ac_fees_by_asset := ac_fees_by_asset (ss_account s'),
           ac_fee_records := ac_fee_records (ss_account s'),
           ac_valued_third_fees := ac_valued_third_fees (ss_account s'),
           ac_remaining_cost := ac_remaining_cost (ss_account s'),
           ac_lots := ac_lots (ss_account s'), ac_realized_profit := ac_realized_profit (ss_account s')\<rparr>"
proof -
  let ?a = "ss_account s" and ?a' = "ss_account s'" and ?c = "ss_controller s" and ?c' = "ss_controller s'"
  have "ss_account (fee_frame s') = ss_account (fee_frame s)" using assms by simp
  then show "ss_account s' = (ss_account s)\<lparr>ac_fees_by_asset := ac_fees_by_asset (ss_account s'),
           ac_fee_records := ac_fee_records (ss_account s'),
           ac_valued_third_fees := ac_valued_third_fees (ss_account s'),
           ac_remaining_cost := ac_remaining_cost (ss_account s'),
           ac_lots := ac_lots (ss_account s'), ac_realized_profit := ac_realized_profit (ss_account s')\<rparr>"
    unfolding fee_frame_def by (cases ?a; cases ?a') simp
  have "ss_controller (fee_frame s') = ss_controller (fee_frame s)" using assms by simp
  then have c: "?c' = ?c\<lparr>ct_refusal_reason := ct_refusal_reason ?c'\<rparr>"
    unfolding fee_frame_def by (cases ?c; cases ?c') simp
  have "s' = s\<lparr>ss_account := ?a', ss_controller := ?c',
      ss_fee_reconciliation_required := ss_fee_reconciliation_required s'\<rparr>"
    using assms unfolding fee_frame_def by (cases s; cases s') simp
  then show "\<exists>a x b. s' = s\<lparr>ss_account := a, ss_controller := (ss_controller s)\<lparr>ct_refusal_reason := x\<rparr>,
           ss_fee_reconciliation_required := b\<rparr>"
    using c by metis
qed

lemma value_fee_frame:
  assumes "value_fee s fee_id v = Inr s'"
  shows "fee_frame s' = fee_frame s"
  using assms by (auto simp: value_fee_def Let_def fee_frame_def split: option.splits if_splits)

interpretation fees: framed_reducer "record_fee e" fee_frame for e
proof
  fix s s' :: spot_state and x
  assume "record_fee e s x = Inr s'"
  then show "fee_frame s' = fee_frame s"
    by (cases x) (auto simp: record_fee_def Let_def fee_frame_def
        split: option.splits if_splits dest!: value_fee_frame)
qed

section \<open>One fill\<close>

lemma fill_buyD:
  assumes "fill_buy s e r bf qf = Inr (s1, r1)"
  defines "debit \<equiv> dadd (ev_quote_notional e) qf" and "net \<equiv> dsub (ev_quantity e) bf"
  shows "\<exists>a. s1 = s\<lparr>ss_account := a\<rparr>"
    and "r1 = r\<lparr>od_reserved_quote := dsub (od_reserved_quote r) debit\<rparr>"
    and "0 < net" "debit \<le> od_reserved_quote r" "debit \<le> ac_allocation_cash (ss_account s)"
    and "\<exists>l. ss_account s1 = (ss_account s)\<lparr>
           ac_quote_cash := dsub (ac_quote_cash (ss_account s)) debit,
           ac_allocation_cash := dsub (ac_allocation_cash (ss_account s)) debit,
           ac_net_base := dadd (ac_net_base (ss_account s)) net,
           ac_remaining_cost := dadd (ac_remaining_cost (ss_account s)) debit,
           ac_bought_base := dadd (ac_bought_base (ss_account s)) (ev_quantity e),
           ac_bought_quote := dadd (ac_bought_quote (ss_account s)) (ev_quote_notional e),
           ac_lots := AList.update (ev_client_order_id e) l (ac_lots (ss_account s))\<rparr>"
  using assms by (auto simp: fill_buy_def Let_def)

lemma fill_sellD:
  assumes "fill_sell s e r bf qf = Inr (s1, r1)"
  defines "removed \<equiv> dadd (ev_quantity e) bf" and "proceeds \<equiv> dsub (ev_quote_notional e) qf"
  shows "\<exists>a t. s1 = s\<lparr>ss_account := a, ss_trace := ss_trace s @ [t]\<rparr>"
    and "r1 = r\<lparr>od_reserved_base := dsub (od_reserved_base r) removed, od_allocations := od_allocations r1\<rparr>"
    and "removed \<le> od_reserved_base r" "removed \<le> ac_net_base (ss_account s)" "0 \<le> proceeds"
    and "\<exists>fr lots released. ss_account s1 = (ss_account s)\<lparr>
           ac_quote_cash := dadd (ac_quote_cash (ss_account s)) proceeds,
           ac_allocation_cash := dadd (ac_allocation_cash (ss_account s)) proceeds,
           ac_net_base := dsub (ac_net_base (ss_account s)) removed,
           ac_remaining_cost := dsub (ac_remaining_cost (ss_account s)) released,
           ac_realized_profit := dadd (ac_realized_profit (ss_account s)) (dsub proceeds released),
           ac_fee_records := fr, ac_lots := lots\<rparr>"
proof -
  obtain s0 r0 released where c: "consume_lots s r removed (ev_quantity e) = Inr (s0, r0, released)"
    and s1: "s1 = s0\<lparr>ss_account := (ss_account s0)\<lparr>
          ac_quote_cash := dadd (ac_quote_cash (ss_account s0)) proceeds,
          ac_allocation_cash := dadd (ac_allocation_cash (ss_account s0)) proceeds,
          ac_net_base := dsub (ac_net_base (ss_account s0)) removed,
          ac_remaining_cost := dsub (ac_remaining_cost (ss_account s0)) released,
          ac_realized_profit := dadd (ac_realized_profit (ss_account s0)) (dsub proceeds released)\<rparr>\<rparr>"
    and r1: "r1 = r0\<lparr>od_reserved_base := dsub (od_reserved_base r0) removed\<rparr>"
    and guards: "removed \<le> od_reserved_base r" "removed \<le> ac_net_base (ss_account s)" "0 \<le> proceeds"
    using assms(1) unfolding removed_def proceeds_def by (auto simp: fill_sell_def Let_def)
  show "removed \<le> od_reserved_base r" "removed \<le> ac_net_base (ss_account s)" "0 \<le> proceeds"
    by (fact guards)+
  show "\<exists>a t. s1 = s\<lparr>ss_account := a, ss_trace := ss_trace s @ [t]\<rparr>"
  proof -
    obtain a t where "s0 = s\<lparr>ss_account := a, ss_trace := ss_trace s @ [t]\<rparr>"
      using consume_lotsD(3) [OF c] by blast
    then have "s1 = s\<lparr>ss_account := ss_account s1, ss_trace := ss_trace s @ [t]\<rparr>"
      unfolding s1 by (cases s) simp
    then show ?thesis by blast
  qed
  have "r0 = r\<lparr>od_allocations := od_allocations r0\<rparr>"
    using order_coreD [OF consume_lotsD(1) [OF c]] .
  then show "r1 = r\<lparr>od_reserved_base := dsub (od_reserved_base r) removed, od_allocations := od_allocations r1\<rparr>"
    unfolding r1 by (cases r; cases r0) simp
  have "ss_account s0 = (ss_account s)\<lparr>ac_fee_records := ac_fee_records (ss_account s0),
      ac_lots := ac_lots (ss_account s0)\<rparr>"
    using account_coreD [OF consume_lotsD(2) [OF c]] .
  then show "\<exists>fr lots released. ss_account s1 = (ss_account s)\<lparr>
           ac_quote_cash := dadd (ac_quote_cash (ss_account s)) proceeds,
           ac_allocation_cash := dadd (ac_allocation_cash (ss_account s)) proceeds,
           ac_net_base := dsub (ac_net_base (ss_account s)) removed,
           ac_remaining_cost := dsub (ac_remaining_cost (ss_account s)) released,
           ac_realized_profit := dadd (ac_realized_profit (ss_account s)) (dsub proceeds released),
           ac_fee_records := fr, ac_lots := lots\<rparr>"
    unfolding s1
    by (intro exI [of _ "ac_fee_records (ss_account s0)"] exI [of _ "ac_lots (ss_account s0)"] exI [of _ released])
      (cases "ss_account s"; cases "ss_account s0"; simp)
qed

text \<open>The fill as a whole, by side: the states before and after the fee loop.\<close>

lemma account_fillE:
  assumes "account_fill s e r = Inr (s3, r1)"
  obtains bf qf s1 where
    "bf = asset_fee (bd_base_asset (ss_binding s)) (ev_fees e)"
    "qf = asset_fee (bd_quote_asset (ss_binding s)) (ev_fees e)"
    "fee_policy_check s e bf qf = Inr ()"
    "(if ev_side e = Buy then fill_buy s e r bf qf else fill_sell s e r bf qf) = Inr (s1, r1)"
    "foldE (record_fee e) (put_order s1 (ev_client_order_id e) r1) (enumerate 0 (ev_fees e)) = Inr s3"
    "0 \<le> free_quote s3" "0 \<le> free_base s3"
  using assms by (auto simp: account_fill_def Let_def split: if_splits)

lemma account_fillD:
  assumes fill: "account_fill s e r = Inr (s3, r1)"
  shows "\<exists>a x b t. s3 = s\<lparr>ss_account := a, ss_controller := (ss_controller s)\<lparr>ct_refusal_reason := x\<rparr>,
           ss_orders := AList.update (ev_client_order_id e) r1 (ss_orders s),
           ss_trace := ss_trace s @ t, ss_fee_reconciliation_required := b\<rparr>"
    and "\<exists>q b al. r1 = r\<lparr>od_reserved_quote := q, od_reserved_base := b, od_allocations := al\<rparr>"
    and "0 \<le> free_quote s3" "0 \<le> free_base s3"
    and "0 \<le> od_reserved_quote r \<Longrightarrow> 0 \<le> od_reserved_quote r1"
    and "0 \<le> od_reserved_base r \<Longrightarrow> 0 \<le> od_reserved_base r1"
proof -
  obtain bf qf s1 where
    f: "(if ev_side e = Buy then fill_buy s e r bf qf else fill_sell s e r bf qf) = Inr (s1, r1)"
    and fees: "foldE (record_fee e) (put_order s1 (ev_client_order_id e) r1) (enumerate 0 (ev_fees e)) = Inr s3"
    and free: "0 \<le> free_quote s3" "0 \<le> free_base s3"
    using fill by (rule account_fillE)
  show "0 \<le> free_quote s3" "0 \<le> free_base s3" by (fact free)+
  have s1: "\<exists>a t. s1 = s\<lparr>ss_account := a, ss_trace := ss_trace s @ t\<rparr>"
  proof (cases "ev_side e")
    case Buy
    with f obtain a where "s1 = s\<lparr>ss_account := a\<rparr>" using fill_buyD(1) by (metis (full_types))
    then have "s1 = s\<lparr>ss_account := a, ss_trace := ss_trace s @ []\<rparr>" by simp
    then show ?thesis by blast
  next
    case Sell
    with f have "fill_sell s e r bf qf = Inr (s1, r1)" by simp
    then show ?thesis using fill_sellD(1) by blast
  qed
  show "\<exists>a x b t. s3 = s\<lparr>ss_account := a, ss_controller := (ss_controller s)\<lparr>ct_refusal_reason := x\<rparr>,
           ss_orders := AList.update (ev_client_order_id e) r1 (ss_orders s),
           ss_trace := ss_trace s @ t, ss_fee_reconciliation_required := b\<rparr>"
  proof -
    obtain a0 t where s1: "s1 = s\<lparr>ss_account := a0, ss_trace := ss_trace s @ t\<rparr>" using s1 by blast
    obtain a x b where s3: "s3 = (put_order s1 (ev_client_order_id e) r1)\<lparr>ss_account := a,
        ss_controller := (ss_controller s)\<lparr>ct_refusal_reason := x\<rparr>, ss_fee_reconciliation_required := b\<rparr>"
      using fee_frameD(1) [OF fees.fold_view [OF fees]] by (auto simp: put_order_def s1)
    show ?thesis unfolding s3 s1
      by (intro exI [of _ a] exI [of _ x] exI [of _ b] exI [of _ t]) (simp add: put_order_def)
  qed
  have "(ev_side e = Buy \<longrightarrow> fill_buy s e r bf qf = Inr (s1, r1)) \<and>
        (ev_side e = Sell \<longrightarrow> fill_sell s e r bf qf = Inr (s1, r1))" using f by auto
  then have "r1 = r\<lparr>od_reserved_quote := dsub (od_reserved_quote r) (dadd (ev_quote_notional e) qf)\<rparr> \<and>
      dadd (ev_quote_notional e) qf \<le> od_reserved_quote r \<or>
    (\<exists>al. r1 = r\<lparr>od_reserved_base := dsub (od_reserved_base r) (dadd (ev_quantity e) bf), od_allocations := al\<rparr>) \<and>
      dadd (ev_quantity e) bf \<le> od_reserved_base r"
    by (cases "ev_side e") (metis fill_buyD(2,4), metis fill_sellD(2,3))
  note cases = this
  have "r1 = r\<lparr>od_reserved_quote := od_reserved_quote r1, od_reserved_base := od_reserved_base r1,
      od_allocations := od_allocations r1\<rparr>" using cases by (elim disjE) auto
  then show "\<exists>q b al. r1 = r\<lparr>od_reserved_quote := q, od_reserved_base := b, od_allocations := al\<rparr>" by blast
  show "0 \<le> od_reserved_quote r \<Longrightarrow> 0 \<le> od_reserved_quote r1"
    "0 \<le> od_reserved_base r \<Longrightarrow> 0 \<le> od_reserved_base r1"
    using cases by (auto simp: dsub_nonneg_iff)
qed

section \<open>One event\<close>

lemma validate_event_eq: "validate_event e = Inr x \<Longrightarrow> x = e"
  by (auto simp: validate_event_def split: if_splits)

lemma validate_intent_eq: "validate_intent i = Inr x \<Longrightarrow> x = i"
  by (auto simp: validate_intent_def split: if_splits)

lemma validate_valuation_eq: "validate_valuation v = Inr x \<Longrightarrow> x = v"
  by (auto simp: validate_valuation_def split: if_splits)

lemma validate_reconciliation_eq: "validate_reconciliation q = Inr x \<Longrightarrow> x = q"
  by (auto simp: validate_reconciliation_def split: if_splits)

lemma validate_replace_eq: "validate_replace q = Inr x \<Longrightarrow> x = q"
  by (auto simp: validate_replace_def split: if_splits)

lemmas validate_eqs = validate_event_eq validate_intent_eq validate_valuation_eq
  validate_reconciliation_eq validate_replace_eq

text \<open>The four ways in which an event can succeed.\<close>

lemma apply_spot_event_cases [consumes 1, case_names duplicate buffered quarantined committed]:
  assumes "apply_spot_event s e = Inr s'"
  obtains
    "prior_event s (ev_event_id e) = Some e" "s' = s"
  | r where "validate_event e = Inr e" "prior_event s (ev_event_id e) = None"
      "map_of (ss_orders s) (ev_client_order_id e) = Some r"
      "ev_source_sequence e \<noteq> ss_event_sequence s + 1 \<or> od_terminal_reconciled r"
      "buffer_event s e = Inr s'"
  | r m where "validate_event e = Inr e" "prior_event s (ev_event_id e) = None"
      "map_of (ss_orders s) (ev_client_order_id e) = Some r"
      "ev_source_sequence e = ss_event_sequence s + 1" "try_fill s e r = Inr (Inl m)"
      "s' = s\<lparr>ss_quarantine := ss_quarantine s @ [(e, m)], ss_reconciliation_required := True\<rparr>"
  | r c r1 where "validate_event e = Inr e" "prior_event s (ev_event_id e) = None"
      "map_of (ss_orders s) (ev_client_order_id e) = Some r"
      "ev_side e = it_side (od_intent r)"
      "ev_source_sequence e = ss_event_sequence s + 1"
      "\<not> od_terminal_reconciled r" "\<not> is_terminal (od_status r)" "\<not> overfill r e"
      "ev_cumulative_quantity e = dadd (od_filled_quantity r) (ev_quantity e)"
      "ev_cumulative_quote e = dadd (od_filled_quote r) (ev_quote_notional e)"
      "if ev_quantity e = 0 then (c, r1) = (s, r) else account_fill s e r = Inr (c, r1)"
      "s' = commit_event c e r1"
proof -
  have e: "validate_event e = Inr e"
    using assms by (auto simp: apply_spot_event_def dest: validate_event_eq)
  show thesis
  proof (cases "prior_event s (ev_event_id e)")
    case (Some previous)
    then have "previous = e" "s' = s"
      using assms by (auto simp: apply_spot_event_def e split: if_splits)
    with Some show thesis by (intro that(1)) simp_all
  next
    case None
    then obtain r where r: "map_of (ss_orders s) (ev_client_order_id e) = Some r"
      "ev_side e = it_side (od_intent r)"
      and step: "if ev_source_sequence e \<noteq> ss_event_sequence s + 1 \<or> od_terminal_reconciled r
        then buffer_event s e = Inr s' else apply_in_sequence s e r = Inr s'"
      using assms by (auto simp: apply_spot_event_def e split: option.splits if_splits)
    show thesis
    proof (cases "ev_source_sequence e \<noteq> ss_event_sequence s + 1 \<or> od_terminal_reconciled r")
      case True
      with step have "buffer_event s e = Inr s'" by simp
      then show thesis using e None r(1) True by (rule that(2) [rotated 4])
    next
      case False
      then have seq: "apply_in_sequence s e r = Inr s'" using step by simp
      then obtain y where y: "try_fill s e r = Inr y" and nt: "\<not> is_terminal (od_status r)"
        and cum: "ev_cumulative_quantity e = dadd (od_filled_quantity r) (ev_quantity e)"
          "ev_cumulative_quote e = dadd (od_filled_quote r) (ev_quote_notional e)"
        and s': "(case y of
            Inl m \<Rightarrow> Inr (s\<lparr>ss_quarantine := ss_quarantine s @ [(e, m)], ss_reconciliation_required := True\<rparr>)
          | Inr (c, r') \<Rightarrow> Inr (commit_event c e r')) = (Inr s' :: spot_state res)"
        by (auto simp: apply_in_sequence_def split: if_splits)
      show thesis
      proof (cases y)
        case (Inl m)
        with y s' False show thesis by (intro that(3) [OF e None r(1)]) auto
      next
        case (Inr p)
        obtain c r1 where p: "p = (c, r1)" by (cases p)
        have no: "\<not> overfill r e" using y Inr by (auto simp: try_fill_def)
        have "if ev_quantity e = 0 then (c, r1) = (s, r) else account_fill s e r = Inr (c, r1)"
          using y Inr p no by (auto simp: try_fill_def split: if_splits sum.splits spot_error.splits)
        with False nt cum no s' Inr p show thesis by (intro that(4) [OF e None r]) auto
      qed
    qed
  qed
qed

text \<open>The state and order after the fill of a committed event, before it is committed.\<close>

lemma committed_fillD:
  assumes "if ev_quantity e = 0 then (c, r1) = (s, r) else account_fill s e r = Inr (c, r1)"
    and r: "map_of (ss_orders s) (ev_client_order_id e) = Some r"
  shows "\<exists>a x os b t. c = s\<lparr>ss_account := a, ss_controller := (ss_controller s)\<lparr>ct_refusal_reason := x\<rparr>,
           ss_orders := os, ss_trace := ss_trace s @ t, ss_fee_reconciliation_required := b\<rparr>"
    and "\<exists>q b al. r1 = r\<lparr>od_reserved_quote := q, od_reserved_base := b, od_allocations := al\<rparr>"
    and "AList.update (ev_client_order_id e) x (ss_orders c) = AList.update (ev_client_order_id e) x (ss_orders s)"
    and "0 \<le> od_reserved_quote r \<Longrightarrow> 0 \<le> od_reserved_quote r1"
    and "0 \<le> od_reserved_base r \<Longrightarrow> 0 \<le> od_reserved_base r1"
    and "0 \<le> free_quote s \<Longrightarrow> 0 \<le> free_base s \<Longrightarrow> 0 \<le> free_quote c \<and> 0 \<le> free_base c"
    and "map_of (ss_orders c) (ev_client_order_id e) = Some r1"
proof -
  consider (zero) "ev_quantity e = 0" "c = s" "r1 = r" | (fill) "account_fill s e r = Inr (c, r1)"
    using assms(1) by (auto split: if_splits)
  note cases = this
  show "\<exists>a x os b t. c = s\<lparr>ss_account := a, ss_controller := (ss_controller s)\<lparr>ct_refusal_reason := x\<rparr>,
           ss_orders := os, ss_trace := ss_trace s @ t, ss_fee_reconciliation_required := b\<rparr>"
  proof (cases rule: cases)
    case zero
    then show ?thesis
      by (intro exI [of _ "ss_account s"] exI [of _ "ct_refusal_reason (ss_controller s)"]
          exI [of _ "ss_orders s"] exI [of _ "ss_fee_reconciliation_required s"] exI [of _ "[]"]) simp
  next
    case fill
    then obtain a x b t where "c = s\<lparr>ss_account := a, ss_controller := (ss_controller s)\<lparr>ct_refusal_reason := x\<rparr>,
           ss_orders := AList.update (ev_client_order_id e) r1 (ss_orders s),
           ss_trace := ss_trace s @ t, ss_fee_reconciliation_required := b\<rparr>"
      using account_fillD(1) by blast
    then show ?thesis by blast
  qed
  show "\<exists>q b al. r1 = r\<lparr>od_reserved_quote := q, od_reserved_base := b, od_allocations := al\<rparr>"
  proof (cases rule: cases)
    case zero
    then have "r1 = r\<lparr>od_reserved_quote := od_reserved_quote r, od_reserved_base := od_reserved_base r,
      od_allocations := od_allocations r\<rparr>" by simp
    then show ?thesis by blast
  next
    case fill
    then show ?thesis by (rule account_fillD(2))
  qed
  show "AList.update (ev_client_order_id e) x (ss_orders c) = AList.update (ev_client_order_id e) x (ss_orders s)"
  proof (cases rule: cases)
    case fill
    then obtain u where "ss_orders c = AList.update (ev_client_order_id e) r1 (ss_orders s)"
      using account_fillD(1) by force
    then show ?thesis by (simp add: update_update)
  qed simp
  show "0 \<le> od_reserved_quote r \<Longrightarrow> 0 \<le> od_reserved_quote r1"
    by (cases rule: cases) (auto dest: account_fillD(5))
  show "0 \<le> od_reserved_base r \<Longrightarrow> 0 \<le> od_reserved_base r1"
    by (cases rule: cases) (auto dest: account_fillD(6))
  show "0 \<le> free_quote s \<Longrightarrow> 0 \<le> free_base s \<Longrightarrow> 0 \<le> free_quote c \<and> 0 \<le> free_base c"
    by (cases rule: cases) (auto dest: account_fillD(3,4))
  show "map_of (ss_orders c) (ev_client_order_id e) = Some r1"
    by (cases rule: cases) (use r in \<open>auto dest: account_fillD(1)\<close>)
qed

section \<open>Submission, cancellation and replacement\<close>

lemma reserve_buyD:
  assumes "reserve_buy s i r = Inr (c, r')"
  shows "\<exists>cy. c = s\<lparr>ss_account := (ss_account s)\<lparr>ac_cycle_reserve := cy\<rparr>\<rparr> \<and> 0 \<le> cy"
    and "\<exists>q. r' = r\<lparr>od_reserved_quote := q\<rparr> \<and> 0 \<le> q \<and> q \<le> free_quote c"
  using assms by (auto simp: reserve_buy_def Let_def simp del: free_quote_def split: option.splits if_splits)

lemma reserve_sellD:
  assumes "reserve_sell s i r = Inr (c, r')"
  shows "c = s" and "\<exists>b al. r' = r\<lparr>od_reserved_base := b, od_allocations := al\<rparr> \<and> 0 \<le> b \<and> b \<le> free_base s"
  using assms by (auto simp: reserve_sell_def Let_def split: option.splits if_splits prod.splits)

lemma reserveD:
  assumes "(if it_side i = Buy then reserve_buy s i r else reserve_sell s i r) = Inr (c, r')"
  shows "\<exists>cy. c = s\<lparr>ss_account := (ss_account s)\<lparr>ac_cycle_reserve := cy\<rparr>\<rparr>"
    and "\<exists>q b al. r' = r\<lparr>od_reserved_quote := q, od_reserved_base := b, od_allocations := al\<rparr>"
    and "0 \<le> od_reserved_quote r \<Longrightarrow> 0 \<le> od_reserved_quote r'"
    and "0 \<le> od_reserved_base r \<Longrightarrow> 0 \<le> od_reserved_base r'"
proof -
  have "(\<exists>cy. c = s\<lparr>ss_account := (ss_account s)\<lparr>ac_cycle_reserve := cy\<rparr>\<rparr>) \<and>
    (\<exists>q b al. r' = r\<lparr>od_reserved_quote := q, od_reserved_base := b, od_allocations := al\<rparr>
      \<and> (0 \<le> od_reserved_quote r \<longrightarrow> 0 \<le> q) \<and> (0 \<le> od_reserved_base r \<longrightarrow> 0 \<le> b))"
  proof (cases "it_side i = Buy")
    case True
    then obtain q where "r' = r\<lparr>od_reserved_quote := q\<rparr>" "0 \<le> q" using assms reserve_buyD(2) by force
    then have "r' = r\<lparr>od_reserved_quote := q, od_reserved_base := od_reserved_base r,
        od_allocations := od_allocations r\<rparr>" by simp
    then show ?thesis using True assms reserve_buyD(1) \<open>0 \<le> q\<close> by metis
  next
    case False
    then have "reserve_sell s i r = Inr (c, r')" using assms by simp
    then obtain b al where r': "r' = r\<lparr>od_reserved_base := b, od_allocations := al\<rparr>" "0 \<le> b" and c: "c = s"
      using reserve_sellD by blast
    have "c = s\<lparr>ss_account := (ss_account s)\<lparr>ac_cycle_reserve := ac_cycle_reserve (ss_account s)\<rparr>\<rparr>"
      by (simp add: c)
    moreover have "r' = r\<lparr>od_reserved_quote := od_reserved_quote r, od_reserved_base := b, od_allocations := al\<rparr>"
      by (simp add: r')
    ultimately show ?thesis using r'(2) by blast
  qed
  then show "\<exists>cy. c = s\<lparr>ss_account := (ss_account s)\<lparr>ac_cycle_reserve := cy\<rparr>\<rparr>"
    "\<exists>q b al. r' = r\<lparr>od_reserved_quote := q, od_reserved_base := b, od_allocations := al\<rparr>"
    "0 \<le> od_reserved_quote r \<Longrightarrow> 0 \<le> od_reserved_quote r'"
    "0 \<le> od_reserved_base r \<Longrightarrow> 0 \<le> od_reserved_base r'"
    by auto
qed

lemma submit_spot_order_cases [consumes 1, case_names existing admitted]:
  assumes "submit_spot_order s i = Inr s'"
  obtains previous where "map_of (ss_orders s) (it_client_order_id i) = Some previous"
      "od_intent previous = i" "s' = s"
  | c r where "validate_intent i = Inr i" "map_of (ss_orders s) (it_client_order_id i) = None"
      "attributed s (it_account_id i) (it_session_id i) (Some (it_symbol i)) = Inr ()"
      "submit_barrier s i = Inr ()" "submit_capacity s i = Inr ()"
      "quantity_evidence (ss_instrument s) i = Inr ()" "price_evidence (ss_instrument s) i = Inr ()"
      "(if it_side i = Buy then reserve_buy s i (new_order s i) else reserve_sell s i (new_order s i)) = Inr (c, r)"
      "s' = c\<lparr>ss_orders := ss_orders s @ [(it_client_order_id i, r)],
             ss_trace := ss_trace s @ [TrSubmit i (od_reserved_quote r) (od_reserved_base r)]\<rparr>"
proof -
  have i: "validate_intent i = Inr i"
    using assms by (auto simp: submit_spot_order_def dest: validate_intent_eq)
  have b: "attributed s (it_account_id i) (it_session_id i) (Some (it_symbol i)) = Inr ()"
    "submit_barrier s i = Inr ()" using assms by (auto simp: submit_spot_order_def i)
  show thesis
  proof (cases "map_of (ss_orders s) (it_client_order_id i)")
    case (Some previous)
    then have "od_intent previous = i" "s' = s"
      using assms by (auto simp: submit_spot_order_def i b split: if_splits)
    with Some show thesis by (intro that(1))
  next
    case None
    then have "admit_order s i = Inr s'" using assms by (auto simp: submit_spot_order_def i b)
    then obtain c r where adm: "submit_capacity s i = Inr ()"
      "quantity_evidence (ss_instrument s) i = Inr ()" "price_evidence (ss_instrument s) i = Inr ()"
      and res: "(if it_side i = Buy then reserve_buy s i (new_order s i) else reserve_sell s i (new_order s i)) = Inr (c, r)"
      and s': "s' = c\<lparr>ss_orders := AList.update (it_client_order_id i) r (ss_orders c),
            ss_trace := ss_trace c @ [TrSubmit i (od_reserved_quote r) (od_reserved_base r)]\<rparr>"
      by (auto simp: admit_order_def)
    have "ss_orders c = ss_orders s" "ss_trace c = ss_trace s" using reserveD(1) [OF res] by auto
    then show thesis using None i b adm res s' by (intro that(2)) (simp_all add: update_fresh)
  qed
qed

lemma cancel_spot_order_cases [consumes 1, case_names unchanged canceled]:
  assumes "cancel_spot_order s k cid g = Inr s'"
  obtains "s' = s"
  | r where "map_of (ss_orders s) k = Some r" "\<not> od_terminal_reconciled r"
      "s' = s\<lparr>ss_orders := AList.update k (r\<lparr>od_cancel_command_id := Some cid,
             od_status := (if is_terminal (od_status r) then od_status r else CancelPending)\<rparr>) (ss_orders s),
           ss_trace := ss_trace s @ [TrCancel k g cid]\<rparr>"
  using assms by (auto simp: cancel_spot_order_def put_order_def split: option.splits if_splits)

lemma replace_spot_order_cases [consumes 1, case_names submitted canceled]:
  assumes "replace_spot_order s q = Inr s'"
  obtains reps where "submit_spot_order (s\<lparr>ss_replacements := reps\<rparr>) (rp_replacement q) = Inr s'"
  | reps where "cancel_spot_order (s\<lparr>ss_replacements := reps\<rparr>) (rp_client_order_id q)
      (rp_command_id q) (rp_generation q) = Inr s'"
  using assms by (auto simp: replace_spot_order_def Let_def dest!: validate_replace_eq
      split: option.splits if_splits)

lemma fee_valuationD:
  assumes "apply_spot_fee_valuation s v = Inr s'"
  shows "\<exists>vs t. fee_frame s' = fee_frame (s\<lparr>ss_valuations := vs, ss_trace := ss_trace s @ t\<rparr>)"
proof -
  consider "s' = s" | c where "value_fee s (vl_fee_id v) (vl_quote_value v) = Inr c"
      "s' = c\<lparr>ss_valuations := AList.update (vl_valuation_id v) v (ss_valuations c),
             ss_trace := ss_trace c @ [TrFeeValuation v]\<rparr>"
    using assms by (auto simp: apply_spot_fee_valuation_def dest!: validate_valuation_eq
        split: option.splits if_splits)
  then show ?thesis
  proof cases
    case 1
    then have "fee_frame s' = fee_frame (s\<lparr>ss_valuations := ss_valuations s, ss_trace := ss_trace s @ []\<rparr>)"
      by simp
    then show ?thesis by blast
  next
    case 2
    obtain a x b where "c = s\<lparr>ss_account := a, ss_controller := (ss_controller s)\<lparr>ct_refusal_reason := x\<rparr>,
           ss_fee_reconciliation_required := b\<rparr>" and
      "fee_frame c = fee_frame s"
      using fee_frameD(1) value_fee_frame [OF 2(1)] by blast
    then have "fee_frame s' = fee_frame (s\<lparr>ss_valuations := AList.update (vl_valuation_id v) v (ss_valuations s),
        ss_trace := ss_trace s @ [TrFeeValuation v]\<rparr>)"
      unfolding 2(2) fee_frame_def by (cases s) simp
    then show ?thesis by blast
  qed
qed

section \<open>Reconciliation\<close>

text \<open>What a reconciliation does to one order: a terminal one gives its reservations back.\<close>

definition reconciled :: "spot_order \<Rightarrow> spot_order" where
  "reconciled r =
     (if is_terminal (od_status r)
      then r\<lparr>od_reserved_quote := 0, od_reserved_base := 0, od_allocations := [], od_terminal_reconciled := True\<rparr>
      else r)"

lemma reconciled_simps [simp]:
  "od_intent (reconciled r) = od_intent r" "od_status (reconciled r) = od_status r"
  "od_filled_quantity (reconciled r) = od_filled_quantity r"
  "od_filled_quote (reconciled r) = od_filled_quote r"
  "od_unknown_outcome (reconciled r) = od_unknown_outcome r"
  by (simp_all add: reconciled_def)

lemma reconcile_orders_eq:
  "reconcile_orders d = Inr d' \<Longrightarrow>
     d' = map (\<lambda>(k, r). (k, reconciled r)) d \<and>
     (\<forall>r \<in> set (dict_values d). od_unknown_outcome r = None \<and> od_status r \<noteq> Unknown)"
  by (induction d arbitrary: d' rule: reconcile_orders.induct)
    (auto simp: reconcile_order_def reconciled_def split: if_splits)

lemma reconcile_spot_stateE:
  assumes "reconcile_spot_state s q = Inr s'"
  obtains c1 c2 x b where
    "ss_reconciliation_revision s < rc_revision q" "ss_quarantine s = []"
    "foldE apply_spot_event (s\<lparr>ss_buffered_events := []\<rparr>)
       (sort_key ev_source_sequence (rc_events q @ dict_values (ss_buffered_events s))) = Inr c1"
    "foldE apply_spot_fee_valuation c1 (rc_fee_valuations q) = Inr c2"
    "reconcile_agrees c2 q = Inr ()"
    "\<forall>r \<in> set (dict_values (ss_orders c2)). od_unknown_outcome r = None \<and> od_status r \<noteq> Unknown"
    "s' = c2\<lparr>ss_orders := map (\<lambda>(k, r). (k, reconciled r)) (ss_orders c2),
            ss_controller := (ss_controller c2)\<lparr>ct_refusal_reason := x\<rparr>,
            ss_reconciliation_required := False, ss_fee_reconciliation_required := b,
            ss_reconciliation_revision := rc_revision q,
            ss_trace := ss_trace c2 @ [TrReconciliation (rc_revision q)]\<rparr>"
proof -
  obtain c1 c2 os where
    g: "ss_reconciliation_revision s < rc_revision q" "ss_quarantine s = []"
    "foldE apply_spot_event (s\<lparr>ss_buffered_events := []\<rparr>)
       (sort_key ev_source_sequence (rc_events q @ dict_values (ss_buffered_events s))) = Inr c1"
    "foldE apply_spot_fee_valuation c1 (rc_fee_valuations q) = Inr c2"
    "reconcile_agrees c2 q = Inr ()"
    and os: "reconcile_orders (ss_orders c2) = Inr os"
    and s': "s' = (clear_fee_barrier (c2\<lparr>ss_orders := os, ss_reconciliation_required := False\<rparr>))
        \<lparr>ss_reconciliation_revision := rc_revision q,
         ss_trace := ss_trace (clear_fee_barrier (c2\<lparr>ss_orders := os, ss_reconciliation_required := False\<rparr>))
           @ [TrReconciliation (rc_revision q)]\<rparr>"
    using assms by (auto simp: reconcile_spot_state_def Let_def dest!: validate_reconciliation_eq split: if_splits)
  define c3 where "c3 = c2\<lparr>ss_orders := os, ss_reconciliation_required := False\<rparr>"
  have "\<exists>x b. clear_fee_barrier c3 = c3\<lparr>ss_controller := (ss_controller c3)\<lparr>ct_refusal_reason := x\<rparr>,
      ss_fee_reconciliation_required := b\<rparr>"
  proof (cases "has_unvalued_fee c3")
    case True
    then have "clear_fee_barrier c3 = c3\<lparr>ss_controller := (ss_controller c3)
        \<lparr>ct_refusal_reason := ct_refusal_reason (ss_controller c3)\<rparr>,
      ss_fee_reconciliation_required := ss_fee_reconciliation_required c3\<rparr>"
      by (simp add: clear_fee_barrier_def)
    then show ?thesis by blast
  next
    case False
    then have "clear_fee_barrier c3 = c3\<lparr>ss_controller := (ss_controller c3)
        \<lparr>ct_refusal_reason := (if ct_refusal_reason (ss_controller c3) = Some ''unvalued_fee'' then None
           else ct_refusal_reason (ss_controller c3))\<rparr>,
      ss_fee_reconciliation_required := False\<rparr>"
      by (simp add: clear_fee_barrier_def)
    then show ?thesis by blast
  qed
  then obtain x b where "clear_fee_barrier c3 = c3\<lparr>ss_controller := (ss_controller c3)\<lparr>ct_refusal_reason := x\<rparr>,
      ss_fee_reconciliation_required := b\<rparr>" by blast
  then show thesis using s' reconcile_orders_eq [OF os]
    by (intro that [OF g, where x = x and b = b]) (simp_all add: c3_def)
qed

end
