(* ===== verification/Demo_Session.thy ===== *)
theory Demo_Session
  imports Spot_State
begin

text \<open>
  A concrete BTCUSDT session on which the witnesses evaluate the model: a DCA recipe with one
  addition, a budget of 1000 and fees of ten basis points paid in the quote asset.
\<close>

definition demo_sha :: string where
  "demo_sha = replicate 64 CHR ''a''"

definition demo_digest :: digest where
  "demo_digest c = demo_sha"

definition demo_binding :: spot_binding where
  "demo_binding =
     \<lparr> bd_account_id = ''acct'', bd_session_id = ''sess'', bd_symbol = ''BTCUSDT'',
       bd_base_asset = ''BTC'', bd_quote_asset = ''USDT'', bd_mode = PaperMode, bd_timeframe = ''1h'',
       bd_graph_sha256 = demo_sha, bd_software_identity = ''koval'', bd_policy_sha256 = demo_sha,
       bd_instrument_sha256 = demo_sha, bd_initial_quote_cash = 2000,
       bd_end_of_data_policy = StopAndFlatten, bd_evaluation_start_ms = None,
       bd_evaluation_end_ms = None, bd_initial_peak_equity = None \<rparr>"

definition demo_instrument :: spot_instrument where
  "demo_instrument =
     \<lparr> in_evidence_id = ''ev1'', in_symbol = ''BTCUSDT'', in_base_asset = ''BTC'',
       in_quote_asset = ''USDT'', in_source = ''venue'', in_status = SyntheticFixture,
       in_effective_from_ms = 0, in_effective_to_ms = 10, in_acquired_at_ms = 0,
       in_price_tick = 1 / 10, in_quantity_step = 1 / 10, in_market_quantity_step = 1 / 10,
       in_minimum_quantity = 1 / 10, in_maximum_quantity = 1000, in_minimum_notional = 1,
       in_maximum_notional = 100000, in_minimum_price = 1, in_maximum_price = 100000,
       in_maximum_open_orders = 10, in_market_minimum_quantity = None,
       in_market_maximum_quantity = None, in_apply_notional_to_market = True,
       in_price_band_low = None, in_price_band_high = None, in_price_band_source = None,
       in_unknown_active_filters = [] \<rparr>"

definition demo_policy :: spot_policy where
  "demo_policy =
     \<lparr> pl_policy_id = ''pol'', pl_maker_fee_bps = 10, pl_taker_fee_bps = 10, pl_fee_asset = ''USDT'',
       pl_fee_source = ''table'', pl_buy_quote_fee_cap_bps = 10, pl_sell_base_fee_cap_bps = 0,
       pl_spread_bps = 0, pl_slippage_bps = 0, pl_maximum_volume_participation = 1,
       pl_expires_after_bars = None, pl_third_asset_quote_price = None,
       pl_third_asset_allowance_quote = 0 \<rparr>"

definition demo_dca :: dca_params where
  "demo_dca =
     \<lparr> dp_budget_quote = 1000, dp_fee_reserve_quote = 10, dp_base_quote = 100,
       dp_addition_quote = 100, dp_max_additions = 1, dp_deviation_pct = 2,
       dp_take_profit_pct = 3, dp_stop_loss_pct = 10 \<rparr>"

definition demo_state :: spot_state where
  "demo_state = initial_state demo_binding (Dca demo_dca) demo_instrument demo_policy"

text \<open>A limit BUY of 2 at 20 in the first cycle, admitted and not yet accepted.\<close>

definition demo_intent :: spot_intent where
  "demo_intent =
     \<lparr> it_account_id = ''acct'', it_session_id = ''sess'', it_symbol = ''BTCUSDT'',
       it_intent_id = ''i1'', it_client_order_id = ''o1'', it_cycle_id = ''c1'', it_slot_id = ''1'',
       it_generation = 0, it_side = Buy, it_order_type = Limit, it_purpose = Addition,
       it_quantity = Some 2, it_quote_notional_cap = None, it_limit_price = Some 20,
       it_activation_bar = 0, it_expires_after_bars = None, it_requested_quantity = Some 2,
       it_requested_price = Some 20, it_parent_order_id = None, it_terminal_command_id = None \<rparr>"

definition demo_order :: spot_order where
  "demo_order = (new_order demo_state demo_intent)\<lparr>od_reserved_quote := 4004 / 100\<rparr>"

definition demo_open :: spot_state where
  "demo_open = demo_state\<lparr>ss_orders := [(''o1'', demo_order)],
     ss_trace := [TrSubmit demo_intent (4004 / 100) 0]\<rparr>"

text \<open>A fill of 1 at 20 with its quote fee.\<close>

definition demo_fill :: spot_event where
  "demo_fill =
     \<lparr> ev_event_id = ''e1'', ev_account_id = ''acct'', ev_session_id = ''sess'', ev_symbol = ''BTCUSDT'',
       ev_client_order_id = ''o1'', ev_exchange_order_id = Some ''x1'', ev_generation = 0,
       ev_source_sequence = 1, ev_timestamp_ms = 0, ev_side = Buy, ev_purpose = Addition,
       ev_status = Partial, ev_trade_id = Some ''t1'', ev_quantity = 1, ev_price = Some 20,
       ev_quote_notional = 20, ev_cumulative_quantity = 1, ev_cumulative_quote = 20,
       ev_fees = [\<lparr> fe_asset = ''USDT'', fe_quantity = 1 / 50, fe_quote_value = None, fe_source = None \<rparr>] \<rparr>"

text \<open>A fill of 3, past the quantity of the order.\<close>

definition demo_overfill :: spot_event where
  "demo_overfill = demo_fill\<lparr>ev_quantity := 3, ev_quote_notional := 60, ev_cumulative_quantity := 3,
     ev_cumulative_quote := 60\<rparr>"

text \<open>The session holding one lot of 2 bought for 100, with a limit SELL of 1 at 60, and its fill.\<close>

definition demo_sell_intent :: spot_intent where
  "demo_sell_intent = demo_intent\<lparr>it_client_order_id := ''s1'', it_slot_id := ''basket'', it_side := Sell,
     it_purpose := Target, it_quantity := Some 1, it_limit_price := Some 60\<rparr>"

definition demo_sell_order :: spot_order where
  "demo_sell_order = (new_order demo_state demo_sell_intent)\<lparr>od_status := Accepted,
     od_exchange_order_id := Some ''x2'', od_reserved_base := 1, od_allocations := [(''b1'', 1)]\<rparr>"

definition demo_lot :: spot_lot where
  "demo_lot = \<lparr> lt_lot_id = ''b1'', lt_slot_id = ''base'', lt_creation_sequence = 1, lt_quantity = 2,
     lt_cost = 100, lt_bought_base = 2, lt_bought_quote = 100 \<rparr>"

definition demo_holding :: spot_state where
  "demo_holding = demo_state\<lparr>ss_orders := [(''s1'', demo_sell_order)],
     ss_account := (initial_account 1900 900 10)\<lparr>ac_net_base := 2, ac_remaining_cost := 100,
       ac_bought_base := 2, ac_bought_quote := 100, ac_lots := [(''b1'', demo_lot)]\<rparr>\<rparr>"

definition demo_sell :: spot_event where
  "demo_sell = demo_fill\<lparr>ev_client_order_id := ''s1'', ev_exchange_order_id := Some ''x2'', ev_side := Sell,
     ev_purpose := Target, ev_status := Filled, ev_price := Some 60, ev_quote_notional := 60,
     ev_cumulative_quote := 60, ev_fees := []\<rparr>"

section \<open>Evaluation\<close>

text \<open>
  The session is evaluated field by field: its states stay folded and their fields are
  rewritten, which keeps the terms small.
\<close>

lemma demo_state_fields [eval]:
  "ss_binding demo_state = demo_binding" "ss_policy demo_state = demo_policy"
  "ss_recipe demo_state = Dca demo_dca" "ss_instrument demo_state = demo_instrument"
  "ss_orders demo_state = []" "ss_events demo_state = []"
  "ss_buffered_events demo_state = []" "ss_quarantine demo_state = []" "ss_trade_ids demo_state = []"
  "ss_event_sequence demo_state = 0" "ss_account demo_state = initial_account 2000 1000 10"
  "ss_reconciliation_required demo_state = False" "ss_reconciliation_revision demo_state = 0"
  "ss_fee_reconciliation_required demo_state = False" "ss_controller demo_state = initial_controller"
  "ss_valuations demo_state = []" "ss_replacements demo_state = []" "ss_bar_index demo_state = - 1"
  "ss_mark demo_state = None" "ss_observation_sequence demo_state = 0" "ss_observations demo_state = []"
  by (simp_all add: demo_state_def initial_state_def demo_binding_def recipe_budget_def
      recipe_fee_reserve_def demo_dca_def)

lemma demo_open_fields [eval]:
  "ss_binding demo_open = demo_binding" "ss_policy demo_open = demo_policy"
  "ss_recipe demo_open = Dca demo_dca" "ss_instrument demo_open = demo_instrument"
  "ss_orders demo_open = [(''o1'', demo_order)]" "ss_events demo_open = []"
  "ss_buffered_events demo_open = []" "ss_quarantine demo_open = []" "ss_trade_ids demo_open = []"
  "ss_event_sequence demo_open = 0" "ss_account demo_open = initial_account 2000 1000 10"
  "ss_reconciliation_required demo_open = False" "ss_reconciliation_revision demo_open = 0"
  "ss_fee_reconciliation_required demo_open = False" "ss_controller demo_open = initial_controller"
  "ss_valuations demo_open = []" "ss_replacements demo_open = []" "ss_bar_index demo_open = - 1"
  by (simp_all add: demo_open_def demo_state_fields)

lemma demo_order_fields [eval]:
  "od_intent demo_order = demo_intent" "od_status demo_order = Pending"
  "od_filled_quantity demo_order = 0" "od_filled_quote demo_order = 0"
  "od_reserved_quote demo_order = 4004 / 100" "od_reserved_base demo_order = 0"
  "od_terminal_reconciled demo_order = False" "od_exchange_order_id demo_order = None"
  "od_allocations demo_order = []" "od_cancel_command_id demo_order = None"
  "od_unknown_outcome demo_order = None"
  by (simp_all add: demo_order_def new_order_def)

lemma demo_intent_valid [eval]: "validate_intent demo_intent = Inr demo_intent"
  by (simp add: validate_intent_def demo_intent_def intent_fields_ok_def id_ok_def opt_ok_def
      count_ok_def nonneg_ok_def)

lemma demo_fill_valid [eval]: "validate_event demo_fill = Inr demo_fill"
  by (simp add: validate_event_def demo_fill_def event_fields_ok_def id_ok_def opt_ok_def
      count_ok_def nonneg_ok_def fee_ok_def fill_shape_ok_def dmul_def)

lemma demo_intent_fields [eval]:
  "it_account_id demo_intent = ''acct''" "it_session_id demo_intent = ''sess''"
  "it_symbol demo_intent = ''BTCUSDT''" "it_client_order_id demo_intent = ''o1''"
  "it_cycle_id demo_intent = ''c1''" "it_slot_id demo_intent = ''1''" "it_generation demo_intent = 0"
  "it_side demo_intent = Buy" "it_order_type demo_intent = Limit" "it_purpose demo_intent = Addition"
  "it_quantity demo_intent = Some 2" "it_quote_notional_cap demo_intent = None"
  "it_limit_price demo_intent = Some 20" "it_activation_bar demo_intent = 0"
  by (simp_all add: demo_intent_def)

lemma demo_fill_fields [eval]:
  "ev_event_id demo_fill = ''e1''" "ev_account_id demo_fill = ''acct''"
  "ev_session_id demo_fill = ''sess''" "ev_symbol demo_fill = ''BTCUSDT''"
  "ev_client_order_id demo_fill = ''o1''" "ev_exchange_order_id demo_fill = Some ''x1''"
  "ev_generation demo_fill = 0" "ev_source_sequence demo_fill = 1" "ev_side demo_fill = Buy"
  "ev_purpose demo_fill = Addition" "ev_status demo_fill = Partial"
  "ev_trade_id demo_fill = Some ''t1''" "ev_quantity demo_fill = 1" "ev_price demo_fill = Some 20"
  "ev_quote_notional demo_fill = 20" "ev_cumulative_quantity demo_fill = 1"
  "ev_cumulative_quote demo_fill = 20"
  "ev_fees demo_fill = [\<lparr> fe_asset = ''USDT'', fe_quantity = 1 / 50, fe_quote_value = None, fe_source = None \<rparr>]"
  by (simp_all add: demo_fill_def)

lemma demo_overfill_fields [eval]:
  "ev_event_id demo_overfill = ''e1''" "ev_account_id demo_overfill = ''acct''"
  "ev_session_id demo_overfill = ''sess''" "ev_symbol demo_overfill = ''BTCUSDT''"
  "ev_client_order_id demo_overfill = ''o1''" "ev_exchange_order_id demo_overfill = Some ''x1''"
  "ev_generation demo_overfill = 0" "ev_source_sequence demo_overfill = 1"
  "ev_side demo_overfill = Buy" "ev_purpose demo_overfill = Addition"
  "ev_trade_id demo_overfill = Some ''t1''" "ev_quantity demo_overfill = 3"
  "ev_quote_notional demo_overfill = 60" "ev_cumulative_quantity demo_overfill = 3"
  "ev_cumulative_quote demo_overfill = 60"
  by (simp_all add: demo_overfill_def demo_fill_fields)

lemma demo_overfill_valid [eval]: "validate_event demo_overfill = Inr demo_overfill"
  by (simp add: demo_overfill_def validate_event_def demo_fill_def event_fields_ok_def id_ok_def
      opt_ok_def count_ok_def nonneg_ok_def fee_ok_def fill_shape_ok_def dmul_def)

lemma demo_sell_intent_fields [eval]:
  "it_client_order_id demo_sell_intent = ''s1''" "it_slot_id demo_sell_intent = ''basket''"
  "it_generation demo_sell_intent = 0" "it_side demo_sell_intent = Sell"
  "it_purpose demo_sell_intent = Target" "it_quantity demo_sell_intent = Some 1"
  "it_quote_notional_cap demo_sell_intent = None" "it_parent_order_id demo_sell_intent = None"
  by (simp_all add: demo_sell_intent_def demo_intent_def)

lemma demo_sell_order_fields [eval]:
  "od_intent demo_sell_order = demo_sell_intent" "od_status demo_sell_order = Accepted"
  "od_filled_quantity demo_sell_order = 0" "od_filled_quote demo_sell_order = 0"
  "od_reserved_quote demo_sell_order = 0" "od_reserved_base demo_sell_order = 1"
  "od_terminal_reconciled demo_sell_order = False" "od_exchange_order_id demo_sell_order = Some ''x2''"
  "od_allocations demo_sell_order = [(''b1'', 1)]" "od_cancel_command_id demo_sell_order = None"
  "od_unknown_outcome demo_sell_order = None"
  by (simp_all add: demo_sell_order_def new_order_def)

lemma demo_holding_fields [eval]:
  "ss_binding demo_holding = demo_binding" "ss_policy demo_holding = demo_policy"
  "ss_recipe demo_holding = Dca demo_dca" "ss_instrument demo_holding = demo_instrument"
  "ss_orders demo_holding = [(''s1'', demo_sell_order)]" "ss_events demo_holding = []"
  "ss_buffered_events demo_holding = []" "ss_quarantine demo_holding = []"
  "ss_trade_ids demo_holding = []" "ss_event_sequence demo_holding = 0"
  "ss_account demo_holding = (initial_account 1900 900 10)\<lparr>ac_net_base := 2, ac_remaining_cost := 100,
       ac_bought_base := 2, ac_bought_quote := 100, ac_lots := [(''b1'', demo_lot)]\<rparr>"
  "ss_controller demo_holding = initial_controller"
  by (simp_all add: demo_holding_def demo_state_fields)

lemma demo_sell_fields [eval]:
  "ev_event_id demo_sell = ''e1''" "ev_account_id demo_sell = ''acct''"
  "ev_session_id demo_sell = ''sess''" "ev_symbol demo_sell = ''BTCUSDT''"
  "ev_client_order_id demo_sell = ''s1''" "ev_exchange_order_id demo_sell = Some ''x2''"
  "ev_generation demo_sell = 0" "ev_source_sequence demo_sell = 1" "ev_side demo_sell = Sell"
  "ev_purpose demo_sell = Target" "ev_status demo_sell = Filled" "ev_trade_id demo_sell = Some ''t1''"
  "ev_quantity demo_sell = 1" "ev_price demo_sell = Some 60" "ev_quote_notional demo_sell = 60"
  "ev_cumulative_quantity demo_sell = 1" "ev_cumulative_quote demo_sell = 60" "ev_fees demo_sell = []"
  by (simp_all add: demo_sell_def demo_fill_fields)

lemma demo_sell_valid [eval]: "validate_event demo_sell = Inr demo_sell"
  by (simp add: demo_sell_def validate_event_def demo_fill_def event_fields_ok_def id_ok_def
      opt_ok_def count_ok_def nonneg_ok_def fee_ok_def fill_shape_ok_def dmul_def)

lemma demo_config [eval]:
  "bd_account_id demo_binding = ''acct''" "bd_session_id demo_binding = ''sess''"
  "bd_symbol demo_binding = ''BTCUSDT''" "bd_base_asset demo_binding = ''BTC''"
  "bd_quote_asset demo_binding = ''USDT''"
  "pl_maker_fee_bps demo_policy = 10" "pl_taker_fee_bps demo_policy = 10"
  "pl_buy_quote_fee_cap_bps demo_policy = 10" "pl_sell_base_fee_cap_bps demo_policy = 0"
  "pl_third_asset_allowance_quote demo_policy = 0"
  by (simp_all add: demo_binding_def demo_policy_def)

lemmas demo_account [eval] = initial_account_def initial_controller_def

lemmas arithmetic [eval] = dadd_def dsub_def dmul_def dquot_def ddiv_def dsum_def dmod_def
  truncate_rat_def nonneg_field_def number_field_def nonneg_ok_def

lemmas account_operations [eval] = reserved_quote_def reserved_base_def free_quote_def free_base_def
  attributed_def fee_unvalued_def has_unvalued_fee_def submit_barrier_def fee_factor_def
  fee_policy_check_def asset_fee_def fresh_lot_def fill_buy_def put_order_def third_asset_def
  record_fee_def account_fill_def prior_event_def buffer_event_def overfill_def try_fill_def
  next_outcome_def settle_order_def commit_event_def apply_in_sequence_def apply_spot_event_def
  Let_def enumerate_eq_zip

lemmas submission [eval] = submit_spot_order_def admit_order_def submit_capacity_def quantity_evidence_def
  price_evidence_def reserve_buy_def new_order_def step_for_def minimum_for_def maximum_for_def in_band_def

lemma demo_instrument_fields [eval]:
  "in_price_tick demo_instrument = 1 / 10" "in_quantity_step demo_instrument = 1 / 10"
  "in_minimum_quantity demo_instrument = 1 / 10" "in_maximum_quantity demo_instrument = 1000"
  "in_minimum_notional demo_instrument = 1" "in_maximum_notional demo_instrument = 100000"
  "in_minimum_price demo_instrument = 1" "in_maximum_price demo_instrument = 100000"
  "in_maximum_open_orders demo_instrument = 10" "in_price_band_low demo_instrument = None"
  "in_price_band_high demo_instrument = None" "in_market_quantity_step demo_instrument = 1 / 10"
  by (simp_all add: demo_instrument_def)

lemma demo_submits: "submit_spot_order demo_state demo_intent = Inr demo_open"
  by (simp add: eval, simp add: demo_open_def demo_order_def new_order_def demo_state_fields eval)
    (simp add: demo_state_def initial_state_def initial_account_def demo_binding_def demo_dca_def
      recipe_budget_def recipe_fee_reserve_def)

lemmas release [eval] = fill_sell_def consume_lots_def settle_last_def release_lot_def reduce_weight_def
  settle_basket_def lot_of_def allocation_def available_lots_def demo_lot_def

lemma demo_sell_applies:
  "\<exists>s. apply_spot_event demo_holding demo_sell = Inr s \<and> map_of (ss_events s) ''e1'' = Some demo_sell"
  by (simp add: eval)

lemma demo_fill_applies: "\<exists>s. apply_spot_event demo_open demo_fill = Inr s"
  by (simp add: eval)

end
