(* ===== verification/Account_Invariants.thy ===== *)
theory Account_Invariants
  imports Account_Events
begin

text \<open>
  The public operations of \<open>account.py\<close> as one step relation, and the invariants of every state
  that a sequence of them can reach: identities, capacity and lineage of the orders, the
  completeness of the event log, and the bounds on cash and third-asset fees.
\<close>

inductive account_step :: "spot_state \<Rightarrow> spot_state \<Rightarrow> bool" where
  submit: "submit_spot_order s i = Inr s' \<Longrightarrow> account_step s s'"
| cancel: "cancel_spot_order s k cid g = Inr s' \<Longrightarrow> account_step s s'"
| replace: "replace_spot_order s q = Inr s' \<Longrightarrow> account_step s s'"
| event: "apply_spot_event s e = Inr s' \<Longrightarrow> account_step s s'"
| valuation: "apply_spot_fee_valuation s v = Inr s' \<Longrightarrow> account_step s s'"
| reconcile: "reconcile_spot_state s q = Inr s' \<Longrightarrow> account_step s s'"

inductive_cases account_stepE: "account_step s s'"

text \<open>
  To show that a predicate is kept by every step it is enough to look at the four primitive
  changes: admitting an order, marking one canceled, applying an event or a valuation, and
  closing a reconciliation; the fields \<open>replacements\<close> and \<open>buffered_events\<close> must not matter.
\<close>

locale account_invariant =
  fixes inv :: "spot_state \<Rightarrow> bool"
  assumes submit_inv: "inv s \<Longrightarrow> submit_spot_order s i = Inr s' \<Longrightarrow> inv s'"
    and cancel_inv: "inv s \<Longrightarrow> cancel_spot_order s k cid g = Inr s' \<Longrightarrow> inv s'"
    and event_inv: "inv s \<Longrightarrow> apply_spot_event s e = Inr s' \<Longrightarrow> inv s'"
    and valuation_inv: "inv s \<Longrightarrow> apply_spot_fee_valuation s v = Inr s' \<Longrightarrow> inv s'"
    and close_inv: "inv s \<Longrightarrow> inv (s\<lparr>ss_orders := map (\<lambda>(k, r). (k, reconciled r)) (ss_orders s),
            ss_controller := (ss_controller s)\<lparr>ct_refusal_reason := x\<rparr>,
            ss_reconciliation_required := False, ss_fee_reconciliation_required := b,
            ss_reconciliation_revision := n, ss_trace := t\<rparr>)"
    and buffer_inv: "inv (s\<lparr>ss_buffered_events := bs\<rparr>) = inv s"
    and replacements_inv: "inv (s\<lparr>ss_replacements := reps\<rparr>) = inv s"

sublocale account_invariant \<subseteq> events: reducer apply_spot_event inv
  by unfold_locales (rule event_inv)

sublocale account_invariant \<subseteq> valuations: reducer apply_spot_fee_valuation inv
  by unfold_locales (rule valuation_inv)

context account_invariant
begin

lemma reconcile_inv:
  assumes "inv s" "reconcile_spot_state s q = Inr s'"
  shows "inv s'"
  using assms(2)
proof (rule reconcile_spot_stateE)
  fix c1 c2 x b
  assume c1: "foldE apply_spot_event (s\<lparr>ss_buffered_events := []\<rparr>)
       (sort_key ev_source_sequence (rc_events q @ dict_values (ss_buffered_events s))) = Inr c1"
    and c2: "foldE apply_spot_fee_valuation c1 (rc_fee_valuations q) = Inr c2"
    and s': "s' = c2\<lparr>ss_orders := map (\<lambda>(k, r). (k, reconciled r)) (ss_orders c2),
            ss_controller := (ss_controller c2)\<lparr>ct_refusal_reason := x\<rparr>,
            ss_reconciliation_required := False, ss_fee_reconciliation_required := b,
            ss_reconciliation_revision := rc_revision q,
            ss_trace := ss_trace c2 @ [TrReconciliation (rc_revision q)]\<rparr>"
  have "inv (s\<lparr>ss_buffered_events := []\<rparr>)" using assms(1) by (simp add: buffer_inv)
  then have "inv c2" using c1 c2 events.fold_inv valuations.fold_inv by blast
  then show "inv s'" unfolding s' by (rule close_inv)
qed

lemma replace_inv:
  assumes "inv s" "replace_spot_order s q = Inr s'"
  shows "inv s'"
  using assms(2)
proof (cases rule: replace_spot_order_cases)
  case (submitted reps)
  then show ?thesis using assms(1) submit_inv replacements_inv by blast
next
  case (canceled reps)
  then show ?thesis using assms(1) cancel_inv replacements_inv by blast
qed

lemma step_inv: "account_step s s' \<Longrightarrow> inv s \<Longrightarrow> inv s'"
  by (erule account_stepE)
    (auto dest: submit_inv cancel_inv replace_inv event_inv valuation_inv reconcile_inv)

lemma steps_inv: "account_step\<^sup>*\<^sup>* s s' \<Longrightarrow> inv s \<Longrightarrow> inv s'"
  by (induction rule: rtranclp_induct) (auto dest: step_inv)

end

lemma demo_reaches: "\<exists>s. account_step\<^sup>*\<^sup>* demo_state s \<and> ss_event_sequence s = 1"
proof -
  obtain s where s: "apply_spot_event demo_open demo_fill = Inr s" "ss_event_sequence s = 1"
    by (simp add: eval)
  have "account_step\<^sup>*\<^sup>* demo_state s"
    using account_step.submit [OF demo_submits] account_step.event [OF s(1)] by force
  with s(2) show ?thesis by blast
qed

section \<open>Identities, capacity and lineage of orders\<close>

definition order_rows :: "spot_state \<Rightarrow> (string \<times> spot_intent \<times> bool) list" where
  "order_rows s = map (\<lambda>(k, r). (k, od_intent r, od_terminal_reconciled r)) (ss_orders s)"

definition open_rows :: "spot_state \<Rightarrow> (string \<times> spot_intent \<times> bool) list" where
  "open_rows s = filter (\<lambda>(k, i, closed). \<not> closed) (order_rows s)"

definition orders_ok :: "spot_state \<Rightarrow> bool" where
  "orders_ok s \<longleftrightarrow>
     distinct (map fst (order_rows s)) \<and>
     list_all (\<lambda>(k, i, closed). k = it_client_order_id i \<and>
       (it_account_id i, it_session_id i, it_symbol i)
         = (bd_account_id (ss_binding s), bd_session_id (ss_binding s), bd_symbol (ss_binding s)))
       (order_rows s) \<and>
     int (length (open_rows s)) \<le> in_maximum_open_orders (ss_instrument s) \<and>
     distinct (map (\<lambda>(k, i, closed). (lineage i, it_generation i)) (order_rows s)) \<and>
     distinct (map (\<lambda>(k, i, closed). lineage i) (open_rows s))"

lemma orders_ok_cong:
  assumes "order_rows s' = order_rows s" "ss_binding s' = ss_binding s" "ss_instrument s' = ss_instrument s"
  shows "orders_ok s' = orders_ok s"
  using assms by (simp add: orders_ok_def open_rows_def)

lemma order_rows_update:
  assumes "map_of (ss_orders s) k = Some r" "od_intent r' = od_intent r"
    "od_terminal_reconciled r' = od_terminal_reconciled r" "ss_orders s' = AList.update k r' (ss_orders s)"
  shows "order_rows s' = order_rows s"
proof -
  have "map (\<lambda>(k, r). (k, od_intent r, od_terminal_reconciled r)) (AList.update k r' d)
      = map (\<lambda>(k, r). (k, od_intent r, od_terminal_reconciled r)) d" if "map_of d k = Some r" for d
    using that assms(2,3) by (induction d) (auto split: if_splits)
  then show ?thesis using assms(1,4) by (simp add: order_rows_def)
qed

lemma committed_rows:
  assumes "map_of (ss_orders s) (ev_client_order_id e) = Some r"
    and fill: "if ev_quantity e = 0 then (c, r1) = (s, r) else account_fill s e r = Inr (c, r1)"
  shows "order_rows (commit_event c e r1) = order_rows s"
proof (rule order_rows_update [OF assms(1)])
  note f = committed_fillD [OF fill assms(1)]
  show "ss_orders (commit_event c e r1)
      = AList.update (ev_client_order_id e) (settle_order c e r1) (ss_orders s)" using f(3) by simp
  show "od_intent (settle_order c e r1) = od_intent r"
    "od_terminal_reconciled (settle_order c e r1) = od_terminal_reconciled r" using f(2) by auto
qed

text \<open>An event changes neither the configuration of the session nor the rows of its orders.\<close>

interpretation event_frame: framed_reducer apply_spot_event
    "\<lambda>s. (ss_binding s, ss_recipe s, ss_instrument s, ss_policy s, order_rows s)"
proof
  fix s s' :: spot_state and e
  assume "apply_spot_event s e = Inr s'"
  then show "(ss_binding s', ss_recipe s', ss_instrument s', ss_policy s', order_rows s')
      = (ss_binding s, ss_recipe s, ss_instrument s, ss_policy s, order_rows s)"
  proof (cases rule: apply_spot_event_cases)
    case (committed r c r1)
    then show ?thesis using committed_fillD(1) [OF committed(11,3)] committed_rows [OF committed(3,11)] by auto
  qed (auto simp: buffer_event_def order_rows_def split: if_splits)
qed

interpretation valuation_frame: framed_reducer apply_spot_fee_valuation
    "\<lambda>s. (ss_binding s, ss_recipe s, ss_instrument s, ss_policy s, ss_orders s, ss_events s, ss_event_sequence s)"
proof
  fix s s' :: spot_state and v
  assume "apply_spot_fee_valuation s v = Inr s'"
  then obtain vs t where "fee_frame s' = fee_frame (s\<lparr>ss_valuations := vs, ss_trace := t\<rparr>)"
    using fee_valuationD by blast
  from fee_frameD(1) [OF this]
  show "(ss_binding s', ss_recipe s', ss_instrument s', ss_policy s', ss_orders s', ss_events s', ss_event_sequence s')
      = (ss_binding s, ss_recipe s, ss_instrument s, ss_policy s, ss_orders s, ss_events s, ss_event_sequence s)"
    by auto
qed

lemma submitted_orders_ok:
  assumes "orders_ok s" "submit_spot_order s i = Inr s'"
  shows "orders_ok s'"
  using assms(2)
proof (cases rule: submit_spot_order_cases)
  case (admitted c r)
  have r: "od_intent r = i" "\<not> od_terminal_reconciled r"
    using reserveD(2) [OF admitted(8)] by (auto simp: new_order_def)
  have c: "ss_binding s' = ss_binding s" "ss_instrument s' = ss_instrument s"
    using reserveD(1) [OF admitted(8)] by (auto simp: admitted(9))
  have rows: "order_rows s' = order_rows s @ [(it_client_order_id i, i, False)]"
    by (simp add: admitted(9) order_rows_def r)
  have fresh: "it_client_order_id i \<notin> fst ` set (order_rows s)"
    using admitted(2) by (force simp: order_rows_def map_of_eq_None_iff)
  have "length (open_rows s) = length (filter (\<lambda>r. \<not> od_terminal_reconciled r) (dict_values (ss_orders s)))"
    by (simp add: open_rows_def order_rows_def filter_map o_def case_prod_beta)
  then have room: "int (length (open_rows s)) < in_maximum_open_orders (ss_instrument s)"
    and lin: "(k, i', d) \<in> set (order_rows s) \<Longrightarrow> lineage i' = lineage i \<Longrightarrow> d \<and> it_generation i' < it_generation i"
      for k i' d
    using admitted(5) by (force simp: submit_capacity_def list_ex_iff order_rows_def split: if_splits)+
  have ids: "(it_account_id i, it_session_id i, it_symbol i)
      = (bd_account_id (ss_binding s), bd_session_id (ss_binding s), bd_symbol (ss_binding s))"
    using admitted(3) by (auto simp: attributed_def split: if_splits)
  have opn: "open_rows s' = open_rows s @ [(it_client_order_id i, i, False)]"
    by (simp add: open_rows_def rows)
  have "(lineage i, it_generation i) \<notin> (\<lambda>(k, i, closed). (lineage i, it_generation i)) ` set (order_rows s)"
    using lin by force
  moreover have "lineage i \<notin> (\<lambda>(k, i, closed). lineage i) ` set (open_rows s)"
    using lin by (force simp: open_rows_def)
  ultimately show ?thesis using assms(1) fresh room ids c
    by (simp add: orders_ok_def rows opn)
qed (use assms(1) in simp)

lemma distinct_map_filter_mono:
  "distinct (map f (filter P xs)) \<Longrightarrow> (\<And>x. Q x \<Longrightarrow> P x) \<Longrightarrow> distinct (map f (filter Q xs))"
  by (induction xs) (auto split: if_splits)

lemma length_filter_mono: "(\<And>x. Q x \<Longrightarrow> P x) \<Longrightarrow> length (filter Q xs) \<le> length (filter P xs)"
  by (induction xs) (auto simp: le_SucI)

lemma closed_orders_ok:
  assumes "orders_ok s" "ss_orders s' = map (\<lambda>(k, r). (k, reconciled r)) (ss_orders s)"
    "ss_binding s' = ss_binding s" "ss_instrument s' = ss_instrument s"
  shows "orders_ok s'"
proof -
  let ?open = "\<lambda>p. \<not> od_terminal_reconciled (snd p)" and ?open' = "\<lambda>p. \<not> od_terminal_reconciled (reconciled (snd p))"
  have mono: "?open' p \<Longrightarrow> ?open p" for p :: "string \<times> spot_order" by (auto simp: reconciled_def split: if_splits)
  have opn: "open_rows s = map (\<lambda>(k, r). (k, od_intent r, False)) (filter ?open (ss_orders s))"
    "open_rows s' = map (\<lambda>(k, r). (k, od_intent r, False)) (filter ?open' (ss_orders s))"
    by (auto simp: open_rows_def order_rows_def assms(2) filter_map o_def case_prod_beta)
  have rows: "map (\<lambda>(k, i, closed). f k i) (order_rows s') = map (\<lambda>(k, i, closed). f k i) (order_rows s)" for f
    by (simp add: order_rows_def assms(2) case_prod_beta)
  have keys: "map fst (order_rows s') = map fst (order_rows s)"
    by (simp add: order_rows_def assms(2) case_prod_beta)
  have all: "list_all (\<lambda>(k, i, closed). P k i) (order_rows s') = list_all (\<lambda>(k, i, closed). P k i) (order_rows s)" for P
    by (simp add: order_rows_def assms(2) case_prod_beta list.pred_map o_def)
  have "distinct (map (\<lambda>p. lineage (od_intent (snd p))) (filter ?open (ss_orders s)))"
    using assms(1) by (simp add: orders_ok_def opn case_prod_beta o_def)
  then have "distinct (map (\<lambda>p. lineage (od_intent (snd p))) (filter ?open' (ss_orders s)))"
    by (rule distinct_map_filter_mono) (rule mono)
  moreover have "length (open_rows s') \<le> length (open_rows s)"
    using length_filter_mono [of ?open' ?open "ss_orders s"] mono by (simp add: opn)
  ultimately show ?thesis using assms(1,3,4) keys
    by (simp add: orders_ok_def rows all opn case_prod_beta o_def)
qed

interpretation orders: account_invariant orders_ok
proof
  fix s s' :: spot_state and k cid g
  assume inv: "orders_ok s" and "cancel_spot_order s k cid g = Inr s'"
  from this(2) show "orders_ok s'"
  proof (cases rule: cancel_spot_order_cases)
    case (canceled r)
    have "order_rows s' = order_rows s"
      by (rule order_rows_update [OF canceled(1)]) (auto simp: canceled(3))
    then show ?thesis using inv orders_ok_cong [of s' s] by (simp add: canceled(3))
  qed (use inv in simp)
next
  fix s s' :: spot_state and e
  assume "orders_ok s" "apply_spot_event s e = Inr s'"
  then show "orders_ok s'" using event_frame.step_view [of s e s'] orders_ok_cong [of s' s] by simp
next
  fix s s' :: spot_state and v
  assume "orders_ok s" "apply_spot_fee_valuation s v = Inr s'"
  then show "orders_ok s'" using valuation_frame.step_view [of s v s'] orders_ok_cong [of s' s]
    by (simp add: order_rows_def)
next
  fix s bs reps
  show "orders_ok (s\<lparr>ss_buffered_events := bs\<rparr>) = orders_ok s" "orders_ok (s\<lparr>ss_replacements := reps\<rparr>) = orders_ok s"
    by (rule orders_ok_cong; simp add: order_rows_def)+
qed (auto intro: submitted_orders_ok closed_orders_ok)

text \<open>
  C2: in every state that the account operations reach from an orderless session, each order
  is stored under its own identity and belongs to the session, no two orders share a lineage
  and a generation, at most one order of a lineage is open, and the number of open orders
  never exceeds the venue's limit.
\<close>

theorem reachable_orders_ok:
  assumes "account_step\<^sup>*\<^sup>* s0 s" "ss_orders s0 = []" "0 \<le> in_maximum_open_orders (ss_instrument s0)"
  shows "orders_ok s"
proof (rule orders.steps_inv [OF assms(1)])
  show "orders_ok s0" using assms(2,3) by (simp add: orders_ok_def order_rows_def open_rows_def)
qed

theorem reachable_orders_ok_witness:
  "\<exists>s. account_step\<^sup>*\<^sup>* demo_state s \<and> ss_event_sequence s = 1 \<and> orders_ok s"
proof -
  have "ss_orders demo_state = []" "0 \<le> in_maximum_open_orders (ss_instrument demo_state)"
    by (simp_all add: eval)
  then show ?thesis using demo_reaches reachable_orders_ok by blast
qed

section \<open>The event log\<close>

definition order_events :: "spot_state \<Rightarrow> string \<Rightarrow> spot_event list" where
  "order_events s k = filter (\<lambda>e. ev_client_order_id e = k) (dict_values (ss_events s))"

definition within_intent :: "spot_order \<Rightarrow> bool" where
  "within_intent r \<longleftrightarrow>
     (case it_quantity (od_intent r) of None \<Rightarrow> True | Some q \<Rightarrow> od_filled_quantity r \<le> q) \<and>
     (case it_quote_notional_cap (od_intent r) of None \<Rightarrow> True | Some c \<Rightarrow> od_filled_quote r \<le> c)"

definition totals_ok :: "spot_state \<Rightarrow> string \<Rightarrow> spot_order \<Rightarrow> bool" where
  "totals_ok s k r \<longleftrightarrow>
     od_filled_quantity r = dsum (map ev_quantity (order_events s k)) \<and>
     od_filled_quote r = dsum (map ev_quote_notional (order_events s k)) \<and> within_intent r"

definition log_ok :: "spot_state \<Rightarrow> bool" where
  "log_ok s \<longleftrightarrow>
     0 \<le> ss_event_sequence s \<and>
     map ev_source_sequence (dict_values (ss_events s)) = [1..ss_event_sequence s] \<and>
     (\<forall>e \<in> set (dict_values (ss_events s)). map_of (ss_orders s) (ev_client_order_id e) \<noteq> None) \<and>
     (\<forall>k r. map_of (ss_orders s) k = Some r \<longrightarrow> totals_ok s k r)"

lemma log_ok_cong:
  assumes "ss_events s' = ss_events s" "ss_event_sequence s' = ss_event_sequence s"
    and "\<And>k. map_option (\<lambda>r. (od_intent r, od_filled_quantity r, od_filled_quote r)) (map_of (ss_orders s') k)
      = map_option (\<lambda>r. (od_intent r, od_filled_quantity r, od_filled_quote r)) (map_of (ss_orders s) k)"
  shows "log_ok s' = log_ok s"
proof -
  have dom: "map_of (ss_orders s') k = None \<longleftrightarrow> map_of (ss_orders s) k = None" for k
    using assms(3) [of k] by (cases "map_of (ss_orders s') k"; cases "map_of (ss_orders s) k") simp_all
  have tot: "totals_ok s' k r' = totals_ok s k r"
    if "map_of (ss_orders s') k = Some r'" "map_of (ss_orders s) k = Some r" for k r r'
    using assms(3) [of k] that
    by (simp add: totals_ok_def within_intent_def order_events_def assms(1) split: option.split)
  have "(\<forall>k r. map_of (ss_orders s') k = Some r \<longrightarrow> totals_ok s' k r)
      = (\<forall>k r. map_of (ss_orders s) k = Some r \<longrightarrow> totals_ok s k r)"
    using dom tot by (metis (no_types) option.exhaust option.distinct(1))
  then show ?thesis by (simp add: log_ok_def assms(1,2) dom)
qed

lemma submitted_log_ok:
  assumes "log_ok s" "submit_spot_order s i = Inr s'"
  shows "log_ok s'"
  using assms(2)
proof (cases rule: submit_spot_order_cases)
  case (admitted c r)
  have c: "ss_events c = ss_events s" "ss_event_sequence c = ss_event_sequence s"
    using reserveD(1) [OF admitted(8)] by auto
  have r: "od_intent r = i" "od_filled_quantity r = 0" "od_filled_quote r = 0"
    using reserveD(2) [OF admitted(8)] by (auto simp: new_order_def)
  have "within_intent r" using admitted(1) r
    by (auto simp: within_intent_def validate_intent_def intent_fields_ok_def opt_ok_def
        split: if_splits option.splits)
  moreover have "order_events s (it_client_order_id i) = []"
    using assms(1) admitted(2) by (auto simp: log_ok_def order_events_def filter_empty_conv)
  moreover have "order_events s' k = order_events s k" for k
    by (simp add: order_events_def admitted(9) c)
  ultimately show ?thesis using assms(1)
    by (auto simp: log_ok_def admitted(9) c r totals_ok_def map_of_append map_add_def split: option.splits if_splits)
qed (use assms(1) in simp)

lemma committed_log_ok:
  assumes "log_ok s" "map_of (ss_orders s) (ev_client_order_id e) = Some r"
    and "map_of (ss_events s) (ev_event_id e) = None" "ev_source_sequence e = ss_event_sequence s + 1"
    and "ev_cumulative_quantity e = dadd (od_filled_quantity r) (ev_quantity e)"
    and "ev_cumulative_quote e = dadd (od_filled_quote r) (ev_quote_notional e)" "\<not> overfill r e"
    and fill: "if ev_quantity e = 0 then (c, r1) = (s, r) else account_fill s e r = Inr (c, r1)"
  shows "log_ok (commit_event c e r1)"
proof -
  let ?k = "ev_client_order_id e"
  define s1 where "s1 = commit_event c e r1"
  note f = committed_fillD [OF fill assms(2)]
  have events: "ss_events s1 = ss_events s @ [(ev_event_id e, e)]"
    using f(1) assms(3) by (auto simp: update_fresh s1_def)
  have orders: "ss_orders s1 = AList.update ?k (settle_order c e r1) (ss_orders s)" using f(3) by (simp add: s1_def)
  have seq: "ss_event_sequence s1 = ss_event_sequence s + 1" using assms(4) by (simp add: s1_def)
  have intent: "od_intent r1 = od_intent r" using f(2) by auto
  have evs: "order_events s1 k = order_events s k @ (if k = ?k then [e] else [])" for k
    by (simp add: order_events_def events)
  have r: "totals_ok s ?k r" using assms(1,2) by (simp add: log_ok_def)
  have new: "totals_ok s1 ?k (settle_order c e r1)"
    using r assms(5-7) by (auto simp: totals_ok_def evs dsum_snoc within_intent_def overfill_def intent
        split: option.splits)
  have "totals_ok s1 k r'" if "map_of (ss_orders s1) k = Some r'" for k r'
  proof (cases "k = ?k")
    case False
    then have "totals_ok s k r'" using that assms(1) by (simp add: orders log_ok_def)
    then show ?thesis using False by (simp add: totals_ok_def evs)
  qed (use that new in \<open>simp add: orders\<close>)
  moreover have "[1..ss_event_sequence s + 1] = [1..ss_event_sequence s] @ [ss_event_sequence s + 1]"
    using assms(1) by (simp add: log_ok_def upto_rec2)
  ultimately have "log_ok s1" using assms(1,2,4) unfolding log_ok_def by (auto simp: events orders seq)
  then show ?thesis by (simp add: s1_def)
qed

interpretation log: account_invariant log_ok
proof
  fix s s' :: spot_state and k cid g
  assume inv: "log_ok s" and "cancel_spot_order s k cid g = Inr s'"
  from this(2) show "log_ok s'"
  proof (cases rule: cancel_spot_order_cases)
    case (canceled r)
    then show ?thesis using inv by (subst log_ok_cong [of s' s]) auto
  qed (use inv in simp)
next
  fix s s' :: spot_state and e
  assume inv: "log_ok s" and "apply_spot_event s e = Inr s'"
  from this(2) show "log_ok s'"
  proof (cases rule: apply_spot_event_cases)
    case (buffered r)
    then show ?thesis using inv log_ok_cong [of s' s] by (auto simp: buffer_event_def split: if_splits)
  next
    case (quarantined r m)
    then show ?thesis using inv log_ok_cong [of s' s] by simp
  next
    case (committed r c r1)
    moreover have "map_of (ss_events s) (ev_event_id e) = None"
      using committed(2) by (auto simp: prior_event_def split: option.splits)
    ultimately show ?thesis using inv committed_log_ok by simp
  qed (use inv in simp)
next
  fix s s' :: spot_state and v
  assume "log_ok s" "apply_spot_fee_valuation s v = Inr s'"
  then show "log_ok s'" using valuation_frame.step_view [of s v s'] log_ok_cong [of s' s] by simp
next
  fix s :: spot_state and x b n t
  assume "log_ok s"
  moreover have "map_of (map (\<lambda>(k, r). (k, reconciled r)) (ss_orders s)) k = map_option reconciled (map_of (ss_orders s) k)" for k
    by (simp add: map_of_map)
  ultimately show "log_ok (s\<lparr>ss_orders := map (\<lambda>(k, r). (k, reconciled r)) (ss_orders s),
            ss_controller := (ss_controller s)\<lparr>ct_refusal_reason := x\<rparr>,
            ss_reconciliation_required := False, ss_fee_reconciliation_required := b,
            ss_reconciliation_revision := n, ss_trace := t\<rparr>)"
    by (subst log_ok_cong [of _ s]) (auto simp: option.map_comp o_def)
next
  fix s bs reps
  show "log_ok (s\<lparr>ss_buffered_events := bs\<rparr>) = log_ok s" "log_ok (s\<lparr>ss_replacements := reps\<rparr>) = log_ok s"
    by (rule log_ok_cong; simp)+
qed (auto intro: submitted_log_ok)

text \<open>
  C1: in every reachable state the event log is complete and consistent: its sequence numbers
  are \<open>1\<close> to \<open>event_sequence\<close> without a gap, every event belongs to a known order, the filled
  quantity and quote of each order are the sums over its events, and no order is filled past
  its quantity or its quote cap.
\<close>

theorem reachable_log_ok:
  assumes "account_step\<^sup>*\<^sup>* s0 s" "ss_orders s0 = []" "ss_events s0 = []" "ss_event_sequence s0 = 0"
  shows "log_ok s"
proof (rule log.steps_inv [OF assms(1)])
  show "log_ok s0" using assms(2-4) by (simp add: log_ok_def)
qed

theorem reachable_log_ok_witness:
  "\<exists>s. account_step\<^sup>*\<^sup>* demo_state s \<and> ss_event_sequence s = 1 \<and> log_ok s"
proof -
  have "ss_orders demo_state = []" "ss_events demo_state = []" "ss_event_sequence demo_state = 0"
    by (simp_all add: eval)
  then show ?thesis using demo_reaches reachable_log_ok by blast
qed

end
