(* ===== verification/Account_Money.thy ===== *)
theory Account_Money
  imports Account_Invariants
begin

text \<open>
  Money: the bounds on cash and on the value of third-asset fees that every account operation
  keeps, as instances of \<open>account_invariant\<close>.
\<close>

section \<open>Cash and reservations\<close>

definition cash_ok :: "spot_state \<Rightarrow> bool" where
  "cash_ok s \<longleftrightarrow>
     0 \<le> ac_allocation_cash (ss_account s) \<and>
     ac_allocation_cash (ss_account s) \<le> ac_quote_cash (ss_account s) \<and>
     0 \<le> ac_net_base (ss_account s) \<and> 0 \<le> ac_cycle_reserve (ss_account s) \<and>
     list_all (\<lambda>r. 0 \<le> od_reserved_quote r \<and> 0 \<le> od_reserved_base r) (dict_values (ss_orders s))"

definition cash_view :: "spot_account \<Rightarrow> rat \<times> rat \<times> rat \<times> rat" where
  "cash_view a = (ac_allocation_cash a, ac_quote_cash a, ac_net_base a, ac_cycle_reserve a)"

lemma cash_ok_cong:
  assumes "cash_view (ss_account s') = cash_view (ss_account s)" "ss_orders s' = ss_orders s"
  shows "cash_ok s' = cash_ok s"
  using assms by (simp add: cash_ok_def cash_view_def)

lemma fee_frame_cash:
  assumes "fee_frame s' = fee_frame s"
  shows "cash_view (ss_account s') = cash_view (ss_account s)" "ss_orders s' = ss_orders s"
proof -
  have "ss_account (fee_frame s') = ss_account (fee_frame s)" "ss_orders (fee_frame s') = ss_orders (fee_frame s)"
    using assms by simp_all
  then show "cash_view (ss_account s') = cash_view (ss_account s)" "ss_orders s' = ss_orders s"
    by (auto simp: fee_frame_def cash_view_def dest: arg_cong [of _ _ ac_allocation_cash]
        arg_cong [of _ _ ac_quote_cash] arg_cong [of _ _ ac_net_base] arg_cong [of _ _ ac_cycle_reserve])
qed

lemma list_all_update:
  assumes "list_all P (dict_values d)" "P v"
  shows "list_all P (dict_values (AList.update k v d))"
  using assms by (induction d) auto

text \<open>The account after a fill, before its fees are recorded.\<close>

lemma dsub_mono: "a \<le> b \<Longrightarrow> dsub a c \<le> dsub b c"
  by (simp add: dsub_def dec.rnd_mono)

lemma dadd_mono: "a \<le> b \<Longrightarrow> c \<le> d \<Longrightarrow> dadd a c \<le> dadd b d"
  by (simp add: dadd_def dec.rnd_mono add_mono)

lemma fill_cash:
  assumes fill: "(if ev_side e = Buy then fill_buy s e r bf qf else fill_sell s e r bf qf) = Inr (s1, r1)"
    and "cash_ok s" "0 \<le> od_reserved_quote r" "0 \<le> od_reserved_base r"
  shows "cash_ok (put_order s1 k r1)"
proof -
  let ?a = "ss_account s"
  have orders: "list_all (\<lambda>r. 0 \<le> od_reserved_quote r \<and> 0 \<le> od_reserved_base r) (dict_values (ss_orders s))"
    and cash: "0 \<le> ac_allocation_cash ?a" "ac_allocation_cash ?a \<le> ac_quote_cash ?a" "0 \<le> ac_net_base ?a"
      "0 \<le> ac_cycle_reserve ?a"
    using assms(2) by (auto simp: cash_ok_def)
  show ?thesis
  proof (cases "ev_side e = Buy")
    case True
    then have f: "fill_buy s e r bf qf = Inr (s1, r1)" using fill by simp
    note b = fill_buyD [OF f]
    have "ss_orders s1 = ss_orders s" using b(1) by auto
    moreover have "0 \<le> od_reserved_quote r1 \<and> 0 \<le> od_reserved_base r1"
      unfolding b(2) using b(4) assms(4) by (simp add: dsub_nonneg_iff)
    moreover have "0 \<le> dadd (ac_net_base ?a) (dsub (ev_quantity e) bf)"
      using cash b(3) by (intro dadd_nonneg) simp_all
    ultimately show ?thesis using b(5,6) cash dsub_mono [OF cash(2)] list_all_update [OF orders]
      by (auto simp: cash_ok_def put_order_def dsub_nonneg_iff)
  next
    case False
    then have f: "fill_sell s e r bf qf = Inr (s1, r1)" using fill by simp
    note b = fill_sellD [OF f]
    have "ss_orders s1 = ss_orders s" using b(1) by auto
    moreover have "od_reserved_quote r1 = od_reserved_quote r" "od_reserved_base r1 = dsub (od_reserved_base r) (dadd (ev_quantity e) bf)"
      by (subst b(2); simp)+
    then have "0 \<le> od_reserved_quote r1 \<and> 0 \<le> od_reserved_base r1"
      using b(3) assms(3) by (simp add: dsub_nonneg_iff)
    ultimately show ?thesis using b(4-6) cash dadd_mono [OF cash(2) order_refl] list_all_update [OF orders]
      by (auto simp: cash_ok_def put_order_def dsub_nonneg_iff dadd_nonneg)
  qed
qed

lemma cash_ok_order: "cash_ok s \<Longrightarrow> map_of (ss_orders s) k = Some r \<Longrightarrow> 0 \<le> od_reserved_quote r \<and> 0 \<le> od_reserved_base r"
  by (auto simp: cash_ok_def list_all_iff dest!: map_of_SomeD_values)

lemma committed_cash_ok:
  assumes "cash_ok s" "map_of (ss_orders s) (ev_client_order_id e) = Some r"
    and fill: "if ev_quantity e = 0 then (c, r1) = (s, r) else account_fill s e r = Inr (c, r1)"
  shows "cash_ok (commit_event c e r1)"
proof -
  have r: "0 \<le> od_reserved_quote r \<and> 0 \<le> od_reserved_base r" using cash_ok_order assms(1,2) by blast
  have "cash_ok c"
  proof (cases "ev_quantity e = 0")
    case False
    with fill have "account_fill s e r = Inr (c, r1)" by simp
    then obtain bf qf s1 where
      f: "(if ev_side e = Buy then fill_buy s e r bf qf else fill_sell s e r bf qf) = Inr (s1, r1)"
      and fees: "foldE (record_fee e) (put_order s1 (ev_client_order_id e) r1) (enumerate 0 (ev_fees e)) = Inr c"
      by (rule account_fillE)
    have "cash_ok (put_order s1 (ev_client_order_id e) r1)" using fill_cash [OF f assms(1)] r by blast
    then show ?thesis using cash_ok_cong fee_frame_cash [OF fees.fold_view [OF fees]] by blast
  qed (use fill assms(1) in simp)
  then show ?thesis using committed_fillD(4,5) [OF fill assms(2)] r
    by (auto simp: cash_ok_def intro!: list_all_update)
qed

interpretation cash: account_invariant cash_ok
proof
  fix s s' :: spot_state and i
  assume inv: "cash_ok s" and "submit_spot_order s i = Inr s'"
  from this(2) show "cash_ok s'"
  proof (cases rule: submit_spot_order_cases)
    case (admitted c r)
    have r: "0 \<le> od_reserved_quote r" "0 \<le> od_reserved_base r"
      using reserveD(3,4) [OF admitted(8)] by (simp_all add: new_order_def)
    have "\<exists>cy. c = s\<lparr>ss_account := (ss_account s)\<lparr>ac_cycle_reserve := cy\<rparr>\<rparr> \<and> 0 \<le> cy \<or> c = s"
      using admitted(8) reserve_buyD(1) reserve_sellD(1) by (metis (full_types))
    then show ?thesis using inv r by (auto simp: cash_ok_def admitted(9))
  qed (use inv in simp)
next
  fix s s' :: spot_state and k cid g
  assume inv: "cash_ok s" and "cancel_spot_order s k cid g = Inr s'"
  from this(2) show "cash_ok s'"
  proof (cases rule: cancel_spot_order_cases)
    case (canceled r)
    then show ?thesis using inv cash_ok_order [OF inv canceled(1)]
      by (auto simp: cash_ok_def intro!: list_all_update)
  qed (use inv in simp)
next
  fix s s' :: spot_state and e
  assume inv: "cash_ok s" and "apply_spot_event s e = Inr s'"
  from this(2) show "cash_ok s'"
  proof (cases rule: apply_spot_event_cases)
    case (committed r c r1)
    then show ?thesis using inv committed_cash_ok by simp
  qed (use inv in \<open>auto simp: cash_ok_def buffer_event_def split: if_splits\<close>)
next
  fix s s' :: spot_state and v
  assume "cash_ok s" "apply_spot_fee_valuation s v = Inr s'"
  then obtain vs t where "fee_frame s' = fee_frame (s\<lparr>ss_valuations := vs, ss_trace := t\<rparr>)"
    using fee_valuationD by blast
  from fee_frame_cash [OF this] \<open>cash_ok s\<close> show "cash_ok s'"
    using cash_ok_cong [of s' s] by simp
qed (auto simp: cash_ok_def list_all_iff reconciled_def)

text \<open>
  In every reachable state the cash allocated to the recipe is nonnegative and part of the
  account's quote cash, the net base is nonnegative, and no reservation is negative.
\<close>

theorem reachable_cash_ok:
  assumes "account_step\<^sup>*\<^sup>* s0 s" "cash_ok s0"
  shows "cash_ok s"
  using cash.steps_inv [OF assms] .

theorem reachable_cash_ok_witness:
  "\<exists>s. account_step\<^sup>*\<^sup>* demo_state s \<and> ss_event_sequence s = 1 \<and> cash_ok s"
proof -
  have "cash_ok demo_state" by (simp add: cash_ok_def eval)
  then show ?thesis using demo_reaches reachable_cash_ok by blast
qed

section \<open>Third-asset fees\<close>

definition third_fees_ok :: "spot_state \<Rightarrow> bool" where
  "third_fees_ok s \<longleftrightarrow>
     ac_valued_third_fees (ss_account s) \<le> pl_third_asset_allowance_quote (ss_policy s)"

lemma value_fee_third:
  assumes "value_fee s fee_id v = Inr s'"
  shows "third_fees_ok s'"
  using assms by (auto simp: value_fee_def third_fees_ok_def Let_def split: option.splits if_splits)

interpretation third: reducer "record_fee e" third_fees_ok for e
proof
  fix s s' :: spot_state and x
  assume "third_fees_ok s" "record_fee e s x = Inr s'"
  then show "third_fees_ok s'"
    by (cases x) (auto simp: record_fee_def Let_def third_fees_ok_def
        split: option.splits if_splits dest!: value_fee_third)
qed

lemma committed_third:
  assumes "third_fees_ok s"
    and fill: "if ev_quantity e = 0 then (c, r1) = (s, r) else account_fill s e r = Inr (c, r1)"
  shows "third_fees_ok (commit_event c e r1)"
proof (cases "ev_quantity e = 0")
  case False
  with fill have "account_fill s e r = Inr (c, r1)" by simp
  then obtain bf qf s1 where
    f: "(if ev_side e = Buy then fill_buy s e r bf qf else fill_sell s e r bf qf) = Inr (s1, r1)"
    and fees: "foldE (record_fee e) (put_order s1 (ev_client_order_id e) r1) (enumerate 0 (ev_fees e)) = Inr c"
    by (rule account_fillE)
  have "third_fees_ok (put_order s1 (ev_client_order_id e) r1)"
  proof (cases "ev_side e = Buy")
    case True
    then have "fill_buy s e r bf qf = Inr (s1, r1)" using f by simp
    from fill_buyD(1,6) [OF this] assms(1) show ?thesis by (auto simp: third_fees_ok_def put_order_def)
  next
    case False
    then have "fill_sell s e r bf qf = Inr (s1, r1)" using f by simp
    from fill_sellD(1,6) [OF this] assms(1) show ?thesis by (auto simp: third_fees_ok_def put_order_def)
  qed
  then have "third_fees_ok c" using third.fold_inv fees by blast
  then show ?thesis by (simp add: third_fees_ok_def)
qed (use assms in \<open>simp add: third_fees_ok_def\<close>)

interpretation third_fees: account_invariant third_fees_ok
proof
  fix s s' :: spot_state and i
  assume inv: "third_fees_ok s" and "submit_spot_order s i = Inr s'"
  from this(2) show "third_fees_ok s'"
  proof (cases rule: submit_spot_order_cases)
    case (admitted c r)
    then show ?thesis using inv reserveD(1) [OF admitted(8)] by (auto simp: third_fees_ok_def)
  qed (use inv in simp)
next
  fix s s' :: spot_state and k cid g
  assume inv: "third_fees_ok s" and "cancel_spot_order s k cid g = Inr s'"
  from this(2) inv show "third_fees_ok s'"
    by (cases rule: cancel_spot_order_cases) (auto simp: third_fees_ok_def)
next
  fix s s' :: spot_state and e
  assume inv: "third_fees_ok s" and "apply_spot_event s e = Inr s'"
  from this(2) show "third_fees_ok s'"
  proof (cases rule: apply_spot_event_cases)
    case (committed r c r1)
    then show ?thesis using inv committed_third by simp
  qed (use inv in \<open>auto simp: third_fees_ok_def buffer_event_def split: if_splits\<close>)
next
  fix s s' :: spot_state and v
  assume inv: "third_fees_ok s" and "apply_spot_fee_valuation s v = Inr s'"
  from this(2) show "third_fees_ok s'"
    using inv by (auto simp: apply_spot_fee_valuation_def third_fees_ok_def dest!: validate_valuation_eq
        value_fee_third split: option.splits if_splits)
qed (auto simp: third_fees_ok_def)

text \<open>
  The quote value of all third-asset fees ever charged never exceeds the allowance of the
  fill policy.
\<close>

theorem reachable_third_fees_ok:
  assumes "account_step\<^sup>*\<^sup>* s0 s" "third_fees_ok s0"
  shows "third_fees_ok s"
  using third_fees.steps_inv [OF assms] .

theorem reachable_third_fees_ok_witness:
  "\<exists>s. account_step\<^sup>*\<^sup>* demo_state s \<and> ss_event_sequence s = 1 \<and> third_fees_ok s"
proof -
  have "third_fees_ok demo_state" by (simp add: third_fees_ok_def eval)
  then show ?thesis using demo_reaches reachable_third_fees_ok by blast
qed

end
