(* ===== verification/Account_Admission.thy ===== *)
theory Account_Admission
  imports Account_Money
begin

text \<open>
  Admission, cancellation and reconciliation: what an admitted order looks like and that it is
  funded, that repeating a submission changes nothing, that a cancellation keeps the
  reservations until the venue confirms, and what a reconciliation releases.
\<close>

section \<open>Submission\<close>

text \<open>
  Submitting the same intent again returns the state unchanged, whether the first
  submission admitted the order or found it.
\<close>

theorem submit_spot_order_idempotent:
  assumes "submit_spot_order s i = Inr s'"
  shows "submit_spot_order s' i = Inr s'"
  using assms
proof (cases rule: submit_spot_order_cases)
  case (admitted c r)
  have c: "ss_binding s' = ss_binding s" "ss_reconciliation_required s' = ss_reconciliation_required s"
    "ss_quarantine s' = ss_quarantine s" "ss_fee_reconciliation_required s' = ss_fee_reconciliation_required s"
    "ac_fee_records (ss_account s') = ac_fee_records (ss_account s)"
    using reserveD(1) [OF admitted(8)] by (auto simp: admitted(9))
  have "od_intent r = i" using reserveD(2) [OF admitted(8)] by (auto simp: new_order_def)
  moreover have "map_of (ss_orders s') (it_client_order_id i) = Some r"
    using admitted(2) by (simp add: admitted(9) map_of_append map_add_def)
  moreover have "submit_barrier s' i = Inr ()"
    using admitted(4) by (simp add: submit_barrier_def has_unvalued_fee_def c)
  moreover have "attributed s' (it_account_id i) (it_session_id i) (Some (it_symbol i)) = Inr ()"
    using admitted(3) by (simp add: attributed_def c)
  ultimately show ?thesis using admitted(1) by (simp add: submit_spot_order_def)
qed (use assms in simp)

theorem submit_spot_order_idempotent_witness:
  "submit_spot_order demo_open demo_intent = Inr demo_open"
  using submit_spot_order_idempotent [OF demo_submits] .

text \<open>An exact multiple: the remainder of the source is zero only when it is zero unrounded.\<close>

lemma dmod_zero:
  assumes "dmod a b = Inr 0"
  shows "\<exists>n. a = of_int n * b"
proof -
  have "a = b * of_int (truncate_rat (a / b))"
    using assms by (auto simp: dmod_def dec.rnd_eq_0_iff split: if_splits)
  then show ?thesis by (metis mult.commute)
qed

definition evidence_ok :: "spot_instrument \<Rightarrow> spot_intent \<Rightarrow> bool" where
  "evidence_ok n i \<longleftrightarrow>
     (\<forall>q. it_quantity i = Some q \<longrightarrow>
        (\<exists>m. q = of_int m * step_for n (it_order_type i)) \<and>
        minimum_for n (it_order_type i) \<le> q \<and> q \<le> maximum_for n (it_order_type i)) \<and>
     (\<forall>p. it_limit_price i = Some p \<longrightarrow>
        (\<exists>m. p = of_int m * in_price_tick n) \<and> in_minimum_price n \<le> p \<and> p \<le> in_maximum_price n \<and>
        in_band n p \<and>
        (\<forall>q. it_quantity i = Some q \<longrightarrow> in_minimum_notional n \<le> dmul q p \<and> dmul q p \<le> in_maximum_notional n))"

lemma evidence_okI:
  assumes "quantity_evidence n i = Inr ()" "price_evidence n i = Inr ()"
  shows "evidence_ok n i"
  using assms unfolding evidence_ok_def quantity_evidence_def price_evidence_def
  by (auto dest: dmod_zero split: if_splits)

text \<open>
  C11: an order that is admitted is on the venue's grid: its quantity is a whole number of steps
  and its price a whole number of ticks, both within the bounds of the instrument, in the
  price band, and its notional within the notional bounds; it is stored pending and unfilled,
  open, with a nonnegative reservation that was free before.
\<close>

theorem submit_admits_on_grid:
  assumes "submit_spot_order s i = Inr s'" "map_of (ss_orders s) (it_client_order_id i) = None"
  shows "evidence_ok (ss_instrument s) i \<and>
    (\<exists>r. map_of (ss_orders s') (it_client_order_id i) = Some r \<and> od_intent r = i \<and>
       od_status r = Pending \<and> od_filled_quantity r = 0 \<and> \<not> od_terminal_reconciled r \<and>
       0 \<le> od_reserved_quote r \<and> 0 \<le> od_reserved_base r \<and>
       (it_side i = Sell \<longrightarrow> od_reserved_base r \<le> free_base s))"
  using assms(1)
proof (cases rule: submit_spot_order_cases)
  case (admitted c r)
  have r: "od_intent r = i" "od_status r = Pending" "od_filled_quantity r = 0" "\<not> od_terminal_reconciled r"
    using reserveD(2) [OF admitted(8)] by (auto simp: new_order_def)
  have nonneg: "0 \<le> od_reserved_quote r" "0 \<le> od_reserved_base r"
    using reserveD(3,4) [OF admitted(8)] by (simp_all add: new_order_def)
  have "od_reserved_base r \<le> free_base s" if "it_side i = Sell"
    using admitted(8) that reserve_sellD(2) by fastforce
  then show ?thesis using admitted(2) evidence_okI [OF admitted(6,7)] r nonneg
    by (simp add: admitted(9) map_of_append map_add_def)
qed (use assms(2) in simp)

theorem submit_admits_on_grid_witness:
  "evidence_ok demo_instrument demo_intent \<and>
    (\<exists>r. map_of (ss_orders demo_open) ''o1'' = Some r \<and> od_status r = Pending)"
  using submit_admits_on_grid [OF demo_submits] by (simp add: demo_state_fields demo_intent_fields demo_open_fields demo_order_fields)

section \<open>Solvency of an admission\<close>

text \<open>
  The amounts of the state are multiples of one power of ten whose sums have fewer than 256
  digits, so the sums the free balances are made of are exact.
\<close>

definition exact_amounts :: "nat \<Rightarrow> spot_state \<Rightarrow> bool" where
  "exact_amounts k s \<longleftrightarrow>
     (let a = ss_account s; rs = dict_values (ss_orders s) in
      list_all (multiple_of_10_powi k)
        ([ac_allocation_cash a, ac_cleanup_reserve a, ac_cycle_reserve a, ac_net_base a]
         @ map od_reserved_quote rs @ map od_reserved_base rs) \<and>
      fits256 k (sum_list (map abs ([ac_allocation_cash a, ac_cleanup_reserve a, ac_cycle_reserve a]
         @ map od_reserved_quote rs))) \<and>
      fits256 k (sum_list (map abs (ac_net_base a # map od_reserved_base rs))))"

lemma exact_free:
  assumes "exact_amounts k s"
  shows "free_quote s = ac_allocation_cash (ss_account s) - sum_list (map od_reserved_quote (dict_values (ss_orders s)))
      - ac_cleanup_reserve (ss_account s) - ac_cycle_reserve (ss_account s)"
    and "free_base s = ac_net_base (ss_account s) - sum_list (map od_reserved_base (dict_values (ss_orders s)))"
proof -
  define a where "a = ss_account s"
  define qs where "qs = map od_reserved_quote (dict_values (ss_orders s))"
  define bs where "bs = map od_reserved_base (dict_values (ss_orders s))"
  note defs = a_def [symmetric] qs_def [symmetric] bs_def [symmetric]
  have m: "multiple_of_10_powi k (ac_allocation_cash a)" "multiple_of_10_powi k (ac_cleanup_reserve a)"
    "multiple_of_10_powi k (ac_cycle_reserve a)" "multiple_of_10_powi k (ac_net_base a)"
    "\<forall>x\<in>set qs. multiple_of_10_powi k x" "\<forall>x\<in>set bs. multiple_of_10_powi k x"
    and fq: "fits256 k (\<bar>ac_allocation_cash a\<bar> + \<bar>ac_cleanup_reserve a\<bar> + \<bar>ac_cycle_reserve a\<bar> + sum_list (map abs qs))"
    and fb: "fits256 k (\<bar>ac_net_base a\<bar> + sum_list (map abs bs))"
    using assms unfolding exact_amounts_def Let_def defs by (auto simp: list_all_iff add.assoc)
  have q: "dsum qs = sum_list qs" "multiple_of_10_powi k (sum_list qs)"
    by (rule dsum_exact [OF m(5) fits256_mono [OF fq]]; simp)+
  have b: "dsum bs = sum_list bs" "multiple_of_10_powi k (sum_list bs)"
    by (rule dsum_exact [OF m(6) fits256_mono [OF fb]]; simp)+
  have aq: "\<bar>sum_list qs\<bar> \<le> sum_list (map abs qs)" "\<bar>sum_list bs\<bar> \<le> sum_list (map abs bs)"
    by (rule sum_list_abs)+
  have 1: "dsub (ac_allocation_cash a) (dsum qs) = ac_allocation_cash a - sum_list qs"
    unfolding q(1) by (intro dsub_fits256 [of k] m q fits256_mono [OF fq]) (use aq in linarith)
  have 2: "dsub (ac_allocation_cash a - sum_list qs) (ac_cleanup_reserve a) = ac_allocation_cash a - sum_list qs - ac_cleanup_reserve a"
    by (intro dsub_fits256 [of k] multiple_diff m q fits256_mono [OF fq]) (use aq in linarith)
  have 3: "dsub (ac_allocation_cash a - sum_list qs - ac_cleanup_reserve a) (ac_cycle_reserve a)
      = ac_allocation_cash a - sum_list qs - ac_cleanup_reserve a - ac_cycle_reserve a"
    by (intro dsub_fits256 [of k] multiple_diff m q fits256_mono [OF fq]) (use aq in linarith)
  show "free_quote s = ac_allocation_cash (ss_account s) - sum_list (map od_reserved_quote (dict_values (ss_orders s)))
      - ac_cleanup_reserve (ss_account s) - ac_cycle_reserve (ss_account s)"
    unfolding free_quote_def reserved_quote_def defs 1 2 3 ..
  show "free_base s = ac_net_base (ss_account s) - sum_list (map od_reserved_base (dict_values (ss_orders s)))"
    unfolding free_base_def reserved_base_def defs b(1)
    by (intro dsub_fits256 [of k] m b fits256_mono [OF fb]) (use aq in linarith)
qed

text \<open>
  C4: on bounded decimals an admission never over-commits the account: if the free quote and
  the free base were nonnegative, they still are with the new order's reservation.
\<close>

theorem submit_spot_order_solvent:
  assumes "submit_spot_order s i = Inr s'" "solvent s" "exact_amounts k s'"
  shows "solvent s'"
  using assms(1)
proof (cases rule: submit_spot_order_cases)
  case (admitted c r)
  have orders: "ss_orders s' = ss_orders s @ [(it_client_order_id i, r)]" by (simp add: admitted(9))
  have acc: "ss_account s' = ss_account c" "ss_orders c = ss_orders s"
    using reserveD(1) [OF admitted(8)] by (auto simp: admitted(9))
  have c: "exact_amounts k c"
    using assms(3) unfolding exact_amounts_def Let_def orders acc
    by (intro conjI; (elim conjE, simp only: )?) (auto intro: fits256_mono)
  note free = exact_free [OF c] exact_free [OF assms(3)]
  show ?thesis
  proof (cases "it_side i = Buy")
    case True
    then have buy: "reserve_buy s i (new_order s i) = Inr (c, r)" using admitted(8) by simp
    then have "od_reserved_quote r \<le> free_quote c" "od_reserved_base r = 0"
      using reserve_buyD(2) [OF buy] by (auto simp: new_order_def)
    moreover have "free_base c = free_base s"
      using reserve_buyD(1) [OF buy] by (auto simp: free_base_def reserved_base_def)
    ultimately show ?thesis using assms(2) free by (simp add: solvent_def orders acc)
  next
    case False
    then have sell: "reserve_sell s i (new_order s i) = Inr (c, r)" using admitted(8) by simp
    then have "od_reserved_base r \<le> free_base c" "od_reserved_quote r = 0" "c = s"
      using reserve_sellD [OF sell] by (auto simp: new_order_def)
    then show ?thesis using assms(2) free by (simp add: solvent_def orders acc)
  qed
qed (use assms(2) in simp)

theorem submit_spot_order_solvent_witness:
  "solvent demo_state \<and> exact_amounts 2 demo_open \<and> solvent demo_open"
proof -
  have "solvent demo_state" by (simp add: solvent_def eval)
  moreover have "exact_amounts 2 demo_open"
    by (simp add: exact_amounts_def fits256_def demo_open_fields demo_order_fields initial_account_def)
  ultimately show ?thesis using submit_spot_order_solvent [OF demo_submits] by blast
qed

section \<open>Cancellation\<close>

text \<open>
  A cancellation releases nothing: the account and every reservation stay as they are, so
  the free balances do; an order that was not terminal is then pending cancellation.
\<close>

theorem cancel_retains_reservations:
  assumes "cancel_spot_order s k cid g = Inr s'"
  shows "free_quote s' = free_quote s \<and> free_base s' = free_base s \<and> ss_account s' = ss_account s \<and>
    (\<exists>r r'. map_of (ss_orders s) k = Some r \<and> map_of (ss_orders s') k = Some r' \<and>
       od_intent r' = od_intent r \<and> od_reserved_quote r' = od_reserved_quote r \<and>
       od_reserved_base r' = od_reserved_base r \<and>
       (od_status r' = CancelPending \<or> is_terminal (od_status r) \<or> r' = r))"
proof -
  have "\<exists>r. map_of (ss_orders s) k = Some r"
    using assms by (auto simp: cancel_spot_order_def split: option.splits if_splits)
  note known = this
  show ?thesis using assms
  proof (cases rule: cancel_spot_order_cases)
    case (canceled r)
    have "free_quote s' = free_quote s" "free_base s' = free_base s"
      by (rule free_cong; simp add: canceled(3) values_view_update [OF canceled(1)])+
    then show ?thesis using canceled by simp
  qed (use known in auto)
qed

theorem cancel_retains_reservations_witness:
  "\<exists>s. cancel_spot_order demo_open ''o1'' ''x'' 0 = Inr s \<and> free_quote s = free_quote demo_open"
proof -
  obtain s where s: "cancel_spot_order demo_open ''o1'' ''x'' 0 = Inr s"
    by (simp add: cancel_spot_order_def eval)
  show ?thesis using s cancel_retains_reservations [OF s] by blast
qed

section \<open>Reconciliation\<close>

lemma dsum_mono:
  "list_all2 (\<le>) xs ys \<Longrightarrow> dsum xs \<le> dsum ys"
proof (induction xs arbitrary: ys rule: rev_induct)
  case (snoc x xs)
  then obtain ys' y where "ys = ys' @ [y]" "list_all2 (\<le>) xs ys'" "x \<le> y"
    by (auto simp: list_all2_append1 list_all2_Cons1)
  then show ?case using snoc.IH by (simp add: dsum_snoc dadd_mono)
qed simp

lemma reconciled_le:
  assumes "list_all (\<lambda>r. 0 \<le> od_reserved_quote r \<and> 0 \<le> od_reserved_base r) (dict_values d)"
  shows "dsum (map (od_reserved_quote \<circ> snd) (map (\<lambda>(k, r). (k, reconciled r)) d)) \<le> dsum (map (od_reserved_quote \<circ> snd) d)"
    and "dsum (map (od_reserved_base \<circ> snd) (map (\<lambda>(k, r). (k, reconciled r)) d)) \<le> dsum (map (od_reserved_base \<circ> snd) d)"
  by (rule dsum_mono, use assms in \<open>induction d\<close>; auto simp: reconciled_def)+

lemma reconciled_closed:
  "is_terminal (od_status r) \<Longrightarrow> od_terminal_reconciled (reconciled r) \<and> od_reserved_quote (reconciled r) = 0 \<and>
     od_reserved_base (reconciled r) = 0 \<and> od_allocations (reconciled r) = []"
  by (simp add: reconciled_def)

lemma fee_frame_free:
  assumes "fee_frame s' = fee_frame s"
  shows "free_quote s' = free_quote s" "free_base s' = free_base s"
proof -
  have "ss_orders s' = ss_orders s" using fee_frameD(1) [OF assms] by auto
  moreover have "ac_allocation_cash (ss_account s') = ac_allocation_cash (ss_account s)"
    "ac_cleanup_reserve (ss_account s') = ac_cleanup_reserve (ss_account s)"
    "ac_cycle_reserve (ss_account s') = ac_cycle_reserve (ss_account s)"
    "ac_net_base (ss_account s') = ac_net_base (ss_account s)"
    by (subst fee_frameD(2) [OF assms], simp)+
  ultimately show "free_quote s' = free_quote s" "free_base s' = free_base s"
    by (simp_all add: free_quote_def free_base_def reserved_quote_def reserved_base_def)
qed

interpretation valuation_solvency: reducer apply_spot_fee_valuation solvent
proof
  fix s s' :: spot_state and v
  assume "solvent s" "apply_spot_fee_valuation s v = Inr s'"
  then obtain vs t where "fee_frame s' = fee_frame (s\<lparr>ss_valuations := vs, ss_trace := t\<rparr>)"
    using fee_valuationD by blast
  from fee_frame_free [OF this] have "free_quote s' = free_quote s" "free_base s' = free_base s"
    by (simp_all add: free_quote_def free_base_def reserved_quote_def reserved_base_def)
  with \<open>solvent s\<close> show "solvent s'" by (simp add: solvent_def)
qed

lemma close_solvent:
  assumes "cash_ok c" "solvent c" "ss_account s' = ss_account c"
    "ss_orders s' = map (\<lambda>(k, r). (k, reconciled r)) (ss_orders c)"
  shows "solvent s'"
proof -
  have orders: "list_all (\<lambda>r. 0 \<le> od_reserved_quote r \<and> 0 \<le> od_reserved_base r) (dict_values (ss_orders c))"
    using assms(1) by (simp add: cash_ok_def)
  have "reserved_quote s' \<le> reserved_quote c" "reserved_base s' \<le> reserved_base c"
    using reconciled_le [OF orders] by (simp_all add: reserved_quote_def reserved_base_def assms(4) o_assoc)
  then have "free_quote c \<le> free_quote s'" "free_base c \<le> free_base s'"
    by (auto simp: free_quote_def free_base_def assms(3) dsub_def intro!: dec.rnd_mono)
  then show ?thesis using assms(2) by (simp add: solvent_def)
qed

text \<open>
  a reconciliation that succeeds lifts the write barrier, empties the reorder buffer and
  moves to a newer revision; in its result every terminal order is closed and holds no
  reservation, no order has an unknown outcome, and the account is solvent if it was.
\<close>

theorem reconcile_spot_state_releases:
  assumes "reconcile_spot_state s q = Inr s'" "cash_ok s" "solvent s"
  shows "\<not> ss_reconciliation_required s' \<and> ss_buffered_events s' = [] \<and>
    ss_reconciliation_revision s < ss_reconciliation_revision s' \<and>
    (\<forall>r \<in> set (dict_values (ss_orders s')). od_unknown_outcome r = None \<and> od_status r \<noteq> Unknown \<and>
      (is_terminal (od_status r) \<longrightarrow> od_terminal_reconciled r \<and> od_reserved_quote r = 0 \<and>
         od_reserved_base r = 0 \<and> od_allocations r = [])) \<and>
    solvent s'"
  using assms(1)
proof (rule reconcile_spot_stateE)
  fix c1 c2 x b
  assume rev: "ss_reconciliation_revision s < rc_revision q"
    and c1: "foldE apply_spot_event (s\<lparr>ss_buffered_events := []\<rparr>)
       (sort_key ev_source_sequence (rc_events q @ dict_values (ss_buffered_events s))) = Inr c1"
    and c2: "foldE apply_spot_fee_valuation c1 (rc_fee_valuations q) = Inr c2"
    and agree: "reconcile_agrees c2 q = Inr ()"
    and known: "\<forall>r \<in> set (dict_values (ss_orders c2)). od_unknown_outcome r = None \<and> od_status r \<noteq> Unknown"
    and s': "s' = c2\<lparr>ss_orders := map (\<lambda>(k, r). (k, reconciled r)) (ss_orders c2),
            ss_controller := (ss_controller c2)\<lparr>ct_refusal_reason := x\<rparr>,
            ss_reconciliation_required := False, ss_fee_reconciliation_required := b,
            ss_reconciliation_revision := rc_revision q,
            ss_trace := ss_trace c2 @ [TrReconciliation (rc_revision q)]\<rparr>"
  have "cash_ok (s\<lparr>ss_buffered_events := []\<rparr>)" using assms(2) by (simp add: cash_ok_def)
  then have "cash_ok c2" using c1 c2 cash.events.fold_inv cash.valuations.fold_inv by blast
  moreover have "solvent (s\<lparr>ss_buffered_events := []\<rparr>)"
    using assms(3) free_cong [of "s\<lparr>ss_buffered_events := []\<rparr>" s] by (simp add: solvent_def)
  then have "solvent c2" using c1 c2 solvency.fold_inv valuation_solvency.fold_inv by blast
  ultimately have "solvent s'" by (rule close_solvent) (simp_all add: s')
  moreover have "ss_buffered_events c2 = []" using agree by (auto simp: reconcile_agrees_def split: if_splits)
  moreover have "\<forall>r \<in> set (dict_values (ss_orders s')). \<exists>r0 \<in> set (dict_values (ss_orders c2)). r = reconciled r0"
    by (force simp: s')
  then have "\<forall>r \<in> set (dict_values (ss_orders s')). od_unknown_outcome r = None \<and> od_status r \<noteq> Unknown \<and>
      (is_terminal (od_status r) \<longrightarrow> od_terminal_reconciled r \<and> od_reserved_quote r = 0 \<and>
         od_reserved_base r = 0 \<and> od_allocations r = [])"
    using known by (metis (no_types, lifting) reconciled_closed reconciled_simps(2,5))
  ultimately show ?thesis using rev by (simp add: s')
qed

lemma reconcile_orders_known:
  "\<forall>r \<in> set (dict_values d). od_unknown_outcome r = None \<and> od_status r \<noteq> Unknown \<Longrightarrow>
     reconcile_orders d = Inr (map (\<lambda>(k, r). (k, reconciled r)) d)"
  by (induction d rule: reconcile_orders.induct) (auto simp: reconcile_order_def reconciled_def)

lemma paper_reconciliation_agrees:
  assumes "ss_buffered_events s = []" "distinct (dict_keys (ss_orders s))"
  shows "reconcile_agrees s (paper_reconciliation s) = Inr ()"
proof -
  have "distinct (map fst (filter (\<lambda>(k, r). \<not> is_terminal (od_status r)) (ss_orders s)))"
    using assms(2) by (rule distinct_map_filter)
  then show ?thesis using assms(1)
    by (simp add: reconcile_agrees_def paper_reconciliation_def dict_eq_def case_prod_beta o_def list_all_iff)
qed

lemma paper_reconciliation_result:
  assumes "reconciliation_fields_ok (paper_reconciliation s)" "ss_quarantine s = []"
    and "ss_buffered_events s = []" "distinct (dict_keys (ss_orders s))"
    and "\<forall>r \<in> set (dict_values (ss_orders s)). od_unknown_outcome r = None \<and> od_status r \<noteq> Unknown"
  shows "\<exists>s'. reconcile_spot_state s (paper_reconciliation s) = Inr s' \<and>
    ss_account s' = ss_account s \<and> ss_orders s' = map (\<lambda>(k, r). (k, reconciled r)) (ss_orders s) \<and>
    ss_reconciliation_revision s' = ss_reconciliation_revision s + 1 \<and> \<not> ss_reconciliation_required s'"
proof -
  let ?q = "paper_reconciliation s"
  have q: "rc_events ?q = []" "rc_fee_valuations ?q = []" "rc_complete ?q"
    "rc_revision ?q = ss_reconciliation_revision s + 1" "rc_account_id ?q = bd_account_id (ss_binding s)"
    "rc_session_id ?q = bd_session_id (ss_binding s)" "rc_symbol ?q = bd_symbol (ss_binding s)"
    by (simp_all add: paper_reconciliation_def)
  have v: "validate_reconciliation ?q = Inr ?q" using assms(1) by (simp add: validate_reconciliation_def q)
  have s0: "s\<lparr>ss_buffered_events := []\<rparr> = s" using assms(3) by (cases s) simp
  show ?thesis using assms(2,3) reconcile_orders_known [OF assms(5)]
    by (simp add: reconcile_spot_state_def v q attributed_def s0 paper_reconciliation_agrees [OF assms(3,4)]
        Let_def clear_fee_barrier_def)
qed

lemma demo_report_valid: "reconciliation_fields_ok (paper_reconciliation demo_open)"
  by (simp add: reconciliation_fields_ok_def paper_reconciliation_def eval id_ok_def count_ok_def)

theorem reconcile_spot_state_releases_witness:
  "\<exists>s. reconcile_spot_state demo_open (paper_reconciliation demo_open) = Inr s \<and>
     \<not> ss_reconciliation_required s \<and> solvent s"
proof -
  obtain s where s: "reconcile_spot_state demo_open (paper_reconciliation demo_open) = Inr s"
    using paper_reconciliation_result [OF demo_report_valid]
    by (auto simp: demo_open_fields demo_order_fields)
  have "cash_ok demo_open" "solvent demo_open" by (simp_all add: cash_ok_def solvent_def eval)
  then show ?thesis using s reconcile_spot_state_releases [OF s] by blast
qed



end
