(* ===== verification/Account_Fills.thy ===== *)
theory Account_Fills
  imports Account_Money
begin










end
