(* ===== verification/Demo_Basket.thy ===== *)
theory Demo_Basket
  imports Demo_Session
begin

text \<open>
  The concrete session further on: holding a basket while it is being flattened, and holding a
  basket whose base order is partly filled, on which the DCA recipe raises its stop and places
  its target.
\<close>

definition demo_stopping :: spot_state where
  "demo_stopping = demo_holding\<lparr>ss_controller := initial_controller\<lparr>ct_terminal_action := Some StopAndFlatten,
     ct_terminal_reason := Some ''manual'', ct_terminal_command_id := Some ''cmd'', ct_phase := Stopping\<rparr>\<rparr>"

definition demo_base_order :: spot_order where
  "demo_base_order = (new_order demo_state (demo_intent\<lparr>it_client_order_id := ''b1'', it_slot_id := ''base'',
     it_purpose := Base, it_order_type := Market, it_limit_price := None\<rparr>))\<lparr>od_status := Partial, od_filled_quantity := 2,
     od_filled_quote := 100\<rparr>"

definition demo_basket :: spot_state where
  "demo_basket = demo_holding\<lparr>ss_orders := [(''b1'', demo_base_order)],
     ss_events := [(''e1'', demo_fill\<lparr>ev_client_order_id := ''b1'', ev_price := Some 50\<rparr>)],
     ss_controller := initial_controller\<lparr>ct_cycle := 1, ct_phase := Active, ct_stop := Some 30\<rparr>\<rparr>"

lemma demo_stopping_fields [eval]:
  "ss_controller demo_stopping = initial_controller\<lparr>ct_terminal_action := Some StopAndFlatten,
     ct_terminal_reason := Some ''manual'', ct_terminal_command_id := Some ''cmd'', ct_phase := Stopping\<rparr>"
  "ss_orders demo_stopping = [(''s1'', demo_sell_order)]" "ss_reconciliation_required demo_stopping = False"
  "ss_quarantine demo_stopping = []"  "ss_bar_index demo_stopping = -1" 
  by (simp_all add: demo_stopping_def eval) (simp_all add: demo_holding_def eval)

lemmas deciding = decide_def common_safety_def terminal_decisions_def trigger_terminal_def set_controller_def
  set_phase_def cancel_decision_def wants_start_def

lemma demo_stopping_decides: "\<exists>d. decide demo_digest demo_stopping (Executions []) = Inr d"
  by (simp add: eval deciding)

lemma demo_basket_fields [eval]:
  "ss_controller demo_basket = initial_controller\<lparr>ct_cycle := 1, ct_phase := Active, ct_stop := Some 30\<rparr>"
  "ss_orders demo_basket = [(''b1'', demo_base_order)]" "ss_recipe demo_basket = Dca demo_dca"
  "ss_events demo_basket = [(''e1'', demo_fill\<lparr>ev_client_order_id := ''b1'', ev_price := Some 50\<rparr>)]"
  "ss_instrument demo_basket = demo_instrument" "ss_policy demo_basket = demo_policy" "ss_binding demo_basket = demo_binding"
  "ss_mark demo_basket = None" "ss_quarantine demo_basket = []" "ss_reconciliation_required demo_basket = False"
  "ss_account demo_basket = ss_account demo_holding" "ss_bar_index demo_basket = -1" 
  by (simp_all add: demo_basket_def eval) (simp_all add: demo_holding_def eval)


lemma cycle_text_demo [eval]: "ct_cycle (ss_controller s) = 1 \<Longrightarrow> cycle_text s = ''c1''"
  by (simp add: cycle_text_def int_text_def nat_text.simps digit_char_def) code_simp

lemma demo_base_order_fields [eval]:
  "od_status demo_base_order = Partial" "od_filled_quantity demo_base_order = 2" "od_filled_quote demo_base_order = 100"
  "od_terminal_reconciled demo_base_order = False"
  "it_purpose (od_intent demo_base_order) = Base" "it_cycle_id (od_intent demo_base_order) = ''c1''"
  "it_client_order_id (od_intent demo_base_order) = ''b1''"
  by (simp_all add: demo_base_order_def new_order_def demo_intent_def)

lemma demo_dca_valid [eval]: "validate_dca demo_dca = Inr demo_dca"
  by (simp add: validate_dca_def demo_dca_def dca_params_ok_def eval positive_ok_def input_number_ok_def
      number_ok_numeral count_ok_def)

lemma owned_basket: "owned demo_basket p = (if p \<in> {None, Some Base} then [demo_base_order] else [])"
  by (simp add: owned_def eval)


lemma demo_steps [eval]:
  "ceil_step 45 (1 / 10) = Inr 45" "ceil_step (103 / 2) (1 / 10) = Inr (103 / 2)" "floor_step 2 (1 / 10) = Inr 2"
  by (simp_all add: ceil_step_def floor_step_def eval)

definition demo_raised :: spot_state where
  "demo_raised = demo_basket\<lparr>ss_controller := initial_controller\<lparr>ct_cycle := 1, ct_phase := Active,
     ct_stop := Some 45, ct_desired_target := Some (103 / 2)\<rparr>\<rparr>"

lemma demo_protects: "dca_protect demo_dca demo_basket demo_base_order 50 50 [] = Inr (demo_raised, [ProtectionD 45], 45)"
  by (simp add: dca_protect_def raise_stop_def eval set_controller_def demo_dca_def demo_raised_def)

lemma demo_raised_fields [eval]:
  "ss_controller demo_raised = initial_controller\<lparr>ct_cycle := 1, ct_phase := Active,
     ct_stop := Some 45, ct_desired_target := Some (103 / 2)\<rparr>"
  "ss_orders demo_raised = [(''b1'', demo_base_order)]"
  "ss_instrument demo_raised = demo_instrument" "ss_policy demo_raised = demo_policy" "ss_binding demo_raised = demo_binding"
  "ss_mark demo_raised = None" "ss_account demo_raised = ss_account demo_holding" "ss_bar_index demo_raised = -1" 
  by (simp_all add: demo_raised_def eval)

lemma demo_targets: "\<exists>ds. dca_target demo_digest demo_raised [ProtectionD 45] = Inr (demo_raised, ds)"
  by (simp add: dca_target_def eval sell_quantity_def owned_def submit_decision_def new_intent_def
      requested_quantity_of_def validate_intent_def no_args_def intent_fields_ok_def intent_key_def
      demo_digest_def demo_sha_def next_generation_def max_or_def opt_ok_def count_ok_def id_ok_def
      demo_policy_def numeral_eq_Suc)

lemma demo_first_fill: "first_fill demo_basket demo_base_order = Some (demo_fill\<lparr>ev_client_order_id := ''b1'', ev_price := Some 50\<rparr>)"
  by (simp add: first_fill_def eval)

lemma demo_follows: "\<exists>ds. dca_follow demo_digest demo_dca demo_raised demo_base_order 50 45 [ProtectionD 45] = Inr (demo_raised, ds)"
  using demo_targets by (simp add: dca_follow_def eval)

lemma demo_basket_decides:
  "\<exists>d. decide demo_digest demo_basket (Executions []) = Inr d \<and>
     dn_controller d = Some (ss_controller demo_raised)"
proof -
  have "\<exists>ds. dca_active demo_digest demo_dca demo_basket demo_base_order [] = Inr (demo_raised, ds)"
    using demo_follows demo_protects by (simp add: dca_active_def demo_first_fill eval)
  then obtain ds where "dca_step demo_digest demo_dca demo_basket (Executions []) [] = Inr (demo_raised, ds)"
    by (auto simp: dca_step_def eval owned_basket wants_start_def)
  moreover have "common_safety demo_digest demo_basket (Executions []) [] = Inr (False, demo_basket, [])"
    by (simp add: common_safety_def eval)
  ultimately show ?thesis by (simp add: decide_def eval)
qed

end
