(* ===== verification/Controller_Properties.thy ===== *)
theory Controller_Properties
  imports Account_Facts Demo_Basket
begin

text \<open>
  Properties of the DCA and Grid decisions: the terminal latch, that a terminal session only
  cancels and closes, and that a stop never loosens within a cycle.
\<close>

section \<open>The terminal latch\<close>

lemma trigger_terminal_latched:
  "ct_terminal_action (ss_controller (trigger_terminal s a reason cid)) \<noteq> None"
  by (auto simp: trigger_terminal_def Let_def set_controller_def)

lemma trigger_terminal_flatten:
  "ct_terminal_action (ss_controller s) = Some StopAndFlatten \<Longrightarrow>
   ct_terminal_action (ss_controller (trigger_terminal s a reason cid)) = Some StopAndFlatten"
  by (cases a) (auto simp: trigger_terminal_def Let_def set_controller_def)

text \<open>What a terminal action and the terminal decisions leave alone.\<close>

definition terminal_frame :: "spot_state \<Rightarrow> spot_state" where
  "terminal_frame s =
     s\<lparr>ss_account := (ss_account s)\<lparr>ac_cycle_reserve := 0, ac_cleanup_reserve := 0\<rparr>,
       ss_controller := (ss_controller s)\<lparr>ct_terminal_action := None, ct_terminal_reason := None,
         ct_terminal_command_id := None, ct_phase := Idle, ct_last_cycle_bar := 0,
         ct_last_close_observation := 0, ct_close_generation := 0\<rparr>\<rparr>"

lemma trigger_terminal_frame: "terminal_frame (trigger_terminal s a reason cid) = terminal_frame s"
  by (simp add: terminal_frame_def trigger_terminal_def Let_def set_controller_def)

fun closing :: "decision \<Rightarrow> bool" where
  "closing (SubmitD i) = (it_purpose i = Flatten \<and> it_side i = Sell)"
| "closing (CancelD _ _ _) = True"
| "closing (ProtectionD _) = False"

lemma new_intentD:
  assumes "new_intent H s p slot args = Inr i"
  shows "it_purpose i = p" "it_side i = purpose_side p" "it_slot_id i = slot" "it_cycle_id i = cycle_text s"
    "it_generation i = next_generation s p slot" "it_quantity i = ia_quantity args"
    "it_limit_price i = ia_price args" "validate_intent i = Inr i"
proof -
  obtain i0 where v: "validate_intent i0 = Inr i" and i0: "it_purpose i0 = p" "it_side i0 = purpose_side p"
    "it_slot_id i0 = slot" "it_cycle_id i0 = cycle_text s" "it_generation i0 = next_generation s p slot"
    "it_quantity i0 = ia_quantity args" "it_limit_price i0 = ia_price args"
    using assms by (auto simp: new_intent_def Let_def)
  have "i = i0" using v by (rule validate_intent_eq)
  then show "it_purpose i = p" "it_side i = purpose_side p" "it_slot_id i = slot" "it_cycle_id i = cycle_text s"
    "it_generation i = next_generation s p slot" "it_quantity i = ia_quantity args"
    "it_limit_price i = ia_price args" "validate_intent i = Inr i"
    using v i0 by simp_all
qed

lemma cancel_decisions_closing:
  "\<exists>new. foldl (cancel_decision H reason) ds rs = ds @ new \<and> list_all closing new"
proof (induction rs arbitrary: ds)
  case (Cons r rs)
  have "\<exists>new. cancel_decision H reason ds r = ds @ new \<and> list_all closing new"
    by (auto simp: cancel_decision_def)
  then show ?case using Cons.IH [of "cancel_decision H reason ds r"] by force
qed simp

lemma close_decisions_cases [consumes 1, case_names waits submits]:
  assumes "close_decisions H s closes ds = Inr (s', ds')"
  obtains "ds' = ds" "s' = s \<or> (\<exists>p. s' = set_phase s p)"
  | i args x y where "new_intent H s Flatten ''basket'' args = Inr i" "ds' = ds @ [SubmitD i]"
      "s' = set_controller s ((ss_controller s)\<lparr>ct_last_close_observation := x, ct_close_generation := y\<rparr>)"
proof -
  show thesis using assms unfolding close_decisions_def Let_def submit_decision_def
    by (auto simp only: bindE_eq_Inr Pair_inject sum.inject split: if_split_asm intro: that)
qed

lemma set_phase_frame [simp]:
  "terminal_frame (set_phase s p) = terminal_frame s"
  "ct_terminal_action (ss_controller (set_phase s p)) = ct_terminal_action (ss_controller s)"
  by (simp_all add: terminal_frame_def set_phase_def set_controller_def)

lemma close_decisionsD:
  assumes "close_decisions H s closes ds = Inr (s', ds')"
  shows "(\<exists>new. ds' = ds @ new \<and> list_all closing new) \<and> terminal_frame s' = terminal_frame s
    \<and> ct_terminal_action (ss_controller s') = ct_terminal_action (ss_controller s)"
  using assms
proof (cases rule: close_decisions_cases)
  case (submits i args x y)
  then have "closing (SubmitD i)" using new_intentD(1,2) by simp
  then show ?thesis using submits by (simp add: terminal_frame_def set_controller_def)
qed auto

lemma terminal_decisions_cases [consumes 1, case_names waits closes]:
  assumes "terminal_decisions H s ds = Inr (s', ds')"
  obtains cs where "ds' = ds @ cs" "list_all closing cs" "terminal_frame s' = terminal_frame s"
      "ct_terminal_action (ss_controller s') = ct_terminal_action (ss_controller s)"
  | cs closes where "list_all closing cs"
      "close_decisions H (s\<lparr>ss_account := (ss_account s)\<lparr>ac_cycle_reserve := 0, ac_cleanup_reserve := 0\<rparr>\<rparr>)
         closes (ds @ cs) = Inr (s', ds')"
proof -
  let ?ps = "filter (\<lambda>r. it_purpose (od_intent r) \<noteq> Flatten) (dict_values (ss_orders s))"
  obtain cs where cs: "foldl (cancel_decision H (ct_terminal_command_id (ss_controller s))) ds ?ps = ds @ cs"
    "list_all closing cs" using cancel_decisions_closing by blast
  let ?s1 = "s\<lparr>ss_account := (ss_account s)\<lparr>ac_cycle_reserve := 0, ac_cleanup_reserve := 0\<rparr>\<rparr>"
  have "(ds' = ds \<or> ds' = ds @ cs) \<and> terminal_frame s' = terminal_frame s
      \<and> ct_terminal_action (ss_controller s') = ct_terminal_action (ss_controller s)
    \<or> close_decisions H ?s1 (owned ?s1 (Some Flatten)) (ds @ cs) = Inr (s', ds')"
    using assms unfolding terminal_decisions_def Let_def cs(1)
    by (auto simp: set_controller_def set_phase_def terminal_frame_def split: if_split_asm)
  then show thesis using that(1) [of "[]"] that(1) [of cs] that(2) [of cs] cs(2) by (elim disjE conjE) auto
qed

lemma terminal_decisionsD:
  assumes "terminal_decisions H s ds = Inr (s', ds')"
  shows "(\<exists>new. ds' = ds @ new \<and> list_all closing new) \<and> terminal_frame s' = terminal_frame s
    \<and> ct_terminal_action (ss_controller s') = ct_terminal_action (ss_controller s)"
  using assms
proof (cases rule: terminal_decisions_cases)
  case (closes cs cl)
  from close_decisionsD [OF closes(2)] closes(1) show ?thesis by (auto simp: terminal_frame_def)
qed auto

text \<open>A terminal action seen as a step on the latch: it never clears it nor downgrades it.\<close>

definition latched :: "spot_state \<Rightarrow> spot_state \<Rightarrow> bool" where
  "latched s s' \<longleftrightarrow>
     (ct_terminal_action (ss_controller s) \<noteq> None \<longrightarrow> ct_terminal_action (ss_controller s') \<noteq> None) \<and>
     (ct_terminal_action (ss_controller s) = Some StopAndFlatten \<longrightarrow>
        ct_terminal_action (ss_controller s') = Some StopAndFlatten)"

lemma latched_trigger: "latched s (trigger_terminal s a reason cid)"
  unfolding latched_def using trigger_terminal_latched trigger_terminal_flatten by blast

lemma latched_refl [simp]: "latched s s"
  by (simp add: latched_def)

lemma latched_trans: "latched s s' \<Longrightarrow> latched s' s'' \<Longrightarrow> latched s s''"
  by (auto simp: latched_def)

lemma latched_cong: "ct_terminal_action (ss_controller s'') = ct_terminal_action (ss_controller s') \<Longrightarrow>
    latched s s' \<Longrightarrow> latched s s''"
  by (simp add: latched_def)

lemma if_trigger:
  "latched s (if b then trigger_terminal s a reason cid else s)"
  "terminal_frame (if b then trigger_terminal s a reason cid else s) = terminal_frame s"
  by (simp_all add: latched_trigger trigger_terminal_frame)

lemma if_trigger_None:
  assumes "ct_terminal_action (ss_controller (if b then trigger_terminal s a reason cid else s)) = None"
  shows "(if b then trigger_terminal s a reason cid else s) = s"
  using assms trigger_terminal_latched by metis

lemma common_safetyD:
  assumes "common_safety H s p ds = Inr (handled, s', ds')"
  shows "latched s s' \<and> terminal_frame s' = terminal_frame s \<and>
    (ct_terminal_action (ss_controller s) \<noteq> None \<longrightarrow> handled) \<and>
    (if handled then \<exists>new. ds' = ds @ new \<and> list_all closing new else ds' = ds \<and> s' = s)"
proof -
  obtain stopped touched where
    fin: "(let s1 = (if stopped then trigger_terminal s StopAndFlatten ''stop'' None else s);
         s2 = (if target_executed p then trigger_terminal s1 StopAndFlatten ''target'' None else s1);
         s3 = (if touched then trigger_terminal s2 StopAndFlatten ''target'' None else s2) in
       if ct_terminal_action (ss_controller s3) \<noteq> None
       then bindE (terminal_decisions H s3 ds) (\<lambda>(s4, ds'). Inr (True, s4, ds'))
       else Inr (ss_reconciliation_required s3 \<or> ss_quarantine s3 \<noteq> [], s3, ds)) = Inr (handled, s', ds')"
    using assms unfolding common_safety_def by (simp only: bindE_eq_Inr Let_def) blast
  define s1 where "s1 = (if stopped then trigger_terminal s StopAndFlatten ''stop'' None else s)"
  define s2 where "s2 = (if target_executed p then trigger_terminal s1 StopAndFlatten ''target'' None else s1)"
  define s3 where "s3 = (if touched then trigger_terminal s2 StopAndFlatten ''target'' None else s2)"
  have "latched s s1" "latched s1 s2" "latched s2 s3" unfolding s1_def s2_def s3_def by (rule if_trigger)+
  then have l: "latched s s3" using latched_trans by blast
  have f: "terminal_frame s3 = terminal_frame s"
    unfolding s3_def if_trigger unfolding s2_def if_trigger unfolding s1_def if_trigger ..
  note fin = fin [unfolded Let_def, folded s1_def, folded s2_def, folded s3_def]
  show ?thesis
  proof (cases "ct_terminal_action (ss_controller s3) = None")
    case True
    then have 3: "s3 = s2" unfolding s3_def by (rule if_trigger_None)
    then have 2: "s2 = s1" using True unfolding s2_def by (intro if_trigger_None) simp
    then have "s1 = s" using 3 True unfolding s1_def by (intro if_trigger_None) simp
    then have "s3 = s" using 2 3 by simp
    then show ?thesis using fin True by (auto split: if_splits)
  next
    case False
    then obtain t where "terminal_decisions H s3 ds = Inr (s', ds')" and h: "handled"
      using fin by (auto split: prod.splits)
    from terminal_decisionsD [OF this(1)] show ?thesis using l f h latched_cong by auto
  qed
qed

text \<open>The parts of a decision: the restart, the common safety rules and the recipe.\<close>

definition restarted :: "spot_state \<Rightarrow> payload \<Rightarrow> spot_state" where
  "restarted s p =
     (if ct_phase (ss_controller s) = Complete \<and> wants_start s p
      then set_controller s ((ss_controller s)\<lparr>ct_terminal_action := None\<rparr>) else s)"

lemma decideE:
  assumes "decide H s p = Inr d"
  obtains handled s1 ds1 s2 ds2 where
    "common_safety H (restarted s p) p [] = Inr (handled, s1, ds1)"
    "if handled then (s2, ds2) = (s1, ds1)
     else (case ss_recipe s1 of Dca q \<Rightarrow> dca_step H q s1 p ds1 | Grid q \<Rightarrow> grid_step H q s1 p ds1) = Inr (s2, ds2)"
    "dn_intents d = ds2" "dn_controller d = Some (ss_controller s2)"
proof -
  obtain handled s1 ds1 s2 ds2 where
    "common_safety H (restarted s p) p [] = Inr (handled, s1, ds1)"
    "(if handled then Inr (s1, ds1)
     else (case ss_recipe s1 of Dca q \<Rightarrow> dca_step H q s1 p ds1 | Grid q \<Rightarrow> grid_step H q s1 p ds1)) = Inr (s2, ds2)"
    "dn_intents d = ds2" "dn_controller d = Some (ss_controller s2)"
    using assms unfolding decide_def Let_def restarted_def [symmetric] by auto
  then show thesis by (intro that [of handled s1 ds1 s2 ds2]) (auto split: if_splits)
qed



section \<open>The stop\<close>

definition cycle_stop :: "spot_state \<Rightarrow> int \<times> rat option" where
  "cycle_stop s = (ct_cycle (ss_controller s), ct_stop (ss_controller s))"

lemma cycle_stop_simps [simp]:
  "cycle_stop (set_phase s ph) = cycle_stop s" "cycle_stop (s\<lparr>ss_account := a\<rparr>) = cycle_stop s"
  "cycle_stop (set_controller s ((ss_controller s)\<lparr>ct_refusal_reason := x\<rparr>)) = cycle_stop s"
  "cycle_stop (set_controller s ((ss_controller s)\<lparr>ct_desired_target := d\<rparr>)) = cycle_stop s"
  "cycle_stop (set_controller s ((ss_controller s)\<lparr>ct_terminal_action := act\<rparr>)) = cycle_stop s"
  by (simp_all add: cycle_stop_def set_phase_def set_controller_def)

lemma terminal_frame_stop:
  assumes "terminal_frame s' = terminal_frame s"
  shows "ct_cycle (ss_controller s') = ct_cycle (ss_controller s)" "ct_stop (ss_controller s') = ct_stop (ss_controller s)"
    "ss_orders s' = ss_orders s" "ss_recipe s' = ss_recipe s" "ss_instrument s' = ss_instrument s"
    "ss_bar_index s' = ss_bar_index s" "ss_binding s' = ss_binding s"
proof -
  have "ss_controller (terminal_frame s') = ss_controller (terminal_frame s)" using assms by simp
  then show "ct_cycle (ss_controller s') = ct_cycle (ss_controller s)" "ct_stop (ss_controller s') = ct_stop (ss_controller s)"
    by (auto simp: terminal_frame_def dest: arg_cong [of _ _ ct_cycle] arg_cong [of _ _ ct_stop])
  show "ss_orders s' = ss_orders s" "ss_recipe s' = ss_recipe s" "ss_instrument s' = ss_instrument s"
    "ss_bar_index s' = ss_bar_index s" "ss_binding s' = ss_binding s"
    using arg_cong [OF assms, of ss_orders] arg_cong [OF assms, of ss_recipe] arg_cong [OF assms, of ss_instrument]
      arg_cong [OF assms, of ss_bar_index] arg_cong [OF assms, of ss_binding]
    by (simp_all add: terminal_frame_def)
qed

lemma stop_and_close_frame:
  assumes "stop_and_close H s reason ds = Inr (s', ds')"
  shows "terminal_frame s' = terminal_frame s"
proof -
  have "terminal_frame s' = terminal_frame (trigger_terminal s StopAndFlatten reason None)"
    using terminal_decisionsD [OF assms [unfolded stop_and_close_def]] by (elim conjE)
  then show ?thesis by (simp only: trigger_terminal_frame)
qed

lemma terminal_frame_cycle_stop: "terminal_frame s' = terminal_frame s \<Longrightarrow> cycle_stop s' = cycle_stop s"
  unfolding cycle_stop_def by (intro arg_cong2 [of _ _ _ _ Pair] terminal_frame_stop)

lemma stop_and_close_cycle_stop: "stop_and_close H s reason ds = Inr (s', ds') \<Longrightarrow> cycle_stop s' = cycle_stop s"
  using stop_and_close_frame terminal_frame_cycle_stop by blast

lemma dca_target_cycle_stop:
  assumes "dca_target H s ds = Inr (s', ds')"
  shows "cycle_stop s' = cycle_stop s"
  using assms
  by (auto simp: dca_target_def Let_def dest!: stop_and_close_cycle_stop split: if_splits option.splits)

lemma arm_ladder_cycle_stop:
  assumes "arm_ladder p s vwap stop = Inr s'"
  shows "cycle_stop s' = cycle_stop s"
  using assms by (auto simp: arm_ladder_def Let_def cycle_stop_def set_controller_def split: if_splits)

lemma raise_stopD:
  assumes "raise_stop s stop ds = Inr (s', ds')"
  shows "ct_cycle (ss_controller s') = ct_cycle (ss_controller s)"
    and "ct_stop (ss_controller s) = Some v \<Longrightarrow> \<exists>v'. ct_stop (ss_controller s') = Some v' \<and> v \<le> v'"
  using assms by (auto simp: raise_stop_def Let_def set_controller_def split: if_splits option.splits)

text \<open>Within a cycle the stop of the result is no lower.\<close>

definition stop_kept :: "int \<times> rat option \<Rightarrow> int \<times> rat option \<Rightarrow> bool" where
  "stop_kept x y \<longleftrightarrow>
     (fst y = fst x \<longrightarrow> (\<forall>v. snd x = Some v \<longrightarrow> (\<exists>v'. snd y = Some v' \<and> v \<le> v')))"

lemma stop_kept_refl [simp]: "stop_kept x x"
  by (simp add: stop_kept_def)

lemma raise_stop_kept: "raise_stop s stop ds = Inr (s', ds') \<Longrightarrow> stop_kept (cycle_stop s) (cycle_stop s')"
  using raise_stopD(2) by (simp add: stop_kept_def cycle_stop_def)

lemma dca_protect_stop:
  assumes "dca_protect p s base fp vwap ds = Inr (s', ds', armed)"
  shows "stop_kept (cycle_stop s) (cycle_stop s')"
  using assms by (auto simp: dca_protect_def Let_def dest: raise_stop_kept)

lemma dca_follow_cycle_stop:
  assumes "dca_follow H p s base vwap armed ds = Inr (s', ds')"
  shows "cycle_stop s' = cycle_stop s"
proof (cases "case ss_mark s of None \<Rightarrow> False | Some m \<Rightarrow> m \<le> armed")
  case True
  then show ?thesis using assms stop_and_close_cycle_stop by (auto simp: dca_follow_def)
next
  case False
  then obtain s1 ds1 where
    "(if od_terminal_reconciled base \<and> ct_anchor (ss_controller s) = None
      then arm_ladder p s vwap armed else Inr s) = Inr s1"
    and "dca_target H s1 ds1 = Inr (s', ds')"
    using assms unfolding dca_follow_def Let_def by (simp only: bindE_eq_Inr if_False) blast
  then show ?thesis
    by (auto dest!: dca_target_cycle_stop arm_ladder_cycle_stop split: if_split_asm)
qed

lemma dca_step_stop:
  assumes "dca_step H p s payload ds = Inr (s', ds')"
  shows "stop_kept (cycle_stop s) (cycle_stop s')"
proof -
  have start: "stop_kept (cycle_stop s) (cycle_stop s')" if "dca_start H q s ds = Inr (s', ds')" for q
    using that by (auto simp: dca_start_def Let_def stop_kept_def cycle_stop_def set_controller_def split: if_splits)
  have active: "stop_kept (cycle_stop s) (cycle_stop s')" if "dca_active H q s base ds = Inr (s', ds')" for q base
    using that by (auto simp: dca_active_def dest!: dca_protect_stop dca_follow_cycle_stop split: option.splits)
  show ?thesis using assms
    by (auto simp: dca_step_def dest: start active stop_and_close_cycle_stop split: if_splits list.splits)
qed

section \<open>Grid\<close>

lemma arm_slots_cycle_stop:
  "arm_slots H q req s ds slots = Inr (s', ds') \<Longrightarrow> cycle_stop s' = cycle_stop s"
  by (induction slots arbitrary: s ds)
    (auto simp: Let_def cycle_stop_def set_controller_def split: prod.splits)

lemma pause_slot_cycle_stop [simp]: "cycle_stop (pause_slot s slot r) = cycle_stop s"
  by (auto simp: pause_slot_def Let_def cycle_stop_def set_controller_def split: option.splits ctl_slot.splits)

lemma rearm_slot_cycle_stop:
  assumes "rearm_slot H p s ds slot bid q = Inr (s', ds')"
  shows "cycle_stop s' = cycle_stop s"
  using assms unfolding rearm_slot_def Let_def
  by (auto split: option.split_asm if_split_asm)

lemma grid_slot_cases:
  assumes "grid_slot H p payload (s, ds) (slot, details) = Inr (s', ds')"
  shows "s' = s \<or> (\<exists>bid q. rearm_slot H p s ds slot bid q = Inr (s', ds'))"
  using assms unfolding grid_slot_def Let_def prod.case
  by (simp only: bindE_eq_Inr split: if_split_asm ctl_slot.split_asm) auto

interpretation slots: framed_reducer "grid_slot H p payload" "\<lambda>(s, ds). cycle_stop s" for H p payload
proof
  fix x x' e
  assume "grid_slot H p payload x e = Inr x'"
  then show "(case x' of (s, ds) \<Rightarrow> cycle_stop s) = (case x of (s, ds) \<Rightarrow> cycle_stop s)"
    by (cases x; cases x'; cases e) (auto dest!: grid_slot_cases rearm_slot_cycle_stop)
qed

lemma grid_step_stop:
  assumes "grid_step H p s payload ds = Inr (s', ds')"
  shows "stop_kept (cycle_stop s) (cycle_stop s')"
proof -
  have start: "stop_kept (cycle_stop s) (cycle_stop s')" if "grid_start H q s ds = Inr (s', ds')" for q
    using that by (auto simp: grid_start_def Let_def stop_kept_def cycle_stop_def set_controller_def
        dest!: arm_slots_cycle_stop split: option.splits if_splits)
  have slots: "cycle_stop s' = cycle_stop s" if "foldE (grid_slot H q payload) (s, ds) xs = Inr (s', ds')" for q xs
    using slots.fold_view [OF that] by simp
  show ?thesis using assms by (auto simp: grid_step_def dest: start slots split: if_splits)
qed

text \<open>
  C6: within a cycle the protective stop of either recipe never loosens: whatever the
  observation, the stop that a decision leaves is no lower than the one it found.
\<close>

theorem stop_never_loosens:
  assumes "decide H s p = Inr d" "dn_controller d = Some c" "ct_cycle c = ct_cycle (ss_controller s)"
    and "ct_stop (ss_controller s) = Some v"
  shows "\<exists>v'. ct_stop c = Some v' \<and> v \<le> v'"
proof -
  obtain handled s1 ds1 s2 ds2 where
    cs: "common_safety H (restarted s p) p [] = Inr (handled, s1, ds1)"
    and step: "if handled then (s2, ds2) = (s1, ds1)
     else (case ss_recipe s1 of Dca q \<Rightarrow> dca_step H q s1 p ds1 | Grid q \<Rightarrow> grid_step H q s1 p ds1) = Inr (s2, ds2)"
    and c: "dn_controller d = Some (ss_controller s2)"
    using assms(1) by (rule decideE)
  have "cycle_stop s1 = cycle_stop (restarted s p)" using common_safetyD [OF cs] terminal_frame_cycle_stop by blast
  also have "\<dots> = cycle_stop s" by (simp add: restarted_def)
  finally have "cycle_stop s1 = cycle_stop s" .
  moreover have "stop_kept (cycle_stop s1) (cycle_stop s2)"
    using step by (cases handled) (auto dest: dca_step_stop grid_step_stop split: recipe.splits)
  ultimately have "stop_kept (cycle_stop s) (cycle_stop s2)" by simp
  then show ?thesis using assms(2-4) c by (auto simp: stop_kept_def cycle_stop_def)
qed

theorem stop_never_loosens_witness:
  "\<exists>d. decide demo_digest demo_basket (Executions []) = Inr d \<and>
     (\<exists>c v'. dn_controller d = Some c \<and> ct_stop c = Some v' \<and> 30 \<le> v')"
proof -
  obtain d where d: "decide demo_digest demo_basket (Executions []) = Inr d"
    "dn_controller d = Some (ss_controller demo_raised)" using demo_basket_decides by blast
  have "ct_cycle (ss_controller demo_raised) = ct_cycle (ss_controller demo_basket)"
    "ct_stop (ss_controller demo_basket) = Some 30"
    by (simp_all add: demo_raised_fields demo_basket_fields)
  from stop_never_loosens [OF d this] d show ?thesis by auto
qed

end
