(* ===== verification/Graph_Model.thy ===== *)
theory Graph_Model
  imports Prelude
begin

text \<open>
  The vocabulary of the strategy graph, \<open>src/koval/strategy/graph/\<close>: the JSON a graph is
  written in, the domains and their flow rule (\<open>domains.py\<close>), the entity classes that travel on
  the edges (\<open>entities.py\<close>), the typed ports (\<open>ports.py\<close>) and the node specifications
  (\<open>node.py\<close>). The catalogue of node types is filled by the node modules when they are
  imported; it is an argument of the definitions that read \<open>NODE_CATALOG\<close>.
\<close>

section \<open>JSON values\<close>

datatype json =
    JNull
  | JBool bool
  | JNum rat
  | JStr string
  | JList "json list"
  | JObj "(string \<times> json) list"

text \<open>\<open>d.get(k)\<close>: an absent key and an explicit null are both \<open>None\<close>.\<close>

definition jget :: "string \<Rightarrow> json dict \<Rightarrow> json" where
  "jget k d = (case map_of d k of None \<Rightarrow> JNull | Some v \<Rightarrow> v)"

fun truthy_json :: "json \<Rightarrow> bool" where
  "truthy_json JNull = False"
| "truthy_json (JBool b) = b"
| "truthy_json (JNum r) = (r \<noteq> 0)"
| "truthy_json (JStr s) = (s \<noteq> [])"
| "truthy_json (JList xs) = (xs \<noteq> [])"
| "truthy_json (JObj d) = (d \<noteq> [])"

text \<open>Python's \<open>==\<close> on such values: a boolean is a number, and a dict is compared by its keys.\<close>

fun number_of :: "json \<Rightarrow> rat option" where
  "number_of (JBool b) = Some (if b then 1 else 0)"
| "number_of (JNum r) = Some r"
| "number_of _ = None"

fun json_eq :: "json \<Rightarrow> json \<Rightarrow> bool"
and json_list_eq :: "json list \<Rightarrow> json list \<Rightarrow> bool"
and json_obj_le :: "json dict \<Rightarrow> json dict \<Rightarrow> bool" where
  "json_eq JNull y = (y = JNull)"
| "json_eq (JBool b) y = (number_of y = Some (if b then 1 else 0))"
| "json_eq (JNum r) y = (number_of y = Some r)"
| "json_eq (JStr s) y = (y = JStr s)"
| "json_eq (JList xs) y = (case y of JList ys \<Rightarrow> json_list_eq xs ys | _ \<Rightarrow> False)"
| "json_eq (JObj d) y = (case y of JObj e \<Rightarrow> length d = length e \<and> json_obj_le d e | _ \<Rightarrow> False)"
| "json_list_eq [] ys = (ys = [])"
| "json_list_eq (x # xs) ys = (case ys of [] \<Rightarrow> False | y # ys' \<Rightarrow> json_eq x y \<and> json_list_eq xs ys')"
| "json_obj_le [] e = True"
| "json_obj_le ((k, v) # d) e =
     ((case map_of e k of None \<Rightarrow> False | Some w \<Rightarrow> json_eq v w) \<and> json_obj_le d e)"

text \<open>A list or a dict cannot be a key: looking it up in a set or a dict raises \<open>TypeError\<close>.\<close>

fun key_of :: "json \<Rightarrow> string option res" where
  "key_of (JList _) = Inl TypeError"
| "key_of (JObj _) = Inl TypeError"
| "key_of (JStr s) = Inr (Some s)"
| "key_of _ = Inr None"

definition lookup_key :: "'v dict \<Rightarrow> json \<Rightarrow> (string \<times> 'v) option res" where
  "lookup_key d j =
     bindE (key_of j) (\<lambda>k. Inr (case k of None \<Rightarrow> None
       | Some s \<Rightarrow> (case map_of d s of None \<Rightarrow> None | Some v \<Rightarrow> Some (s, v))))"

section \<open>Domains\<close>

datatype domain = Source | Fact | State | Policy | Interpretation | Execution

fun rank :: "domain \<Rightarrow> nat" where
  "rank Source = 0"
| "rank Fact = 1"
| "rank State = 1"
| "rank Policy = 2"
| "rank Interpretation = 3"
| "rank Execution = 4"

definition can_flow :: "domain \<Rightarrow> domain \<Rightarrow> bool" where
  "can_flow producer consumer \<longleftrightarrow> rank producer \<le> rank consumer"

section \<open>Entities and ports\<close>

datatype entity_kind =
    Entity | ValueIdentity | NumericValue | Condition | LevelSnapshot | MarketEvent | MarketState
  | PolicyDecision | SetupCandidate | ScoredSetup | TradingIntent | OrderRequest
  | PositionExitRequest | SpotRecipeRequest | SpotRecipeStatus | OrderExecution

text \<open>\<open>issubclass\<close>: every class derives from \<open>Entity\<close>, and the two scalar ones from a common base.\<close>

definition issubclass :: "entity_kind \<Rightarrow> entity_kind \<Rightarrow> bool" where
  "issubclass a b \<longleftrightarrow> a = b \<or> b = Entity \<or> (b = ValueIdentity \<and> a \<in> {NumericValue, Condition})"

record port_spec =
  po_accepts :: "entity_kind list"
  po_required :: bool
  po_max_connections :: "nat option"
  po_terminal :: bool

definition port_accepts :: "port_spec \<Rightarrow> entity_kind \<Rightarrow> bool" where
  "port_accepts p produced = list_ex (issubclass produced) (po_accepts p)"

lemma issubclass_trans: "issubclass a b \<Longrightarrow> issubclass b c \<Longrightarrow> issubclass a c"
  by (auto simp: issubclass_def)

section \<open>Node specifications\<close>

text \<open>
  The parameter schema of a node parses the parameters or refuses them. Of the parsed
  parameters the graph code reads the unit, the mode, the operator and whether a literal is
  given, and for a value source the history it needs and its component.
\<close>

record node_params =
  np_unit :: "string option"
  np_mode :: "string option"
  np_operator :: "string option"
  np_literal :: bool
  np_component :: string
  np_history_bars :: int

record node_spec =
  ns_domain :: domain
  ns_params_schema :: "json dict \<Rightarrow> node_params option"
  ns_input_ports :: "port_spec dict"
  ns_output_ports :: "port_spec dict"

type_synonym catalog = "node_spec dict"

definition has_terminal :: "node_spec \<Rightarrow> bool" where
  "has_terminal spec = list_ex po_terminal (dict_values (ns_output_ports spec))"

text \<open>A block and a connection whose shape has been checked.\<close>

record block =
  bk_id :: string
  bk_type :: string
  bk_params :: "json option"

record edge =
  eg_src :: string
  eg_src_port :: string
  eg_dst :: string
  eg_dst_port :: string

text \<open>\<open>b.get("params") or {}\<close>.\<close>

definition params_or_empty :: "json option \<Rightarrow> json" where
  "params_or_empty p = (case p of Some j \<Rightarrow> if truthy_json j then j else JObj [] | None \<Rightarrow> JObj [])"

definition parsed_params :: "catalog \<Rightarrow> block \<Rightarrow> node_params option" where
  "parsed_params cat b =
     (case (map_of cat (bk_type b), params_or_empty (bk_params b)) of
        (Some spec, JObj d) \<Rightarrow> ns_params_schema spec d
      | _ \<Rightarrow> None)"

section \<open>Edges as a relation\<close>

definition successors :: "edge list \<Rightarrow> string \<Rightarrow> string list" where
  "successors edges n = map eg_dst (filter (\<lambda>e. eg_src e = n) edges)"

definition edge_rel :: "edge list \<Rightarrow> (string \<times> string) set" where
  "edge_rel edges = (\<lambda>e. (eg_src e, eg_dst e)) ` set edges"

lemma successors_edge [simp]: "m \<in> set (successors edges n) \<longleftrightarrow> (n, m) \<in> edge_rel edges"
  by (auto simp: successors_def edge_rel_def)

lemma finite_edge_rel [simp]: "finite (edge_rel edges)"
  by (simp add: edge_rel_def)

text \<open>Edges between known nodes.\<close>

definition edges_within :: "string list \<Rightarrow> edge list \<Rightarrow> bool" where
  "edges_within ids edges = list_all (\<lambda>e. eg_src e \<in> set ids \<and> eg_dst e \<in> set ids) edges"

lemma edges_withinD: "edges_within ids edges \<Longrightarrow> edge_rel edges \<subseteq> set ids \<times> set ids"
  by (auto simp: edges_within_def edge_rel_def list_all_iff)

end
