(* ===== verification/Graph_Validation.thy ===== *)
theory Graph_Validation
  imports Graph_Model
begin

text \<open>
  \<open>src/koval/strategy/graph/validation.py\<close>: \<open>validate_graph\<close>, its checks in the order of the
  source. Each check raises \<open>GraphValidationError\<close> with the fixed part of its message (the
  interpolated parts are left out), or lets the \<open>TypeError\<close> or \<open>KeyError\<close> of an ill-shaped lookup
  escape. The loops that fill \<open>ids\<close> and the seen connections return the blocks and edges they
  have accepted, which the later checks read.
\<close>

abbreviation invalid :: "string \<Rightarrow> 'a res" where
  "invalid m \<equiv> Inl (GraphValidationError m)"

section \<open>Spot recipes\<close>

text \<open>\<open>block is not recipes[0]\<close> compares objects: a block is known by its position.\<close>

fun recipe_blocks :: "nat \<Rightarrow> json list \<Rightarrow> (nat \<times> json dict) list res" where
  "recipe_blocks n [] = Inr []"
| "recipe_blocks n (b # bs) =
     (case b of
        JObj d \<Rightarrow>
          bindE (key_of (jget ''type'' d)) (\<lambda>t.
          bindE (recipe_blocks (Suc n) bs) (\<lambda>rs.
          Inr (if t \<in> {Some ''exec.spot_dca'', Some ''exec.spot_grid''} then (n, d) # rs else rs)))
      | _ \<Rightarrow> recipe_blocks (Suc n) bs)"

fun recipe_alone :: "catalog \<Rightarrow> nat \<Rightarrow> nat \<Rightarrow> json list \<Rightarrow> unit res" where
  "recipe_alone cat r n [] = Inr ()"
| "recipe_alone cat r n (b # bs) =
     bindE (case b of JObj d \<Rightarrow> lookup_key cat (jget ''type'' d) | _ \<Rightarrow> Inr None) (\<lambda>spec.
     if (case spec of None \<Rightarrow> False | Some (_, s) \<Rightarrow> n \<noteq> r \<and> has_terminal s)
     then invalid ''Spot recipe cannot be mixed with other execution terminals''
     else recipe_alone cat r (Suc n) bs)"

definition recipe_consumed :: "json dict \<Rightarrow> json \<Rightarrow> bool" where
  "recipe_consumed recipe c =
     (case c of
        JObj d \<Rightarrow> json_eq (jget ''from'' d) (jget ''id'' recipe) \<and> jget ''from_port'' d = JStr ''recipe''
      | _ \<Rightarrow> False)"

definition check_recipes :: "catalog \<Rightarrow> json list \<Rightarrow> json list \<Rightarrow> unit res" where
  "check_recipes cat blocks connections =
     bindE (recipe_blocks 0 blocks) (\<lambda>recipes.
     case recipes of
       [] \<Rightarrow> Inr ()
     | [(r, d)] \<Rightarrow>
         bindE (recipe_alone cat r 0 blocks) (\<lambda>_.
         if list_ex (recipe_consumed d) connections
         then invalid ''Spot recipe terminal cannot be consumed'' else Inr ())
     | _ \<Rightarrow> invalid ''Graph requires exactly one Spot recipe terminal'')"

section \<open>Blocks\<close>

definition check_block :: "catalog \<Rightarrow> block list \<Rightarrow> json \<Rightarrow> block list res" where
  "check_block cat bs b =
     (case b of
        JObj d \<Rightarrow>
          (case (map_of d ''id'', map_of d ''type'') of
             (Some i, Some t) \<Rightarrow>
               (case i of
                  JStr nid \<Rightarrow>
                    if nid = [] then invalid ''Block id must be a non-empty string''
                    else (case t of
                       JStr ty \<Rightarrow>
                         if ty = [] then invalid ''Block type must be a non-empty string''
                         else if nid \<in> bk_id ` set bs then invalid ''Duplicate block id''
                         else (case map_of cat ty of
                           None \<Rightarrow> invalid ''unknown type''
                         | Some spec \<Rightarrow>
                             let bk = \<lparr>bk_id = nid, bk_type = ty, bk_params = map_of d ''params''\<rparr> in
                             (case params_or_empty (bk_params bk) of
                                JObj p \<Rightarrow>
                                  if ns_params_schema spec p = None then invalid ''params invalid''
                                  else Inr (bs @ [bk])
                              | _ \<Rightarrow> invalid ''params must be an object''))
                     | _ \<Rightarrow> invalid ''Block type must be a non-empty string'')
                | _ \<Rightarrow> invalid ''Block id must be a non-empty string'')
           | _ \<Rightarrow> invalid ''Block missing id/type'')
      | _ \<Rightarrow> invalid ''Block must be an object'')"

section \<open>Connections\<close>

definition find_block :: "block list \<Rightarrow> string \<Rightarrow> block option" where
  "find_block bs nid = List.find (\<lambda>b. bk_id b = nid) bs"

text \<open>The specification of a node, \<open>NODE_CATALOG[ids[nid]]\<close>.\<close>

definition spec_of :: "catalog \<Rightarrow> block list \<Rightarrow> json \<Rightarrow> (string \<times> node_spec) option res" where
  "spec_of cat bs j =
     bindE (key_of j) (\<lambda>k. Inr (case k of None \<Rightarrow> None
       | Some nid \<Rightarrow> (case find_block bs nid of None \<Rightarrow> None
           | Some b \<Rightarrow> (case map_of cat (bk_type b) of None \<Rightarrow> None | Some s \<Rightarrow> Some (nid, s)))))"

definition found_or :: "string \<Rightarrow> 'a option res \<Rightarrow> 'a res" where
  "found_or m r = bindE r (\<lambda>x. case x of None \<Rightarrow> invalid m | Some v \<Rightarrow> Inr v)"

lemma found_or_eq_Inr [simp]: "found_or m r = Inr v \<longleftrightarrow> r = Inr (Some v)"
  by (auto simp: found_or_def split: option.splits)

definition check_edge ::
  "(string \<times> node_spec) \<Rightarrow> (string \<times> node_spec) \<Rightarrow> (string \<times> port_spec) \<Rightarrow> (string \<times> port_spec) \<Rightarrow> edge list \<Rightarrow> edge list res" where
  "check_edge src dst sport dport es =
     (let e = \<lparr>eg_src = fst src, eg_src_port = fst sport, eg_dst = fst dst, eg_dst_port = fst dport\<rparr> in
      if \<not> can_flow (ns_domain (snd src)) (ns_domain (snd dst)) then invalid ''domain violates flow rule''
      else if list_ex (\<lambda>k. \<not> port_accepts (snd dport) k) (po_accepts (snd sport))
      then invalid ''type not accepted''
      else if e \<in> set es then invalid ''Duplicate connection''
      else Inr (es @ [e]))"

definition check_connection :: "catalog \<Rightarrow> block list \<Rightarrow> edge list \<Rightarrow> json \<Rightarrow> edge list res" where
  "check_connection cat bs es c =
     (case c of
        JObj d \<Rightarrow>
          bindE (found_or ''Connection references unknown id'' (spec_of cat bs (jget ''from'' d))) (\<lambda>src.
          bindE (found_or ''Connection references unknown id'' (spec_of cat bs (jget ''to'' d))) (\<lambda>dst.
          bindE (found_or ''no output port'' (lookup_key (ns_output_ports (snd src)) (jget ''from_port'' d))) (\<lambda>sport.
          bindE (found_or ''no input port'' (lookup_key (ns_input_ports (snd dst)) (jget ''to_port'' d))) (\<lambda>dport.
          check_edge src dst sport dport es))))
      | _ \<Rightarrow> invalid ''Connection must be an object'')"

definition incoming_count :: "edge list \<Rightarrow> string \<Rightarrow> string \<Rightarrow> nat" where
  "incoming_count es nid port = length (filter (\<lambda>e. eg_dst e = nid \<and> eg_dst_port e = port) es)"

section \<open>Cycles\<close>

datatype color = White | Gray | Black

text \<open>The depth-first loop; a frame is a node and what its iterator has left.\<close>

definition whites :: "color dict \<Rightarrow> nat" where
  "whites col = length (filter (\<lambda>kc. snd kc = White) col)"

lemma whites_update_Gray: "map_of col m = Some White \<Longrightarrow> whites (AList.update m Gray col) < whites col"
  by (induction col) (auto simp: whites_def split: if_splits)

lemma whites_update_Black: "whites (AList.update m Black col) \<le> whites col"
  by (induction col) (auto simp: whites_def)

function (sequential) visit ::
  "(string \<Rightarrow> string list) \<Rightarrow> color dict \<Rightarrow> (string \<times> string list) list \<Rightarrow> (string option \<times> color dict) res" where
  "visit adj col [] = Inr (None, col)"
| "visit adj col ((n, []) # st) = visit adj (AList.update n Black col) st"
| "visit adj col ((n, m # ms) # st) =
     (case map_of col m of
        None \<Rightarrow> Inl KeyError
      | Some Gray \<Rightarrow> Inr (Some m, col)
      | Some White \<Rightarrow> visit adj (AList.update m Gray col) ((m, adj m) # (n, ms) # st)
      | Some Black \<Rightarrow> visit adj col ((n, ms) # st))"
  by pat_completeness auto

termination
proof (relation "inv_image (less_than <*lex*> less_than)
    (\<lambda>(adj, col, st). (whites col, sum_list (map (\<lambda>(n, ms). Suc (length ms)) st)))")
  show "wf (inv_image (less_than <*lex*> less_than)
    (\<lambda>(adj, col, st). (whites col, sum_list (map (\<lambda>(n, ms). Suc (length ms)) st))))"
    by (intro wf_inv_image wf_lex_prod wf_less_than)
next
  fix adj :: "string \<Rightarrow> string list" and col :: "color dict" and n st
  show "((adj, AList.update n Black col, st), adj, col, (n, []) # st)
    \<in> inv_image (less_than <*lex*> less_than)
        (\<lambda>(adj, col, st). (whites col, sum_list (map (\<lambda>(n, ms). Suc (length ms)) st)))"
    using whites_update_Black [of n col] by (auto simp: le_less)
qed (auto simp: whites_update_Gray)

fun visit_all :: "(string \<Rightarrow> string list) \<Rightarrow> color dict \<Rightarrow> string list \<Rightarrow> string option res" where
  "visit_all adj col [] = Inr None"
| "visit_all adj col (start # rest) =
     (if map_of col start \<noteq> Some White then visit_all adj col rest
      else bindE (visit adj (AList.update start Gray col) [(start, adj start)]) (\<lambda>(found, col').
        case found of Some n \<Rightarrow> Inr (Some n) | None \<Rightarrow> visit_all adj col' rest))"

text \<open>\<open>_find_cycle\<close> enumerates a set; \<open>ids\<close> is the order in which it does.\<close>

definition find_cycle :: "string list \<Rightarrow> edge list \<Rightarrow> string option res" where
  "find_cycle ids edges = visit_all (successors edges) (map (\<lambda>i. (i, White)) ids) ids"

section \<open>Ports and scalar parameters\<close>

fun check_input_ports :: "edge list \<Rightarrow> string \<Rightarrow> port_spec dict \<Rightarrow> unit res" where
  "check_input_ports es nid [] = Inr ()"
| "check_input_ports es nid ((name, p) # ps) =
     (let count = incoming_count es nid name in
      if po_required p \<and> count = 0 then invalid ''Unconnected required input port''
      else if (case po_max_connections p of None \<Rightarrow> False | Some m \<Rightarrow> m < count)
      then invalid ''Input port accepts at most max_connections''
      else check_input_ports es nid ps)"

definition check_node_ports :: "catalog \<Rightarrow> edge list \<Rightarrow> unit \<Rightarrow> block \<Rightarrow> unit res" where
  "check_node_ports cat es u b =
     (case map_of cat (bk_type b) of
        None \<Rightarrow> Inl KeyError
      | Some spec \<Rightarrow> check_input_ports es (bk_id b) (ns_input_ports spec))"

text \<open>The statically known unit of a producer, and the checks of a scalar node on its own.\<close>

definition scalar_unit :: "catalog \<Rightarrow> block \<Rightarrow> string option option" where
  "scalar_unit cat b =
     (case parsed_params cat b of
        None \<Rightarrow> None
      | Some p \<Rightarrow>
          if bk_type b = ''source.value'' then Some (np_unit p)
          else if bk_type b = ''fact.distance''
          then Some (Some (if np_mode p = Some ''percent'' then ''percent'' else ''ratio''))
          else None)"

definition check_scalar :: "catalog \<Rightarrow> edge list \<Rightarrow> unit \<Rightarrow> block \<Rightarrow> unit res" where
  "check_scalar cat es u b =
     (if bk_type b \<notin> {''source.value'', ''fact.compare'', ''fact.distance''} then Inr ()
      else case parsed_params cat b of
        None \<Rightarrow> Inl (ValidationError ''params'')
      | Some p \<Rightarrow>
          if bk_type b = ''fact.compare''
             \<and> (incoming_count es (bk_id b) ''right'' = 1) = (np_operator p = Some ''between'' \<or> np_literal p)
          then invalid ''choose right input or literal/between with units''
          else if bk_type b = ''fact.distance''
             \<and> (incoming_count es (bk_id b) ''atr'' = 1) \<noteq> (np_mode p = Some ''atr'')
          then invalid ''atr input is required only in atr mode''
          else Inr ())"

definition known_units :: "catalog \<Rightarrow> block list \<Rightarrow> edge list \<Rightarrow> block \<Rightarrow> string option list" where
  "known_units cat bs es b =
     List.map_filter (\<lambda>e. if eg_dst e = bk_id b
       then (case find_block bs (eg_src e) of None \<Rightarrow> None | Some s \<Rightarrow> scalar_unit cat s) else None) es
     @ (case parsed_params cat b of
          Some p \<Rightarrow> if bk_type b = ''fact.compare'' \<and> np_unit p \<noteq> None then [np_unit p] else []
        | None \<Rightarrow> [])"

definition check_units :: "catalog \<Rightarrow> block list \<Rightarrow> edge list \<Rightarrow> unit \<Rightarrow> block \<Rightarrow> unit res" where
  "check_units cat bs es u b =
     (if bk_type b \<notin> {''fact.compare'', ''fact.cross'', ''fact.distance''} then Inr ()
      else
        let known = known_units cat bs es b in
        if 1 < length (remdups known)
           \<or> (bk_type b = ''fact.distance'' \<and> list_ex (\<lambda>x. x \<noteq> Some ''price_quote_per_base'') known)
        then invalid ''scalar unit identity mismatch'' else Inr ())"

section \<open>Level setups\<close>

definition breakout_retest :: "block \<Rightarrow> bool res" where
  "breakout_retest b =
     (case bk_params b of
        None \<Rightarrow> Inl KeyError
      | Some (JObj d) \<Rightarrow>
          (case map_of d ''mode'' of None \<Rightarrow> Inl KeyError | Some m \<Rightarrow> Inr (m = JStr ''breakout_retest''))
      | Some _ \<Rightarrow> Inl TypeError)"

definition check_level_edge :: "catalog \<Rightarrow> block list \<Rightarrow> block \<Rightarrow> unit \<Rightarrow> edge \<Rightarrow> unit res" where
  "check_level_edge cat bs b u e =
     (if eg_dst e \<noteq> bk_id b \<or> eg_dst_port e \<notin> {''lower'', ''upper''} then Inr ()
      else
        bindE (if eg_dst_port e = ''upper'' then breakout_retest b else Inr False) (\<lambda>single.
        if single then invalid ''breakout_retest requires a single lower level; omit upper''
        else case find_block bs (eg_src e) of
          None \<Rightarrow> Inl StopIteration
        | Some s \<Rightarrow>
            if bk_type s \<noteq> ''source.value'' then Inr ()
            else case bk_params s of
              None \<Rightarrow> Inl KeyError
            | Some (JObj d) \<Rightarrow>
                (case map_of cat ''source.value'' of
                   None \<Rightarrow> Inl KeyError
                 | Some spec \<Rightarrow>
                     (case ns_params_schema spec d of
                        None \<Rightarrow> Inl (ValidationError ''params'')
                      | Some p \<Rightarrow>
                          if np_unit p \<noteq> Some ''price_quote_per_base''
                          then invalid ''level scalar unit identity requires price units'' else Inr ()))
            | Some _ \<Rightarrow> Inl TypeError))"

definition check_level :: "catalog \<Rightarrow> block list \<Rightarrow> edge list \<Rightarrow> unit \<Rightarrow> block \<Rightarrow> unit res" where
  "check_level cat bs es u b =
     (if bk_type b \<noteq> ''state.level_setup'' then Inr ()
      else foldE (check_level_edge cat bs b) () es)"

section \<open>The whole validation\<close>

text \<open>The typed checks, on accepted blocks and edges.\<close>

definition validate_typed :: "catalog \<Rightarrow> block list \<Rightarrow> edge list \<Rightarrow> unit res" where
  "validate_typed cat bs es =
     bindE (find_cycle (map bk_id bs) es) (\<lambda>cycle.
     if cycle \<noteq> None then invalid ''Graph contains a cycle; need a DAG''
     else
       bindE (foldE (check_node_ports cat es) () bs) (\<lambda>_.
       bindE (foldE (check_scalar cat es) () bs) (\<lambda>_.
       bindE (foldE (check_units cat bs es) () bs) (\<lambda>_.
       foldE (check_level cat bs es) () bs))))"

text \<open>\<open>graph.get("connections", [])\<close>, when it is a list.\<close>

definition connections_of :: "json dict \<Rightarrow> json list option" where
  "connections_of g =
     (case map_of g ''connections'' of
        None \<Rightarrow> Some [] | Some (JList c) \<Rightarrow> Some c | Some _ \<Rightarrow> None)"

definition validate_graph :: "catalog \<Rightarrow> json \<Rightarrow> (block list \<times> edge list) res" where
  "validate_graph cat graph =
     (case graph of
        JObj g \<Rightarrow>
          (case jget ''blocks'' g of
             JList blocks \<Rightarrow>
               (case connections_of g of
                  Some connections \<Rightarrow>
                    if blocks = [] then invalid ''Graph has no blocks''
                    else
                      bindE (check_recipes cat blocks connections) (\<lambda>_.
                      bindE (foldE (check_block cat) [] blocks) (\<lambda>bs.
                      bindE (foldE (check_connection cat bs) [] connections) (\<lambda>es.
                      bindE (validate_typed cat bs es) (\<lambda>_. Inr (bs, es)))))
                | None \<Rightarrow> invalid ''Graph 'connections' must be a list'')
           | _ \<Rightarrow> invalid ''Graph 'blocks' must be a list'')
      | _ \<Rightarrow> invalid ''Graph must be an object'')"

end
