(* ===== verification/Graph_Cycles.thy ===== *)
theory Graph_Cycles
  imports Graph_Validation
begin

text \<open>
  The depth-first search of \<open>_find_cycle\<close> is correct: it returns, a node it names lies on a cycle,
  and when it names none the graph has no cycle. The invariant relates the colours to the
  stack: the grey nodes are the nodes of the stack, a black node has only black successors and
  lies on no cycle, and what a frame has consumed of its iterator is black or is the frame above.
\<close>

section \<open>The invariant\<close>

definition adj_rel :: "(string \<Rightarrow> string list) \<Rightarrow> (string \<times> string) set" where
  "adj_rel adj = {(x, y). y \<in> set (adj x)}"

fun frames_ok :: "(string \<Rightarrow> string list) \<Rightarrow> color dict \<Rightarrow> string option \<Rightarrow> (string \<times> string list) list \<Rightarrow> bool" where
  "frames_ok adj col up [] = True"
| "frames_ok adj col up ((n, ms) # st) =
     ((\<exists>ds. adj n = ds @ ms \<and> (\<forall>d \<in> set ds. map_of col d = Some Black \<or> Some d = up)) \<and>
      (\<forall>a. up = Some a \<longrightarrow> a \<in> set (adj n)) \<and> frames_ok adj col (Some n) st)"

definition blacks_ok :: "(string \<Rightarrow> string list) \<Rightarrow> color dict \<Rightarrow> bool" where
  "blacks_ok adj col \<longleftrightarrow>
     (\<forall>x. map_of col x = Some Black \<longrightarrow>
        (\<forall>y \<in> set (adj x). map_of col y = Some Black) \<and> (x, x) \<notin> (adj_rel adj)\<^sup>+)"

definition closed :: "(string \<Rightarrow> string list) \<Rightarrow> color dict \<Rightarrow> bool" where
  "closed adj col \<longleftrightarrow> (\<forall>x y. map_of col x \<noteq> None \<longrightarrow> y \<in> set (adj x) \<longrightarrow> map_of col y \<noteq> None)"

definition greys_ok :: "color dict \<Rightarrow> (string \<times> string list) list \<Rightarrow> bool" where
  "greys_ok col st \<longleftrightarrow> distinct (map fst st) \<and> (\<forall>x. map_of col x = Some Gray \<longleftrightarrow> x \<in> fst ` set st)"

definition visit_inv :: "(string \<Rightarrow> string list) \<Rightarrow> color dict \<Rightarrow> (string \<times> string list) list \<Rightarrow> bool" where
  "visit_inv adj col st \<longleftrightarrow>
     closed adj col \<and> blacks_ok adj col \<and> greys_ok col st \<and> frames_ok adj col None st"

text \<open>A node of the stack reaches the frame above it, and every frame above that.\<close>

lemma frames_reach:
  "frames_ok adj col (Some a) st \<Longrightarrow> x \<in> fst ` set st \<Longrightarrow> (x, a) \<in> (adj_rel adj)\<^sup>+"
proof (induction st arbitrary: a)
  case (Cons f st)
  obtain n ms where f: "f = (n, ms)" by fastforce
  have na: "(n, a) \<in> adj_rel adj" using Cons.prems(1) f by (simp add: adj_rel_def)
  show ?case
  proof (cases "x = n")
    case False
    then have "(x, n) \<in> (adj_rel adj)\<^sup>+" using Cons f by auto
    then show ?thesis using na by (rule trancl_into_trancl)
  qed (use na in blast)
qed simp

lemma frames_mono:
  assumes "frames_ok adj col up st" "\<And>x. map_of col x = Some Black \<Longrightarrow> map_of col' x = Some Black"
  shows "frames_ok adj col' up st"
  using assms by (induction st arbitrary: up) (auto, metis)

lemma frames_finish:
  assumes "frames_ok adj col (Some n) st"
  shows "frames_ok adj (AList.update n Black col) None st"
proof (cases st)
  case (Cons f st')
  obtain k ms where f: "f = (k, ms)" by fastforce
  have "frames_ok adj (AList.update n Black col) (Some k) st'"
    using assms Cons f by (auto intro: frames_mono)
  then show ?thesis using assms Cons f by auto
qed simp

lemma closed_update: "closed adj col \<Longrightarrow> map_of col x \<noteq> None \<Longrightarrow> closed adj (AList.update x c col)"
  by (auto simp: closed_def)

lemma black_reach:
  assumes "blacks_ok adj col" "(x, y) \<in> (adj_rel adj)\<^sup>*" "map_of col x = Some Black"
  shows "map_of col y = Some Black"
  using assms(2,3) by (induction rule: rtrancl_induct) (use assms(1) in \<open>auto simp: blacks_ok_def adj_rel_def\<close>)

text \<open>A node whose successors are all black can be blackened.\<close>

lemma blacks_update_Black:
  assumes b: "blacks_ok adj col" and n: "map_of col n \<noteq> Some Black"
    and succ: "\<And>d. d \<in> set (adj n) \<Longrightarrow> map_of col d = Some Black"
  shows "blacks_ok adj (AList.update n Black col)"
proof -
  have "(n, n) \<notin> (adj_rel adj)\<^sup>+"
  proof
    assume "(n, n) \<in> (adj_rel adj)\<^sup>+"
    then obtain d where "(n, d) \<in> adj_rel adj" "(d, n) \<in> (adj_rel adj)\<^sup>*" by (metis tranclD)
    then show False using black_reach [OF b] succ n by (auto simp: adj_rel_def)
  qed
  then show ?thesis using b succ by (auto simp: blacks_ok_def)
qed

lemma blacks_update_Gray:
  "blacks_ok adj col \<Longrightarrow> map_of col m = Some White \<Longrightarrow> blacks_ok adj (AList.update m Gray col)"
  by (auto simp: blacks_ok_def)

section \<open>One search\<close>

definition visited :: "(string \<Rightarrow> string list) \<Rightarrow> color dict \<Rightarrow> (string option \<times> color dict) res \<Rightarrow> bool" where
  "visited adj col r \<longleftrightarrow>
     (\<exists>found col'. r = Inr (found, col') \<and>
        (case found of
           Some n \<Rightarrow> (n, n) \<in> (adj_rel adj)\<^sup>+
         | None \<Rightarrow> visit_inv adj col' [] \<and> (\<forall>x. map_of col x = None \<longleftrightarrow> map_of col' x = None) \<and>
             (\<forall>x. map_of col x \<noteq> Some White \<longrightarrow> map_of col' x \<noteq> Some White)))"

lemma visited_from:
  assumes "visited adj col1 r" "\<And>x. map_of col1 x = None \<longleftrightarrow> map_of col x = None"
    and "\<And>x. map_of col x \<noteq> Some White \<Longrightarrow> map_of col1 x \<noteq> Some White"
  shows "visited adj col r"
proof -
  obtain found col' where r: "r = Inr (found, col')" and f: "case found of
      Some n \<Rightarrow> (n, n) \<in> (adj_rel adj)\<^sup>+
    | None \<Rightarrow> visit_inv adj col' [] \<and> (\<forall>x. map_of col1 x = None \<longleftrightarrow> map_of col' x = None) \<and>
        (\<forall>x. map_of col1 x \<noteq> Some White \<longrightarrow> map_of col' x \<noteq> Some White)"
    using assms(1) unfolding visited_def by blast
  show ?thesis unfolding visited_def
  proof (intro exI conjI)
    show "r = Inr (found, col')" by (fact r)
    show "case found of Some n \<Rightarrow> (n, n) \<in> (adj_rel adj)\<^sup>+
      | None \<Rightarrow> visit_inv adj col' [] \<and> (\<forall>x. map_of col x = None \<longleftrightarrow> map_of col' x = None) \<and>
          (\<forall>x. map_of col x \<noteq> Some White \<longrightarrow> map_of col' x \<noteq> Some White)"
      using f assms(2,3) by (cases found) simp_all
  qed
qed

lemma visit_visited: "visit_inv adj col st \<Longrightarrow> visited adj col (visit adj col st)"
proof (induction adj col st rule: visit.induct)
  case (1 adj col)
  then show ?case by (simp add: visited_def)
next
  case (2 adj col n st)
  let ?col = "AList.update n Black col"
  have n: "map_of col n = Some Gray" using 2(2) by (auto simp: visit_inv_def greys_ok_def)
  have "\<And>d. d \<in> set (adj n) \<Longrightarrow> map_of col d = Some Black" using 2(2) by (auto simp: visit_inv_def)
  then have "blacks_ok adj ?col" using 2(2) n by (intro blacks_update_Black) (auto simp: visit_inv_def)
  moreover have "greys_ok ?col st" using 2(2) by (auto simp: visit_inv_def greys_ok_def)
  moreover have "frames_ok adj ?col None st" using 2(2) by (intro frames_finish) (simp add: visit_inv_def)
  ultimately have "visit_inv adj ?col st" using 2(2) n closed_update [of adj col n] by (simp add: visit_inv_def)
  then have "visited adj ?col (visit adj ?col st)" by (rule 2(1))
  then have "visited adj col (visit adj ?col st)" by (rule visited_from) (use n in auto)
  then show ?case by simp
next
  case (3 adj col n m ms st)
  have f: "frames_ok adj col (Some n) st" and nm: "m \<in> set (adj n)"
    and ds: "\<exists>ds. adj n = ds @ m # ms \<and> (\<forall>d \<in> set ds. map_of col d = Some Black)"
    using 3(3) by (auto simp: visit_inv_def)
  have n: "map_of col n = Some Gray" using 3(3) by (auto simp: visit_inv_def greys_ok_def)
  then have "map_of col m \<noteq> None" using 3(3) nm by (auto simp: visit_inv_def closed_def)
  then consider "map_of col m = Some Gray" | "map_of col m = Some White" | "map_of col m = Some Black"
    by (metis color.exhaust option.exhaust)
  then show ?case
  proof cases
    case 1
    then have "m = n \<or> m \<in> fst ` set st" using 3(3) by (auto simp: visit_inv_def greys_ok_def)
    then have "(m, n) \<in> (adj_rel adj)\<^sup>*" using frames_reach [OF f] by (auto intro: trancl_into_rtrancl)
    then have "(m, m) \<in> (adj_rel adj)\<^sup>+" using nm by (auto simp: adj_rel_def intro: rtrancl_into_trancl1)
    then show ?thesis using 1 by (simp add: visited_def)
  next
    case 2
    let ?col = "AList.update m Gray col"
    have "frames_ok adj ?col (Some n) st" using f by (rule frames_mono) (use 2 in auto)
    moreover have "\<exists>ds. adj n = ds @ ms \<and> (\<forall>d \<in> set ds. map_of ?col d = Some Black \<or> Some d = Some m)"
    proof -
      obtain ds where "adj n = (ds @ [m]) @ ms" "\<forall>d \<in> set ds. map_of col d = Some Black" using ds by auto
      then show ?thesis using 2 by (intro exI [of _ "ds @ [m]"]) auto
    qed
    ultimately have "frames_ok adj ?col None ((m, adj m) # (n, ms) # st)" using nm by simp
    moreover have "m \<noteq> n" using n 2 by auto
    moreover have "m \<notin> fst ` set st" using 3(3) 2 by (auto simp: visit_inv_def greys_ok_def)
    ultimately have "frames_ok adj ?col None ((m, adj m) # (n, ms) # st)" "greys_ok ?col ((m, adj m) # (n, ms) # st)"
      using 3(3) by (auto simp: visit_inv_def greys_ok_def)
    then have "visit_inv adj ?col ((m, adj m) # (n, ms) # st)"
      using 3(3) 2 closed_update [of adj col m] blacks_update_Gray [of adj col m] by (simp add: visit_inv_def)
    then have "visited adj ?col (visit adj ?col ((m, adj m) # (n, ms) # st))" using 3(1) 2 by simp
    then have "visited adj col (visit adj ?col ((m, adj m) # (n, ms) # st))"
      by (rule visited_from) (use 2 in auto)
    then show ?thesis using 2 by simp
  next
    case bl: 3
    have "\<exists>ds. adj n = ds @ ms \<and> (\<forall>d \<in> set ds. map_of col d = Some Black)"
    proof -
      obtain ds where "adj n = (ds @ [m]) @ ms" "\<forall>d \<in> set ds. map_of col d = Some Black" using ds by auto
      then show ?thesis using bl by (intro exI [of _ "ds @ [m]"]) auto
    qed
    then have "visit_inv adj col ((n, ms) # st)" using 3(3) f by (auto simp: visit_inv_def greys_ok_def)
    then show ?thesis using 3(2) bl by simp
  qed
qed

section \<open>The whole search\<close>

definition search_ok :: "(string \<times> string) set \<Rightarrow> string set \<Rightarrow> string option res \<Rightarrow> bool" where
  "search_ok R S res \<longleftrightarrow>
     (\<exists>n. res = Inr (Some n) \<and> (n, n) \<in> R\<^sup>+) \<or> (res = Inr None \<and> (\<forall>x \<in> S. (x, x) \<notin> R\<^sup>+))"

lemma all_black:
  assumes "visit_inv adj col []" "\<And>x. map_of col x \<noteq> Some White"
  shows "\<forall>x \<in> dom (map_of col). (x, x) \<notin> (adj_rel adj)\<^sup>+"
proof
  fix x
  assume "x \<in> dom (map_of col)"
  then obtain c where c: "map_of col x = Some c" by auto
  have "c \<noteq> White" using assms(2) [of x] c by auto
  moreover have "c \<noteq> Gray" using assms(1) c by (auto simp: visit_inv_def greys_ok_def)
  ultimately have "map_of col x = Some Black" using c by (cases c) auto
  then show "(x, x) \<notin> (adj_rel adj)\<^sup>+" using assms(1) unfolding visit_inv_def blacks_ok_def by blast
qed

lemma visit_all_correct:
  assumes "visit_inv adj col []" "\<And>x. map_of col x = Some White \<Longrightarrow> x \<in> set todo"
  shows "search_ok (adj_rel adj) (dom (map_of col)) (visit_all adj col todo)"
  using assms
proof (induction todo arbitrary: col)
  case Nil
  then have "\<And>x. map_of col x \<noteq> Some White" by fastforce
  then show ?case using all_black [OF Nil(1)] by (simp add: search_ok_def)
next
  case (Cons s todo)
  show ?case
  proof (cases "map_of col s = Some White")
    case False
    have "search_ok (adj_rel adj) (dom (map_of col)) (visit_all adj col todo)"
    proof (rule Cons.IH [OF Cons.prems(1)])
      show "x \<in> set todo" if "map_of col x = Some White" for x
        using Cons.prems(2) [OF that] that False by auto
    qed
    then show ?thesis using False by simp
  next
    case True
    let ?col = "AList.update s Gray col"
    have "visit_inv adj ?col [(s, adj s)]"
      using Cons.prems(1) True closed_update [of adj col s] blacks_update_Gray [of adj col s]
      by (auto simp: visit_inv_def greys_ok_def)
    from visit_visited [OF this] obtain found col' where
      v: "visit adj ?col [(s, adj s)] = Inr (found, col')" and
      r: "case found of Some n \<Rightarrow> (n, n) \<in> (adj_rel adj)\<^sup>+
         | None \<Rightarrow> visit_inv adj col' [] \<and> (\<forall>x. map_of ?col x = None \<longleftrightarrow> map_of col' x = None) \<and>
             (\<forall>x. map_of ?col x \<noteq> Some White \<longrightarrow> map_of col' x \<noteq> Some White)"
      by (auto simp: visited_def)
    show ?thesis
    proof (cases found)
      case (Some n)
      then show ?thesis using True v r by (simp add: search_ok_def)
    next
      case None
      have dom: "map_of ?col x = None \<longleftrightarrow> map_of col' x = None" for x using r None by simp
      have "map_of col x = None \<longleftrightarrow> map_of col' x = None" for x
        using dom [of x] True by (cases "x = s") simp_all
      then have same: "dom (map_of col') = dom (map_of col)" by (simp add: dom_def)
      have w: "map_of ?col x \<noteq> Some White \<longrightarrow> map_of col' x \<noteq> Some White" for x using r None by simp
      have "search_ok (adj_rel adj) (dom (map_of col')) (visit_all adj col' todo)"
      proof (rule Cons.IH)
        show "visit_inv adj col' []" using r None by simp
        show "x \<in> set todo" if "map_of col' x = Some White" for x
          using w [of x] that Cons.prems(2) [of x] by (cases "x = s") auto
      qed
      then show ?thesis using True v None same by simp
    qed
  qed
qed

lemma adj_rel_successors [simp]: "adj_rel (successors edges) = edge_rel edges"
  by (auto simp: adj_rel_def)

lemma find_cycle_result:
  assumes "edges_within ids edges"
  shows "search_ok (edge_rel edges) UNIV (find_cycle ids edges)"
proof -
  let ?col = "map (\<lambda>i. (i, White)) ids"
  have col: "map_of ?col x = (if x \<in> set ids then Some White else None)" for x by (induction ids) auto
  have "visit_inv (successors edges) ?col []"
    using edges_withinD [OF assms] by (auto simp: col visit_inv_def closed_def blacks_ok_def greys_ok_def)
  moreover have "map_of ?col x = Some White \<Longrightarrow> x \<in> set ids" for x by (simp add: col split: if_splits)
  ultimately have "search_ok (edge_rel edges) (dom (map_of ?col)) (find_cycle ids edges)"
    using visit_all_correct [of "successors edges" ?col ids] unfolding find_cycle_def adj_rel_successors by blast
  moreover have "dom (map_of ?col) = set ids" by (auto simp: col dom_def)
  moreover have "x \<in> set ids" if "(x, x) \<in> (edge_rel edges)\<^sup>+" for x
    using that edges_withinD [OF assms] by (meson SigmaD1 in_mono tranclD)
  ultimately show ?thesis unfolding search_ok_def by blast
qed

text \<open>
  C14: the cycle check of the graph validator always returns, whatever the order in which it
  visits the nodes: it finds no node exactly when the connections are acyclic, and a node it
  reports lies on a cycle.
\<close>

theorem find_cycle_correct:
  assumes "edges_within ids edges"
  shows "(\<exists>r. find_cycle ids edges = Inr r) \<and>
    (find_cycle ids edges = Inr None \<longleftrightarrow> acyclic (edge_rel edges)) \<and>
    (\<forall>n. find_cycle ids edges = Inr (Some n) \<longrightarrow> (n, n) \<in> (edge_rel edges)\<^sup>+)"
  using find_cycle_result [OF assms] by (auto simp: search_ok_def acyclic_def)

theorem find_cycle_correct_witness:
  "find_cycle [''a'', ''b''] [\<lparr>eg_src = ''a'', eg_src_port = ''x'', eg_dst = ''b'', eg_dst_port = ''y''\<rparr>] = Inr None
   \<and> acyclic (edge_rel [\<lparr>eg_src = ''a'', eg_src_port = ''x'', eg_dst = ''b'', eg_dst_port = ''y''\<rparr>])"
proof -
  have "find_cycle [''a'', ''b''] [\<lparr>eg_src = ''a'', eg_src_port = ''x'', eg_dst = ''b'', eg_dst_port = ''y''\<rparr>] = Inr None"
    by (simp add: find_cycle_def successors_def)
  moreover have "edges_within [''a'', ''b''] [\<lparr>eg_src = ''a'', eg_src_port = ''x'', eg_dst = ''b'', eg_dst_port = ''y''\<rparr>]"
    by (simp add: edges_within_def)
  ultimately show ?thesis using find_cycle_correct by blast
qed

end
