(* ===== verification/Graph_Executor.thy ===== *)
theory Graph_Executor
  imports Graph_Validation
begin

text \<open>
  \<open>src/koval/strategy/graph/executor.py\<close> and \<open>state_store.py\<close>: the topological order of a
  validated graph and the per-bar step. The evaluation function of a node type is made by its
  factory from the parameters; it is a field of the node here, as in \<open>GraphNode\<close>. The optional
  decision recorder (\<open>ctx.evidence\<close>) is absent, and so is the checkpoint of level setups, which
  only graphs with a \<open>state.level_setup\<close> node have.
\<close>

section \<open>Topological order\<close>

text \<open>\<open>indeg[m] -= 1; if indeg[m] == 0: ready.append(m)\<close>.\<close>

fun relax :: "int dict \<Rightarrow> string list \<Rightarrow> string list \<Rightarrow> (int dict \<times> string list) res" where
  "relax indeg ready [] = Inr (indeg, ready)"
| "relax indeg ready (m # ms) =
     (case map_of indeg m of
        None \<Rightarrow> Inl KeyError
      | Some k \<Rightarrow>
          relax (AList.update m (k - 1) indeg) (if k - 1 = 0 then ready @ [m] else ready) ms)"

definition positives :: "int dict \<Rightarrow> nat" where
  "positives d = length (filter (\<lambda>kv. 0 < snd kv) d)"

lemma positives_update:
  assumes "map_of d m = Some k"
  shows "positives (AList.update m (k - 1) d) + (if k - 1 = 0 then 1 else 0) \<le> positives d"
  using assms by (induction d) (auto simp: positives_def split: if_splits)

lemma relax_measure:
  "relax d ready ms = Inr (d', ready') \<Longrightarrow> positives d' + length ready' \<le> positives d + length ready"
proof (induction d ready ms rule: relax.induct)
  case (2 d ready m ms)
  then show ?case using positives_update [of d m] by (fastforce split: option.splits if_splits)
qed simp

function topo_loop :: "(string \<Rightarrow> string list) \<Rightarrow> int dict \<Rightarrow> string list \<Rightarrow> string list \<Rightarrow> string list res" where
  "topo_loop adj indeg out ready =
     (case ready of
        [] \<Rightarrow> Inr out
      | n # rest \<Rightarrow>
          (case relax indeg rest (sort (adj n)) of
             Inl e \<Rightarrow> Inl e
           | Inr (indeg', ready') \<Rightarrow> topo_loop adj indeg' (out @ [n]) (sort ready')))"
  by pat_completeness auto

termination
proof (relation "measure (\<lambda>(adj, indeg, out, ready). positives indeg + length ready)")
  fix adj :: "string \<Rightarrow> string list" and indeg out ready n rest and x :: "int dict \<times> string list" and indeg' ready'
  assume "ready = n # rest" "relax indeg rest (sort (adj n)) = Inr x" "(indeg', ready') = x"
  then show "((adj, indeg', out @ [n], sort ready'), adj, indeg, out, ready)
    \<in> measure (\<lambda>(adj, indeg, out, ready). positives indeg + length ready)"
    using relax_measure [of indeg rest "sort (adj n)" indeg' ready'] by auto
qed simp

declare topo_loop.simps [simp del]

definition indegree :: "edge list \<Rightarrow> string \<Rightarrow> int" where
  "indegree edges n = int (length (filter (\<lambda>e. eg_dst e = n) edges))"

definition topo_order :: "string list \<Rightarrow> edge list \<Rightarrow> string list res" where
  "topo_order ids edges =
     (if \<not> edges_within ids edges then Inl KeyError
      else topo_loop (successors edges) (map (\<lambda>i. (i, indegree edges i)) ids) []
             (sort (filter (\<lambda>i. indegree edges i = 0) ids)))"

section \<open>Nodes\<close>

record 'b entity =
  et_kind :: entity_kind
  et_source :: string
  et_body :: 'b

text \<open>What an evaluation returns: a map from ports to entities, or something else.\<close>

datatype 'b produced = NotAMap | Outputs "'b entity option dict"

record ('c, 'b, 's) graph_node =
  gn_id :: string
  gn_spec :: node_spec
  gn_evaluate :: "'c \<Rightarrow> 'b entity list dict \<Rightarrow> 's \<Rightarrow> ('b produced \<times> 's) res"

definition outputs_check :: "node_spec \<Rightarrow> 'b entity option dict \<Rightarrow> unit res" where
  "outputs_check spec m =
     (let declared = dict_keys (ns_output_ports spec) in
      if list_ex (\<lambda>k. k \<notin> set declared) (dict_keys m)
      then Inl (RuntimeError ''returned undeclared output port(s)'')
      else if list_ex (\<lambda>k. k \<notin> set (dict_keys m)) declared
      then Inl (RuntimeError ''omitted declared output port(s)'')
      else if list_ex (\<lambda>(k, x). case (x, map_of (ns_output_ports spec) k) of
             (Some e, Some p) \<Rightarrow> \<not> port_accepts p (et_kind e) | _ \<Rightarrow> False) m
      then Inl (RuntimeError ''returned an entity of another type'')
      else Inr ())"

definition validate_outputs :: "node_spec \<Rightarrow> 'b produced \<Rightarrow> 'b entity option dict res" where
  "validate_outputs spec x =
     (case x of
        NotAMap \<Rightarrow> Inl (RuntimeError ''expected an output map'')
      | Outputs m \<Rightarrow> bindE (outputs_check spec m) (\<lambda>_. Inr m))"

section \<open>A step\<close>

record 'b step_result =
  sr_entities :: "'b entity option dict dict"
  sr_intents :: "'b entity list"
  sr_orders :: "'b entity list"
  sr_exits :: "'b entity list"
  sr_recipes :: "'b entity list"

definition empty_result :: "'b step_result" where
  "empty_result = \<lparr>sr_entities = [], sr_intents = [], sr_orders = [], sr_exits = [], sr_recipes = []\<rparr>"

text \<open>The entity an edge carries, and the inputs of a node.\<close>

definition carried :: "'b entity option dict dict \<Rightarrow> edge \<Rightarrow> 'b entity option" where
  "carried outputs e =
     (case map_of outputs (eg_src e) of
        None \<Rightarrow> None
      | Some m \<Rightarrow> (case map_of m (eg_src_port e) of Some (Some x) \<Rightarrow> Some x | _ \<Rightarrow> None))"

definition node_inputs ::
  "edge list \<Rightarrow> ('c, 'b, 's) graph_node \<Rightarrow> 'b entity option dict dict \<Rightarrow> 'b entity list dict" where
  "node_inputs edges node outputs =
     map (\<lambda>p. (p, List.map_filter (carried outputs)
            (filter (\<lambda>e. eg_dst e = gn_id node \<and> eg_dst_port e = p) edges)))
       (dict_keys (ns_input_ports (gn_spec node)))"

definition stamp :: "string \<Rightarrow> 'b entity option dict \<Rightarrow> 'b entity option dict" where
  "stamp nid m = map (\<lambda>(k, x). (k, map_option (\<lambda>e. e\<lparr>et_source := nid\<rparr>) x)) m"

text \<open>An entity leaves the graph only as an intent, or from a terminal port that no edge consumes.\<close>

definition leaves :: "edge list \<Rightarrow> ('c, 'b, 's) graph_node \<Rightarrow> string \<Rightarrow> bool" where
  "leaves edges node port \<longleftrightarrow>
     (case map_of (ns_output_ports (gn_spec node)) port of None \<Rightarrow> False | Some p \<Rightarrow> po_terminal p)
     \<and> \<not> list_ex (\<lambda>e. eg_src e = gn_id node \<and> eg_src_port e = port) edges"

definition collect ::
  "edge list \<Rightarrow> ('c, 'b, 's) graph_node \<Rightarrow> 'b step_result \<Rightarrow> string \<times> 'b entity option \<Rightarrow> 'b step_result" where
  "collect edges node r out =
     (case out of
        (_, None) \<Rightarrow> r
      | (port, Some x) \<Rightarrow>
          if et_kind x = TradingIntent then r\<lparr>sr_intents := sr_intents r @ [x]\<rparr>
          else if et_kind x = OrderRequest \<and> leaves edges node port
          then r\<lparr>sr_orders := sr_orders r @ [x]\<rparr>
          else if et_kind x = SpotRecipeRequest \<and> leaves edges node port
          then r\<lparr>sr_recipes := sr_recipes r @ [x]\<rparr>
          else if et_kind x = PositionExitRequest \<and> leaves edges node port
          then r\<lparr>sr_exits := sr_exits r @ [x]\<rparr>
          else r)"

text \<open>
  One node: its state is created empty on first use (\<open>setdefault\<close>), and an evaluation mutates it.
  If the evaluation raises, the step raises.
\<close>

definition step_node ::
  "'s \<Rightarrow> ('c, 'b, 's) graph_node dict \<Rightarrow> edge list \<Rightarrow> 'c \<Rightarrow>
     'b step_result \<times> 's dict \<Rightarrow> string \<Rightarrow> ('b step_result \<times> 's dict) res" where
  "step_node fresh nodes edges ctx rs nid =
     (let (r, states) = rs in
      case map_of nodes nid of
        None \<Rightarrow> Inl KeyError
      | Some node \<Rightarrow>
          let inputs = node_inputs edges node (sr_entities r);
              st = (case map_of states nid of None \<Rightarrow> fresh | Some s \<Rightarrow> s) in
          bindE (gn_evaluate node ctx inputs st) (\<lambda>(x, st').
          bindE (validate_outputs (gn_spec node) x) (\<lambda>m.
          let m' = stamp nid m in
          Inr (foldl (collect edges node) (r\<lparr>sr_entities := AList.update nid m' (sr_entities r)\<rparr>) m',
               AList.update nid st' states))))"

record ('c, 'b, 's) graph_executor =
  ge_nodes :: "('c, 'b, 's) graph_node dict"
  ge_edges :: "edge list"
  ge_order :: "string list"
  ge_states :: "'s dict"

definition step ::
  "'s \<Rightarrow> ('c, 'b, 's) graph_executor \<Rightarrow> 'c \<Rightarrow> ('b step_result \<times> ('c, 'b, 's) graph_executor) res" where
  "step fresh ex ctx =
     bindE (foldE (step_node fresh (ge_nodes ex) (ge_edges ex) ctx) (empty_result, ge_states ex) (ge_order ex))
       (\<lambda>(r, states). Inr (r, ex\<lparr>ge_states := states\<rparr>))"

text \<open>\<open>GraphExecutor.build\<close>, with the physical history window of condition and level graphs.\<close>

definition windowed :: "block \<Rightarrow> bool" where
  "windowed b \<longleftrightarrow>
     bk_type b \<in> {''state.condition_hold'', ''fact.condition_edge'', ''state.level_setup''} \<or>
     (bk_type b = ''source.value'' \<and>
        (case params_or_empty (bk_params b) of
           JObj d \<Rightarrow> jget ''component'' d \<in> {JStr ''adx'', JStr ''relative_volume''}
         | _ \<Rightarrow> False))"

definition required_history_bars :: "catalog \<Rightarrow> block list \<Rightarrow> int" where
  "required_history_bars cat bs =
     foldl max 0 (List.map_filter (\<lambda>b. if bk_type b = ''source.value''
       then map_option np_history_bars (parsed_params cat b) else None) bs)"

definition build_node ::
  "catalog \<Rightarrow> (string \<Rightarrow> node_params \<Rightarrow> 'c \<Rightarrow> 'b entity list dict \<Rightarrow> 's \<Rightarrow> ('b produced \<times> 's) res)
     \<Rightarrow> block \<Rightarrow> (string \<times> ('c, 'b, 's) graph_node) option" where
  "build_node cat factory b =
     (case (map_of cat (bk_type b), parsed_params cat b) of
        (Some spec, Some p) \<Rightarrow>
          Some (bk_id b, \<lparr>gn_id = bk_id b, gn_spec = spec, gn_evaluate = factory (bk_type b) p\<rparr>)
      | _ \<Rightarrow> None)"

definition build ::
  "catalog \<Rightarrow> (string \<Rightarrow> node_params \<Rightarrow> 'c \<Rightarrow> 'b entity list dict \<Rightarrow> 's \<Rightarrow> ('b produced \<times> 's) res)
     \<Rightarrow> json \<Rightarrow> ('c, 'b, 's) graph_executor res" where
  "build cat factory graph =
     bindE (validate_graph cat graph) (\<lambda>(bs, es).
     if list_ex windowed bs \<and> 1000 < required_history_bars cat bs
     then invalid ''Condition source history exceeds the 1000-bar physical window''
     else
       bindE (topo_order (map bk_id bs) es) (\<lambda>order.
       Inr \<lparr> ge_nodes = List.map_filter (build_node cat factory) bs, ge_edges = es,
             ge_order = order, ge_states = [] \<rparr>))"

end
