(* ===== verification/Graph_Order.thy ===== *)
theory Graph_Order
  imports Graph_Executor
begin

text \<open>
  The topological order of the executor: the loop returns, never repeats a node, lists a node
  only after all its producers, and lists every node of an acyclic graph. The invariant says
  what the in-degree table counts: the edges into a node whose source is not yet in the output.
\<close>

section \<open>Relaxing the successors of a node\<close>

definition times :: "'a \<Rightarrow> 'a list \<Rightarrow> int" where
  "times x xs = int (length (filter (\<lambda>y. y = x) xs))"

lemma times_simps [simp]:
  "times x [] = 0" "times x (y # ys) = (if y = x then 1 else 0) + times x ys"
  by (simp_all add: times_def)

lemma times_nonneg [simp]: "0 \<le> times x xs"
  by (simp add: times_def)

lemma times_zero: "times x xs = 0 \<longleftrightarrow> x \<notin> set xs"
  by (induction xs) (auto simp: add_nonneg_eq_0_iff)

lemma times_pos: "x \<in> set xs \<Longrightarrow> 0 < times x xs"
  using times_zero [of x xs] times_nonneg [of x xs] by linarith

lemma times_sort [simp]: "times x (sort xs) = times x xs"
  by (simp add: times_def filter_sort)

lemma relax_result:
  assumes "\<And>x. x \<in> set ms \<Longrightarrow> \<exists>k. map_of d x = Some k \<and> times x ms \<le> k"
  shows "\<exists>d' new. relax d ready ms = Inr (d', ready @ new) \<and> distinct new \<and>
    set new = {x \<in> set ms. map_of d x = Some (times x ms)} \<and>
    (\<forall>x. map_of d' x = map_option (\<lambda>k. k - times x ms) (map_of d x))"
  using assms
proof (induction ms arbitrary: d ready)
  case Nil
  then show ?case by (simp add: option.map_ident)
next
  case (Cons m ms)
  obtain k where k: "map_of d m = Some k" "1 + times m ms \<le> k" using Cons.prems [of m] by auto
  let ?d = "AList.update m (k - 1) d"
  have "\<exists>k'. map_of ?d x = Some k' \<and> times x ms \<le> k'" if "x \<in> set ms" for x
    using Cons.prems [of x] that k by auto
  from Cons.IH [OF this] obtain d' new where r:
    "relax ?d (if k - 1 = 0 then ready @ [m] else ready) ms = Inr (d', (if k - 1 = 0 then ready @ [m] else ready) @ new)"
    "distinct new" "set new = {x \<in> set ms. map_of ?d x = Some (times x ms)}"
    "\<forall>x. map_of d' x = map_option (\<lambda>k. k - times x ms) (map_of ?d x)" by blast
  let ?new = "if k - 1 = 0 then m # new else new"
  have m: "k - 1 = 0 \<Longrightarrow> m \<notin> set ms" using k times_zero [of m ms] times_nonneg [of m ms] by auto
  have "relax d ready (m # ms) = Inr (d', ready @ ?new)" using k r(1) by simp
  moreover have "distinct ?new" using r(2,3) m by auto
  moreover have "x \<in> set ?new \<longleftrightarrow> x \<in> set (m # ms) \<and> map_of d x = Some (times x (m # ms))" for x
  proof (cases "x = m")
    case True
    then show ?thesis using r(3) k m times_zero [of m ms] times_pos [of m ms] by (cases "m \<in> set ms") auto
  qed (use r(3) in auto)
  then have "set ?new = {x \<in> set (m # ms). map_of d x = Some (times x (m # ms))}" by blast
  moreover have "\<forall>x. map_of d' x = map_option (\<lambda>k. k - times x (m # ms)) (map_of d x)"
    using r(4) k by (auto simp: option.map_comp)
  ultimately show ?case by blast
qed

section \<open>The invariant of the loop\<close>

definition remaining :: "edge list \<Rightarrow> string list \<Rightarrow> string \<Rightarrow> int" where
  "remaining edges out x = int (length (filter (\<lambda>e. eg_dst e = x \<and> eg_src e \<notin> set out) edges))"

lemma remaining_nonneg [simp]: "0 \<le> remaining edges out x"
  by (simp add: remaining_def)

lemma remaining_zero: "remaining edges out x = 0 \<longleftrightarrow> (\<forall>e \<in> set edges. eg_dst e = x \<longrightarrow> eg_src e \<in> set out)"
  by (auto simp: remaining_def filter_empty_conv)

lemma remaining_snoc:
  "n \<notin> set out \<Longrightarrow> remaining edges (out @ [n]) x = remaining edges out x - times x (successors edges n)"
  by (induction edges) (auto simp: remaining_def successors_def)

text \<open>Every producer of a listed node is listed before it.\<close>

definition producers_first :: "edge list \<Rightarrow> string list \<Rightarrow> bool" where
  "producers_first edges out \<longleftrightarrow>
     (\<forall>pre n post. out = pre @ n # post \<longrightarrow> (\<forall>e \<in> set edges. eg_dst e = n \<longrightarrow> eg_src e \<in> set pre))"

lemma producers_first_snoc:
  assumes "producers_first edges out" "remaining edges out n = 0"
  shows "producers_first edges (out @ [n])"
  unfolding producers_first_def
proof (intro allI impI)
  fix pre m post
  assume eq: "out @ [n] = pre @ m # post"
  show "\<forall>e \<in> set edges. eg_dst e = m \<longrightarrow> eg_src e \<in> set pre"
  proof (cases post rule: rev_cases)
    case Nil
    then show ?thesis using eq assms(2) remaining_zero by simp
  next
    case (snoc post' y)
    then show ?thesis using eq assms(1) unfolding producers_first_def by simp
  qed
qed

definition kahn :: "string list \<Rightarrow> edge list \<Rightarrow> int dict \<Rightarrow> string list \<Rightarrow> string list \<Rightarrow> bool" where
  "kahn ids edges d out ready \<longleftrightarrow>
     (\<forall>x \<in> set ids. map_of d x = Some (remaining edges out x)) \<and>
     distinct (out @ ready) \<and> set (out @ ready) \<subseteq> set ids \<and>
     (\<forall>x \<in> set ids. x \<in> set (out @ ready) \<longleftrightarrow> remaining edges out x = 0) \<and>
     producers_first edges out"

lemma kahn_step:
  assumes inv: "kahn ids edges d out (n # rest)" and within: "edges_within ids edges"
  shows "\<exists>d' ready'. relax d rest (sort (successors edges n)) = Inr (d', ready') \<and>
    kahn ids edges d' (out @ [n]) (sort ready')"
proof -
  let ?ms = "sort (successors edges n)"
  have n: "n \<in> set ids" "n \<notin> set out" "remaining edges out n = 0" using inv by (auto simp: kahn_def)
  have ids: "x \<in> set ids" if "x \<in> set ?ms" for x using that edges_withinD [OF within] by auto
  have d: "map_of d x = Some (remaining edges out x)" if "x \<in> set ids" for x using inv that by (simp add: kahn_def)
  have rem: "remaining edges (out @ [n]) x = remaining edges out x - times x ?ms" for x
    using remaining_snoc [OF n(2)] by simp
  have le: "times x ?ms \<le> remaining edges out x" for x using rem [of x] remaining_nonneg [of edges "out @ [n]" x] by simp
  obtain d' new where r: "relax d rest ?ms = Inr (d', rest @ new)" "distinct new"
    "set new = {x \<in> set ?ms. map_of d x = Some (times x ?ms)}"
    "\<forall>x. map_of d' x = map_option (\<lambda>k. k - times x ?ms) (map_of d x)"
    using relax_result [of ?ms d rest] d ids le by blast
  have new: "x \<in> set new \<longleftrightarrow> x \<in> set ?ms \<and> remaining edges (out @ [n]) x = 0" for x
    using r(3) d ids rem [of x] by auto
  have old: "x \<in> set ids \<Longrightarrow> x \<in> set (out @ n # rest) \<longleftrightarrow> remaining edges out x = 0" for x
    using inv by (simp add: kahn_def)
  have pos: "x \<in> set new \<Longrightarrow> x \<notin> set (out @ n # rest)" for x
    using new [of x] rem [of x] ids [of x] old [of x] times_zero [of x ?ms] by auto
  have zero: "x \<in> set (out @ n # rest @ new) \<longleftrightarrow> remaining edges (out @ [n]) x = 0" if "x \<in> set ids" for x
  proof (cases "x \<in> set ?ms")
    case True
    then show ?thesis
      using that old [of x] new [of x] le [of x] times_pos [OF True] by auto
  next
    case False
    then show ?thesis using that old [of x] new [of x] rem [of x] times_zero [of x ?ms] by auto
  qed
  have "kahn ids edges d' (out @ [n]) (sort (rest @ new))"
    unfolding kahn_def
  proof (intro conjI ballI)
    fix x
    assume x: "x \<in> set ids"
    show "map_of d' x = Some (remaining edges (out @ [n]) x)" using r(4) d [OF x] rem by simp
    show "x \<in> set ((out @ [n]) @ sort (rest @ new)) \<longleftrightarrow> remaining edges (out @ [n]) x = 0"
      using zero [OF x] by auto
  next
    show "distinct ((out @ [n]) @ sort (rest @ new))" using inv r(2) pos by (auto simp: kahn_def)
    show "set ((out @ [n]) @ sort (rest @ new)) \<subseteq> set ids" using inv new ids by (auto simp: kahn_def)
    show "producers_first edges (out @ [n])" using inv n(3) producers_first_snoc by (simp add: kahn_def)
  qed
  then show ?thesis using r(1) by blast
qed

lemma topo_loop_result:
  assumes "kahn ids edges d out ready" "edges_within ids edges"
  shows "\<exists>res d'. topo_loop (successors edges) d out ready = Inr res \<and> kahn ids edges d' res []"
  using assms(1)
proof (induction "successors edges" d out ready rule: topo_loop.induct)
  case (1 d out ready)
  show ?case
  proof (cases ready)
    case Nil
    then show ?thesis using 1(2) by (auto simp: topo_loop.simps [of _ d out])
  next
    case (Cons n rest)
    obtain d' ready' where r: "relax d rest (sort (successors edges n)) = Inr (d', ready')"
      "kahn ids edges d' (out @ [n]) (sort ready')"
      using kahn_step [OF 1(2) [unfolded Cons] assms(2)] by blast
    from 1(1) [OF Cons r(1) refl r(2)] show ?thesis using Cons r(1) by (simp add: topo_loop.simps [of _ d out])
  qed
qed

lemma kahn_initial:
  assumes "distinct ids"
  shows "kahn ids edges (map (\<lambda>i. (i, indegree edges i)) ids) [] (sort (filter (\<lambda>i. indegree edges i = 0) ids))"
proof -
  have "map_of (map (\<lambda>i. (i, indegree edges i)) ids) x = (if x \<in> set ids then Some (indegree edges x) else None)" for x
    by (induction ids) auto
  moreover have "remaining edges [] x = indegree edges x" for x by (simp add: remaining_def indegree_def)
  ultimately show ?thesis using assms by (auto simp: kahn_def producers_first_def)
qed

text \<open>A set of nodes of which each has a producer in the set cannot be nonempty in a finite acyclic graph.\<close>

lemma no_source_free_set:
  assumes "acyclic (edge_rel edges)" "\<And>x. x \<in> X \<Longrightarrow> \<exists>y \<in> X. (y, x) \<in> edge_rel edges"
  shows "X = {}"
proof (rule ccontr)
  assume "X \<noteq> {}"
  have "wf (edge_rel edges)" by (rule finite_acyclic_wf [OF finite_edge_rel assms(1)])
  from this [unfolded wf_eq_minimal] \<open>X \<noteq> {}\<close> obtain x where "x \<in> X" "\<forall>y. (y, x) \<in> edge_rel edges \<longrightarrow> y \<notin> X"
    by blast
  then show False using assms(2) by blast
qed

lemma topo_order_result:
  assumes "distinct ids" "edges_within ids edges"
  shows "\<exists>out. topo_order ids edges = Inr out \<and> distinct out \<and> set out \<subseteq> set ids \<and>
    producers_first edges out \<and> (acyclic (edge_rel edges) \<longrightarrow> set out = set ids)"
proof -
  obtain out d where out: "topo_order ids edges = Inr out" and k: "kahn ids edges d out []"
    using topo_loop_result [OF kahn_initial [OF assms(1)] assms(2)] assms(2) unfolding topo_order_def by auto
  have "set ids - set out = {}" if "acyclic (edge_rel edges)"
  proof (rule no_source_free_set [OF that])
    fix x
    assume x: "x \<in> set ids - set out"
    then have "remaining edges out x \<noteq> 0" using k by (auto simp: kahn_def)
    then obtain e where "e \<in> set edges" "eg_dst e = x" "eg_src e \<notin> set out" by (auto simp: remaining_zero)
    then show "\<exists>y \<in> set ids - set out. (y, x) \<in> edge_rel edges"
      using assms(2) by (auto simp: edge_rel_def edges_within_def list_all_iff)
  qed
  then show ?thesis using out k by (auto simp: kahn_def)
qed

text \<open>
  C13: on distinct nodes and connections between them, the executor's ordering loop terminates
  with a list that repeats no node and in which every node comes after all the nodes that feed
  it; for an acyclic graph the list has every node.
\<close>

theorem topo_order_correct:
  assumes "distinct ids" "edges_within ids edges"
  shows "\<exists>out. topo_order ids edges = Inr out \<and> distinct out \<and> set out \<subseteq> set ids \<and>
    producers_first edges out \<and> (acyclic (edge_rel edges) \<longrightarrow> set out = set ids)"
  using topo_order_result [OF assms] .

theorem topo_order_correct_witness:
  "\<exists>out. topo_order [''b'', ''a''] [\<lparr>eg_src = ''a'', eg_src_port = ''x'', eg_dst = ''b'', eg_dst_port = ''y''\<rparr>] = Inr out
     \<and> producers_first [\<lparr>eg_src = ''a'', eg_src_port = ''x'', eg_dst = ''b'', eg_dst_port = ''y''\<rparr>] out \<and> set out = {''a'', ''b''}"
proof -
  let ?es = "[\<lparr>eg_src = ''a'', eg_src_port = ''x'', eg_dst = ''b'', eg_dst_port = ''y''\<rparr>]"
  have "edge_rel ?es = {(''a'', ''b'')}" by (auto simp: edge_rel_def)
  then have "acyclic (edge_rel ?es)" by (intro acyclicI_order [of _ "\<lambda>x. if x = ''a'' then 1 else (0 :: nat)"]) simp
  moreover have "edges_within [''b'', ''a''] ?es" by (simp add: edges_within_def)
  ultimately show ?thesis using topo_order_correct [of "[''b'', ''a'']" ?es] by auto
qed

end
