(* ===== verification/Demo_Graph.thy ===== *)
theory Demo_Graph
  imports Graph_Executor
begin

text \<open>
  A concrete graph on which the witnesses evaluate the model: a numeric source feeds an
  execution node whose order port is terminal.
\<close>

definition demo_catalog :: catalog where
  "demo_catalog =
     [(''demo.source'',
       \<lparr> ns_domain = Source, ns_params_schema = (\<lambda>_. Some \<lparr>np_unit = None, np_mode = None, np_operator = None,
           np_literal = False, np_component = [], np_history_bars = 0\<rparr>),
         ns_input_ports = [],
         ns_output_ports = [(''value'', \<lparr>po_accepts = [NumericValue], po_required = True,
           po_max_connections = Some 1, po_terminal = False\<rparr>)] \<rparr>),
      (''demo.order'',
       \<lparr> ns_domain = Execution, ns_params_schema = (\<lambda>_. Some \<lparr>np_unit = None, np_mode = None, np_operator = None,
           np_literal = False, np_component = [], np_history_bars = 0\<rparr>),
         ns_input_ports = [(''price'', \<lparr>po_accepts = [ValueIdentity], po_required = True,
           po_max_connections = Some 1, po_terminal = False\<rparr>)],
         ns_output_ports = [(''order'', \<lparr>po_accepts = [OrderRequest], po_required = True,
           po_max_connections = Some 1, po_terminal = True\<rparr>)] \<rparr>)]"

definition demo_graph :: json where
  "demo_graph =
     JObj [(''blocks'', JList
              [JObj [(''id'', JStr ''o''), (''type'', JStr ''demo.order'')],
               JObj [(''id'', JStr ''s''), (''type'', JStr ''demo.source'')]]),
           (''connections'', JList
              [JObj [(''from'', JStr ''s''), (''from_port'', JStr ''value''),
                     (''to'', JStr ''o''), (''to_port'', JStr ''price'')]])]"

text \<open>The source emits a number; the order node turns each number it receives into an order.\<close>

definition demo_factory ::
  "string \<Rightarrow> node_params \<Rightarrow> nat \<Rightarrow> nat entity list dict \<Rightarrow> nat \<Rightarrow> (nat produced \<times> nat) res" where
  "demo_factory ty p ctx inputs st =
     (if ty = ''demo.source''
      then Inr (Outputs [(''value'', Some \<lparr>et_kind = NumericValue, et_source = [], et_body = ctx\<rparr>)], st + 1)
      else Inr (Outputs [(''order'', case map_of inputs ''price'' of
             Some (x # _) \<Rightarrow> Some \<lparr>et_kind = OrderRequest, et_source = [], et_body = et_body x\<rparr>
           | _ \<Rightarrow> None)], st + 1))"

definition demo_blocks :: "block list" where
  "demo_blocks = [\<lparr>bk_id = ''o'', bk_type = ''demo.order'', bk_params = None\<rparr>,
     \<lparr>bk_id = ''s'', bk_type = ''demo.source'', bk_params = None\<rparr>]"

definition demo_edges :: "edge list" where
  "demo_edges = [\<lparr>eg_src = ''s'', eg_src_port = ''value'', eg_dst = ''o'', eg_dst_port = ''price''\<rparr>]"

lemma demo_graph_valid: "validate_graph demo_catalog demo_graph = Inr (demo_blocks, demo_edges)"
  by code_simp

definition demo_executor :: "(nat, nat, nat) graph_executor" where
  "demo_executor = \<lparr> ge_nodes = List.map_filter (build_node demo_catalog demo_factory) demo_blocks,
     ge_edges = demo_edges, ge_order = [''s'', ''o''], ge_states = [] \<rparr>"

lemma demo_built: "build demo_catalog demo_factory demo_graph = Inr demo_executor"
proof -
  have "topo_order (map bk_id demo_blocks) demo_edges = Inr [''s'', ''o'']" by code_simp
  moreover have "\<not> list_ex windowed demo_blocks" by code_simp
  ultimately show ?thesis by (simp add: build_def demo_graph_valid demo_executor_def)
qed

text \<open>One step on the bar 7 yields one order, which carries the value of the source.\<close>

lemma demo_graph_steps:
  "map_option (\<lambda>(r, ex). (map et_body (sr_orders r), ge_states ex))
     (case step 0 demo_executor 7 of Inr x \<Rightarrow> Some x | Inl _ \<Rightarrow> None)
   = Some ([7], [(''s'', 1), (''o'', 1)])"
  by code_simp

lemma demo_stepped: obtains r ex where "step 0 demo_executor 7 = Inr (r, ex)" "map et_body (sr_orders r) = [7]"
  using demo_graph_steps by (auto split: sum.splits)

end
