(* ===== verification/Graph_Properties.thy ===== *)
theory Graph_Properties
  imports Graph_Cycles Graph_Order Demo_Graph
begin

text \<open>
  What a validated graph guarantees, and what a step of its executor computes: the accepted
  connections are typed and acyclic, the built executor has every node in an order in which
  producers come first, and the outputs of a step solve the data-flow equations of the graph.
\<close>

section \<open>Accepted blocks and connections\<close>

definition block_ok :: "catalog \<Rightarrow> block \<Rightarrow> bool" where
  "block_ok cat b \<longleftrightarrow> map_of cat (bk_type b) \<noteq> None \<and> parsed_params cat b \<noteq> None"

definition blocks_wf :: "catalog \<Rightarrow> block list \<Rightarrow> bool" where
  "blocks_wf cat bs \<longleftrightarrow> distinct (map bk_id bs) \<and> (\<forall>b \<in> set bs. block_ok cat b)"

lemma check_blockD:
  assumes "check_block cat bs j = Inr bs'"
  shows "\<exists>b. bs' = bs @ [b] \<and> bk_id b \<notin> bk_id ` set bs \<and> block_ok cat b"
  using assms unfolding check_block_def Let_def
  by (auto simp: block_ok_def parsed_params_def split: json.split_asm option.split_asm if_split_asm)

lemma check_blocks_length: "foldE (check_block cat) bs js = Inr bs' \<Longrightarrow> length bs' = length bs + length js"
  by (induction js arbitrary: bs) (auto dest!: check_blockD)

interpretation blocks: reducer "check_block cat" "blocks_wf cat" for cat
  by unfold_locales (auto simp: blocks_wf_def dest!: check_blockD)

text \<open>A connection from an output port to an input port that accepts all it may carry.\<close>

definition edge_ok :: "catalog \<Rightarrow> block list \<Rightarrow> edge \<Rightarrow> bool" where
  "edge_ok cat bs e \<longleftrightarrow>
     (\<exists>src dst s t sp tp. src \<in> set bs \<and> dst \<in> set bs \<and> bk_id src = eg_src e \<and> bk_id dst = eg_dst e \<and>
        map_of cat (bk_type src) = Some s \<and> map_of cat (bk_type dst) = Some t \<and>
        map_of (ns_output_ports s) (eg_src_port e) = Some sp \<and>
        map_of (ns_input_ports t) (eg_dst_port e) = Some tp \<and>
        rank (ns_domain s) \<le> rank (ns_domain t) \<and> (\<forall>k \<in> set (po_accepts sp). port_accepts tp k))"

definition edges_wf :: "catalog \<Rightarrow> block list \<Rightarrow> edge list \<Rightarrow> bool" where
  "edges_wf cat bs es \<longleftrightarrow> distinct es \<and> (\<forall>e \<in> set es. edge_ok cat bs e)"

lemma find_blockD: "find_block bs n = Some b \<Longrightarrow> b \<in> set bs \<and> bk_id b = n"
  by (auto simp: find_block_def find_Some_iff)

lemma spec_ofD:
  assumes "spec_of cat bs j = Inr (Some x)"
  shows "\<exists>b \<in> set bs. bk_id b = fst x \<and> map_of cat (bk_type b) = Some (snd x)"
proof -
  obtain n b s where "find_block bs n = Some b" "map_of cat (bk_type b) = Some s" "x = (n, s)"
    using assms unfolding spec_of_def bindE_eq_Inr by (fastforce split: option.split_asm)
  then show ?thesis using find_blockD by fastforce
qed

lemma lookup_keyD:
  assumes "lookup_key d j = Inr (Some x)"
  shows "map_of d (fst x) = Some (snd x)"
  using assms unfolding lookup_key_def bindE_eq_Inr by (fastforce split: option.split_asm)

lemma check_connectionD:
  assumes "check_connection cat bs es j = Inr es'"
  shows "\<exists>e. es' = es @ [e] \<and> e \<notin> set es \<and> edge_ok cat bs e"
proof -
  obtain d src dst sport dport where
    c: "spec_of cat bs (jget ''from'' d) = Inr (Some src)" "spec_of cat bs (jget ''to'' d) = Inr (Some dst)"
    "lookup_key (ns_output_ports (snd src)) (jget ''from_port'' d) = Inr (Some sport)"
    "lookup_key (ns_input_ports (snd dst)) (jget ''to_port'' d) = Inr (Some dport)"
    and e: "check_edge src dst sport dport es = Inr es'"
    using assms by (auto simp: check_connection_def split: json.split_asm)
  let ?e = "\<lparr>eg_src = fst src, eg_src_port = fst sport, eg_dst = fst dst, eg_dst_port = fst dport\<rparr>"
  have e: "can_flow (ns_domain (snd src)) (ns_domain (snd dst))"
    "\<forall>k \<in> set (po_accepts (snd sport)). port_accepts (snd dport) k" "?e \<notin> set es" "es' = es @ [?e]"
    using e by (auto simp: check_edge_def Let_def list_ex_iff split: if_split_asm)
  obtain b b' where "b \<in> set bs" "bk_id b = fst src" "map_of cat (bk_type b) = Some (snd src)"
    "b' \<in> set bs" "bk_id b' = fst dst" "map_of cat (bk_type b') = Some (snd dst)"
    using spec_ofD [OF c(1)] spec_ofD [OF c(2)] by blast
  moreover note lookup_keyD [OF c(3)] lookup_keyD [OF c(4)]
  ultimately have "edge_ok cat bs ?e" using e(1,2) unfolding edge_ok_def can_flow_def by force
  then show ?thesis using e(3,4) by blast
qed

interpretation connections: reducer "check_connection cat bs" "edges_wf cat bs" for cat bs
  by unfold_locales (auto simp: edges_wf_def dest!: check_connectionD)

lemma edge_okD:
  "edge_ok cat bs e \<Longrightarrow> \<exists>src dst. src \<in> set bs \<and> dst \<in> set bs \<and> bk_id src = eg_src e \<and> bk_id dst = eg_dst e"
  unfolding edge_ok_def by (elim exE conjE) (intro exI conjI)

lemma edges_wf_within:
  assumes "edges_wf cat bs es"
  shows "edges_within (map bk_id bs) es"
proof -
  have "eg_src e \<in> bk_id ` set bs \<and> eg_dst e \<in> bk_id ` set bs" if e: "e \<in> set es" for e
  proof -
    obtain src dst where "src \<in> set bs" "dst \<in> set bs" "bk_id src = eg_src e" "bk_id dst = eg_dst e"
      using edge_okD [of cat bs e] assms e by (auto simp: edges_wf_def)
    then show ?thesis by (intro conjI image_eqI [of _ bk_id src] image_eqI [of _ bk_id dst]) simp_all
  qed
  then show ?thesis by (simp add: edges_within_def list_all_iff)
qed

lemma foldE_unit: "foldE f () xs = Inr () \<longleftrightarrow> (\<forall>x \<in> set xs. f () x = Inr ())"
  by (induction xs) auto

definition ports_ok :: "catalog \<Rightarrow> block list \<Rightarrow> edge list \<Rightarrow> bool" where
  "ports_ok cat bs es \<longleftrightarrow>
     (\<forall>b \<in> set bs. \<forall>s. map_of cat (bk_type b) = Some s \<longrightarrow>
        (\<forall>(name, p) \<in> set (ns_input_ports s).
           (po_required p \<longrightarrow> 0 < incoming_count es (bk_id b) name) \<and>
           (\<forall>m. po_max_connections p = Some m \<longrightarrow> incoming_count es (bk_id b) name \<le> m)))"

lemma check_input_portsD:
  "check_input_ports es nid ps = Inr u \<Longrightarrow> (name, p) \<in> set ps \<Longrightarrow>
   (po_required p \<longrightarrow> 0 < incoming_count es nid name) \<and>
   (\<forall>m. po_max_connections p = Some m \<longrightarrow> incoming_count es nid name \<le> m)"
  by (induction es nid ps rule: check_input_ports.induct)
    (auto simp: Let_def not_less split: if_split_asm option.split_asm)

lemma validate_graphD:
  assumes "validate_graph cat g = Inr (bs, es)"
  shows "blocks_wf cat bs" "edges_wf cat bs es" "bs \<noteq> []" "acyclic (edge_rel es)" "ports_ok cat bs es"
proof -
  obtain blocks connections where v: "blocks \<noteq> []" "foldE (check_block cat) [] blocks = Inr bs"
    "foldE (check_connection cat bs) [] connections = Inr es" "validate_typed cat bs es = Inr ()"
    using assms by (auto simp: validate_graph_def split: json.split_asm option.split_asm)
  show b: "blocks_wf cat bs" using blocks.fold_inv [OF _ v(2)] by (simp add: blocks_wf_def)
  show e: "edges_wf cat bs es" using connections.fold_inv [OF _ v(3)] by (simp add: edges_wf_def)
  show "bs \<noteq> []" using v(1,2) check_blocks_length [OF v(2)] by auto
  note within = edges_wf_within [OF e]
  have "find_cycle (map bk_id bs) es = Inr None" using v(4) by (auto simp: validate_typed_def)
  then show "acyclic (edge_rel es)" using find_cycle_result [OF within]
    by (auto simp: search_ok_def acyclic_def)
  have "\<forall>b \<in> set bs. check_node_ports cat es () b = Inr ()"
    using v(4) by (auto simp: validate_typed_def foldE_unit)
  then show "ports_ok cat bs es" unfolding ports_ok_def check_node_ports_def
    by (fastforce dest: check_input_portsD)
qed

text \<open>
  C15: a graph that passes validation is well formed: its blocks have distinct ids, registered
  types and accepted parameters; its connections are distinct, run between ports of known
  nodes, never from a higher domain rank to a lower one, and carry only classes the input port
  accepts; they form no cycle; every required input is connected and no input has more
  connections than it allows.
\<close>

theorem validate_graph_sound:
  assumes "validate_graph cat g = Inr (bs, es)"
  shows "blocks_wf cat bs \<and> edges_wf cat bs es \<and> acyclic (edge_rel es) \<and> ports_ok cat bs es"
  using validate_graphD [OF assms] by simp

theorem validate_graph_sound_witness:
  "validate_graph demo_catalog demo_graph = Inr (demo_blocks, demo_edges) \<and>
     edges_wf demo_catalog demo_blocks demo_edges \<and> acyclic (edge_rel demo_edges)"
  using demo_graph_valid validate_graph_sound [OF demo_graph_valid] by simp

section \<open>The built executor\<close>

definition built_ok :: "('c, 'b, 's) graph_executor \<Rightarrow> bool" where
  "built_ok ex \<longleftrightarrow>
     distinct (ge_order ex) \<and> set (ge_order ex) = set (dict_keys (ge_nodes ex)) \<and>
     producers_first (ge_edges ex) (ge_order ex) \<and>
     (\<forall>n node. map_of (ge_nodes ex) n = Some node \<longrightarrow> gn_id node = n)"

lemma build_nodes:
  assumes "\<forall>b \<in> set bs. block_ok cat b"
  shows "dict_keys (List.map_filter (build_node cat factory) bs) = map bk_id bs"
    and "(n, node) \<in> set (List.map_filter (build_node cat factory) bs) \<Longrightarrow> gn_id node = n"
  using assms by (induction bs) (auto simp: build_node_def block_ok_def map_filter_simps split: option.splits)

text \<open>
  C16: building a validated graph always finds an execution order (only the history window can
  still refuse it), and in it every node occurs exactly once, after all the nodes that feed it.
\<close>

theorem build_order_complete:
  assumes "validate_graph cat g = Inr (bs, es)"
  shows "build cat factory g = invalid ''Condition source history exceeds the 1000-bar physical window'' \<or>
    (\<exists>ex. build cat factory g = Inr ex \<and> built_ok ex \<and> set (ge_order ex) = bk_id ` set bs \<and> ge_edges ex = es)"
proof -
  note v = validate_graphD [OF assms]
  obtain out where out: "topo_order (map bk_id bs) es = Inr out" "distinct out" "producers_first es out"
    "set out = bk_id ` set bs"
    using topo_order_result [of "map bk_id bs" es] v edges_wf_within [OF v(2)] by (auto simp: blocks_wf_def)
  have ok: "\<forall>b \<in> set bs. block_ok cat b" using v(1) by (simp add: blocks_wf_def)
  let ?nodes = "List.map_filter (build_node cat factory) bs"
  let ?ex = "\<lparr>ge_nodes = ?nodes, ge_edges = es, ge_order = out, ge_states = []\<rparr>"
  have "built_ok ?ex" using out build_nodes(1) [OF ok, of factory]
    by (auto simp: built_ok_def dest!: map_of_SomeD build_nodes(2) [OF ok])
  then show ?thesis using out assms by (auto simp: build_def)
qed

theorem build_order_complete_witness:
  "\<exists>ex. build demo_catalog demo_factory demo_graph = Inr ex \<and> built_ok ex \<and> set (ge_order ex) = {''o'', ''s''}"
  using build_order_complete [OF demo_graph_valid, of demo_factory] demo_built
  by (auto simp: demo_blocks_def)


section \<open>The data-flow equations\<close>

lemma collect_entities [simp]: "sr_entities (collect edges node r out) = sr_entities r"
  by (auto simp: collect_def split: prod.splits option.splits)

lemma foldl_collect_entities [simp]: "sr_entities (foldl (collect edges node) r outs) = sr_entities r"
  by (induction outs arbitrary: r) auto

lemma validate_outputs_Inr [simp]:
  "validate_outputs spec x = Inr m \<longleftrightarrow> x = Outputs m \<and> outputs_check spec m = Inr ()"
  by (cases x) (auto simp: validate_outputs_def)

lemma step_nodeD:
  assumes "step_node fresh nodes edges ctx (r, states) n = Inr (r', states')"
  obtains node m st where "map_of nodes n = Some node"
    "gn_evaluate node ctx (node_inputs edges node (sr_entities r))
       (case map_of states n of None \<Rightarrow> fresh | Some s \<Rightarrow> s) = Inr (Outputs m, st)"
    "outputs_check (gn_spec node) m = Inr ()"
    "r' = foldl (collect edges node) (r\<lparr>sr_entities := AList.update n (stamp n m) (sr_entities r)\<rparr>) (stamp n m)"
    "states' = AList.update n st states"
proof -
  obtain node where node: "map_of nodes n = Some node" using assms by (auto simp: step_node_def split: option.splits)
  show thesis using assms that [OF node] unfolding step_node_def
    by (auto simp: node Let_def)
qed



lemma carried_cong: "map_of o1 (eg_src e) = map_of o2 (eg_src e) \<Longrightarrow> carried o1 e = carried o2 e"
  by (simp add: carried_def)




section \<open>What leaves the graph\<close>

definition left_from :: "('c, 'b, 's) graph_node dict \<Rightarrow> edge list \<Rightarrow> entity_kind \<Rightarrow> 'b entity \<Rightarrow> bool" where
  "left_from nodes edges kind x \<longleftrightarrow> et_kind x = kind \<and>
     (\<exists>node port. map_of nodes (et_source x) = Some node \<and> leaves edges node port)"

definition outgoing_ok :: "('c, 'b, 's) graph_node dict \<Rightarrow> edge list \<Rightarrow> 'b step_result \<Rightarrow> bool" where
  "outgoing_ok nodes edges r \<longleftrightarrow>
     (\<forall>x \<in> set (sr_orders r). left_from nodes edges OrderRequest x) \<and>
     (\<forall>x \<in> set (sr_exits r). left_from nodes edges PositionExitRequest x) \<and>
     (\<forall>x \<in> set (sr_recipes r). left_from nodes edges SpotRecipeRequest x)"

lemma collect_outgoing:
  assumes "outgoing_ok nodes edges r" "map_of nodes n = Some node" "\<forall>x. snd out = Some x \<longrightarrow> et_source x = n"
  shows "outgoing_ok nodes edges (collect edges node r out)"
proof (cases out)
  case (Pair port y)
  show ?thesis
  proof (cases y)
    case (Some x)
    then have "leaves edges node port \<Longrightarrow> left_from nodes edges (et_kind x) x"
      using assms(2,3) Pair by (auto simp: left_from_def)
    then show ?thesis using assms(1) Pair Some by (simp add: collect_def outgoing_ok_def) metis
  qed (use assms(1) Pair in \<open>simp add: collect_def\<close>)
qed

lemma foldl_collect_outgoing:
  assumes "outgoing_ok nodes edges r" "map_of nodes n = Some node"
    and "\<forall>out \<in> set outs. \<forall>x. snd out = Some x \<longrightarrow> et_source x = n"
  shows "outgoing_ok nodes edges (foldl (collect edges node) r outs)"
  using assms(1,3)
proof (induction outs arbitrary: r)
  case (Cons out outs)
  have "outgoing_ok nodes edges (collect edges node r out)"
    using Cons.prems assms(2) by (intro collect_outgoing) auto
  then show ?case using Cons.IH Cons.prems(2) by simp
qed simp

lemma stamp_source: "\<forall>out \<in> set (stamp n m). \<forall>x. snd out = Some x \<longrightarrow> et_source x = n"
  by (auto simp: stamp_def)

interpretation outgoing: reducer "step_node fresh nodes edges ctx" "\<lambda>rs. outgoing_ok nodes edges (fst rs)"
  for fresh nodes edges ctx
proof
  fix s s' n
  assume inv: "outgoing_ok nodes edges (fst s)" and "step_node fresh nodes edges ctx s n = Inr s'"
  then obtain node m where node: "map_of nodes n = Some node"
    "fst s' = foldl (collect edges node) (fst s\<lparr>sr_entities := AList.update n (stamp n m) (sr_entities (fst s))\<rparr>) (stamp n m)"
    by (cases s; cases s') (auto elim!: step_nodeD)
  show "outgoing_ok nodes edges (fst s')" unfolding node(2)
    by (rule foldl_collect_outgoing [OF _ node(1) stamp_source]) (use inv in \<open>simp add: outgoing_ok_def\<close>)
qed

text \<open>
  An order, a position exit or a Spot recipe request leaves a step only from a port that
  its node declares terminal and that no connection consumes, and it carries the id of that
  node: drafts and intermediate orders never leave the graph.
\<close>

theorem step_outgoing:
  assumes "step fresh ex ctx = Inr (r, ex')"
  shows "outgoing_ok (ge_nodes ex) (ge_edges ex) r"
proof -
  have "foldE (step_node fresh (ge_nodes ex) (ge_edges ex) ctx) (empty_result, ge_states ex) (ge_order ex)
      = Inr (r, ge_states ex')" using assms by (auto simp: step_def)
  from outgoing.fold_inv [OF _ this] show ?thesis by (simp add: outgoing_ok_def empty_result_def)
qed

theorem step_outgoing_witness:
  "\<exists>r ex. step 0 demo_executor 7 = Inr (r, ex) \<and> map et_body (sr_orders r) = [7] \<and>
     (\<forall>x \<in> set (sr_orders r). left_from (ge_nodes demo_executor) demo_edges OrderRequest x)"
proof -
  obtain r ex where s: "step 0 demo_executor 7 = Inr (r, ex)" "map et_body (sr_orders r) = [7]" by (rule demo_stepped)
  then show ?thesis using step_outgoing [OF s(1)] by (auto simp: demo_executor_def outgoing_ok_def)
qed

end
