(* ===== verification/Spot_Ledger.thy ===== *)
theory Spot_Ledger
  imports Spot_Numbers Graph_Model
begin

text \<open>
  The host-driven Spot bracket, its data and its ledger: the ports of
  \<open>src/koval/engine/spot_contract.py\<close> and \<open>broker.py\<close>, the receipts of \<open>spot_control.py\<close> and
  \<open>SpotLedger\<close> of \<open>spot_account.py\<close>, the exact cash and inventory of one session from confirmed
  fill deltas.

  Amounts travel as text and are read by \<open>decimal_value\<close>; an amount is its value here, and text
  that is no decimal, which raises the same \<open>ValueError\<close>, is outside the type. Arithmetic is
  that of \<open>Spot_Numbers\<close>: \<open>spot_decimal_context\<close> is the same context of 256 digits. The float
  projection that the ledger also feeds (\<open>PlatformAccountState\<close>) is not modelled.
\<close>

section \<open>Decimal input\<close>

definition decimal_ok :: "rat \<Rightarrow> bool" where
  "decimal_ok x \<longleftrightarrow> 0 \<le> x \<and> x < 10 ^ 19 \<and> multiple_of_10_powi 72 x"

definition decimal_value :: "rat \<Rightarrow> rat res" where
  "decimal_value x = (if decimal_ok x then Inr x else Inl (ValueError ''invalid Spot decimal''))"

definition decimal_positive :: "rat \<Rightarrow> rat res" where
  "decimal_positive x =
     (if decimal_ok x \<and> x \<noteq> 0 then Inr x else Inl (ValueError ''invalid Spot decimal''))"

text \<open>\<open>decimal_value(x or "0")\<close>, and \<open>decimal_value(None)\<close>, which raises.\<close>

definition decimal_or_zero :: "rat option \<Rightarrow> rat res" where
  "decimal_or_zero x = (case x of None \<Rightarrow> Inr 0 | Some v \<Rightarrow> decimal_value v)"

definition decimal_given :: "rat option \<Rightarrow> rat res" where
  "decimal_given x =
     (case x of None \<Rightarrow> Inl (ValueError ''invalid Spot decimal'') | Some v \<Rightarrow> decimal_value v)"

definition decimal_required :: "rat option \<Rightarrow> rat res" where
  "decimal_required x =
     (case x of None \<Rightarrow> Inl (ValueError ''invalid Spot decimal'') | Some v \<Rightarrow> decimal_positive v)"

section \<open>Ports\<close>

record spot_identity =
  si_account_id :: string
  si_symbol :: string
  si_base_asset :: string
  si_quote_asset :: string
  si_exchange :: string
  si_market :: string
  si_target :: string
  si_environment :: string
  si_leverage :: int
  si_contract_version :: int

definition SPOT_TESTNET :: string where
  "SPOT_TESTNET = ''binance_spot_testnet''"

definition SPOT_PRODUCTION :: string where
  "SPOT_PRODUCTION = ''binance_spot_live_internal''"

text \<open>\<open>SpotControlReceipt\<close>.\<close>

record receipt =
  rc_request_sha256 :: string
  rc_receipt_id :: string
  rc_grant_id :: string
  rc_quantity :: rat
  rc_max_quantity :: rat
  rc_max_notional :: rat
  rc_reference_price :: rat
  rc_protection_disposition :: string
  rc_retained_order_ids :: "string list"

text \<open>The keys of a metadata dictionary that the code reads or writes.\<close>

record metadata =
  md_spot_context :: json
  md_authorization :: "receipt option"
  md_list_client_order_id :: "string option"
  md_commission :: bool

record order_intent =
  oi_session_id :: string
  oi_intent_id :: string
  oi_client_order_id :: string
  oi_symbol :: string
  oi_side :: string
  oi_order_type :: string
  oi_quantity :: rat
  oi_target :: string
  oi_price :: "rat option"
  oi_stop_price :: "rat option"
  oi_target_price :: "rat option"
  oi_role :: string
  oi_metadata :: metadata

record order_ack =
  oa_session_id :: string
  oa_client_order_id :: string
  oa_exchange_order_id :: "string option"
  oa_status :: string
  oa_target :: string
  oa_metadata :: metadata

record protective_intent =
  pi_session_id :: string
  pi_entry_client_order_id :: string
  pi_stop_client_order_id :: string
  pi_target_client_order_id :: string
  pi_symbol :: string
  pi_side :: string
  pi_quantity :: rat
  pi_stop_price :: "rat option"
  pi_target_price :: "rat option"
  pi_target :: string
  pi_reduce_only :: bool
  pi_metadata :: metadata

record fill_fee =
  ff_asset :: string
  ff_quantity :: rat

record spot_fill =
  fl_session_id :: string
  fl_client_order_id :: string
  fl_exchange_order_id :: "string option"
  fl_symbol :: string
  fl_side :: string
  fl_status :: string
  fl_role :: string
  fl_quantity :: "rat option"
  fl_price :: "rat option"
  fl_timestamp_ms :: int
  fl_realized_pnl :: "rat option"
  fl_metadata :: metadata
  fl_event_id :: string
  fl_fees :: "fill_fee list"

record spot_protection =
  sp_session_id :: string
  sp_symbol :: string
  sp_order_list_id :: string
  sp_stop_client_order_id :: string
  sp_target_client_order_id :: string
  sp_quantity :: rat
  sp_stop_price :: rat
  sp_target_price :: rat
  sp_dust_quantity :: rat
  sp_dust_reason :: string
  sp_quantity_step :: rat
  sp_price_tick :: rat
  sp_context :: json

record venue_report =
  vr_identity :: spot_identity
  vr_session_id :: string
  vr_revision :: string
  vr_quote_balance :: rat
  vr_base_quantity :: rat
  vr_fills :: "spot_fill list"
  vr_open_order_ids :: "string list"
  vr_pending_entry_ids :: "string list"
  vr_protection :: "spot_protection option"
  vr_complete :: bool
  vr_quote_reserved :: rat
  vr_context :: json
  vr_terminal_order_ids :: "string list"
  vr_terminal_list_ids :: "string list"
  vr_unknown_request_ids :: "string list"
  vr_base_free :: "rat option"
  vr_fees_complete :: bool

section \<open>The ledger\<close>

record spot_ledger =
  lg_identity :: spot_identity
  lg_capital :: rat
  lg_cash :: rat
  lg_quantity :: rat
  lg_cost :: rat
  lg_realized :: rat
  lg_valued_fees :: rat
  lg_fees :: "rat dict"
  lg_events :: "spot_fill dict"

definition new_ledger :: "spot_identity \<Rightarrow> rat \<Rightarrow> spot_ledger res" where
  "new_ledger i capital =
     bindE (decimal_positive capital) (\<lambda>c.
     Inr \<lparr> lg_identity = i, lg_capital = c, lg_cash = c, lg_quantity = 0, lg_cost = 0, lg_realized = 0,
           lg_valued_fees = 0, lg_fees = [], lg_events = [] \<rparr>)"

text \<open>\<open>asset == asset.strip().upper()\<close> for a nonempty asset, on ASCII text.\<close>

definition spaces :: string where
  "spaces = [CHR '' '', CHR 0x09, CHR 0x0A, CHR 0x0B, CHR 0x0C, CHR 0x0D]"

definition asset_ok :: "string \<Rightarrow> bool" where
  "asset_ok s \<longleftrightarrow> s \<noteq> [] \<and> hd s \<notin> set spaces \<and> last s \<notin> set spaces \<and>
     list_all (\<lambda>c. \<not> (CHR ''a'' \<le> c \<and> c \<le> CHR ''z'')) s"

text \<open>A \<open>defaultdict(Decimal)\<close>.\<close>

definition amount_of :: "rat dict \<Rightarrow> string \<Rightarrow> rat" where
  "amount_of d k = (case map_of d k of None \<Rightarrow> 0 | Some v \<Rightarrow> v)"

definition add_amount :: "rat dict \<Rightarrow> string \<Rightarrow> rat \<Rightarrow> rat dict" where
  "add_amount d k v = AList.update k (dadd (amount_of d k) v) d"

definition collect_fee :: "rat dict \<Rightarrow> fill_fee \<Rightarrow> rat dict res" where
  "collect_fee d f =
     (if \<not> asset_ok (ff_asset f) then Inl (ValueError ''invalid Spot fee asset'')
      else bindE (decimal_value (ff_quantity f)) (\<lambda>q. Inr (add_amount d (ff_asset f) q)))"

definition collect_fees :: "fill_fee list \<Rightarrow> rat dict res" where
  "collect_fees fs = foldE collect_fee [] fs"

text \<open>The checks that precede the lookup of the event.\<close>

definition fill_guard :: "spot_ledger \<Rightarrow> spot_fill \<Rightarrow> unit res" where
  "fill_guard l f =
     (if fl_event_id f = [] then Inl (ValueError ''Spot fill requires an immutable event_id'')
      else if fl_timestamp_ms f < 0
      then Inl (ValueError ''Spot timestamp_ms must be a non-negative integer'')
      else if md_commission (fl_metadata f)
      then Inl (ValueError ''Spot commissions must use explicit SpotFee records'')
      else if fl_symbol f \<noteq> si_symbol (lg_identity l) then Inl (ValueError ''Spot fill symbol mismatch'')
      else Inr ())"

definition fill_shape :: "spot_fill \<Rightarrow> unit res" where
  "fill_shape f =
     (if fl_status f \<notin> {''partial'', ''filled'', ''canceled'', ''expired''}
      then Inl (ValueError ''invalid Spot event status'')
      else if fl_role f \<notin> {''entry'', ''stop'', ''target'', ''flatten''}
      then Inl (ValueError ''invalid Spot fill role'')
      else if fl_side f \<noteq> (if fl_role f = ''entry'' then ''buy'' else ''sell'')
      then Inl (ValueError ''invalid Spot execution side'')
      else Inr ())"

definition record_event :: "spot_ledger \<Rightarrow> spot_fill \<Rightarrow> spot_ledger" where
  "record_event l f = l\<lparr>lg_events := AList.update (fl_event_id f) f (lg_events l)\<rparr>"

text \<open>The new cash, quantity and cost, and the realized profit, of an entry and of an exit.\<close>

record movement =
  mv_cash :: rat
  mv_quantity :: rat
  mv_cost :: rat
  mv_realized :: rat

definition entry_movement :: "spot_ledger \<Rightarrow> rat \<Rightarrow> rat \<Rightarrow> rat \<Rightarrow> rat \<Rightarrow> movement res" where
  "entry_movement l quantity price base_fee quote_fee =
     (let delta = dsub quantity base_fee in
      if delta \<le> 0 then Inl (ValueError ''base fee consumes acquired inventory'')
      else Inr \<lparr> mv_cash = dsub (dsub (lg_cash l) (dmul quantity price)) quote_fee,
                 mv_quantity = dadd (lg_quantity l) delta,
                 mv_cost = dadd (lg_cost l) (dmul delta price), mv_realized = 0 \<rparr>)"

definition exit_movement :: "spot_ledger \<Rightarrow> rat \<Rightarrow> rat \<Rightarrow> rat \<Rightarrow> rat \<Rightarrow> movement res" where
  "exit_movement l quantity price base_fee quote_fee =
     (let delta = dadd quantity base_fee in
      if lg_quantity l < delta then Inl (ValueError ''Spot sell exceeds confirmed inventory'')
      else bindE (ddiv (dmul (lg_cost l) delta) (lg_quantity l)) (\<lambda>released.
        Inr \<lparr> mv_cash = dsub (dadd (lg_cash l) (dmul quantity price)) quote_fee,
              mv_quantity = dsub (lg_quantity l) delta, mv_cost = dsub (lg_cost l) released,
              mv_realized = dsub (dmul delta price) released \<rparr>))"

definition add_fees :: "rat dict \<Rightarrow> rat dict \<Rightarrow> rat dict" where
  "add_fees d fees = foldl (\<lambda>d (a, v). if v \<noteq> 0 then add_amount d a v else d) d fees"

definition ledger_apply :: "spot_ledger \<Rightarrow> spot_fill \<Rightarrow> rat option \<Rightarrow> (bool \<times> spot_ledger) res" where
  "ledger_apply l f stop_price =
     bindE (fill_guard l f) (\<lambda>_.
     case map_of (lg_events l) (fl_event_id f) of
       Some old \<Rightarrow> if old \<noteq> f then Inl (ValueError ''conflicting Spot event_id'') else Inr (False, l)
     | None \<Rightarrow>
         bindE (fill_shape f) (\<lambda>_.
         bindE (decimal_or_zero (fl_quantity f)) (\<lambda>quantity.
         if quantity = 0
         then (if fl_status f \<notin> {''canceled'', ''expired''} \<or> fl_fees f \<noteq> []
               then Inl (ValueError ''zero quantity is only valid for fee-free terminal events'')
               else Inr (True, record_event l f))
         else
           bindE (decimal_required (fl_price f)) (\<lambda>price.
           bindE (collect_fees (fl_fees f)) (\<lambda>fees.
           let base_fee = amount_of fees (si_base_asset (lg_identity l));
               quote_fee = amount_of fees (si_quote_asset (lg_identity l)) in
           bindE ((if fl_role f = ''entry'' then entry_movement else exit_movement)
                    l quantity price base_fee quote_fee) (\<lambda>mv.
           if mv_cash mv < 0 then Inl (ValueError ''Spot fill exceeds allocated quote cash'')
           else
             bindE (decimal_given stop_price) (\<lambda>_.
             Inr (True, record_event
               (l\<lparr>lg_cash := mv_cash mv, lg_quantity := mv_quantity mv, lg_cost := mv_cost mv,
                  lg_realized := dadd (lg_realized l) (mv_realized mv),
                  lg_valued_fees := dadd (lg_valued_fees l) (dadd (dmul base_fee price) quote_fee),
                  lg_fees := add_fees (lg_fees l) fees\<rparr>) f))))))))"

record ledger_snapshot =
  sn_quote_cash :: rat
  sn_base_quantity :: rat
  sn_inventory_cost :: rat
  sn_equity :: rat
  sn_gross_realized :: rat
  sn_valued_fees :: rat
  sn_net_realized :: "rat option"
  sn_fees_by_asset :: "rat dict"
  sn_valuation_complete :: bool
  sn_unvalued :: "string list"

definition snapshot :: "spot_ledger \<Rightarrow> rat \<Rightarrow> ledger_snapshot res" where
  "snapshot l mark_price =
     bindE (decimal_positive mark_price) (\<lambda>mark.
     let unknown = sort (filter (\<lambda>a. a \<notin> {si_base_asset (lg_identity l), si_quote_asset (lg_identity l)})
                           (dict_keys (lg_fees l))) in
     Inr \<lparr> sn_quote_cash = lg_cash l, sn_base_quantity = lg_quantity l, sn_inventory_cost = lg_cost l,
           sn_equity = dadd (lg_cash l) (dmul (lg_quantity l) mark), sn_gross_realized = lg_realized l,
           sn_valued_fees = lg_valued_fees l,
           sn_net_realized = (if unknown = [] then Some (dsub (lg_realized l) (lg_valued_fees l)) else None),
           sn_fees_by_asset = sort_key fst (lg_fees l), sn_valuation_complete = (unknown = []),
           sn_unvalued = unknown \<rparr>)"

end
