(* ===== verification/Spot_Bracket.thy ===== *)
theory Spot_Bracket
  imports Spot_Ledger Effects
begin

text \<open>
  \<open>src/koval/engine/spot_execution.py\<close> and \<open>spot_control.py\<close>: the serialized lifecycle of one
  Spot bracket, driven by the evidence that a host supplies. The object is mutated in place and
  keeps what it did before an exception, so its methods are effects on the record \<open>bracket\<close>.

  The broker, the durable record sink and the authorizing host are not part of the program:
  they are the functions of \<open>ports\<close>, which read and change a state \<open>'w\<close> of their own and may
  raise. \<open>sx_log\<close> is the history of what the object wrote and sent, in order; no method reads it.
  The content digest is a function of the hashed content.
\<close>

section \<open>State\<close>

record cycle_baseline =
  cb_realized :: rat
  cb_fees :: rat
  cb_event_count :: nat

record trade =
  td_entry_client_order_id :: string
  td_entry_price :: rat
  td_exit_price :: rat
  td_size :: rat
  td_gross_entry_quantity :: rat
  td_pnl :: "rat option"
  td_gross_pnl :: rat
  td_commission :: rat
  td_unvalued :: "string list"
  td_reason :: string
  td_entry_timestamp_ms :: int
  td_exit_timestamp_ms :: int

text \<open>A control request, the reservation of a disposal and the terminal disposition.\<close>

datatype action = RetryClose string string | Finish string string

record request =
  rq_action :: action
  rq_context :: json
  rq_state_hash :: string
  rq_base_quantity :: rat
  rq_open_order_ids :: "string list"

record disposal =
  ds_attempt_id :: string
  ds_expected_state_hash :: string
  ds_request :: request
  ds_authorization :: receipt
  ds_intent :: order_intent
  ds_ack :: "order_ack option"

record terminal =
  tm_disposition :: string
  tm_evidence_hash :: string
  tm_request :: request
  tm_authorization :: receipt
  tm_inventory :: rat
  tm_protection :: "spot_protection option"

text \<open>\<open>export_state\<close>; \<open>xs_production\<close> is the group of keys that is written in production only.\<close>

record production_state =
  xp_context :: json
  xp_halt_reason :: "string option"
  xp_pending :: bool
  xp_protection :: "spot_protection option"
  xp_protection_acks :: "spot_protection list"
  xp_order_acks :: "order_ack list"
  xp_last_report :: "venue_report option"
  xp_outside_bracket :: bool
  xp_observation_hash :: string
  xp_disposals :: "disposal dict"
  xp_terminal :: "terminal option"

record exported =
  xs_version :: int
  xs_identity :: spot_identity
  xs_session_id :: string
  xs_capital :: rat
  xs_binding :: json
  xs_intents :: "order_intent list"
  xs_protection_intents :: "protective_intent list"
  xs_events :: "spot_fill list"
  xs_entry_id :: "string option"
  xs_halted :: bool
  xs_uncertain :: bool
  xs_close_attempted :: bool
  xs_cancel_attempted :: "string list"
  xs_last_revision :: "string option"
  xs_close_id :: "string option"
  xs_closed_entries :: "string list"
  xs_cycle_baseline :: cycle_baseline
  xs_production :: "production_state option"

datatype journal =
    SpotHalt string
  | SpotState exported
  | OrderIntent order_intent
  | OrderAck order_ack
  | FillRecord spot_fill
  | SpotReconciled venue_report
  | SpotCancelEntry string
  | SpotCancelAll string
  | ProtectionIntent protective_intent
  | ProtectionAck spot_protection
  | Trade trade
  | DisposalAttempt disposal
  | SpotFinish terminal

datatype sent =
    SubmitEntry order_intent
  | SubmitExit order_intent
  | CancelEntry string
  | CancelAll
  | PlaceProtection protective_intent

datatype entry = Wrote journal | Sent sent

datatype hashed =
    HText string
  | HContext json
  | HObservation json "venue_report option" "order_intent list" "spot_fill list" "protective_intent list"
      "string option" "string list"
  | HRequest request

record 'w ports =
  bp_digest :: "hashed \<Rightarrow> string"
  bp_emit :: "'w \<Rightarrow> journal \<Rightarrow> unit res \<times> 'w"
  bp_poll_fills :: "'w \<Rightarrow> spot_fill list res \<times> 'w"
  bp_reconcile :: "'w \<Rightarrow> order_intent list \<Rightarrow> venue_report res \<times> 'w"
  bp_submit_entry :: "'w \<Rightarrow> order_intent \<Rightarrow> order_ack res \<times> 'w"
  bp_submit_exit :: "'w \<Rightarrow> order_intent \<Rightarrow> order_ack res \<times> 'w"
  bp_cancel_entry :: "'w \<Rightarrow> string \<Rightarrow> unit res \<times> 'w"
  bp_cancel_all :: "'w \<Rightarrow> unit res \<times> 'w"
  bp_place_protection :: "'w \<Rightarrow> protective_intent \<Rightarrow> spot_protection res \<times> 'w"
  bp_authorize :: "'w \<Rightarrow> request \<Rightarrow> receipt res \<times> 'w"

record 'w bracket =
  sx_world :: 'w
  sx_log :: "entry list"
  sx_session_id :: string
  sx_identity :: spot_identity
  sx_binding :: json
  sx_context :: json
  sx_id_namespace :: string
  sx_halt_reason :: "string option"
  sx_last_report :: "venue_report option"
  sx_protection_acks :: "spot_protection list"
  sx_order_acks :: "order_ack list"
  sx_ledger :: spot_ledger
  sx_intents :: "order_intent dict"
  sx_protection_intents :: "protective_intent list"
  sx_protection :: "spot_protection option"
  sx_entry_id :: "string option"
  sx_pending :: bool
  sx_ready :: bool
  sx_halted :: bool
  sx_uncertain :: bool
  sx_flat_confirmed :: bool
  sx_close_attempted :: bool
  sx_cancel_attempted :: "string list"
  sx_persistence_failed :: bool
  sx_last_revision :: "string option"
  sx_quote_reserved :: rat
  sx_outside_bracket :: bool
  sx_close_id :: "string option"
  sx_closed_entries :: "string list"
  sx_cycle_baseline :: cycle_baseline
  sx_restored :: bool
  sx_terminal :: "terminal option"
  sx_disposals :: "disposal dict"

type_synonym ('w, 'a) sx = "('w bracket, 'a) eff"

definition production :: "'w bracket \<Rightarrow> bool" where
  "production s \<longleftrightarrow> si_target (sx_identity s) = SPOT_PRODUCTION"

definition identity_json :: "spot_identity \<Rightarrow> json" where
  "identity_json i =
     JObj [(''account_id'', JStr (si_account_id i)), (''symbol'', JStr (si_symbol i)),
       (''base_asset'', JStr (si_base_asset i)), (''quote_asset'', JStr (si_quote_asset i)),
       (''exchange'', JStr (si_exchange i)), (''market'', JStr (si_market i)),
       (''target'', JStr (si_target i)), (''environment'', JStr (si_environment i)),
       (''leverage'', JNum (of_int (si_leverage i))),
       (''contract_version'', JNum (of_int (si_contract_version i)))]"

definition new_bracket ::
  "'w ports \<Rightarrow> 'w \<Rightarrow> string \<Rightarrow> spot_identity \<Rightarrow> rat \<Rightarrow> json \<Rightarrow> 'w bracket res" where
  "new_bracket env w session_id i capital binding =
     bindE (new_ledger i capital) (\<lambda>l.
     let context = JObj [(''identity'', identity_json i), (''session_id'', JStr session_id),
                         (''binding'', binding)] in
     Inr \<lparr> sx_world = w, sx_log = [], sx_session_id = session_id, sx_identity = i, sx_binding = binding,
           sx_context = context,
           sx_id_namespace = (if si_target i = SPOT_PRODUCTION
             then si_target i @ '':'' @ bp_digest env (HContext context) else si_target i),
           sx_halt_reason = None, sx_last_report = None, sx_protection_acks = [], sx_order_acks = [],
           sx_ledger = l, sx_intents = [], sx_protection_intents = [], sx_protection = None,
           sx_entry_id = None, sx_pending = False, sx_ready = False, sx_halted = False,
           sx_uncertain = False, sx_flat_confirmed = False, sx_close_attempted = False,
           sx_cancel_attempted = [], sx_persistence_failed = False, sx_last_revision = None,
           sx_quote_reserved = 0, sx_outside_bracket = False, sx_close_id = None,
           sx_closed_entries = [],
           sx_cycle_baseline = \<lparr>cb_realized = 0, cb_fees = 0, cb_event_count = 0\<rparr>,
           sx_restored = False, sx_terminal = None, sx_disposals = [] \<rparr>)"

section \<open>Primitive effects\<close>

definition halt :: "'w bracket \<Rightarrow> 'w bracket" where
  "halt s = s\<lparr>sx_halted := True, sx_uncertain := True, sx_ready := False, sx_flat_confirmed := False\<rparr>"

text \<open>A call of the broker: its outcome, and the request in the history whatever the outcome.\<close>

definition portP :: "('w \<Rightarrow> 'a res \<times> 'w) \<Rightarrow> ('w, 'a) sx" where
  "portP call s = (let (r, w) = call (sx_world s) in (r, s\<lparr>sx_world := w\<rparr>))"

definition sendP :: "sent \<Rightarrow> ('w \<Rightarrow> 'a res \<times> 'w) \<Rightarrow> ('w, 'a) sx" where
  "sendP x call s =
     (let (r, w) = call (sx_world s) in (r, s\<lparr>sx_world := w, sx_log := sx_log s @ [Sent x]\<rparr>))"

definition write_record :: "'w ports \<Rightarrow> journal \<Rightarrow> ('w, unit) sx" where
  "write_record env j s =
     (case bp_emit env (sx_world s) j of
        (Inl e, w) \<Rightarrow> (Inl e, halt (s\<lparr>sx_world := w, sx_persistence_failed := True\<rparr>))
      | (Inr _, w) \<Rightarrow> (Inr (), s\<lparr>sx_world := w, sx_log := sx_log s @ [Wrote j]\<rparr>))"

definition haltingP :: "('w, 'a) sx \<Rightarrow> ('w, 'a) sx" where
  "haltingP m = on_errorP m halt"

definition storage_ok :: "string \<Rightarrow> ('w, unit) sx" where
  "storage_ok advice s =
     (if sx_persistence_failed s then (Inl (RuntimeError (''Spot storage failed; '' @ advice)), s)
      else (Inr (), s))"

definition context_check :: "'w bracket \<Rightarrow> json \<Rightarrow> unit res" where
  "context_check s c =
     ensure (\<not> production s \<or> json_eq c (sx_context s)) (ValueError ''Spot execution context mismatch'')"

definition validate_context :: "json \<Rightarrow> ('w, unit) sx" where
  "validate_context c s = (context_check s c, s)"

definition observation_hash :: "'w ports \<Rightarrow> 'w bracket \<Rightarrow> string" where
  "observation_hash env s =
     bp_digest env (HObservation (sx_context s)
       (map_option (\<lambda>r. r\<lparr>vr_revision := [], vr_fills := []\<rparr>) (sx_last_report s))
       (dict_values (sx_intents s)) (dict_values (lg_events (sx_ledger s))) (sx_protection_intents s)
       (sx_close_id s) (sort (sx_cancel_attempted s)))"

definition production_part :: "'w ports \<Rightarrow> 'w bracket \<Rightarrow> production_state" where
  "production_part env s =
     \<lparr> xp_context = sx_context s, xp_halt_reason = sx_halt_reason s, xp_pending = sx_pending s,
       xp_protection = sx_protection s, xp_protection_acks = sx_protection_acks s,
       xp_order_acks = sx_order_acks s, xp_last_report = sx_last_report s,
       xp_outside_bracket = sx_outside_bracket s, xp_observation_hash = observation_hash env s,
       xp_disposals = sx_disposals s, xp_terminal = sx_terminal s \<rparr>"

definition export_state :: "'w ports \<Rightarrow> 'w bracket \<Rightarrow> exported" where
  "export_state env s =
     \<lparr> xs_version = (if production s then 2 else 1), xs_identity = sx_identity s,
       xs_session_id = sx_session_id s, xs_capital = lg_capital (sx_ledger s), xs_binding = sx_binding s,
       xs_intents = dict_values (sx_intents s), xs_protection_intents = sx_protection_intents s,
       xs_events = dict_values (lg_events (sx_ledger s)), xs_entry_id = sx_entry_id s,
       xs_halted = sx_halted s, xs_uncertain = sx_uncertain s,
       xs_close_attempted = sx_close_attempted s, xs_cancel_attempted = sort (sx_cancel_attempted s),
       xs_last_revision = sx_last_revision s, xs_close_id = sx_close_id s,
       xs_closed_entries = sort (sx_closed_entries s), xs_cycle_baseline = sx_cycle_baseline s,
       xs_production = (if production s then Some (production_part env s) else None) \<rparr>"

definition save :: "'w ports \<Rightarrow> ('w, unit) sx" where
  "save env = bindP (getP (export_state env)) (\<lambda>x. write_record env (SpotState x))"

text \<open>\<open>make_client_order_id\<close> with its default length of 32.\<close>

definition make_client_order_id :: "'w ports \<Rightarrow> string \<Rightarrow> string \<Rightarrow> string \<Rightarrow> string \<Rightarrow> string" where
  "make_client_order_id env session_id intent_id venue role =
     take 32 (''kv-'' @ bp_digest env (HText
       (session_id @ [CHR 0x1F] @ intent_id @ [CHR 0x1F] @ venue @ [CHR 0x1F] @ role)))"

end
