(* ===== verification/Spot_Lifecycle.thy ===== *)
theory Spot_Lifecycle
  imports Spot_Bracket
begin

text \<open>
  The methods of \<open>SpotExecution\<close>: consuming fills, the reconciliation report, protection,
  closing, polling, entry, export and restore.
\<close>

section \<open>Fills\<close>

fun protection_role :: "string \<Rightarrow> protective_intent list \<Rightarrow> string option" where
  "protection_role k [] = None"
| "protection_role k (p # ps) =
     (if k = pi_stop_client_order_id p then Some ''stop''
      else if k = pi_target_client_order_id p then Some ''target''
      else protection_role k ps)"

definition known_role :: "'w bracket \<Rightarrow> string \<Rightarrow> string option" where
  "known_role s k =
     (case map_of (sx_intents s) k of
        Some i \<Rightarrow> Some (oi_role i)
      | None \<Rightarrow> protection_role k (sx_protection_intents s))"

text \<open>The orders of the current cycle.\<close>

definition cycle_protections :: "'w bracket \<Rightarrow> protective_intent list" where
  "cycle_protections s =
     filter (\<lambda>p. Some (pi_entry_client_order_id p) = sx_entry_id s) (sx_protection_intents s)"

definition current_ids :: "'w bracket \<Rightarrow> string list" where
  "current_ids s =
     List.map_filter (\<lambda>x. x) [sx_entry_id s, sx_close_id s]
     @ map (\<lambda>d. oi_client_order_id (ds_intent d)) (dict_values (sx_disposals s))
     @ concat (map (\<lambda>p. [pi_stop_client_order_id p, pi_target_client_order_id p]) (cycle_protections s))"

definition event_quantity :: "spot_fill \<Rightarrow> rat" where
  "event_quantity f = (case fl_quantity f of None \<Rightarrow> 0 | Some q \<Rightarrow> q)"

definition intent_of :: "'w bracket \<Rightarrow> string \<Rightarrow> order_intent res" where
  "intent_of s k = (case map_of (sx_intents s) k of None \<Rightarrow> Inl KeyError | Some i \<Rightarrow> Inr i)"

definition fill_attributed :: "'w bracket \<Rightarrow> spot_fill \<Rightarrow> unit res" where
  "fill_attributed s f =
     ensure (fl_session_id f = sx_session_id s \<and> fl_symbol f = si_symbol (sx_identity s)
        \<and> known_role s (fl_client_order_id f) = Some (fl_role f)
        \<and> (case fl_exchange_order_id f of None \<Rightarrow> False | Some x \<Rightarrow> x \<noteq> []))
       (ValueError ''unattributed Spot fill'')"

definition cycle_check :: "'w bracket \<Rightarrow> spot_fill \<Rightarrow> unit res" where
  "cycle_check s f =
     bindE (decimal_or_zero (fl_quantity f)) (\<lambda>q.
     ensure (q = 0 \<or> fl_client_order_id f \<in> set (current_ids s))
       (ValueError ''execution belongs to a retired Spot cycle''))"

text \<open>The bound of an entry and the stop that its fills carry; exits carry \<open>"0"\<close>.\<close>

definition entry_stop :: "'w bracket \<Rightarrow> spot_fill \<Rightarrow> rat option res" where
  "entry_stop s f =
     (if fl_role f \<noteq> ''entry'' then Inr (Some 0)
      else
        bindE (intent_of s (fl_client_order_id f)) (\<lambda>i.
        bindE (decimal_or_zero (fl_quantity f)) (\<lambda>q.
        let total = dadd (dsum (map event_quantity
              (filter (\<lambda>e. fl_client_order_id e = fl_client_order_id f)
                (dict_values (lg_events (sx_ledger s)))))) q in
        bindE (decimal_value (oi_quantity i)) (\<lambda>requested.
        if requested < total then Inl (ValueError ''Spot entry exceeds requested quantity'')
        else Inr (oi_stop_price i)))))"

definition foreign_fee :: "'w bracket \<Rightarrow> fill_fee \<Rightarrow> bool" where
  "foreign_fee s fee \<longleftrightarrow>
     ff_asset fee \<notin> {si_base_asset (sx_identity s), si_quote_asset (sx_identity s)} \<and> ff_quantity fee \<noteq> 0"

definition inside_bracket :: "order_intent \<Rightarrow> spot_fill \<Rightarrow> bool res" where
  "inside_bracket i f =
     bindE (decimal_given (oi_stop_price i)) (\<lambda>stop.
     bindE (decimal_given (fl_price f)) (\<lambda>price.
     if \<not> stop < price then Inr False
     else bindE (decimal_given (oi_target_price i)) (\<lambda>target. Inr (price < target))))"

definition set_halted :: "'w bracket \<Rightarrow> 'w bracket" where
  "set_halted s = s\<lparr>sx_halted := True\<rparr>"

definition entry_effects :: "spot_fill \<Rightarrow> ('w, unit) sx" where
  "entry_effects f =
     bindP (getP (\<lambda>s. intent_of s (fl_client_order_id f))) (\<lambda>r.
     bindP (liftP r) (\<lambda>i.
     bindP (liftP (inside_bracket i f)) (\<lambda>inside.
     bindP (whenP (\<not> inside) (modifyP (\<lambda>s. s\<lparr>sx_outside_bracket := True\<rparr>))) (\<lambda>_.
     whenP (fl_status f \<noteq> ''filled'') (modifyP set_halted)))))"

definition apply_fill :: "'w ports \<Rightarrow> spot_fill \<Rightarrow> ('w, unit) sx" where
  "apply_fill env f =
     bindP (getP (\<lambda>s. bindE (cycle_check s f) (\<lambda>_. bindE (entry_stop s f) (\<lambda>stop.
                      ledger_apply (sx_ledger s) f stop)))) (\<lambda>r.
     bindP (liftP r) (\<lambda>(_, l).
     bindP (write_record env (FillRecord f)) (\<lambda>_.
     bindP (modifyP (\<lambda>s. s\<lparr>sx_ledger := l\<rparr>)) (\<lambda>_.
     bindP (getP production) (\<lambda>prod.
     bindP (whenP (prod \<and> fl_status f = ''partial'') (modifyP set_halted)) (\<lambda>_.
     bindP (getP (\<lambda>s. list_ex (foreign_fee s) (fl_fees f))) (\<lambda>foreign.
     bindP (whenP foreign (modifyP set_halted)) (\<lambda>_.
     whenP (fl_role f = ''entry'' \<and> event_quantity f \<noteq> 0) (entry_effects f)))))))))"

definition consume_fill :: "'w ports \<Rightarrow> spot_fill \<Rightarrow> ('w, unit) sx" where
  "consume_fill env f =
     bindP (getP (\<lambda>s. fill_attributed s f)) (\<lambda>r.
     bindP (liftP r) (\<lambda>_.
     bindP (validate_context (md_spot_context (fl_metadata f))) (\<lambda>_.
     bindP (getP (\<lambda>s. map_of (lg_events (sx_ledger s)) (fl_event_id f))) (\<lambda>old.
     case old of
       Some g \<Rightarrow> ensureP (g = f) (ValueError ''conflicting Spot event_id'')
     | None \<Rightarrow> apply_fill env f))))"

definition consume :: "'w ports \<Rightarrow> spot_fill list \<Rightarrow> ('w, unit) sx" where
  "consume env fills = forP fills (consume_fill env)"

section \<open>Completed trades\<close>

definition cycle_events :: "'w bracket \<Rightarrow> spot_fill list" where
  "cycle_events s = drop (cb_event_count (sx_cycle_baseline s)) (dict_values (lg_events (sx_ledger s)))"

definition notional :: "spot_fill \<Rightarrow> rat" where
  "notional f = dmul (event_quantity f) (case fl_price f of None \<Rightarrow> 0 | Some p \<Rightarrow> p)"

definition trade_of :: "'w bracket \<Rightarrow> string \<Rightarrow> spot_fill list \<Rightarrow> spot_fill list \<Rightarrow> trade res" where
  "trade_of s entry_id buys sells =
     (let gross = dsub (lg_realized (sx_ledger s)) (cb_realized (sx_cycle_baseline s));
          fees = dsub (lg_valued_fees (sx_ledger s)) (cb_fees (sx_cycle_baseline s));
          unknown = sort (remdups (map ff_asset
            (filter (foreign_fee s) (concat (map fl_fees (cycle_events s))))));
          bought = dsum (map event_quantity buys); sold = dsum (map event_quantity sells) in
      bindE (ddiv (dsum (map notional buys)) bought) (\<lambda>entry_price.
      bindE (ddiv (dsum (map notional sells)) sold) (\<lambda>exit_price.
      Inr \<lparr> td_entry_client_order_id = entry_id, td_entry_price = entry_price, td_exit_price = exit_price,
            td_size = sold, td_gross_entry_quantity = bought,
            td_pnl = (if unknown = [] then Some (dsub gross fees) else None),
            td_gross_pnl = gross, td_commission = fees, td_unvalued = unknown,
            td_reason = fl_role (last sells), td_entry_timestamp_ms = fl_timestamp_ms (hd buys),
            td_exit_timestamp_ms = fl_timestamp_ms (last sells) \<rparr>)))"

definition complete_trade :: "'w ports \<Rightarrow> ('w, unit) sx" where
  "complete_trade env =
     bindP (getP (\<lambda>s. s)) (\<lambda>s.
     case sx_entry_id s of
       None \<Rightarrow> returnP ()
     | Some entry_id \<Rightarrow>
         let events = cycle_events s;
             buys = filter (\<lambda>f. fl_role f = ''entry'' \<and> event_quantity f \<noteq> 0) events;
             sells = filter (\<lambda>f. fl_role f \<noteq> ''entry'' \<and> event_quantity f \<noteq> 0) events in
         if entry_id \<in> set (sx_closed_entries s) \<or> buys = [] \<or> sells = [] then returnP ()
         else
           bindP (liftP (trade_of s entry_id buys sells)) (\<lambda>t.
           bindP (write_record env (Trade t)) (\<lambda>_.
           modifyP (\<lambda>s. s\<lparr>sx_closed_entries := entry_id # sx_closed_entries s\<rparr>))))"

section \<open>The reconciliation report\<close>

definition report_shape :: "'w bracket \<Rightarrow> venue_report \<Rightarrow> unit res" where
  "report_shape s r =
     (if vr_identity r \<noteq> sx_identity s \<or> vr_session_id r \<noteq> sx_session_id s \<or> \<not> vr_complete r
         \<or> vr_revision r = []
      then Inl (RuntimeError ''complete Spot reconciliation required'')
      else bindE (context_check s (vr_context r)) (\<lambda>_.
        ensure (\<not> production s \<or> (set (vr_open_order_ids r) \<inter> set (vr_terminal_order_ids r) = {}
                 \<and> distinct (vr_terminal_order_ids r)))
          (ValueError ''conflicting Spot terminal evidence'')))"

text \<open>Requests whose outcome the report does not settle (production only).\<close>

definition protection_settled :: "venue_report \<Rightarrow> protective_intent \<Rightarrow> bool res" where
  "protection_settled r p =
     (let children = [pi_stop_client_order_id p, pi_target_client_order_id p] in
      if (case vr_protection r of
            None \<Rightarrow> False
          | Some q \<Rightarrow> sp_stop_client_order_id q = pi_stop_client_order_id p
              \<and> sp_target_client_order_id q = pi_target_client_order_id p
              \<and> set children \<subseteq> set (vr_open_order_ids r))
      then Inr True
      else if \<not> set children \<subseteq> set (vr_terminal_order_ids r) then Inr False
      else case md_list_client_order_id (pi_metadata p) of
        None \<Rightarrow> Inl KeyError
      | Some k \<Rightarrow> Inr (k \<in> set (vr_terminal_list_ids r)))"

definition add_unresolved :: "venue_report \<Rightarrow> string list \<Rightarrow> protective_intent \<Rightarrow> string list res" where
  "add_unresolved r ids p =
     bindE (protection_settled r p) (\<lambda>ok.
     if ok then Inr ids
     else case md_list_client_order_id (pi_metadata p) of
       None \<Rightarrow> Inl KeyError | Some k \<Rightarrow> Inr (ids @ [k]))"

definition unresolved_ids :: "'w bracket \<Rightarrow> venue_report \<Rightarrow> string list res" where
  "unresolved_ids s r =
     bindE (foldE (add_unresolved r)
       (filter (\<lambda>k. k \<notin> set (vr_open_order_ids r) \<and> k \<notin> set (vr_terminal_order_ids r))
         (dict_keys (sx_intents s))) (sx_protection_intents s)) (\<lambda>ids.
     Inr (if lg_events (sx_ledger s) \<noteq> [] \<and> \<not> vr_fees_complete r
          then ids @ [''unreconciled-fees''] else ids))"

definition settle_report :: "'w bracket \<Rightarrow> venue_report \<Rightarrow> venue_report res" where
  "settle_report s r =
     (if \<not> production s then Inr r
      else bindE (unresolved_ids s r) (\<lambda>ids.
        Inr (r\<lparr>vr_unknown_request_ids := sort (remdups (vr_unknown_request_ids r @ ids))\<rparr>)))"

definition report_agrees :: "'w bracket \<Rightarrow> venue_report \<Rightarrow> unit res" where
  "report_agrees s r =
     bindE (decimal_value (vr_quote_balance r)) (\<lambda>quote.
     if quote \<noteq> lg_cash (sx_ledger s) then Inl (RuntimeError ''Spot account reconciliation mismatch'')
     else bindE (decimal_value (vr_base_quantity r)) (\<lambda>base.
     if base \<noteq> lg_quantity (sx_ledger s) then Inl (RuntimeError ''Spot account reconciliation mismatch'')
     else if \<not> distinct (vr_open_order_ids r) then Inl (ValueError ''duplicate Spot open order identity'')
     else if list_ex (\<lambda>k. known_role s k = None \<or> k \<notin> set (current_ids s)) (vr_open_order_ids r)
     then Inl (RuntimeError ''unknown Spot open order'')
     else if list_ex (\<lambda>k. known_role s k \<noteq> Some ''entry'' \<or> k \<notin> set (vr_open_order_ids r))
               (vr_pending_entry_ids r)
     then Inl (RuntimeError ''invalid pending Spot entry identity'')
     else if list_ex (\<lambda>k. known_role s k = Some ''entry'' \<and> k \<notin> set (vr_pending_entry_ids r))
               (vr_open_order_ids r)
     then Inl (RuntimeError ''pending Spot entry omitted from reconciliation'')
     else Inr ()))"

definition reserve_check :: "'w bracket \<Rightarrow> venue_report \<Rightarrow> rat res" where
  "reserve_check s r =
     bindE (decimal_value (vr_quote_reserved r)) (\<lambda>reserved.
     if lg_cash (sx_ledger s) < reserved \<or> (reserved \<noteq> 0 \<and> \<not> sx_pending s)
     then Inl (RuntimeError ''invalid Spot quote reservation'') else Inr reserved)"

definition checkP :: "('w bracket \<Rightarrow> 'a res) \<Rightarrow> ('w, 'a) sx" where
  "checkP f s = (f s, s)"

definition report :: "'w ports \<Rightarrow> ('w, venue_report) sx" where
  "report env =
     bindP (getP (\<lambda>s. dict_values (sx_intents s))) (\<lambda>intents.
     bindP (portP (\<lambda>w. bp_reconcile env w intents)) (\<lambda>r0.
     bindP (checkP (\<lambda>s. report_shape s r0)) (\<lambda>_.
     bindP (consume env (vr_fills r0)) (\<lambda>_.
     bindP (checkP (\<lambda>s. settle_report s r0)) (\<lambda>r.
     bindP (checkP (\<lambda>s. report_agrees s r)) (\<lambda>_.
     bindP (modifyP (\<lambda>s. s\<lparr>sx_pending := (vr_pending_entry_ids r \<noteq> [])\<rparr>)) (\<lambda>_.
     bindP (checkP (\<lambda>s. reserve_check s r)) (\<lambda>reserved.
     bindP (modifyP (\<lambda>s. s\<lparr>sx_quote_reserved := reserved, sx_last_revision := Some (vr_revision r),
              sx_flat_confirmed := (lg_quantity (sx_ledger s) = 0 \<and> vr_open_order_ids r = []
                \<and> \<not> sx_pending s \<and> vr_unknown_request_ids r = [])\<rparr>)) (\<lambda>_.
     bindP (write_record env (SpotReconciled r)) (\<lambda>_.
     bindP (modifyP (\<lambda>s. s\<lparr>sx_last_report := Some r\<rparr>)) (\<lambda>_.
     bindP (getP sx_flat_confirmed) (\<lambda>flat.
     bindP (whenP flat (complete_trade env)) (\<lambda>_.
     returnP r)))))))))))))"

section \<open>Protection\<close>

definition prices_valid :: "rat \<Rightarrow> rat \<Rightarrow> rat \<Rightarrow> rat \<Rightarrow> rat \<Rightarrow> bool res" where
  "prices_valid stop target tick requested_stop requested_target =
     (if tick = 0 then Inr (stop = requested_stop \<and> target = requested_target)
      else bindE (dmod stop tick) (\<lambda>m.
        if m \<noteq> 0 then Inr False
        else bindE (dmod target tick) (\<lambda>m'.
          Inr (m' = 0 \<and> 0 \<le> dsub stop requested_stop \<and> dsub stop requested_stop < tick
               \<and> 0 \<le> dsub requested_target target \<and> dsub requested_target target < tick))))"

definition protection_identity_ok :: "'w bracket \<Rightarrow> protective_intent \<Rightarrow> spot_protection \<Rightarrow> string list \<Rightarrow> bool" where
  "protection_identity_ok s i p open_ids \<longleftrightarrow>
     Some (pi_entry_client_order_id i) = sx_entry_id s \<and> sp_session_id p = sx_session_id s
     \<and> sp_symbol p = si_symbol (sx_identity s) \<and> sp_order_list_id p \<noteq> []
     \<and> sp_stop_client_order_id p = pi_stop_client_order_id i
     \<and> sp_target_client_order_id p = pi_target_client_order_id i
     \<and> sp_stop_client_order_id p \<noteq> sp_target_client_order_id p
     \<and> set open_ids = {pi_stop_client_order_id i, pi_target_client_order_id i}"

definition protection_prices :: "'w bracket \<Rightarrow> protective_intent \<Rightarrow> spot_protection \<Rightarrow> unit res" where
  "protection_prices s i p =
     bindE (decimal_positive (sp_stop_price p)) (\<lambda>stop.
     bindE (decimal_positive (sp_target_price p)) (\<lambda>target.
     bindE (decimal_value (sp_price_tick p)) (\<lambda>tick.
     bindE (decimal_required (pi_stop_price i)) (\<lambda>requested_stop.
     bindE (decimal_required (pi_target_price i)) (\<lambda>requested_target.
     bindE (prices_valid stop target tick requested_stop requested_target) (\<lambda>valid.
     if \<not> valid then Inl (RuntimeError ''Spot protection changes requested price rules'')
     else bindE (ddiv (lg_cost (sx_ledger s)) (lg_quantity (sx_ledger s))) (\<lambda>average.
       ensure (stop < average \<and> average < target)
         (RuntimeError ''Spot protection changes requested price rules'')))))))) "

definition protection_covers :: "'w bracket \<Rightarrow> spot_protection \<Rightarrow> rat res" where
  "protection_covers s p =
     bindE (decimal_positive (sp_quantity p)) (\<lambda>quantity.
     bindE (decimal_value (sp_dust_quantity p)) (\<lambda>dust.
     bindE (decimal_value (sp_quantity_step p)) (\<lambda>step.
     bindE (if step = 0 then Inr 0 else dmod quantity step) (\<lambda>m.
     if dadd quantity dust \<noteq> lg_quantity (sx_ledger s) \<or> (step \<noteq> 0 \<and> (m \<noteq> 0 \<or> step \<le> dust))
        \<or> (dust \<noteq> 0 \<and> (sp_dust_reason p = [] \<or> step = 0))
     then Inl (RuntimeError ''Spot protection does not cover confirmed net inventory'')
     else Inr dust))))"

definition validate_protection :: "spot_protection option \<Rightarrow> string list \<Rightarrow> ('w, spot_protection) sx" where
  "validate_protection q open_ids =
     bindP (getP (\<lambda>s. s)) (\<lambda>s.
     case q of
       None \<Rightarrow> raiseP (RuntimeError ''Spot linked protection unavailable'')
     | Some p \<Rightarrow>
         if sx_protection_intents s = [] then raiseP (RuntimeError ''Spot linked protection unavailable'')
         else
           bindP (validate_context (sp_context p)) (\<lambda>_.
           let i = last (sx_protection_intents s) in
           if \<not> protection_identity_ok s i p open_ids
           then raiseP (RuntimeError ''invalid Spot linked protection identity or prices'')
           else
             bindP (liftP (protection_prices s i p)) (\<lambda>_.
             bindP (liftP (protection_covers s p)) (\<lambda>dust.
             bindP (whenP (dust \<noteq> 0) (modifyP set_halted)) (\<lambda>_.
             returnP p)))))"

definition unknown_check :: "venue_report \<Rightarrow> string \<Rightarrow> ('w, unit) sx" where
  "unknown_check r m =
     checkP (\<lambda>s. ensure (\<not> (production s \<and> vr_unknown_request_ids r \<noteq> [])) (RuntimeError m))"

section \<open>Closing\<close>

definition context_metadata :: "'w bracket \<Rightarrow> metadata" where
  "context_metadata s =
     \<lparr> md_spot_context = (if production s then sx_context s else JNull), md_authorization = None,
       md_list_client_order_id = None, md_commission = False \<rparr>"

definition close_intent :: "'w ports \<Rightarrow> 'w bracket \<Rightarrow> order_intent" where
  "close_intent env s =
     (let name = ''spot-close-'' @ nat_text (length (sx_intents s)) in
      \<lparr> oi_session_id = sx_session_id s, oi_intent_id = name,
        oi_client_order_id = make_client_order_id env (sx_session_id s) name (sx_id_namespace s) ''flatten'',
        oi_symbol = si_symbol (sx_identity s), oi_side = ''sell'', oi_order_type = ''market'',
        oi_quantity = lg_quantity (sx_ledger s), oi_target = si_target (sx_identity s),
        oi_price = None, oi_stop_price = None, oi_target_price = None, oi_role = ''flatten'',
        oi_metadata = context_metadata s \<rparr>)"

definition ack_check :: "'w bracket \<Rightarrow> order_ack \<Rightarrow> order_intent \<Rightarrow> unit res" where
  "ack_check s a i =
     bindE (ensure (oa_session_id a = sx_session_id s \<and> oa_client_order_id a = oi_client_order_id i
          \<and> oa_target a = si_target (sx_identity s)
          \<and> oa_status a \<in> {''accepted'', ''filled'', ''rejected''})
        (ValueError ''invalid Spot acknowledgement'')) (\<lambda>_.
     context_check s (md_spot_context (oa_metadata a)))"

definition acknowledge :: "'w ports \<Rightarrow> order_ack \<Rightarrow> order_intent \<Rightarrow> ('w, unit) sx" where
  "acknowledge env a i =
     bindP (checkP (\<lambda>s. ack_check s a i)) (\<lambda>_.
     bindP (write_record env (OrderAck a)) (\<lambda>_.
     modifyP (\<lambda>s. s\<lparr>sx_order_acks := sx_order_acks s @ [a]\<rparr>)))"

definition send_exit :: "'w ports \<Rightarrow> order_intent \<Rightarrow> ('w, order_ack) sx" where
  "send_exit env i = sendP (SubmitExit i) (\<lambda>w. bp_submit_exit env w i)"

definition submit_close :: "'w ports \<Rightarrow> ('w, unit) sx" where
  "submit_close env =
     bindP (getP (close_intent env)) (\<lambda>i.
     bindP (write_record env (OrderIntent i)) (\<lambda>_.
     bindP (modifyP (\<lambda>s. s\<lparr>sx_intents := AList.update (oi_client_order_id i) i (sx_intents s),
                           sx_close_id := Some (oi_client_order_id i)\<rparr>)) (\<lambda>_.
     bindP (send_exit env i) (\<lambda>a.
     acknowledge env a i))))"

definition close_settled :: "'w ports \<Rightarrow> ('w, unit) sx" where
  "close_settled env =
     bindP (modifyP (\<lambda>s. s\<lparr>sx_protection := None, sx_uncertain := False\<rparr>)) (\<lambda>_. save env)"

definition cancel_everything :: "'w ports \<Rightarrow> ('w, unit) sx" where
  "cancel_everything env =
     bindP (getP (\<lambda>s. si_symbol (sx_identity s))) (\<lambda>symbol.
     bindP (write_record env (SpotCancelAll symbol)) (\<lambda>_.
     bindP (modifyP (\<lambda>s. s\<lparr>sx_close_attempted := True\<rparr>)) (\<lambda>_.
     sendP CancelAll (bp_cancel_all env))))"

definition poll_consume :: "'w ports \<Rightarrow> ('w, unit) sx" where
  "poll_consume env = bindP (portP (bp_poll_fills env)) (consume env)"

definition close_body :: "'w ports \<Rightarrow> ('w, unit) sx" where
  "close_body env =
     bindP (getP production) (\<lambda>prod.
     bindP (whenP prod (bindP (report env) (\<lambda>r.
              ensureP (vr_unknown_request_ids r = []) (RuntimeError ''Spot request outcome unknown; closure unconfirmed'')))) (\<lambda>_.
     bindP (getP sx_close_attempted) (\<lambda>attempted.
     bindP (whenP (\<not> attempted) (cancel_everything env)) (\<lambda>_.
     bindP (report env) (\<lambda>r.
     bindP (checkP (\<lambda>s. ensure (\<not> (sx_pending s \<or> vr_open_order_ids r \<noteq> []
                \<or> (production s \<and> vr_unknown_request_ids r \<noteq> [])))
              (RuntimeError ''Spot cancellation unconfirmed; closure unconfirmed''))) (\<lambda>_.
     bindP (getP sx_flat_confirmed) (\<lambda>flat.
     if flat then close_settled env
     else
       bindP (getP (\<lambda>s. sx_close_id s = None)) (\<lambda>fresh.
       bindP (whenP fresh (submit_close env)) (\<lambda>_.
       bindP (poll_consume env) (\<lambda>_.
       bindP (report env) (\<lambda>_.
       bindP (checkP (\<lambda>s. ensure (sx_flat_confirmed s) (RuntimeError ''Spot closure unconfirmed''))) (\<lambda>_.
       close_settled env))))))))))))"

definition close :: "'w ports \<Rightarrow> ('w, unit) sx" where
  "close env =
     bindP (modifyP (\<lambda>s. s\<lparr>sx_halted := True, sx_ready := False\<rparr>)) (\<lambda>_.
     bindP (storage_ok ''host reconciliation required'') (\<lambda>_.
     bindP (getP (\<lambda>s. sx_terminal s \<noteq> None)) (\<lambda>done.
     if done then returnP () else haltingP (close_body env))))"

section \<open>Placing protection\<close>

definition protection_intent :: "'w ports \<Rightarrow> 'w bracket \<Rightarrow> string \<Rightarrow> order_intent \<Rightarrow> protective_intent" where
  "protection_intent env s entry_id entry =
     (let name = ''spot-protection-'' @ nat_text (Suc (length (sx_protection_intents s)));
          cid = make_client_order_id env (sx_session_id s) name (sx_id_namespace s) in
      \<lparr> pi_session_id = sx_session_id s, pi_entry_client_order_id = entry_id,
        pi_stop_client_order_id = cid ''stop'', pi_target_client_order_id = cid ''target'',
        pi_symbol = si_symbol (sx_identity s), pi_side = ''sell'', pi_quantity = lg_quantity (sx_ledger s),
        pi_stop_price = oi_stop_price entry, pi_target_price = oi_target_price entry,
        pi_target = si_target (sx_identity s), pi_reduce_only = False,
        pi_metadata = (context_metadata s)\<lparr>md_list_client_order_id :=
          (if production s then Some (cid ''list'') else None)\<rparr> \<rparr>)"

definition place_protection :: "'w ports \<Rightarrow> protective_intent \<Rightarrow> ('w, unit) sx" where
  "place_protection env i =
     bindP (sendP (PlaceProtection i) (\<lambda>w. bp_place_protection env w i)) (\<lambda>a.
     bindP (validate_context (sp_context a)) (\<lambda>_.
     bindP (write_record env (ProtectionAck a)) (\<lambda>_.
     bindP (modifyP (\<lambda>s. s\<lparr>sx_protection_acks := sx_protection_acks s @ [a]\<rparr>)) (\<lambda>_.
     bindP (validate_protection (Some a) [sp_stop_client_order_id a, sp_target_client_order_id a]) (\<lambda>_.
     bindP (report env) (\<lambda>r.
     bindP (unknown_check r ''Spot protection outcome unknown; observation required'') (\<lambda>_.
     bindP (getP sx_flat_confirmed) (\<lambda>flat.
     if flat then modifyP (\<lambda>s. s\<lparr>sx_protection := None\<rparr>)
     else
       bindP (validate_protection (vr_protection r) (vr_open_order_ids r)) (\<lambda>p.
       if sp_order_list_id p \<noteq> sp_order_list_id a
       then raiseP (RuntimeError ''Spot protection acknowledgement disagrees with reconciliation'')
       else modifyP (\<lambda>s. s\<lparr>sx_protection := Some p\<rparr>))))))))))"

definition protect :: "'w ports \<Rightarrow> venue_report \<Rightarrow> ('w, unit) sx" where
  "protect env r =
     bindP (unknown_check r ''Spot request outcome unknown; observation required'') (\<lambda>_.
     bindP (getP (\<lambda>s. s)) (\<lambda>s.
     case (vr_open_order_ids r, sx_entry_id s) of
       ([], Some entry_id) \<Rightarrow>
         bindP (liftP (intent_of s entry_id)) (\<lambda>entry.
         let i = protection_intent env s entry_id entry in
         bindP (write_record env (ProtectionIntent i)) (\<lambda>_.
         bindP (modifyP (\<lambda>s. s\<lparr>sx_protection_intents := sx_protection_intents s @ [i]\<rparr>)) (\<lambda>_.
         handleP (place_protection env i)
           (bindP (getP sx_persistence_failed) (\<lambda>failed. whenP (\<not> failed) (close env))))))
     | _ \<Rightarrow> raiseP (RuntimeError ''cannot protect Spot inventory with unreconciled orders'')))"

section \<open>Entry\<close>

text \<open>\<open>not reason.strip()\<close>, on ASCII text.\<close>

definition blank :: "string \<Rightarrow> bool" where
  "blank m \<longleftrightarrow> list_all (\<lambda>c. c \<in> set spaces) m"

definition entry_shape :: "'w bracket \<Rightarrow> order_intent \<Rightarrow> unit res" where
  "entry_shape s i =
     (if sx_halted s \<or> \<not> sx_ready s \<or> sx_pending s \<or> lg_quantity (sx_ledger s) \<noteq> 0
      then Inl (RuntimeError ''Spot entries halted or reconciliation required'')
      else if oi_session_id i \<noteq> sx_session_id s \<or> oi_symbol i \<noteq> si_symbol (sx_identity s)
        \<or> oi_target i \<noteq> si_target (sx_identity s) \<or> oi_side i \<noteq> ''buy'' \<or> oi_order_type i \<noteq> ''market''
        \<or> oi_role i \<noteq> ''entry'' \<or> oi_client_order_id i \<in> set (dict_keys (sx_intents s))
      then Inl (ValueError ''invalid Spot market entry intent'')
      else context_check s (md_spot_context (oi_metadata i)))"

definition entry_check :: "'w bracket \<Rightarrow> order_intent \<Rightarrow> unit res" where
  "entry_check s i =
     bindE (entry_shape s i) (\<lambda>_.
     bindE (decimal_positive (oi_quantity i)) (\<lambda>quantity.
     bindE (decimal_required (oi_price i)) (\<lambda>price.
     bindE (decimal_required (oi_stop_price i)) (\<lambda>stop.
     bindE (decimal_required (oi_target_price i)) (\<lambda>target.
     ensure (stop < price \<and> price < target \<and> dmul quantity price \<le> lg_cash (sx_ledger s))
       (ValueError ''invalid Spot bracket or insufficient quote cash''))))))"

definition start_cycle :: "'w bracket \<Rightarrow> 'w bracket" where
  "start_cycle s =
     s\<lparr>sx_cycle_baseline := \<lparr>cb_realized = lg_realized (sx_ledger s), cb_fees = lg_valued_fees (sx_ledger s),
                            cb_event_count = length (lg_events (sx_ledger s))\<rparr>,
       sx_outside_bracket := False, sx_close_id := None, sx_close_attempted := False\<rparr>"

definition submit_body :: "'w ports \<Rightarrow> order_intent \<Rightarrow> ('w, unit) sx" where
  "submit_body env i =
     bindP (modifyP start_cycle) (\<lambda>_.
     bindP (write_record env (OrderIntent i)) (\<lambda>_.
     bindP (modifyP (\<lambda>s. s\<lparr>sx_intents := AList.update (oi_client_order_id i) i (sx_intents s),
                           sx_entry_id := Some (oi_client_order_id i), sx_pending := True\<rparr>)) (\<lambda>_.
     bindP (sendP (SubmitEntry i) (\<lambda>w. bp_submit_entry env w i)) (\<lambda>a.
     bindP (acknowledge env a i) (\<lambda>_.
     bindP (whenP (oa_status a = ''rejected'') (modifyP halt)) (\<lambda>_.
     save env))))))"

definition submit :: "'w ports \<Rightarrow> order_intent \<Rightarrow> ('w, unit) sx" where
  "submit env i =
     bindP (checkP (\<lambda>s. entry_check s i)) (\<lambda>_.
     bindP (modifyP (\<lambda>s. s\<lparr>sx_flat_confirmed := False\<rparr>)) (\<lambda>_.
     haltingP (submit_body env i)))"

definition halt_entries :: "'w ports \<Rightarrow> string \<Rightarrow> ('w, unit) sx" where
  "halt_entries env reason =
     bindP (ensureP (\<not> blank reason) (ValueError ''Spot halt reason is required'')) (\<lambda>_.
     bindP (modifyP set_halted) (\<lambda>_.
     bindP (storage_ok ''restore a fresh engine'') (\<lambda>_.
     bindP (getP (\<lambda>s. sx_halt_reason s = None)) (\<lambda>fresh.
     bindP (whenP fresh (bindP (write_record env (SpotHalt reason)) (\<lambda>_.
              modifyP (\<lambda>s. s\<lparr>sx_halt_reason := Some reason\<rparr>)))) (\<lambda>_.
     save env)))))"

section \<open>Observation and polling\<close>

text \<open>\<open>try: validate except RuntimeError: halted else: protection = report.protection\<close>.\<close>

definition observe_protection :: "venue_report \<Rightarrow> ('w, unit) sx" where
  "observe_protection r s =
     (case validate_protection (vr_protection r) (vr_open_order_ids r) s of
        (Inr _, t) \<Rightarrow> (Inr (), t\<lparr>sx_protection := vr_protection r\<rparr>)
      | (Inl (RuntimeError _), t) \<Rightarrow> (Inr (), set_halted t)
      | (Inl e, t) \<Rightarrow> (Inl e, t))"

definition observe_state :: "venue_report \<Rightarrow> ('w, unit) sx" where
  "observe_state r =
     bindP (modifyP (\<lambda>s. s\<lparr>sx_protection := None, sx_ready := False,
                           sx_uncertain := (vr_unknown_request_ids r \<noteq> [])\<rparr>)) (\<lambda>_.
     bindP (getP (\<lambda>s. s)) (\<lambda>s.
     if sx_pending s \<or> vr_unknown_request_ids r \<noteq> [] then modifyP set_halted
     else if lg_quantity (sx_ledger s) \<noteq> 0 then observe_protection r
     else whenP (sx_flat_confirmed s) (modifyP (\<lambda>s. s\<lparr>sx_ready := True\<rparr>))))"

definition observe_spot :: "'w ports \<Rightarrow> ('w, unit) sx" where
  "observe_spot env =
     bindP (storage_ok ''restore a fresh engine'') (\<lambda>_.
     haltingP (
       bindP (poll_consume env) (\<lambda>_.
       bindP (report env) (\<lambda>r.
       bindP (observe_state r) (\<lambda>_.
       save env)))))"

text \<open>The read-only restoration gate.\<close>

definition reconcile_body :: "'w ports \<Rightarrow> ('w, exported) sx" where
  "reconcile_body env =
     bindP (report env) (\<lambda>r.
     bindP (unknown_check r ''Spot request outcome unknown; observation required'') (\<lambda>_.
     bindP (checkP (\<lambda>s. ensure (\<not> sx_pending s)
              (RuntimeError ''Spot entry pending; cancel/reconcile before resume''))) (\<lambda>_.
     bindP (getP (\<lambda>s. lg_quantity (sx_ledger s) \<noteq> 0)) (\<lambda>held.
     bindP (if held
            then bindP (validate_protection (vr_protection r) (vr_open_order_ids r)) (\<lambda>_.
                   modifyP (\<lambda>s. s\<lparr>sx_protection := vr_protection r\<rparr>))
            else if vr_open_order_ids r \<noteq> []
            then raiseP (RuntimeError ''Spot orders remain after inventory is flat'')
            else modifyP (\<lambda>s. s\<lparr>sx_protection := None\<rparr>)) (\<lambda>_.
     bindP (modifyP (\<lambda>s. s\<lparr>sx_uncertain := False, sx_ready := True\<rparr>)) (\<lambda>_.
     bindP (save env) (\<lambda>_.
     getP (export_state env))))))))"

definition reconcile :: "'w ports \<Rightarrow> ('w, exported) sx" where
  "reconcile env =
     bindP (storage_ok ''restore a fresh engine'') (\<lambda>_. haltingP (reconcile_body env))"

definition cancel_pending :: "'w ports \<Rightarrow> string \<Rightarrow> ('w, unit) sx" where
  "cancel_pending env k =
     bindP (getP (\<lambda>s. k \<in> set (sx_cancel_attempted s))) (\<lambda>attempted.
     whenP (\<not> attempted)
       (bindP (write_record env (SpotCancelEntry k)) (\<lambda>_.
        bindP (modifyP (\<lambda>s. s\<lparr>sx_cancel_attempted := k # sx_cancel_attempted s\<rparr>)) (\<lambda>_.
        sendP (CancelEntry k) (\<lambda>w. bp_cancel_entry env w k)))))"

definition cancel_entries :: "'w ports \<Rightarrow> venue_report \<Rightarrow> ('w, venue_report) sx" where
  "cancel_entries env r =
     bindP (modifyP set_halted) (\<lambda>_.
     bindP (forP (vr_pending_entry_ids r) (cancel_pending env)) (\<lambda>_.
     bindP (report env) (\<lambda>r'.
     bindP (unknown_check r' ''Spot cancellation outcome unknown; observation required'') (\<lambda>_.
     bindP (checkP (\<lambda>s. ensure (\<not> sx_pending s)
              (RuntimeError ''Spot entry remains pending after cancellation''))) (\<lambda>_.
     returnP r')))))"

text \<open>What a poll does with confirmed inventory.\<close>

definition poll_inventory :: "'w ports \<Rightarrow> venue_report \<Rightarrow> ('w, unit) sx" where
  "poll_inventory env r =
     bindP (getP (\<lambda>s. s)) (\<lambda>s.
     if lg_quantity (sx_ledger s) = 0
     then (if vr_open_order_ids r \<noteq> []
           then raiseP (RuntimeError ''Spot terminal orders are not reconciled'')
           else modifyP (\<lambda>s. s\<lparr>sx_protection := None\<rparr>))
     else if sx_outside_bracket s then close env
     else if vr_protection r \<noteq> None
     then bindP (handleP (validate_protection (vr_protection r) (vr_open_order_ids r)) (close env)) (\<lambda>_.
            modifyP (\<lambda>s. s\<lparr>sx_protection := vr_protection r\<rparr>))
     else if sx_protection s \<noteq> None \<or> sx_close_attempted s then close env
     else if sx_restored s \<or> cycle_protections s \<noteq> [] then close env
     else protect env r)"

definition poll_body :: "'w ports \<Rightarrow> ('w, unit) sx" where
  "poll_body env =
     bindP (poll_consume env) (\<lambda>_.
     bindP (report env) (\<lambda>r0.
     bindP (unknown_check r0 ''Spot request outcome unknown; observation required'') (\<lambda>_.
     bindP (getP (\<lambda>s. sx_pending s \<and> (lg_quantity (sx_ledger s) \<noteq> 0 \<or> production s \<and> sx_halted s))) (\<lambda>late.
     bindP (if late then cancel_entries env r0 else returnP r0) (\<lambda>r.
     bindP (getP sx_pending) (\<lambda>pending.
     if pending then save env
     else
       bindP (poll_inventory env r) (\<lambda>_.
       bindP (modifyP (\<lambda>s. s\<lparr>sx_uncertain := False\<rparr>)) (\<lambda>_.
       save env))))))))"

definition poll :: "'w ports \<Rightarrow> ('w, unit) sx" where
  "poll env =
     bindP (storage_ok ''restore a fresh engine'') (\<lambda>_.
     bindP (getP (\<lambda>s. sx_terminal s \<noteq> None)) (\<lambda>done.
     if done then observe_spot env else haltingP (poll_body env)))"

end
