(* ===== verification/Spot_Control.thy ===== *)
theory Spot_Control
  imports Spot_Lifecycle
begin

text \<open>
  Host authority over a production bracket (\<open>SpotControls\<close> of \<open>spot_control.py\<close>) and
  \<open>SpotExecution.restore\<close>. The host that authorizes a request is a port.
\<close>

section \<open>Host authority\<close>

definition controls_check :: "'w bracket \<Rightarrow> unit res" where
  "controls_check s =
     (if \<not> production s then Inl (ValueError ''Spot control requires explicit production contract'')
      else if sx_persistence_failed s
      then Inl (RuntimeError ''Spot storage failed; restore a fresh engine'') else Inr ())"

text \<open>Reading the last report; without one the attribute access fails.\<close>

definition observed :: "'w bracket \<Rightarrow> venue_report res" where
  "observed s = (case sx_last_report s of None \<Rightarrow> Inl TypeError | Some r \<Rightarrow> Inr r)"

definition control_request :: "'w ports \<Rightarrow> 'w bracket \<Rightarrow> action \<Rightarrow> request res" where
  "control_request env s a =
     bindE (observed s) (\<lambda>r.
     Inr \<lparr> rq_action = a, rq_context = sx_context s, rq_state_hash = observation_hash env s,
           rq_base_quantity = lg_quantity (sx_ledger s), rq_open_order_ids = vr_open_order_ids r \<rparr>)"

definition prior_receipts :: "'w bracket \<Rightarrow> receipt list" where
  "prior_receipts s =
     map ds_authorization (dict_values (sx_disposals s))
     @ (case sx_terminal s of None \<Rightarrow> [] | Some t \<Rightarrow> [tm_authorization t])"

definition receipt_check :: "'w ports \<Rightarrow> 'w bracket \<Rightarrow> request \<Rightarrow> receipt \<Rightarrow> unit res" where
  "receipt_check env s q r =
     (if rc_request_sha256 r \<noteq> bp_digest env (HRequest q) \<or> rc_receipt_id r = [] \<or> rc_grant_id r = []
      then Inl (ValueError ''Spot host receipt binding mismatch'')
      else ensure (\<not> list_ex (\<lambda>p. rc_grant_id p = rc_grant_id r \<or> rc_receipt_id p = rc_receipt_id r)
                        (prior_receipts s))
             (ValueError ''Spot host grant/receipt already used''))"

definition authorize :: "'w ports \<Rightarrow> request \<Rightarrow> ('w, receipt) sx" where
  "authorize env q =
     bindP (portP (\<lambda>w. bp_authorize env w q)) (\<lambda>r.
     bindP (checkP (\<lambda>s. receipt_check env s q r)) (\<lambda>_.
     returnP r))"

text \<open>Every order and every order list of the session, save the protection that is retained.\<close>

definition require_list :: "bool \<Rightarrow> venue_report \<Rightarrow> string list \<times> string list \<Rightarrow> protective_intent
    \<Rightarrow> (string list \<times> string list) res" where
  "require_list retain r acc p =
     (let children = [pi_stop_client_order_id p, pi_target_client_order_id p] in
      if retain \<and> set children = set (vr_open_order_ids r) then Inr acc
      else case md_list_client_order_id (pi_metadata p) of
        None \<Rightarrow> Inl KeyError
      | Some k \<Rightarrow> Inr (fst acc @ children, snd acc @ [k]))"

definition terminal_evidence :: "bool \<Rightarrow> 'w bracket \<Rightarrow> unit res" where
  "terminal_evidence retain s =
     bindE (observed s) (\<lambda>r.
     bindE (foldE (require_list retain r) (dict_keys (sx_intents s), []) (sx_protection_intents s))
       (\<lambda>(required, list_ids).
     if vr_pending_entry_ids r \<noteq> [] \<or> vr_unknown_request_ids r \<noteq> [] \<or> \<not> vr_fees_complete r
        \<or> \<not> set required \<subseteq> set (vr_terminal_order_ids r)
        \<or> \<not> set list_ids \<subseteq> set (vr_terminal_list_ids r)
     then Inl (RuntimeError ''Spot predecessors/fees must be known terminal'')
     else ensure (retain \<or> vr_open_order_ids r = []) (RuntimeError ''Spot competing working orders'')))"

section \<open>A bounded disposal\<close>

definition remainder_check :: "'w ports \<Rightarrow> string \<Rightarrow> 'w bracket \<Rightarrow> rat res" where
  "remainder_check env expected s =
     (if expected \<noteq> observation_hash env s then Inl (ValueError ''stale Spot observation hash'')
      else bindE (terminal_evidence False s) (\<lambda>_.
        if list_ex (\<lambda>f. fl_role f \<noteq> ''entry'' \<and> event_quantity f \<noteq> 0) (cycle_events s)
           \<and> sx_halted s \<and> lg_quantity (sx_ledger s) \<noteq> 0
        then bindE (observed s) (\<lambda>r.
          bindE (decimal_given (vr_base_free r)) (\<lambda>free.
          if free \<noteq> lg_quantity (sx_ledger s)
          then Inl (RuntimeError ''confirmed free managed remainder required'') else Inr free))
        else Inl (RuntimeError ''proved terminal partial-exit remainder required'')))"

definition ceilings_check :: "rat \<Rightarrow> receipt \<Rightarrow> rat res" where
  "ceilings_check free r =
     bindE (decimal_positive (rc_quantity r)) (\<lambda>quantity.
     if free < quantity then Inl (ValueError ''Spot disposal exceeds authorized ceilings'')
     else bindE (decimal_positive (rc_max_quantity r)) (\<lambda>max_quantity.
     if max_quantity < quantity then Inl (ValueError ''Spot disposal exceeds authorized ceilings'')
     else bindE (decimal_positive (rc_reference_price r)) (\<lambda>price.
     bindE (decimal_positive (rc_max_notional r)) (\<lambda>max_notional.
     if max_notional < dmul quantity price
     then Inl (ValueError ''Spot disposal exceeds authorized ceilings'') else Inr quantity))))"

definition disposal_intent :: "'w ports \<Rightarrow> 'w bracket \<Rightarrow> string \<Rightarrow> rat \<Rightarrow> receipt \<Rightarrow> order_intent" where
  "disposal_intent env s attempt_id quantity r =
     (let name = ''spot-disposal-'' @ attempt_id in
      \<lparr> oi_session_id = sx_session_id s, oi_intent_id = name,
        oi_client_order_id = make_client_order_id env (sx_session_id s) name (sx_id_namespace s) ''flatten'',
        oi_symbol = si_symbol (sx_identity s), oi_side = ''sell'', oi_order_type = ''market'',
        oi_quantity = quantity, oi_target = si_target (sx_identity s),
        oi_price = None, oi_stop_price = None, oi_target_price = None, oi_role = ''flatten'',
        oi_metadata = \<lparr> md_spot_context = sx_context s, md_authorization = Some r,
                        md_list_client_order_id = None, md_commission = False \<rparr> \<rparr>)"

text \<open>The status of a disposal is \<open>"acknowledged"\<close> when it has an acknowledgement and \<open>"unknown"\<close> before.\<close>

definition send_disposal :: "'w ports \<Rightarrow> disposal \<Rightarrow> ('w, disposal) sx" where
  "send_disposal env d =
     (let i = ds_intent d in
      bindP (write_record env (OrderIntent i)) (\<lambda>_.
      bindP (modifyP (\<lambda>s. s\<lparr>sx_intents := AList.update (oi_client_order_id i) i (sx_intents s)\<rparr>)) (\<lambda>_.
      bindP (send_exit env i) (\<lambda>a.
      bindP (acknowledge env a i) (\<lambda>_.
      let d' = d\<lparr>ds_ack := Some a\<rparr> in
      bindP (modifyP (\<lambda>s. s\<lparr>sx_disposals := AList.update (ds_attempt_id d) d' (sx_disposals s)\<rparr>)) (\<lambda>_.
      bindP (save env) (\<lambda>_.
      returnP d')))))))"

definition reserve_disposal :: "'w ports \<Rightarrow> string \<Rightarrow> string \<Rightarrow> request \<Rightarrow> receipt \<Rightarrow> rat \<Rightarrow> ('w, disposal) sx" where
  "reserve_disposal env attempt_id expected q r quantity =
     bindP (getP (\<lambda>s. \<lparr> ds_attempt_id = attempt_id, ds_expected_state_hash = expected, ds_request = q,
              ds_authorization = r, ds_intent = disposal_intent env s attempt_id quantity r,
              ds_ack = None \<rparr>)) (\<lambda>d.
     bindP (write_record env (DisposalAttempt d)) (\<lambda>_.
     bindP (modifyP (\<lambda>s. s\<lparr>sx_disposals := AList.update attempt_id d (sx_disposals s)\<rparr>)) (\<lambda>_.
     haltingP (send_disposal env d))))"

definition dispose :: "'w ports \<Rightarrow> string \<Rightarrow> string \<Rightarrow> ('w, disposal) sx" where
  "dispose env attempt_id expected =
     bindP (observe_spot env) (\<lambda>_.
     bindP (checkP (remainder_check env expected)) (\<lambda>free.
     bindP (checkP (\<lambda>s. control_request env s (RetryClose attempt_id expected))) (\<lambda>q.
     bindP (authorize env q) (\<lambda>r.
     bindP (liftP (ceilings_check free r)) (\<lambda>quantity.
     reserve_disposal env attempt_id expected q r quantity)))))"

definition retry_close :: "'w ports \<Rightarrow> string \<Rightarrow> string \<Rightarrow> ('w, disposal) sx" where
  "retry_close env attempt_id expected =
     bindP (checkP controls_check) (\<lambda>_.
     bindP (ensureP (\<not> blank attempt_id) (ValueError ''Spot disposal attempt_id required'')) (\<lambda>_.
     bindP (getP (\<lambda>s. (map_of (sx_disposals s) attempt_id, sx_terminal s))) (\<lambda>(saved, done).
     case saved of
       Some d \<Rightarrow>
         if ds_expected_state_hash d \<noteq> expected then raiseP (ValueError ''Spot disposal payload changed'')
         else returnP d
     | None \<Rightarrow>
         if done \<noteq> None then raiseP (RuntimeError ''Spot terminal disposition forbids disposal'')
         else dispose env attempt_id expected)))"

section \<open>Terminal disposition\<close>

definition custody_check :: "venue_report \<Rightarrow> receipt \<Rightarrow> unit res" where
  "custody_check r receipt =
     ensure (rc_protection_disposition receipt \<in> {''retain'', ''cancel_owned''}
        \<and> set (rc_retained_order_ids receipt) = set (vr_open_order_ids r)
        \<and> \<not> (rc_protection_disposition receipt = ''cancel_owned'' \<and> vr_open_order_ids r \<noteq> []))
       (ValueError ''Spot protection disposition mismatch'')"

definition finish_body :: "'w ports \<Rightarrow> string \<Rightarrow> string \<Rightarrow> ('w, unit) sx" where
  "finish_body env disposition evidence =
     bindP (halt_entries env ''terminal disposition'') (\<lambda>_.
     bindP (observe_spot env) (\<lambda>_.
     bindP (checkP (\<lambda>s. ensure (\<not> (disposition = ''closed_flat'' \<and> \<not> sx_flat_confirmed s))
              (RuntimeError ''closed_flat requires exact zero and no owned/unknown orders''))) (\<lambda>_.
     bindP (checkP (terminal_evidence (disposition = ''custody_transferred''))) (\<lambda>_.
     bindP (checkP observed) (\<lambda>r.
     bindP (whenP (vr_open_order_ids r \<noteq> [])
              (bindP (validate_protection (vr_protection r) (vr_open_order_ids r)) (\<lambda>_. returnP ()))) (\<lambda>_.
     bindP (checkP (\<lambda>s. control_request env s (Finish disposition evidence))) (\<lambda>q.
     bindP (authorize env q) (\<lambda>receipt.
     bindP (liftP (custody_check r receipt)) (\<lambda>_.
     bindP (getP (\<lambda>s. \<lparr> tm_disposition = disposition, tm_evidence_hash = evidence, tm_request = q,
              tm_authorization = receipt, tm_inventory = lg_quantity (sx_ledger s),
              tm_protection = sx_protection s \<rparr>)) (\<lambda>t.
     bindP (write_record env (SpotFinish t)) (\<lambda>_.
     bindP (modifyP (\<lambda>s. s\<lparr>sx_terminal := Some t\<rparr>)) (\<lambda>_.
     save env))))))))))))"

definition finish_spot :: "'w ports \<Rightarrow> string \<Rightarrow> string \<Rightarrow> ('w, unit) sx" where
  "finish_spot env disposition evidence =
     bindP (checkP controls_check) (\<lambda>_.
     bindP (ensureP (disposition \<in> {''closed_flat'', ''custody_transferred''})
              (ValueError ''unsupported Spot disposition'')) (\<lambda>_.
     bindP (ensureP (\<not> blank evidence)
              (ValueError ''immutable Spot disposition evidence required'')) (\<lambda>_.
     bindP (getP sx_terminal) (\<lambda>done.
     case done of
       Some t \<Rightarrow> ensureP (tm_disposition t = disposition \<and> tm_evidence_hash t = evidence)
                  (ValueError ''Spot terminal disposition already used'')
     | None \<Rightarrow> finish_body env disposition evidence))))"

section \<open>Restoring durable facts\<close>

definition restore_check :: "'w bracket \<Rightarrow> exported \<Rightarrow> unit res" where
  "restore_check s x =
     (if xs_version x \<noteq> (if production s then 2 else 1) \<or> xs_identity x \<noteq> sx_identity s
         \<or> xs_session_id x \<noteq> sx_session_id s \<or> \<not> json_eq (xs_binding x) (sx_binding s)
      then Inl (ValueError ''Spot restore binding mismatch'')
      else bindE (decimal_value (xs_capital x)) (\<lambda>c.
        if c \<noteq> lg_capital (sx_ledger s) then Inl (ValueError ''Spot restore binding mismatch'')
        else ensure (sx_intents s = [] \<and> lg_events (sx_ledger s) = [])
               (ValueError ''Spot restore requires a fresh engine'')))"

definition restore_production :: "exported \<Rightarrow> ('w, unit) sx" where
  "restore_production x =
     (case xs_production x of
        None \<Rightarrow> raiseP KeyError
      | Some p \<Rightarrow>
          bindP (validate_context (xp_context p)) (\<lambda>_.
          bindP (modifyP (\<lambda>s. s\<lparr>
             sx_halt_reason := Some (case xp_halt_reason p of
                 None \<Rightarrow> ''restored instance'' | Some m \<Rightarrow> if m = [] then ''restored instance'' else m),
             sx_pending := xp_pending p, sx_outside_bracket := xp_outside_bracket p,
             sx_order_acks := xp_order_acks p, sx_protection_acks := xp_protection_acks p,
             sx_disposals := xp_disposals p, sx_terminal := xp_terminal p\<rparr>)) (\<lambda>_.
          whenP (xp_protection p \<noteq> None) (modifyP (\<lambda>s. s\<lparr>sx_protection := xp_protection p\<rparr>)))))"

definition restored_intents :: "order_intent list \<Rightarrow> order_intent dict" where
  "restored_intents is = foldl (\<lambda>d i. AList.update (oi_client_order_id i) i d) [] is"

definition intent_restorable :: "'w bracket \<Rightarrow> order_intent \<Rightarrow> unit res" where
  "intent_restorable s i =
     bindE (context_check s (md_spot_context (oi_metadata i))) (\<lambda>_.
     ensure (oi_target i = si_target (sx_identity s) \<and> oi_session_id i = sx_session_id s)
       (ValueError ''Spot restore intent identity mismatch''))"

definition restore_fill :: "spot_fill \<Rightarrow> ('w, unit) sx" where
  "restore_fill f =
     bindP (validate_context (md_spot_context (fl_metadata f))) (\<lambda>_.
     bindP (checkP (\<lambda>s. ensure (known_role s (fl_client_order_id f) = Some (fl_role f)
                                \<and> fl_session_id f = sx_session_id s)
              (ValueError ''Spot restore contains unattributed fill''))) (\<lambda>_.
     bindP (checkP (\<lambda>s. bindE (if fl_role f = ''entry''
                                then bindE (intent_of s (fl_client_order_id f)) (\<lambda>i. Inr (oi_stop_price i))
                                else Inr (Some 0)) (\<lambda>stop. ledger_apply (sx_ledger s) f stop))) (\<lambda>(_, l).
     bindP (modifyP (\<lambda>s. s\<lparr>sx_ledger := l\<rparr>)) (\<lambda>_.
     bindP (getP production) (\<lambda>prod.
     whenP (prod \<and> fl_status f = ''partial'') (modifyP set_halted))))))"

definition restore :: "exported \<Rightarrow> ('w, unit) sx" where
  "restore x =
     bindP (checkP (\<lambda>s. restore_check s x)) (\<lambda>_.
     bindP (modifyP (\<lambda>s. (halt s)\<lparr>sx_restored := True\<rparr>)) (\<lambda>_.
     bindP (getP production) (\<lambda>prod.
     bindP (whenP prod (restore_production x)) (\<lambda>_.
     bindP (modifyP (\<lambda>s. s\<lparr>sx_close_id := xs_close_id x, sx_closed_entries := xs_closed_entries x,
              sx_cycle_baseline := xs_cycle_baseline x, sx_intents := restored_intents (xs_intents x)\<rparr>)) (\<lambda>_.
     bindP (whenP prod (bindP (getP (\<lambda>s. dict_values (sx_intents s))) (\<lambda>is.
              forP is (\<lambda>i. checkP (\<lambda>s. intent_restorable s i))))) (\<lambda>_.
     bindP (modifyP (\<lambda>s. s\<lparr>sx_protection_intents := xs_protection_intents x, sx_entry_id := xs_entry_id x,
              sx_close_attempted := xs_close_attempted x, sx_cancel_attempted := xs_cancel_attempted x\<rparr>)) (\<lambda>_.
     forP (xs_events x) restore_fill)))))))"

end
