(* ===== verification/Bracket_Steps.thy ===== *)
theory Bracket_Steps
  imports Spot_Control
begin

text \<open>
  What the methods of a bracket keep. \<open>evidence\<close> is the contract of a relation that every
  method which only reads the venue respects: it tolerates changes that keep the history, the
  terminal disposition and the halt, and the writing of records. \<open>trading\<close> adds the requests: it
  tolerates a request right after its own record, and \<open>hosting\<close> the terminal disposition. The rules of the methods are proved once, in
  these locales.
\<close>

section \<open>Requests and their records\<close>

fun record_of :: "sent \<Rightarrow> journal \<Rightarrow> bool" where
  "record_of (SubmitEntry i) j \<longleftrightarrow> j = OrderIntent i"
| "record_of (SubmitExit i) j \<longleftrightarrow> j = OrderIntent i"
| "record_of (CancelEntry k) j \<longleftrightarrow> j = SpotCancelEntry k"
| "record_of CancelAll j \<longleftrightarrow> (\<exists>symbol. j = SpotCancelAll symbol)"
| "record_of (PlaceProtection i) j \<longleftrightarrow> j = ProtectionIntent i"

fun is_entry :: "sent \<Rightarrow> bool" where
  "is_entry (SubmitEntry i) = True"
| "is_entry _ = False"

text \<open>What identifies a session, and a change of the known orders by at most one.\<close>

definition config :: "'w bracket \<Rightarrow> string \<times> spot_identity \<times> json \<times> json \<times> string" where
  "config s = (sx_session_id s, sx_identity s, sx_binding s, sx_context s, sx_id_namespace s)"

definition intents_grow :: "'w bracket \<Rightarrow> 'w bracket \<Rightarrow> bool" where
  "intents_grow s t \<longleftrightarrow> sx_intents t = sx_intents s
     \<or> (\<exists>i. sx_intents t = AList.update (oi_client_order_id i) i (sx_intents s))"

text \<open>
  A change that keeps the history, the ledger, the identity of the session and the terminal
  disposition, and loses no halt and no failure.
\<close>

definition quiet :: "'w bracket \<Rightarrow> 'w bracket \<Rightarrow> bool" where
  "quiet s t \<longleftrightarrow> sx_log t = sx_log s \<and> sx_ledger t = sx_ledger s \<and> sx_terminal t = sx_terminal s
     \<and> config t = config s \<and> intents_grow s t \<and> (sx_halted s \<longrightarrow> sx_halted t)
     \<and> (sx_persistence_failed s \<longrightarrow> sx_persistence_failed t)
     \<and> (sx_persistence_failed t \<longrightarrow> sx_persistence_failed s \<or> sx_halted t)"

definition same_frame :: "'w bracket \<Rightarrow> 'w bracket \<Rightarrow> bool" where
  "same_frame s t \<longleftrightarrow> sx_log t = sx_log s \<and> sx_ledger t = sx_ledger s \<and> sx_terminal t = sx_terminal s
     \<and> config t = config s \<and> intents_grow s t \<and> sx_halted t = sx_halted s
     \<and> sx_persistence_failed t = sx_persistence_failed s"

lemma one_more: "\<exists>i'. AList.update (oi_client_order_id i) i d = AList.update (oi_client_order_id i') i' d"
  by blast

lemmas frame_defs = quiet_def same_frame_def config_def intents_grow_def set_halted_def halt_def one_more

text \<open>A method that begins with a request.\<close>

definition sends :: "('w bracket \<Rightarrow> 'w bracket \<Rightarrow> bool) \<Rightarrow> sent \<Rightarrow> ('w, 'a) sx \<Rightarrow> bool" where
  "sends R x m \<longleftrightarrow>
     (\<forall>s. \<exists>w. R (s\<lparr>sx_world := w, sx_log := sx_log s @ [Sent x]\<rparr>) (snd (m s)))"

section \<open>The interface of the host\<close>

text \<open>One call of a method, whether it returns or raises.\<close>

inductive bracket_step :: "'w ports \<Rightarrow> 'w bracket \<Rightarrow> 'w bracket \<Rightarrow> bool" for env where
  step_submit: "bracket_step env s (snd (submit env i s))"
| step_halt: "bracket_step env s (snd (halt_entries env reason s))"
| step_observe: "bracket_step env s (snd (observe_spot env s))"
| step_reconcile: "bracket_step env s (snd (reconcile env s))"
| step_poll: "bracket_step env s (snd (poll env s))"
| step_close: "bracket_step env s (snd (close env s))"
| step_retry_close: "bracket_step env s (snd (retry_close env attempt_id expected s))"
| step_finish: "bracket_step env s (snd (finish_spot env how proof_id s))"

lemma bind_get: "bindP (getP g) k s = k (g s) s"
  by (simp add: bindP_def getP_def)

lemma bind_lift: "bindP (liftP (Inr x)) k s = k x s"
  by (simp add: bindP_def liftP_def)

section \<open>Methods that only read the venue\<close>

locale evidence = stable R for R :: "'w bracket \<Rightarrow> 'w bracket \<Rightarrow> bool" +
  assumes latch: "quiet s t \<Longrightarrow> R s t"
    and wrote: "R s (s\<lparr>sx_log := sx_log s @ [Wrote j]\<rparr>)"
    and filled: "ledger_apply (sx_ledger s) f stop = Inr (b, l) \<Longrightarrow> R s (s\<lparr>sx_ledger := l\<rparr>)"
begin

lemma keeps_quiet:
  assumes "\<And>s. quiet s (f s)"
  shows "keeps R (modifyP f)"
  using assms by (intro keeps_modify latch)

lemma keeps_check: "keeps R (checkP f)" "keeps R (storage_ok m)" "keeps R (validate_context c)"
  by (auto simp: keeps_def checkP_def storage_ok_def validate_context_def stable_refl)

lemma keeps_port: "keeps R (portP call)"
  by (auto simp: keeps_def portP_def frame_defs split: prod.splits intro!: latch)

lemma keeps_write: "keeps R (write_record env j)"
proof (rule keepsI)
  fix s :: "'w bracket"
  obtain r w where emit: "bp_emit env (sx_world s) j = (r, w)" by fastforce
  show "R s (snd (write_record env j s))"
  proof (cases r)
    case (Inl e)
    then show ?thesis using emit by (auto simp: write_record_def halt_def config_def intents_grow_def quiet_def intro!: latch)
  next
    case (Inr u)
    have "R s (s\<lparr>sx_world := w, sx_log := sx_log s @ [Wrote j]\<rparr>)"
      by (rule stable_trans [OF wrote [of _ j]], rule latch) (simp_all add: frame_defs)
    then show ?thesis using emit Inr by (simp add: write_record_def)
  qed
qed

lemma keeps_halting: "keeps R m \<Longrightarrow> keeps R (haltingP m)"
  unfolding haltingP_def by (rule keeps_on_error) (auto simp: halt_def config_def intents_grow_def quiet_def intro!: latch)

lemmas quiet_rules = keeps_rules keeps_check keeps_port keeps_write keeps_halting keeps_quiet

lemma keeps_save: "keeps R (save env)"
  unfolding save_def by (intro quiet_rules)

lemma keeps_entry_effects: "keeps R (entry_effects f)"
  unfolding entry_effects_def by (intro quiet_rules | simp add: frame_defs)+

text \<open>The ledger that a fill leaves was computed before the record of the fill, which keeps the ledger.\<close>

lemma keeps_fill_tail:
  assumes "ledger_apply (sx_ledger s) f stop = Inr (b, l)" "keeps R m"
  shows "R s (snd (bindP (write_record env j) (\<lambda>_. bindP (modifyP (\<lambda>s. s\<lparr>sx_ledger := l\<rparr>)) (\<lambda>_. m)) s))"
proof -
  obtain r t where w: "write_record env j s = (r, t)" by fastforce
  have st: "R s t" using keepsD [OF keeps_write w] .
  show ?thesis
  proof (cases r)
    case (Inl e)
    then show ?thesis using w st by (simp add: bindP_def)
  next
    case (Inr u)
    then have "sx_ledger t = sx_ledger s"
      using w by (auto simp: write_record_def split: prod.split_asm sum.split_asm)
    then have "R t (t\<lparr>sx_ledger := l\<rparr>)" using assms(1) by (intro filled [of _ f stop b]) simp
    then have "R s (snd (m (t\<lparr>sx_ledger := l\<rparr>)))"
      using st assms(2) stable_trans unfolding keeps_def by blast
    then show ?thesis using w Inr by (simp add: bindP_def modifyP_def)
  qed
qed

lemma keeps_apply_fill: "keeps R (apply_fill env f)"
proof (rule keepsI)
  fix s
  show "R s (snd (apply_fill env f s))"
  proof (cases "bindE (cycle_check s f) (\<lambda>_. bindE (entry_stop s f) (\<lambda>stop. ledger_apply (sx_ledger s) f stop))")
    case (Inl e)
    then show ?thesis by (simp add: apply_fill_def bindP_def getP_def liftP_def stable_refl)
  next
    case (Inr bl)
    obtain b l where bl: "bl = (b, l)" by fastforce
    then obtain stop where applied: "ledger_apply (sx_ledger s) f stop = Inr (b, l)"
      using Inr by (auto simp: bindE_eq_Inr)
    have rest: "keeps R (bindP (getP production) (\<lambda>prod.
       bindP (whenP (prod \<and> fl_status f = ''partial'') (modifyP set_halted)) (\<lambda>_.
       bindP (getP (\<lambda>s. list_ex (foreign_fee s) (fl_fees f))) (\<lambda>foreign.
       bindP (whenP foreign (modifyP set_halted)) (\<lambda>_.
       whenP (fl_role f = ''entry'' \<and> event_quantity f \<noteq> 0) (entry_effects f))))))"
      by (intro quiet_rules keeps_entry_effects | simp add: frame_defs)+
    show ?thesis
      unfolding apply_fill_def
      by (subst bind_get, unfold Inr bl bind_lift prod.case, rule keeps_fill_tail [OF applied rest])
  qed
qed

lemma keeps_consume: "keeps R (consume env fills)"
  unfolding consume_def consume_fill_def
  by (intro quiet_rules keeps_apply_fill | simp add: frame_defs)+

lemma keeps_poll_consume: "keeps R (poll_consume env)"
  unfolding poll_consume_def by (intro quiet_rules keeps_consume)

lemma keeps_complete_trade: "keeps R (complete_trade env)"
  unfolding complete_trade_def Let_def
  by (intro quiet_rules | simp add: frame_defs)+

lemma keeps_report: "keeps R (report env)"
  unfolding report_def by (intro quiet_rules keeps_consume keeps_complete_trade | simp add: frame_defs)+

lemma keeps_validate_protection: "keeps R (validate_protection q ids)"
  unfolding validate_protection_def Let_def
  by (intro quiet_rules | simp add: frame_defs)+

lemma keeps_unknown_check: "keeps R (unknown_check r m)"
  unfolding unknown_check_def by (intro quiet_rules)

lemma keeps_acknowledge: "keeps R (acknowledge env a i)"
  unfolding acknowledge_def by (intro quiet_rules | simp add: frame_defs)+

lemma keeps_halt_entries: "keeps R (halt_entries env reason)"
  unfolding halt_entries_def by (intro quiet_rules keeps_save | simp add: frame_defs)+

lemma keeps_observe_protection: "keeps R (observe_protection r)"
proof (rule keepsI)
  fix s :: "'w bracket"
  obtain x t where v: "validate_protection (vr_protection r) (vr_open_order_ids r) s = (x, t)" by fastforce
  have st: "R s t" using keepsD [OF keeps_validate_protection v] .
  have "R s (t\<lparr>sx_protection := vr_protection r\<rparr>)" "R s (set_halted t)"
    by (rule stable_trans [OF st], rule latch, simp_all add: frame_defs)+
  then show "R s (snd (observe_protection r s))"
    using v st by (auto simp: observe_protection_def split: sum.splits spot_error.splits)
qed

lemma keeps_observe: "keeps R (observe_spot env)"
  unfolding observe_spot_def observe_state_def
  by (intro quiet_rules keeps_save keeps_poll_consume keeps_report keeps_observe_protection | simp add: frame_defs)+

lemma keeps_reconcile: "keeps R (reconcile env)"
  unfolding reconcile_def reconcile_body_def
  by (intro quiet_rules keeps_save keeps_report keeps_validate_protection keeps_unknown_check | simp add: frame_defs)+

lemma keeps_close_settled: "keeps R (close_settled env)"
  unfolding close_settled_def by (intro quiet_rules keeps_save | simp add: frame_defs)+

lemmas evidence_rules = keeps_save keeps_poll_consume keeps_report keeps_validate_protection
  keeps_unknown_check keeps_acknowledge keeps_halt_entries keeps_observe keeps_reconcile keeps_close_settled

end

section \<open>Methods that trade\<close>

locale trading = evidence R for R :: "'w bracket \<Rightarrow> 'w bracket \<Rightarrow> bool" +
  assumes send: "record_of x j \<Longrightarrow> is_entry x \<longrightarrow> \<not> sx_halted s \<Longrightarrow>
      R s (s\<lparr>sx_log := sx_log s @ [Wrote j, Sent x]\<rparr>)"
begin

lemma sends_sendP: "sends R x (sendP x call)"
  unfolding sends_def
proof
  fix s
  show "\<exists>w. R (s\<lparr>sx_world := w, sx_log := sx_log s @ [Sent x]\<rparr>) (snd (sendP x call s))"
    by (cases "call (sx_world s)") (auto simp: sendP_def intro: stable_refl)
qed

lemma sends_bind: "sends R x m \<Longrightarrow> (\<And>a. keeps R (k a)) \<Longrightarrow> sends R x (bindP m k)"
  unfolding sends_def
proof
  fix s assume m: "\<forall>s. \<exists>w. R (s\<lparr>sx_world := w, sx_log := sx_log s @ [Sent x]\<rparr>) (snd (m s))"
    and k: "\<And>a. keeps R (k a)"
  obtain r t where t: "m s = (r, t)" by fastforce
  then obtain w where "R (s\<lparr>sx_world := w, sx_log := sx_log s @ [Sent x]\<rparr>) t"
    using m by (metis snd_conv)
  then have "R (s\<lparr>sx_world := w, sx_log := sx_log s @ [Sent x]\<rparr>) (snd (bindP m k s))"
    using t k stable_trans by (cases r) (auto simp: bindP_def keeps_def)
  then show "\<exists>w. R (s\<lparr>sx_world := w, sx_log := sx_log s @ [Sent x]\<rparr>) (snd (bindP m k s))" ..
qed

lemma sends_handle: "sends R x m \<Longrightarrow> keeps R h \<Longrightarrow> sends R x (handleP m h)"
  unfolding sends_def
proof
  fix s assume m: "\<forall>s. \<exists>w. R (s\<lparr>sx_world := w, sx_log := sx_log s @ [Sent x]\<rparr>) (snd (m s))"
    and h: "keeps R h"
  obtain r t where t: "m s = (r, t)" by fastforce
  then obtain w where w: "R (s\<lparr>sx_world := w, sx_log := sx_log s @ [Sent x]\<rparr>) t"
    using m by (metis snd_conv)
  obtain r' u where u: "h t = (r', u)" by fastforce
  have "R (s\<lparr>sx_world := w, sx_log := sx_log s @ [Sent x]\<rparr>) (snd (handleP m h s))"
    using w stable_trans [OF w keepsD [OF h u]] t u by (cases r; cases r') (auto simp: handleP_def)
  then show "\<exists>w. R (s\<lparr>sx_world := w, sx_log := sx_log s @ [Sent x]\<rparr>) (snd (handleP m h s))" ..
qed

text \<open>A record, a quiet change and the request that the record announces.\<close>

lemma recorded_send_at:
  assumes "record_of x j" "is_entry x \<longrightarrow> \<not> sx_halted s" "sends R x m"
    and "\<And>s. same_frame s (f s)"
  shows "R s (snd (bindP (write_record env j) (\<lambda>_. bindP (modifyP f) (\<lambda>_. m)) s))"
proof -
  obtain r w where emit: "bp_emit env (sx_world s) j = (r, w)" by fastforce
  show ?thesis
  proof (cases r)
    case (Inl e)
    then show ?thesis
      using emit by (auto simp: bindP_def write_record_def halt_def config_def intents_grow_def quiet_def intro!: latch)
  next
    case (Inr u)
    define t where "t = f (s\<lparr>sx_world := w, sx_log := sx_log s @ [Wrote j]\<rparr>)"
    obtain w' where "R (t\<lparr>sx_world := w', sx_log := sx_log t @ [Sent x]\<rparr>) (snd (m t))"
      using assms(3) by (auto simp: sends_def)
    moreover have "R s (t\<lparr>sx_world := w', sx_log := sx_log t @ [Sent x]\<rparr>)"
      by (rule stable_trans [OF send [OF assms(1,2)]], rule latch) (use assms(4) [of "s\<lparr>sx_world := w, sx_log := sx_log s @ [Wrote j]\<rparr>"] in \<open>auto simp: t_def frame_defs\<close>)
    ultimately have "R s (snd (m t))" using stable_trans by blast
    then show ?thesis using emit Inr by (simp add: bindP_def write_record_def modifyP_def t_def)
  qed
qed

lemma keeps_recorded_send:
  assumes "record_of x j" "\<not> is_entry x" "sends R x m"
    and "\<And>s. same_frame s (f s)"
  shows "keeps R (bindP (write_record env j) (\<lambda>_. bindP (modifyP f) (\<lambda>_. m)))"
  by (rule keepsI, rule recorded_send_at) (use assms in auto)

lemmas send_rules = keeps_recorded_send sends_sendP sends_bind

lemma keeps_cancel_everything: "keeps R (cancel_everything env)"
  unfolding cancel_everything_def
  by (rule keeps_bind, rule keeps_pure, rule keeps_recorded_send [where x = CancelAll])
     (simp_all add: sends_sendP frame_defs)

lemma keeps_submit_close: "keeps R (submit_close env)"
  unfolding submit_close_def send_exit_def
  by (rule keeps_bind, rule keeps_pure, rule keeps_recorded_send [where x = "SubmitExit _"], simp, simp,
      rule sends_bind, rule sends_sendP, rule keeps_acknowledge, simp add: frame_defs)

lemma keeps_cancel_pending: "keeps R (cancel_pending env k)"
  unfolding cancel_pending_def
  by (rule keeps_bind, rule keeps_pure, rule keeps_when, rule keeps_recorded_send [where x = "CancelEntry k"])
     (simp_all add: sends_sendP frame_defs)

lemma keeps_close: "keeps R (close env)"
  unfolding close_def close_body_def
  by (intro quiet_rules evidence_rules keeps_cancel_everything keeps_submit_close | simp add: frame_defs)+

lemma keeps_protect: "keeps R (protect env r)"
proof -
  have closing: "keeps R (bindP (getP sx_persistence_failed) (\<lambda>failed. whenP (\<not> failed) (close env)))"
    by (intro quiet_rules keeps_close)
  have placing: "sends R (PlaceProtection i) (place_protection env i)" for i
    unfolding place_protection_def
    by (rule sends_bind [OF sends_sendP]) (intro quiet_rules evidence_rules | simp add: frame_defs)+
  have placed: "keeps R (bindP (write_record env (ProtectionIntent i)) (\<lambda>_.
      bindP (modifyP (\<lambda>s. s\<lparr>sx_protection_intents := sx_protection_intents s @ [i]\<rparr>)) (\<lambda>_.
      handleP (place_protection env i)
        (bindP (getP sx_persistence_failed) (\<lambda>failed. whenP (\<not> failed) (close env))))))" for i
    by (rule keeps_recorded_send [where x = "PlaceProtection i"])
       (simp_all add: sends_handle [OF placing closing] frame_defs)
  show ?thesis
    unfolding protect_def Let_def prod.case
    by (rule keeps_bind, rule keeps_unknown_check, rule keeps_bind, rule keeps_pure, rule keeps_cases,
        rule keeps_cases, rule keeps_pure, rule keeps_bind, rule keeps_pure, rule placed, rule keeps_pure)
qed

lemma keeps_poll: "keeps R (poll env)"
  unfolding poll_def poll_body_def poll_inventory_def cancel_entries_def
  by (intro quiet_rules evidence_rules keeps_cancel_pending keeps_close keeps_protect | simp add: frame_defs)+

lemma keeps_authorize: "keeps R (authorize env q)"
  unfolding authorize_def by (intro quiet_rules)

lemma keeps_send_disposal: "keeps R (send_disposal env d)"
  unfolding send_disposal_def send_exit_def Let_def
  by (rule keeps_recorded_send [where x = "SubmitExit (ds_intent d)"])
     (auto simp: frame_defs intro!: sends_sendP sends_bind keeps_acknowledge quiet_rules evidence_rules)

lemma keeps_retry_close: "keeps R (retry_close env attempt_id expected)"
  unfolding retry_close_def dispose_def reserve_disposal_def
  by (intro quiet_rules evidence_rules keeps_authorize keeps_send_disposal | simp add: frame_defs)+

lemma keeps_submit: "keeps R (submit env i)"
proof (rule keepsI)
  fix s
  show "R s (snd (submit env i s))"
  proof (cases "entry_check s i")
    case (Inl e)
    then show ?thesis by (simp add: submit_def bindP_def checkP_def stable_refl)
  next
    case (Inr u)
    then have open_: "\<not> sx_halted s" by (auto simp: entry_check_def entry_shape_def bindE_eq_Inr split: if_split_asm)
    define t where "t = start_cycle (s\<lparr>sx_flat_confirmed := False\<rparr>)"
    have t: "R s t" "sx_halted t = sx_halted s" by (auto simp: t_def start_cycle_def config_def intents_grow_def quiet_def intro!: latch)
    define m where "m = bindP (sendP (SubmitEntry i) (\<lambda>w. bp_submit_entry env w i)) (\<lambda>a.
       bindP (acknowledge env a i) (\<lambda>_. bindP (whenP (oa_status a = ''rejected'') (modifyP halt)) (\<lambda>_. save env)))"
    have m: "sends R (SubmitEntry i) m"
      unfolding m_def
      by (rule sends_bind [OF sends_sendP]) (intro quiet_rules evidence_rules | simp add: frame_defs)+
    have "R t (snd (bindP (write_record env (OrderIntent i)) (\<lambda>_.
        bindP (modifyP (\<lambda>s. s\<lparr>sx_intents := AList.update (oi_client_order_id i) i (sx_intents s),
                              sx_entry_id := Some (oi_client_order_id i), sx_pending := True\<rparr>)) (\<lambda>_. m)) t))"
      by (rule recorded_send_at [where x = "SubmitEntry i", OF _ _ m]) (simp_all add: t open_ frame_defs)
    then have "R s (snd (submit_body env i (s\<lparr>sx_flat_confirmed := False\<rparr>)))"
      using stable_trans [OF t(1)] by (simp add: submit_body_def bindP_def modifyP_def t_def m_def)
    moreover have "R u (halt u)" for u by (auto simp: halt_def config_def intents_grow_def quiet_def intro!: latch)
    ultimately have "R s (snd (haltingP (submit_body env i) (s\<lparr>sx_flat_confirmed := False\<rparr>)))"
      using stable_trans by (auto simp: haltingP_def on_errorP_def split: prod.splits sum.splits)
    then show ?thesis using Inr by (simp add: submit_def bindP_def checkP_def modifyP_def)
  qed
qed

end

section \<open>All methods\<close>

locale hosting = trading R for R :: "'w bracket \<Rightarrow> 'w bracket \<Rightarrow> bool" +
  assumes disposition: "R s (s\<lparr>sx_terminal := d\<rparr>)"
begin

lemma keeps_finish: "keeps R (finish_spot env how proof_id)"
  unfolding finish_spot_def finish_body_def
  by (intro quiet_rules evidence_rules keeps_authorize keeps_modify disposition | simp add: frame_defs)+

text \<open>Every method of the host interface keeps the relation, and so does every run of them.\<close>

lemmas method_rules = keeps_submit keeps_halt_entries keeps_observe keeps_reconcile keeps_poll keeps_close
  keeps_retry_close keeps_finish

lemma step_keeps: "bracket_step env s t \<Longrightarrow> R s t"
  by (induction rule: bracket_step.induct) (simp_all add: method_rules [unfolded keeps_def])

lemma run_keeps: "(bracket_step env)\<^sup>*\<^sup>* s t \<Longrightarrow> R s t"
  by (induction rule: rtranclp_induct) (auto intro: stable_refl stable_trans step_keeps)

end

end
