(* ===== verification/Demo_Bracket.thy ===== *)
theory Demo_Bracket
  imports Spot_Control
begin

text \<open>
  A concrete host and a concrete bracket session, on which the theorems about the bracket are
  instantiated: a venue that fills every market order at once at its price, and keeps its state as
  the report it would answer with.
\<close>

definition demo_identity :: spot_identity where
  "demo_identity =
     \<lparr> si_account_id = ''acct'', si_symbol = ''BTCUSDT'', si_base_asset = ''BTC'', si_quote_asset = ''USDT'',
       si_exchange = ''binance'', si_market = ''spot'', si_target = SPOT_TESTNET, si_environment = ''testnet'',
       si_leverage = 1, si_contract_version = 1 \<rparr>"

definition no_metadata :: metadata where
  "no_metadata = \<lparr> md_spot_context = JNull, md_authorization = None, md_list_client_order_id = None,
                   md_commission = False \<rparr>"

definition venue_start :: venue_report where
  "venue_start =
     \<lparr> vr_identity = demo_identity, vr_session_id = ''s1'', vr_revision = ''r1'', vr_quote_balance = 100,
       vr_base_quantity = 0, vr_fills = [], vr_open_order_ids = [], vr_pending_entry_ids = [],
       vr_protection = None, vr_complete = True, vr_quote_reserved = 0, vr_context = JNull,
       vr_terminal_order_ids = [], vr_terminal_list_ids = [], vr_unknown_request_ids = [],
       vr_base_free = None, vr_fees_complete = True \<rparr>"

definition venue_fill :: "order_intent \<Rightarrow> rat \<Rightarrow> spot_fill" where
  "venue_fill i price =
     \<lparr> fl_session_id = oi_session_id i, fl_client_order_id = oi_client_order_id i,
       fl_exchange_order_id = Some ''x'', fl_symbol = oi_symbol i, fl_side = oi_side i,
       fl_status = ''filled'', fl_role = oi_role i, fl_quantity = Some (oi_quantity i),
       fl_price = Some price, fl_timestamp_ms = 0, fl_realized_pnl = None, fl_metadata = no_metadata,
       fl_event_id = oi_client_order_id i, fl_fees = [] \<rparr>"

definition venue_ack :: "order_intent \<Rightarrow> order_ack" where
  "venue_ack i =
     \<lparr> oa_session_id = oi_session_id i, oa_client_order_id = oi_client_order_id i,
       oa_exchange_order_id = Some ''x'', oa_status = ''filled'', oa_target = oi_target i,
       oa_metadata = no_metadata \<rparr>"

definition venue_buy :: "venue_report \<Rightarrow> order_intent \<Rightarrow> order_ack res \<times> venue_report" where
  "venue_buy w i =
     (Inr (venue_ack i),
      w\<lparr>vr_fills := [venue_fill i (or_else (oi_price i) 0)],
        vr_quote_balance := vr_quote_balance w - oi_quantity i * or_else (oi_price i) 0,
        vr_base_quantity := vr_base_quantity w + oi_quantity i\<rparr>)"

definition venue_sell :: "venue_report \<Rightarrow> order_intent \<Rightarrow> order_ack res \<times> venue_report" where
  "venue_sell w i =
     (Inr (venue_ack i),
      w\<lparr>vr_fills := [venue_fill i 11], vr_quote_balance := vr_quote_balance w + oi_quantity i * 11,
        vr_base_quantity := vr_base_quantity w - oi_quantity i\<rparr>)"

definition venue_protect :: "venue_report \<Rightarrow> protective_intent \<Rightarrow> spot_protection res \<times> venue_report" where
  "venue_protect w i =
     (let p = \<lparr> sp_session_id = pi_session_id i, sp_symbol = pi_symbol i, sp_order_list_id = ''oco'',
                sp_stop_client_order_id = pi_stop_client_order_id i,
                sp_target_client_order_id = pi_target_client_order_id i, sp_quantity = pi_quantity i,
                sp_stop_price = or_else (pi_stop_price i) 0, sp_target_price = or_else (pi_target_price i) 0,
                sp_dust_quantity = 0, sp_dust_reason = [], sp_quantity_step = 0, sp_price_tick = 0,
                sp_context = JNull \<rparr> in
      (Inr p, w\<lparr>vr_protection := Some p,
                vr_open_order_ids := [pi_stop_client_order_id i, pi_target_client_order_id i]\<rparr>))"

text \<open>The digest of text keeps its end, so that identities of different roles differ.\<close>

fun demo_hash :: "hashed \<Rightarrow> string" where
  "demo_hash (HText m) = rev m"
| "demo_hash _ = ''h''"

definition demo_venue :: "venue_report ports" where
  "demo_venue =
     \<lparr> bp_digest = demo_hash, bp_emit = (\<lambda>w j. (Inr (), w)), bp_poll_fills = (\<lambda>w. (Inr [], w)),
       bp_reconcile = (\<lambda>w is. (Inr w, w)), bp_submit_entry = venue_buy, bp_submit_exit = venue_sell,
       bp_cancel_entry = (\<lambda>w k. (Inr (), w)),
       bp_cancel_all = (\<lambda>w. (Inr (), w\<lparr>vr_protection := None, vr_open_order_ids := []\<rparr>)),
       bp_place_protection = venue_protect, bp_authorize = (\<lambda>w q. (Inl (RuntimeError []), w)) \<rparr>"

definition demo_entry :: order_intent where
  "demo_entry =
     \<lparr> oi_session_id = ''s1'', oi_intent_id = ''e'', oi_client_order_id = ''kv-e'', oi_symbol = ''BTCUSDT'',
       oi_side = ''buy'', oi_order_type = ''market'', oi_quantity = 1, oi_target = SPOT_TESTNET,
       oi_price = Some 10, oi_stop_price = Some 9, oi_target_price = Some 12, oi_role = ''entry'',
       oi_metadata = no_metadata \<rparr>"

definition demo_flat :: "venue_report bracket" where
  "demo_flat = sum.projr (new_bracket demo_venue venue_start ''s1'' demo_identity 100 (JStr ''b''))"

text \<open>A host whose record sink fails, and a disposition.\<close>

definition demo_broken :: "venue_report ports" where
  "demo_broken = demo_venue\<lparr>bp_emit := (\<lambda>w j. (Inl (RuntimeError ''disk full''), w))\<rparr>"

definition demo_receipt :: receipt where
  "demo_receipt = \<lparr> rc_request_sha256 = ''h'', rc_receipt_id = ''rc1'', rc_grant_id = ''g1'', rc_quantity = 1,
     rc_max_quantity = 1, rc_max_notional = 100, rc_reference_price = 10,
     rc_protection_disposition = ''retain'', rc_retained_order_ids = [] \<rparr>"

definition demo_terminal :: terminal where
  "demo_terminal = \<lparr> tm_disposition = ''closed_flat'', tm_evidence_hash = ''ev'',
     tm_request = \<lparr> rq_action = Finish ''closed_flat'' ''ev'', rq_context = JNull, rq_state_hash = ''h'',
                   rq_base_quantity = 0, rq_open_order_ids = [] \<rparr>,
     tm_authorization = demo_receipt, tm_inventory = 0, tm_protection = None \<rparr>"

section \<open>Evaluation\<close>

lemma multiple_integral: "multiple_of_10_powi k (numeral n)" "multiple_of_10_powi k 0" "multiple_of_10_powi k 1"
proof -
  have "(numeral n :: rat) * 10 ^ k = of_int (numeral n * 10 ^ k)" "(1 :: rat) * 10 ^ k = of_int (10 ^ k)" by simp_all
  then show "multiple_of_10_powi k (numeral n)" "multiple_of_10_powi k 0" "multiple_of_10_powi k 1"
    by (simp_all only: multiple_of_10_powi_def floor_of_int mult_zero_left floor_zero of_int_0)
qed

lemmas decimal_defs = decimal_ok_def decimal_value_def decimal_positive_def decimal_or_zero_def decimal_given_def
  decimal_required_def multiple_integral

lemma demo_flat_new: "new_bracket demo_venue venue_start ''s1'' demo_identity 100 (JStr ''b'') = Inr demo_flat"
  by (simp add: demo_flat_def new_bracket_def new_ledger_def decimal_defs bindE_def Let_def)

lemma demo_flat_ledger:
  "sx_ledger demo_flat = \<lparr> lg_identity = demo_identity, lg_capital = 100, lg_cash = 100, lg_quantity = 0, lg_cost = 0,
     lg_realized = 0, lg_valued_fees = 0, lg_fees = [], lg_events = [] \<rparr>"
  by (simp add: demo_flat_def new_bracket_def new_ledger_def decimal_defs bindE_def Let_def)

lemma demo_flat_fields:
  "sx_world demo_flat = venue_start" "sx_log demo_flat = []" "sx_session_id demo_flat = ''s1''"
  "sx_identity demo_flat = demo_identity" "sx_halted demo_flat = False" "sx_pending demo_flat = False"
  "sx_intents demo_flat = []" "sx_protection_intents demo_flat = []" "sx_entry_id demo_flat = None"
  "sx_terminal demo_flat = None" "sx_close_attempted demo_flat = False" "sx_persistence_failed demo_flat = False"
  "sx_close_id demo_flat = None" "sx_disposals demo_flat = []" "sx_halt_reason demo_flat = None"
  "sx_outside_bracket demo_flat = False" "sx_protection demo_flat = None" "sx_restored demo_flat = False"
  by (simp_all add: demo_flat_def new_bracket_def new_ledger_def decimal_defs bindE_def Let_def)

lemma demo_venue_fields:
  "bp_emit demo_venue = (\<lambda>w j. (Inr (), w))" "bp_poll_fills demo_venue = (\<lambda>w. (Inr [], w))"
  "bp_reconcile demo_venue = (\<lambda>w is. (Inr w, w))" "bp_submit_entry demo_venue = venue_buy"
  "bp_submit_exit demo_venue = venue_sell" "bp_place_protection demo_venue = venue_protect"
  "bp_cancel_all demo_venue = (\<lambda>w. (Inr (), w\<lparr>vr_protection := None, vr_open_order_ids := []\<rparr>))"
  by (simp_all add: demo_venue_def)

lemma not_production: "sx_identity s = demo_identity \<Longrightarrow> \<not> production s"
  by (simp add: production_def demo_identity_def SPOT_TESTNET_def SPOT_PRODUCTION_def)

text \<open>Closing the fresh bracket cancels everything, as recorded.\<close>

lemmas report_eval = report_def report_shape_def context_check_def consume_def settle_report_def report_agrees_def
  reserve_check_def complete_trade_def ensure_def bindE_def effect_defs write_record_def sendP_def portP_def
  haltingP_def checkP_def storage_ok_def save_def validate_context_def decimal_defs

lemma demo_close_log:
  "\<exists>rest. sx_log (snd (close demo_venue demo_flat)) = Wrote (SpotCancelAll ''BTCUSDT'') # Sent CancelAll # rest"
  by (simp add: close_def close_body_def cancel_everything_def close_settled_def report_eval demo_flat_fields
      demo_flat_ledger demo_venue_fields not_production venue_start_def) (simp add: demo_identity_def)

end
