(* ===== verification/Bracket_Protection.thy ===== *)
theory Bracket_Protection
  imports Bracket_Safety
begin

text \<open>
  What the methods of the bracket establish when they return: a report that confirms the account
  flat, a close that is confirmed by evidence, and a poll that leaves no inventory without a
  protection that covers it. The triples \<open>returns P m Q\<close> of \<open>Effects\<close> follow the methods.
\<close>

section \<open>Covering protection\<close>

definition protects :: "'w bracket \<Rightarrow> spot_protection \<Rightarrow> bool" where
  "protects s p \<longleftrightarrow>
     sx_protection_intents s \<noteq> [] \<and> Some (pi_entry_client_order_id (last (sx_protection_intents s))) = sx_entry_id s
     \<and> sp_session_id p = sx_session_id s \<and> sp_symbol p = si_symbol (sx_identity s)
     \<and> sp_stop_client_order_id p \<noteq> sp_target_client_order_id p
     \<and> dadd (sp_quantity p) (sp_dust_quantity p) = lg_quantity (sx_ledger s)
     \<and> (\<exists>average. ddiv (lg_cost (sx_ledger s)) (lg_quantity (sx_ledger s)) = Inr average
          \<and> 0 < sp_stop_price p \<and> sp_stop_price p < average \<and> average < sp_target_price p)"

definition flat :: "'w bracket \<Rightarrow> bool" where
  "flat s \<longleftrightarrow> lg_quantity (sx_ledger s) = 0"

definition covered :: "'w bracket \<Rightarrow> bool" where
  "covered s \<longleftrightarrow> flat s \<or> (\<exists>p. sx_protection s = Some p \<and> protects s p)"

text \<open>The assertions that only depend on the part of the bracket that a write does not touch.\<close>

definition written :: "('w bracket \<Rightarrow> bool) \<Rightarrow> bool" where
  "written P \<longleftrightarrow> (\<forall>s w l. P s \<longrightarrow> P (s\<lparr>sx_world := w, sx_log := l\<rparr>))"

lemma returns_write: "written P \<Longrightarrow> returns P (write_record env j) (\<lambda>_. P)"
  by (auto simp: returns_def written_def write_record_def split: prod.splits sum.splits)

lemma returns_check: "(\<And>s x. P s \<Longrightarrow> f s = Inr x \<Longrightarrow> Q x s) \<Longrightarrow> returns P (checkP f) Q"
  by (auto simp: returns_def checkP_def)

lemma returns_unknown: "returns P (unknown_check r m) (\<lambda>_. P)"
  unfolding unknown_check_def by (rule returns_check) simp

lemma returns_true: "returns P m (\<lambda>_ _. True)"
  by (simp add: returns_def)

lemma returns_save: "written P \<Longrightarrow> returns P (save env) (\<lambda>_. P)"
  unfolding save_def by (rule returns_bind, rule returns_pure(3), assumption, rule returns_write)

lemma written_assertions: "written flat" "written covered" "written (\<lambda>s. sx_flat_confirmed s \<longrightarrow> flat s)"
  by (auto simp: written_def flat_def covered_def protects_def)

section \<open>Reports and closing\<close>

lemma returns_complete_trade:
  assumes "written P" "\<And>s c. P s \<Longrightarrow> P (s\<lparr>sx_closed_entries := c\<rparr>)"
  shows "returns P (complete_trade env) (\<lambda>_. P)"
proof -
  have trade: "returns P (bindP (liftP r) (\<lambda>t. bindP (write_record env (Trade t)) (\<lambda>_.
      modifyP (\<lambda>s. s\<lparr>sx_closed_entries := k # sx_closed_entries s\<rparr>)))) (\<lambda>_. P)" for r k
    by (rule returns_bind [of _ _ "\<lambda>_. P"], rule returns_pure, assumption, rule returns_bind,
        rule returns_write [OF assms(1)], rule returns_pure, rule assms(2))
  show ?thesis
    unfolding complete_trade_def
    by (rule returns_bind [of _ _ "\<lambda>_. P"], rule returns_pure, assumption)
       (auto simp: Let_def trade split: option.split intro!: returns_pure)
qed

text \<open>A step whose outcome the rest does not need.\<close>

lemmas returns_skip = returns_bind [OF returns_true]

lemma returns_report: "returns P (report env) (\<lambda>_ s. sx_flat_confirmed s \<longrightarrow> flat s)"
proof -
  let ?Q = "\<lambda>s. sx_flat_confirmed s \<longrightarrow> flat s"
  have trade: "returns ?Q (complete_trade env) (\<lambda>_. ?Q)"
    by (rule returns_complete_trade, rule written_assertions, simp add: flat_def)
  show ?thesis
    unfolding report_def
    apply (rule returns_skip, rule returns_skip, rule returns_skip, rule returns_skip)
    apply (rule returns_skip, rule returns_skip, rule returns_skip, rule returns_skip)
    apply (rule returns_bind [of _ _ "\<lambda>_. ?Q"], rule returns_pure, simp add: flat_def)
    apply (rule returns_bind, rule returns_write, rule written_assertions)
    apply (rule returns_bind [of _ _ "\<lambda>_. ?Q"], rule returns_pure, simp add: flat_def)
    apply (rule returns_bind [of _ _ "\<lambda>_. ?Q"], rule returns_pure, simp)
    apply (rule returns_bind [of _ _ "\<lambda>_. ?Q"], rule returns_when, rule trade, simp)
    apply (rule returns_pure, simp)
    done
qed

lemma returns_close_settled: "returns flat (close_settled env) (\<lambda>_. flat)"
  unfolding close_settled_def
  by (rule returns_bind [of _ _ "\<lambda>_. flat"], rule returns_pure, simp add: flat_def,
      rule returns_save, rule written_assertions)

lemma returns_close_body: "returns P (close_body env) (\<lambda>_. flat)"
proof -
  have settle: "returns (\<lambda>s. sx_flat_confirmed s \<longrightarrow> flat s)
      (bindP (checkP (\<lambda>s. ensure (sx_flat_confirmed s) e)) (\<lambda>_. close_settled env)) (\<lambda>_. flat)" for e
    by (rule returns_bind [of _ _ "\<lambda>_. flat"], rule returns_check, simp add: ensure_def split: if_splits,
        rule returns_close_settled)
  show ?thesis
    unfolding close_body_def
    apply (rule returns_skip, rule returns_skip, rule returns_skip, rule returns_skip)
    apply (rule returns_bind, rule returns_report)
    apply (rule returns_bind [of _ _ "\<lambda>_ s. sx_flat_confirmed s \<longrightarrow> flat s"], rule returns_check, assumption)
    apply (rule returns_bind [of _ _ "\<lambda>x s. x \<longrightarrow> flat s"], rule returns_pure, assumption)
    apply (rule returns_if, rule returns_weaken, rule returns_close_settled, simp, assumption)
    apply (rule returns_skip, rule returns_skip, rule returns_skip)
    apply (rule returns_bind, rule returns_report, rule settle)
    done
qed

lemma returns_storage: "returns P (storage_ok m) (\<lambda>_. P)"
  by (auto simp: returns_def storage_ok_def)

lemma returns_close: "returns (\<lambda>s. sx_terminal s = None) (close env) (\<lambda>_. flat)"
  unfolding close_def haltingP_def
  apply (rule returns_bind [of _ _ "\<lambda>_ s. sx_terminal s = None"], rule returns_pure, simp)
  apply (rule returns_bind, rule returns_storage)
  apply (rule returns_bind [of _ _ "\<lambda>done _. \<not> done"], rule returns_pure, simp)
  apply (rule returns_if)
   apply (rule returns_pure, simp)
  apply (rule returns_on_error, rule returns_close_body)
  done

section \<open>Protection\<close>

lemma protection_prices_sound:
  assumes "protection_prices s i p = Inr x"
  shows "\<exists>average. ddiv (lg_cost (sx_ledger s)) (lg_quantity (sx_ledger s)) = Inr average
          \<and> 0 < sp_stop_price p \<and> sp_stop_price p < average \<and> average < sp_target_price p"
  using assms
  by (auto simp: protection_prices_def bindE_eq_Inr decimal_positive_def decimal_ok_def ensure_def split: if_split_asm)

lemma protection_covers_sound:
  "protection_covers s p = Inr dust \<Longrightarrow>
     dadd (sp_quantity p) (sp_dust_quantity p) = lg_quantity (sx_ledger s)"
  by (auto simp: protection_covers_def bindE_eq_Inr decimal_positive_def decimal_value_def split: if_split_asm)

lemma returns_validate_protection:
  "returns P (validate_protection q ids) (\<lambda>p s. q = Some p \<and> protects s p)"
  unfolding returns_def
proof (intro allI impI)
  fix s p t assume r: "validate_protection q ids s = (Inr p, t)"
  then obtain p' where q: "q = Some p'"
    by (cases q) (auto simp: validate_protection_def effect_defs)
  then obtain dust where *: "sx_protection_intents s \<noteq> []"
      "protection_identity_ok s (last (sx_protection_intents s)) p' ids"
      "protection_prices s (last (sx_protection_intents s)) p' = Inr ()"
      "protection_covers s p' = Inr dust" "p = p'" "t = s \<or> t = set_halted s"
    using r
    by (auto simp: validate_protection_def effect_defs validate_context_def Let_def
        split: if_split_asm sum.split_asm)
  then have "protects s p"
    using protection_prices_sound protection_covers_sound
    by (auto simp: protects_def protection_identity_ok_def)
  with q * show "q = Some p \<and> protects t p" by (auto simp: protects_def set_halted_def)
qed

lemma returns_place_protection: "returns P (place_protection env i) (\<lambda>_. covered)"
  unfolding place_protection_def
  apply (rule returns_skip, rule returns_skip, rule returns_skip, rule returns_skip, rule returns_skip)
  apply (rule returns_bind, rule returns_report)
  apply (rule returns_bind, rule returns_unknown)
  apply (rule returns_bind [of _ _ "\<lambda>x s. x \<longrightarrow> flat s"], rule returns_pure, assumption)
  apply (rule returns_if)
   apply (rule returns_pure, simp add: covered_def flat_def)
  apply (rule returns_bind, rule returns_validate_protection)
  apply (rule returns_if)
   apply (rule returns_pure)
  apply (rule returns_pure, auto simp: covered_def protects_def)
  done

lemma returns_protect: "returns P (protect env r) (\<lambda>_. covered)"
  unfolding protect_def
  apply (rule returns_skip, rule returns_skip)
  apply (auto split: list.split option.split intro!: returns_pure)
  apply (rule returns_skip)
  apply (simp only: Let_def)
  apply (rule returns_skip, rule returns_skip, rule returns_handle, rule returns_place_protection)
  done

section \<open>Polling\<close>

definition disposition_kept :: "'w bracket \<Rightarrow> 'w bracket \<Rightarrow> bool" where
  "disposition_kept s t \<longleftrightarrow> sx_terminal t = sx_terminal s"

interpretation undisposed: trading disposition_kept
  by unfold_locales (auto simp: disposition_kept_def quiet_def)

abbreviation running :: "'w bracket \<Rightarrow> bool" where
  "running s \<equiv> sx_terminal s = None"

lemma returns_running: "keeps disposition_kept m \<Longrightarrow> returns running m (\<lambda>_. running)"
  by (auto simp: returns_def disposition_kept_def dest!: keepsD)

lemma returns_conj: "returns P m Q \<Longrightarrow> returns P m Q' \<Longrightarrow> returns P m (\<lambda>x s. Q x s \<and> Q' x s)"
  by (auto simp: returns_def)

lemma returns_poll_inventory: "returns running (poll_inventory env r) (\<lambda>_. covered)"
proof -
  have close: "returns (\<lambda>s'. s' = s \<and> running s') (close env) (\<lambda>_. covered)" for s
    by (rule returns_weaken [OF returns_close]) (auto simp: covered_def)
  have validated: "returns P (bindP (handleP (validate_protection (vr_protection r) (vr_open_order_ids r)) (close env))
      (\<lambda>_. modifyP (\<lambda>s. s\<lparr>sx_protection := vr_protection r\<rparr>))) (\<lambda>_. covered)" for P
    by (rule returns_bind, rule returns_handle, rule returns_validate_protection, rule returns_pure)
       (auto simp: covered_def protects_def)
  have emptied: "returns (\<lambda>s'. s' = s \<and> running s') (modifyP (\<lambda>s. s\<lparr>sx_protection := None\<rparr>)) (\<lambda>_. covered)"
    if "lg_quantity (sx_ledger s) = 0" for s
    by (rule returns_pure) (simp add: covered_def flat_def that)
  show ?thesis
    unfolding poll_inventory_def
    apply (rule returns_bind [of _ _ "\<lambda>s s'. s' = s \<and> running s'"], rule returns_pure, simp)
    apply (rule returns_if, rule returns_if, rule returns_pure, rule emptied, assumption)
    apply (rule returns_if, rule close)
    apply (rule returns_if, rule validated)
    apply (rule returns_if, rule close)
    apply (rule returns_if, rule close)
    apply (rule returns_protect)
    done
qed

lemma returns_cancel_entries: "returns running (cancel_entries env r) (\<lambda>_ s. running s \<and> \<not> sx_pending s)"
proof -
  have "keeps disposition_kept (cancel_entries env r)"
    unfolding cancel_entries_def
    by (intro undisposed.quiet_rules undisposed.evidence_rules undisposed.keeps_cancel_pending | simp add: frame_defs)+
  moreover have "returns running (cancel_entries env r) (\<lambda>_ s. \<not> sx_pending s)"
    unfolding cancel_entries_def
    apply (rule returns_skip, rule returns_skip, rule returns_skip, rule returns_skip)
    apply (rule returns_bind [of _ _ "\<lambda>_ s. \<not> sx_pending s"], rule returns_check)
     apply (simp add: ensure_def split: if_splits)
    apply (rule returns_pure, assumption)
    done
  ultimately show ?thesis by (intro returns_conj returns_running)
qed

lemma returns_poll_body: "returns running (poll_body env) (\<lambda>_. covered)"
  unfolding poll_body_def
  apply (rule returns_bind, rule returns_running, rule undisposed.keeps_poll_consume)
  apply (rule returns_bind, rule returns_running, rule undisposed.keeps_report)
  apply (rule returns_bind, rule returns_unknown)
  apply (rule returns_bind [of _ _ "\<lambda>late s. running s \<and> (\<not> late \<longrightarrow> sx_pending s \<longrightarrow> flat s)"], rule returns_pure, simp add: flat_def)
  apply (rule returns_bind [of _ _ "\<lambda>_ s. running s \<and> (sx_pending s \<longrightarrow> flat s)"], rule returns_if,
      rule returns_weaken, rule returns_cancel_entries, simp, simp, rule returns_pure, simp)
  apply (rule returns_bind [of _ _ "\<lambda>pending s. running s \<and> (pending \<longrightarrow> flat s)"], rule returns_pure, simp)
  apply (rule returns_if, rule returns_weaken, rule returns_save, rule written_assertions(2), simp add: covered_def, assumption)
  apply (rule returns_bind [of _ _ "\<lambda>_. covered"], rule returns_weaken, rule returns_poll_inventory, simp, simp)
  apply (rule returns_bind [of _ _ "\<lambda>_. covered"], rule returns_pure, simp add: covered_def flat_def protects_def)
  apply (rule returns_save, rule written_assertions)
  done

section \<open>A protected session\<close>

text \<open>One BTC bought at 10, protected at 9 and 12.\<close>

definition demo_oco :: spot_protection where
  "demo_oco =
     \<lparr> sp_session_id = ''s1'', sp_symbol = ''BTCUSDT'', sp_order_list_id = ''oco'',
       sp_stop_client_order_id = ''st'', sp_target_client_order_id = ''tg'', sp_quantity = 1,
       sp_stop_price = 9, sp_target_price = 12, sp_dust_quantity = 0, sp_dust_reason = [],
       sp_quantity_step = 0, sp_price_tick = 0, sp_context = JNull \<rparr>"

definition demo_guard :: protective_intent where
  "demo_guard =
     \<lparr> pi_session_id = ''s1'', pi_entry_client_order_id = ''kv-e'', pi_stop_client_order_id = ''st'',
       pi_target_client_order_id = ''tg'', pi_symbol = ''BTCUSDT'', pi_side = ''sell'', pi_quantity = 1,
       pi_stop_price = Some 9, pi_target_price = Some 12, pi_target = SPOT_TESTNET,
       pi_reduce_only = False, pi_metadata = no_metadata \<rparr>"

definition demo_long :: "venue_report bracket" where
  "demo_long = demo_flat\<lparr>
     sx_ledger := (sx_ledger demo_flat)\<lparr>lg_cash := 90, lg_quantity := 1, lg_cost := 10,
       lg_events := [(''kv-e'', venue_fill demo_entry 10)]\<rparr>,
     sx_intents := [(''kv-e'', demo_entry)], sx_entry_id := Some ''kv-e'',
     sx_protection_intents := [demo_guard],
     sx_world := venue_start\<lparr>vr_quote_balance := 90, vr_base_quantity := 1,
       vr_open_order_ids := [''st'', ''tg''], vr_protection := Some demo_oco\<rparr>\<rparr>"

lemmas poll_eval = poll_def poll_body_def poll_consume_def poll_inventory_def unknown_check_def
  validate_protection_def protection_identity_ok_def protection_prices_def protection_covers_def prices_valid_def
  known_role_def current_ids_def cycle_protections_def observe_state_def report_eval Let_def
  dadd_def dsub_def dmul_def dquot_def ddiv_def dsum_def dmod_def truncate_rat_def

lemma demo_long_polls: "fst (poll demo_venue demo_long) = Inr () \<and> lg_quantity (sx_ledger (snd (poll demo_venue demo_long))) = 1"
  by (simp add: poll_eval demo_long_def demo_flat_fields demo_flat_ledger demo_venue_fields not_production
      venue_start_def demo_oco_def demo_guard_def map_filter_simps) (simp add: demo_identity_def)


section \<open>Properties\<close>

text \<open>
  C17: A poll of a running bracket that returns leaves no unprotected inventory: either the
  confirmed inventory is zero, or the bracket holds a linked protection of the current entry that
  covers exactly the confirmed inventory (up to its declared dust) with its stop below and its
  target above the average cost. Every other outcome raises.
\<close>

theorem poll_leaves_inventory_covered:
  assumes "poll env s = (Inr (), t)" "sx_terminal s = None"
  shows "covered t"
proof -
  have "returns running (poll env) (\<lambda>_. covered)"
    unfolding poll_def haltingP_def
    apply (rule returns_bind, rule returns_storage)
    apply (rule returns_bind [of _ _ "\<lambda>done s. \<not> done \<and> running s"], rule returns_pure, simp)
    apply (rule returns_if, rule returns_weaken [of "\<lambda>_. False"], simp add: returns_def, simp, simp)
    apply (rule returns_on_error, rule returns_weaken, rule returns_poll_body, simp, assumption)
    done
  from returnsD [OF this] show ?thesis using assms by blast
qed

theorem poll_leaves_inventory_covered_witness:
  "covered (snd (poll demo_venue demo_long)) \<and> lg_quantity (sx_ledger (snd (poll demo_venue demo_long))) = 1"
  using poll_leaves_inventory_covered [of demo_venue demo_long "snd (poll demo_venue demo_long)"] demo_long_polls
  by (simp add: prod_eq_iff demo_long_def demo_flat_fields)

text \<open>
  A close of a running bracket that returns has its closure confirmed: the inventory of the
  ledger is exactly zero.
\<close>

theorem close_returns_flat:
  assumes "close env s = (Inr (), t)" "sx_terminal s = None"
  shows "lg_quantity (sx_ledger t) = 0"
  using returnsD [OF returns_close] assms by (auto simp: flat_def)

theorem close_returns_flat_witness:
  "lg_quantity (sx_ledger (snd (close demo_venue demo_flat))) = 0"
proof -
  have "fst (close demo_venue demo_flat) = Inr ()"
    by (simp add: close_def close_body_def cancel_everything_def close_settled_def report_eval demo_flat_fields
        demo_flat_ledger demo_venue_fields not_production venue_start_def)
  then show ?thesis
    using close_returns_flat [of demo_venue demo_flat "snd (close demo_venue demo_flat)"]
    by (simp add: prod_eq_iff demo_flat_fields)
qed

end
