(* ===== verification/Bracket_Ledger.thy ===== *)
theory Bracket_Ledger
  imports Bracket_Protection
begin

text \<open>
  The ledger of a bracket: it stays solvent, an event is counted once, and it is exactly the
  replay of its recorded events from the initial capital. The last is the abstract view of the
  ledger as an event-sourced account, on which restoring rests.
\<close>

section \<open>Applying one fill\<close>

definition ledger_sound :: "spot_ledger \<Rightarrow> bool" where
  "ledger_sound l \<longleftrightarrow> 0 \<le> lg_cash l \<and> 0 \<le> lg_quantity l \<and> distinct (dict_keys (lg_events l))
     \<and> (\<forall>(k, f) \<in> set (lg_events l). fl_event_id f = k)"

lemma ledger_apply_known:
  "map_of (lg_events l) (fl_event_id f) = Some g \<Longrightarrow> ledger_apply l f st = Inr (b, l') \<Longrightarrow>
     g = f \<and> \<not> b \<and> l' = l"
  by (auto simp: ledger_apply_def split: if_split_asm)

lemma movement_nonneg:
  assumes "(if entering then entry_movement else exit_movement) l q p bf qf = Inr mv" "0 \<le> lg_quantity l"
  shows "0 \<le> mv_quantity mv"
  using assms
  by (auto simp: entry_movement_def exit_movement_def Let_def dadd_def dsub_def dec.rnd_nonneg_iff
      split: if_split_asm)

lemma ledger_apply_new:
  assumes "map_of (lg_events l) (fl_event_id f) = None" "ledger_apply l f st = Inr (b, l')"
  shows "\<exists>m. b \<and> l' = record_event m f \<and> lg_events m = lg_events l \<and> lg_identity m = lg_identity l
    \<and> lg_capital m = lg_capital l \<and> (0 \<le> lg_cash l \<longrightarrow> 0 \<le> lg_cash m) \<and> (0 \<le> lg_quantity l \<longrightarrow> 0 \<le> lg_quantity m)"
proof -
  obtain q where q: "fill_guard l f = Inr ()" "fill_shape f = Inr ()" "decimal_or_zero (fl_quantity f) = Inr q"
    using assms by (auto simp: ledger_apply_def)
  show ?thesis
  proof (cases "q = 0")
    case True
    then show ?thesis using assms q by (auto simp: ledger_apply_def split: if_split_asm)
  next
    case False
    then obtain p fees mv where *: "(if fl_role f = ''entry'' then entry_movement else exit_movement) l q p
        (amount_of fees (si_base_asset (lg_identity l))) (amount_of fees (si_quote_asset (lg_identity l))) = Inr mv"
      "\<not> mv_cash mv < 0" "b" "l' = record_event (l\<lparr>lg_cash := mv_cash mv, lg_quantity := mv_quantity mv,
        lg_cost := mv_cost mv, lg_realized := dadd (lg_realized l) (mv_realized mv),
        lg_valued_fees := dadd (lg_valued_fees l) (dadd (dmul (amount_of fees (si_base_asset (lg_identity l))) p)
          (amount_of fees (si_quote_asset (lg_identity l)))), lg_fees := add_fees (lg_fees l) fees\<rparr>) f"
      using assms q by (auto simp: ledger_apply_def Let_def split: if_split_asm)
    then show ?thesis using movement_nonneg [OF *(1)] by auto
  qed
qed

lemma ledger_apply_sound:
  assumes "ledger_sound l" "ledger_apply l f st = Inr (b, l')"
  shows "ledger_sound l'"
proof (cases "map_of (lg_events l) (fl_event_id f)")
  case None
  then obtain m where "l' = record_event m f" "lg_events m = lg_events l" "0 \<le> lg_cash m" "0 \<le> lg_quantity m"
    using ledger_apply_new [OF _ assms(2)] assms(1) by (auto simp: ledger_sound_def)
  then show ?thesis
    using assms(1) None by (auto simp: ledger_sound_def record_event_def update_fresh map_of_eq_None_iff)
next
  case (Some g)
  then show ?thesis using ledger_apply_known assms by blast
qed

text \<open>The stop price is only checked.\<close>

lemma ledger_apply_stop: "ledger_apply l f st = Inr r \<Longrightarrow> ledger_apply l f (Some 0) = Inr r"
  by (auto simp: ledger_apply_def Let_def decimal_given_def decimal_value_def decimal_ok_def multiple_integral
      split: option.split_asm if_split_asm option.split)

section \<open>Replay\<close>

definition replay_step :: "spot_ledger \<Rightarrow> spot_fill \<Rightarrow> spot_ledger res" where
  "replay_step l f = bindE (ledger_apply l f (Some 0)) (\<lambda>(_, l'). Inr l')"

definition replay :: "spot_identity \<Rightarrow> rat \<Rightarrow> spot_fill list \<Rightarrow> spot_ledger res" where
  "replay i capital fs = bindE (new_ledger i capital) (\<lambda>l. foldE replay_step l fs)"

definition replayed :: "spot_ledger \<Rightarrow> bool" where
  "replayed l \<longleftrightarrow> replay (lg_identity l) (lg_capital l) (dict_values (lg_events l)) = Inr l"

interpretation sound: reducer replay_step ledger_sound
  by unfold_locales (auto simp: replay_step_def intro: ledger_apply_sound)

lemma replayed_new: "new_ledger i c = Inr l \<Longrightarrow> replayed l \<and> ledger_sound l"
  by (auto simp: replayed_def replay_def new_ledger_def decimal_positive_def ledger_sound_def decimal_ok_def
      split: if_split_asm)

lemma ledger_apply_replayed:
  assumes "replayed l" "ledger_apply l f st = Inr (b, l')"
  shows "replayed l'"
proof (cases "map_of (lg_events l) (fl_event_id f)")
  case None
  then obtain m where m: "l' = record_event m f" "lg_events m = lg_events l" "lg_identity m = lg_identity l"
      "lg_capital m = lg_capital l"
    using ledger_apply_new [OF _ assms(2)] by blast
  have "replay_step l f = Inr l'" using ledger_apply_stop [OF assms(2)] by (simp add: replay_step_def)
  then show ?thesis
    using assms(1) m None
    by (auto simp: replayed_def replay_def record_event_def update_fresh foldE_append bindE_def split: sum.splits)
next
  case (Some g)
  then show ?thesis using ledger_apply_known assms by blast
qed

section \<open>The ledger of a reachable bracket\<close>

definition ledger_kept :: "'w bracket \<Rightarrow> 'w bracket \<Rightarrow> bool" where
  "ledger_kept s t \<longleftrightarrow> (ledger_sound (sx_ledger s) \<longrightarrow> ledger_sound (sx_ledger t))
     \<and> (replayed (sx_ledger s) \<longrightarrow> replayed (sx_ledger t))
     \<and> lg_identity (sx_ledger t) = lg_identity (sx_ledger s) \<and> lg_capital (sx_ledger t) = lg_capital (sx_ledger s)"

lemma ledger_apply_frame:
  "ledger_apply l f st = Inr (b, l') \<Longrightarrow> lg_identity l' = lg_identity l \<and> lg_capital l' = lg_capital l"
  using ledger_apply_known [of l f] ledger_apply_new [of l f]
  by (cases "map_of (lg_events l) (fl_event_id f)") (fastforce simp: record_event_def)+

interpretation accounting: hosting ledger_kept
  by unfold_locales
     (auto simp: ledger_kept_def quiet_def dest: ledger_apply_frame intro: ledger_apply_sound ledger_apply_replayed)

text \<open>Recorded events are never changed, dropped or reordered.\<close>

definition events_kept :: "'w bracket \<Rightarrow> 'w bracket \<Rightarrow> bool" where
  "events_kept s t \<longleftrightarrow> (\<exists>new. lg_events (sx_ledger t) = lg_events (sx_ledger s) @ new)"

lemma ledger_apply_events:
  "ledger_apply l f st = Inr (b, l') \<Longrightarrow> \<exists>new. lg_events l' = lg_events l @ new"
  using ledger_apply_known [of l f] ledger_apply_new [of l f]
  by (cases "map_of (lg_events l) (fl_event_id f)") (fastforce simp: record_event_def update_fresh)+

interpretation history: hosting events_kept
proof
  show "events_kept s t \<Longrightarrow> events_kept t u \<Longrightarrow> events_kept s u" for s t u :: "'w bracket"
    by (auto simp: events_kept_def)
  show "ledger_apply (sx_ledger s) f stop = Inr (b, l) \<Longrightarrow> events_kept s (s\<lparr>sx_ledger := l\<rparr>)"
    for s :: "'w bracket" and f stop b l
    using ledger_apply_events by (simp add: events_kept_def)
qed (auto simp: events_kept_def quiet_def)

lemma new_bracket_ledger:
  assumes "new_bracket env w session_id i capital binding = Inr s"
  shows "new_ledger i capital = Inr (sx_ledger s)" "sx_intents s = []" "sx_protection s = None"
    "config s = (session_id, i, binding, sx_context s, sx_id_namespace s)" "lg_identity (sx_ledger s) = i"
    "lg_capital (sx_ledger s) = capital" "decimal_value capital = Inr capital" "lg_events (sx_ledger s) = []"
  using assms
  by (auto simp: new_bracket_def bindE_eq_Inr Let_def config_def new_ledger_def decimal_positive_def decimal_value_def
      split: if_split_asm)

section \<open>Properties\<close>

text \<open>
  C21: In every state that a new bracket reaches, whatever fills the venue reports, the confirmed
  cash and the confirmed inventory are nonnegative, and the recorded events carry distinct
  identities.
\<close>

theorem bracket_ledger_solvent:
  assumes "new_bracket env w session_id i capital binding = Inr s" "(bracket_step env)\<^sup>*\<^sup>* s t"
  shows "0 \<le> lg_cash (sx_ledger t) \<and> 0 \<le> lg_quantity (sx_ledger t)
    \<and> distinct (dict_keys (lg_events (sx_ledger t)))"
  using accounting.run_keeps [OF assms(2)] replayed_new [OF new_bracket_ledger(1) [OF assms(1)]]
  by (auto simp: ledger_kept_def ledger_sound_def)

theorem bracket_ledger_solvent_witness:
  "0 \<le> lg_cash (sx_ledger (snd (submit demo_venue demo_entry demo_flat)))"
  using bracket_ledger_solvent [OF demo_flat_new r_into_rtranclp [of "bracket_step demo_venue",
      OF step_submit [of _ _ demo_entry]]] by simp

text \<open>
  C22: The ledger of a reachable bracket refines its event history: cash, inventory, cost, profit
  and fees are exactly what replaying the recorded events, in order and from the initial capital,
  gives; and no call ever changes, drops or reorders a recorded event.
\<close>

theorem bracket_ledger_replayed:
  assumes "new_bracket env w session_id i capital binding = Inr s0"
    and "(bracket_step env)\<^sup>*\<^sup>* s0 s" "(bracket_step env)\<^sup>*\<^sup>* s t"
  shows "replay i capital (dict_values (lg_events (sx_ledger t))) = Inr (sx_ledger t)
    \<and> (\<exists>new. lg_events (sx_ledger t) = lg_events (sx_ledger s) @ new)"
proof -
  have "ledger_kept s0 t" using accounting.run_keeps assms(2,3) rtranclp_trans by metis
  then have "replayed (sx_ledger t)" "lg_identity (sx_ledger t) = i" "lg_capital (sx_ledger t) = capital"
    using replayed_new [OF new_bracket_ledger(1) [OF assms(1)]] new_bracket_ledger [OF assms(1)]
    by (auto simp: ledger_kept_def)
  then show ?thesis using history.run_keeps [OF assms(3)] by (auto simp: replayed_def events_kept_def)
qed

theorem bracket_ledger_replayed_witness:
  "replay demo_identity 100 (dict_values (lg_events (sx_ledger (snd (poll demo_venue demo_flat)))))
     = Inr (sx_ledger (snd (poll demo_venue demo_flat)))"
  using bracket_ledger_replayed [OF demo_flat_new rtranclp.rtrancl_refl r_into_rtranclp [of "bracket_step demo_venue",
      OF step_poll]] by simp

end
