(* ===== verification/Bracket_Restore.thy ===== *)
theory Bracket_Restore
  imports Bracket_Ledger
begin

text \<open>
  Restoring: an exported state, loaded into a fresh bracket of the same session, rebuilds the
  ledger and the known orders, and the restored bracket is halted until a fresh reconciliation.
\<close>

section \<open>Known orders\<close>








section \<open>Replaying the fills\<close>

text \<open>What \<open>restore\<close> checks of each fill.\<close>

definition fill_restorable :: "'w bracket \<Rightarrow> spot_fill \<Rightarrow> bool" where
  "fill_restorable s f \<longleftrightarrow>
     context_check s (md_spot_context (fl_metadata f)) = Inr ()
     \<and> known_role s (fl_client_order_id f) = Some (fl_role f) \<and> fl_session_id f = sx_session_id s
     \<and> (fl_role f = ''entry'' \<longrightarrow>
          (\<exists>i p. map_of (sx_intents s) (fl_client_order_id f) = Some i \<and> decimal_given (oi_stop_price i) = Inr p))"




lemma fill_restorable_cong:
  assumes "config s = config t" "sx_intents s = sx_intents t" "sx_protection_intents s = sx_protection_intents t"
  shows "fill_restorable s = fill_restorable t"
proof
  fix f
  have "known_role s = known_role t" using assms by (intro ext) (simp add: known_role_def split: option.split)
  then show "fill_restorable s f = fill_restorable t f"
    using assms by (simp add: fill_restorable_def context_check_def production_def config_def)
qed

lemma fill_restorable_ledger [simp]: "fill_restorable (s\<lparr>sx_ledger := l\<rparr>) = fill_restorable s"
  by (rule fill_restorable_cong) (simp_all add: config_def)


section \<open>Round trip\<close>








end
