(* ===== verification/Bracket_Disposal.thy ===== *)
theory Bracket_Disposal
  imports Bracket_Ledger
begin

text \<open>
  The bounded disposal of a remainder: whatever the host, the venue and the record sink do, a
  disposal sends at most one exit, reserved beforehand and within every ceiling that the host
  granted.
\<close>

section \<open>One reserved exit\<close>









section \<open>What precedes the exit\<close>










section \<open>A granted disposal\<close>








section \<open>Properties\<close>



end
