(* ===== verification/Paper_Journal.thy ===== *)
theory Paper_Journal
  imports Spot_Paper
begin

text \<open>
  What the paper session keeps. Its state only changes by \<open>persist\<close>, and \<open>successor\<close> says to what;
  the locale \<open>paper_contract\<close> says what a relation must satisfy for that, and its rules follow
  every method of the session.
  Two instances: the journal is a hash chain of which the current state is the end, and a
  session whose sink has failed is frozen.
\<close>

section \<open>Methods\<close>

inductive paper_step :: "'g env \<Rightarrow> 'g session \<Rightarrow> 'g session \<Rightarrow> bool" for env where
  candle_step: "paper_step env p (snd (on_candle env c p))"
| command_step: "paper_step env p (snd (command env d p))"
| finish_step: "paper_step env p (snd (finish env policy p))"

text \<open>A new session holds an initial state and an empty journal.\<close>

lemma create_spot_sessionE:
  assumes "create_spot_session H b r i pol = Inr s"
  obtains b' r' n pol' where "validate_instrument i = Inr n" "s = initial_state b' r' n pol'"
  using assms by (auto simp: create_spot_session_def simp del: initial_state_def split: if_splits)

lemma new_sessionE:
  assumes "new_session env g ok graph_sha256 recipes b i pol = Inr p"
  obtains b' r n pol' where "validate_instrument i = Inr n" "ps_state p = initial_state b' r n pol'" "ps_journal p = []"
proof (cases recipes)
  case (Cons r rest)
  then obtain b' where "create_spot_session (en_digest env) b' r i pol = Inr (ps_state p)" "ps_journal p = []"
    using assms by (cases rest) (auto simp: new_session_def split: if_splits)
  then show thesis using that by (elim create_spot_sessionE) blast
qed (use assms in \<open>auto simp: new_session_def split: if_splits\<close>)

text \<open>The states that a session makes current after a state, whatever method it is in.\<close>

inductive successor :: "digest \<Rightarrow> spot_state \<Rightarrow> spot_state \<Rightarrow> bool" for H where
  pending: "successor H s (s\<lparr>ss_pending_observation := ob\<rparr>)"
| advanced: "advance_spot H s ob = Inr t \<Longrightarrow> successor H s ((tr_state t)\<lparr>ss_pending_observation := None\<rparr>)"
| allocated: "add_liquidity s q = Inr s' \<Longrightarrow> successor H s s'"
| stop_consumed: "successor H s (s\<lparr>ss_stop_reference_bar := Some (ss_bar_index s)\<rparr>)"
| received: "receive_candle s c = Inr s' \<Longrightarrow> successor H s s'"
| bar_closed: "close_bar s x t = Inr s' \<Longrightarrow> successor H s s'"
| ended: "successor H s (s\<lparr>ss_finished := True\<rparr>)"

locale paper_contract = stable R for R :: "'g session \<Rightarrow> 'g session \<Rightarrow> bool" +
  fixes env :: "'g env"
  assumes persisted: "successor (en_digest env) (ps_state p) c \<Longrightarrow> R p (snd (persist env c kind p))"
    and aside: "ps_state q = ps_state p \<Longrightarrow> ps_journal q = ps_journal p \<Longrightarrow> (ps_failed p \<Longrightarrow> ps_failed q) \<Longrightarrow> R p q"
begin

lemma keeps_read: "keeps R stateP" "keeps R (lookupP k)" "keeps R (\<lambda>p. (g p, p))"
  unfolding stateP_def lookupP_def by (intro keeps_rules | simp add: keeps_def stable_refl)+

lemma keeps_aside: "keeps R (run_strategy env t)" "keeps R (set_timestamp t)"
  by (auto simp: keeps_def run_strategy_def set_timestamp_def split: sum.split intro!: aside)

lemma keeps_update: "(\<And>s. successor (en_digest env) s (f s)) \<Longrightarrow> keeps R (update_state env f kind)"
  by (auto simp: keeps_def update_state_def stateP_def effect_defs intro: persisted)

text \<open>A successor computed from the current state and persisted at once.\<close>

lemma keeps_computed:
  assumes "\<And>s s'. g s = Inr s' \<Longrightarrow> successor (en_digest env) s s'"
  shows "keeps R (bindP stateP (\<lambda>s. bindP (liftP (g s)) (\<lambda>s'. persist env s' kind)))"
  using assms by (auto simp: keeps_def stateP_def effect_defs stable_refl intro: persisted split: sum.split)

lemma keeps_advance: "keeps R (bindP (advanceP env ob) (\<lambda>s'. persist env (s'\<lparr>ss_pending_observation := None\<rparr>) kind))"
  by (auto simp: keeps_def advanceP_def bindP_def split: sum.split intro!: aside persisted advanced)

lemma bind_lifted: "bindP (liftP g) f p = (case g of Inl e \<Rightarrow> (Inl e, p) | Inr x \<Rightarrow> f x p)"
  by (simp add: bindP_def liftP_def split: sum.split)

lemma bind_timestamp: "bindP (set_timestamp t) f p = f () (p\<lparr>ps_timestamp := t\<rparr>)"
  by (simp add: bindP_def set_timestamp_def)

lemmas session_rules = keeps_rules keeps_read keeps_aside

lemma keeps_observe: "keeps R (observe env payload)"
proof (rule keepsI)
  fix p
  have "keeps R (bindP (liftP v) (\<lambda>ob.
     bindP (update_state env (\<lambda>s. s\<lparr>ss_pending_observation := Some ob\<rparr>) ''observation_received'') (\<lambda>_.
     bindP (advanceP env ob) (\<lambda>s'. persist env (s'\<lparr>ss_pending_observation := None\<rparr>) (kind_text payload)))))" for v
    by (intro session_rules keeps_update keeps_advance pending)
  then show "R p (snd (observe env payload p))" by (simp add: observe_def keeps_def)
qed

lemma keeps_status: "keeps R (status_execution env r st)"
proof (rule keepsI)
  fix p
  have "keeps R (bindP (liftP v) (execution env))" for v
    unfolding execution_def by (intro session_rules keeps_observe)
  then show "R p (snd (status_execution env r st p))" by (simp add: status_execution_def keeps_def)
qed

lemma keeps_drain: "keeps R (drain env)"
proof -
  have "keeps R (drain_loop env n)" for n
  proof (induction n)
    case (Suc n)
    have "keeps R (drain_step env)"
      unfolding drain_step_def by (intro session_rules keeps_status keeps_observe)
    then show ?case using Suc by (simp add: keeps_bind keeps_pure)
  qed (simp add: keeps_pure)
  then show ?thesis by (simp add: drain_def)
qed

lemma keeps_price: "keeps R (price env x phase)"
  unfolding price_def by (intro session_rules keeps_observe keeps_drain)

lemma keeps_match: "keeps R (match env key reference at_open)"
  unfolding match_def execution_def
  by (intro session_rules keeps_observe keeps_drain keeps_computed allocated)

lemma keeps_sell_at: "keeps R (sell_at env reference at_open old)"
  unfolding sell_at_def Let_def by (intro session_rules keeps_match keeps_update stop_consumed)

lemma keeps_buy_pass: "keeps R (buy_pass env reference at_open rs)"
proof (induction rs)
  case (Cons r rs)
  show ?case unfolding buy_pass.simps by (intro session_rules keeps_match Cons)
qed (simp add: keeps_pure)

lemma keeps_point: "keeps R (point env depth reference phase at_open)"
proof (induction depth arbitrary: at_open)
  case (Suc depth)
  show ?case unfolding point.simps Let_def
    by (intro session_rules keeps_price keeps_sell_at keeps_buy_pass Suc)
qed (simp add: keeps_pure)

lemma keeps_leg: "keeps R (leg env bound start end_price phase)"
proof -
  have "keeps R (leg_loop env n d c e phase)" for n d c e
  proof (induction n arbitrary: c)
    case 0
    show ?case by (subst leg_loop.simps) (simp add: keeps_pure)
  next
    case (Suc n)
    show ?case by (subst leg_loop.simps, simp only: Let_def nat.case) (intro session_rules keeps_point Suc)
  qed
  then show ?thesis by (simp add: leg_def)
qed

lemma keeps_play_candle: "keeps R (play_candle env c)"
  unfolding play_candle_def expire_order_def
  by (intro session_rules keeps_status keeps_drain keeps_point keeps_leg keeps_price)

lemma keeps_decide_bar: "keeps R (decide_bar env c t)"
  unfolding decide_bar_def by (intro session_rules keeps_observe keeps_drain keeps_computed bar_closed)

lemma keeps_received:
  assumes "receive_candle (ps_state p) c = Inr s1" "\<And>x. keeps R (rest x)"
  shows "R p (snd (bindP (persist env s1 kind) rest (p\<lparr>ps_timestamp := t\<rparr>)))"
proof -
  let ?p = "p\<lparr>ps_timestamp := t\<rparr>"
  have persisted: "R ?p (snd (persist env s1 kind ?p))" using assms(1) by (intro persisted received) simp
  have "R ?p (snd (bindP (persist env s1 kind) rest ?p))"
  proof (cases "persist env s1 kind ?p")
    case (Pair r q)
    show ?thesis
    proof (cases r)
      case (Inl e)
      then show ?thesis using persisted Pair by (simp add: bindP_def)
    next
      case (Inr x)
      have "R q (snd (rest x q))" using assms(2) by (simp add: keeps_def)
      then show ?thesis using persisted Pair Inr stable_trans by (simp add: bindP_def)
    qed
  qed
  moreover have "R p ?p" by (simp add: aside)
  ultimately show ?thesis using stable_trans by blast
qed

lemma keeps_on_candle: "keeps R (on_candle env c)"
proof (rule keepsI)
  fix p
  have rest: "keeps R (bindP (play_candle env c) (\<lambda>_. decide_bar env c u))" for u
    by (intro session_rules keeps_play_candle keeps_decide_bar)
  then show "R p (snd (on_candle env c p))"
    by (auto simp: on_candle_def bind_lifted bind_timestamp returnP_def stable_refl
        split: sum.split intro: keeps_received aside)
qed

lemma keeps_command: "keeps R (command env c)"
  unfolding command_def by (intro session_rules keeps_observe keeps_drain)

lemma keeps_finish: "keeps R (finish env policy)"
  unfolding finish_def finish_order_def Let_def
  by (intro session_rules keeps_command keeps_match keeps_update ended)

lemma step_keeps: "paper_step env p q \<Longrightarrow> R p q"
  by (induction rule: paper_step.induct)
     (simp_all add: keeps_on_candle [unfolded keeps_def] keeps_command [unfolded keeps_def] keeps_finish [unfolded keeps_def])

lemma run_keeps: "(paper_step env)\<^sup>*\<^sup>* p q \<Longrightarrow> R p q"
  by (induction rule: rtranclp_induct) (auto intro: stable_refl stable_trans step_keeps)

end

section \<open>The journal as a chain\<close>

text \<open>The state that a journal record stands for, and the end of a journal that continues a state.\<close>

definition recorded_state :: "journal_record \<times> string \<Rightarrow> spot_state" where
  "recorded_state x =
     (jr_state (fst x))\<lparr>ss_journal_sequence := jr_sequence (fst x), ss_journal_sha256 := Some (snd x)\<rparr>"

definition resume :: "spot_state \<Rightarrow> (journal_record \<times> string) list \<Rightarrow> spot_state" where
  "resume s xs = (if xs = [] then s else recorded_state (last xs))"

definition linked :: "digest \<Rightarrow> spot_state \<Rightarrow> journal_record \<times> string \<Rightarrow> bool" where
  "linked H s x \<longleftrightarrow> snd x = H (CRecord (fst x)) \<and> jr_sequence (fst x) = ss_journal_sequence s + 1
     \<and> jr_previous_sha256 (fst x) = ss_journal_sha256 s \<and> jr_state_sha256 (fst x) = H (CState (jr_state (fst x)))"

fun chained :: "digest \<Rightarrow> spot_state \<Rightarrow> (journal_record \<times> string) list \<Rightarrow> bool" where
  "chained H s [] = True"
| "chained H s (x # xs) \<longleftrightarrow> linked H s x \<and> chained H (recorded_state x) xs"

lemma resume_append: "resume s (xs @ ys) = resume (resume s xs) ys"
  by (simp add: resume_def)

lemma resume_Cons: "resume s (x # xs) = resume (recorded_state x) xs"
  by (simp add: resume_def)

lemma chained_append: "chained H s (xs @ ys) \<longleftrightarrow> chained H s xs \<and> chained H (resume s xs) ys"
  by (induction xs arbitrary: s) (simp_all add: resume_Cons resume_def [of _ "[]"])

definition journaled :: "digest \<Rightarrow> 'g session \<Rightarrow> 'g session \<Rightarrow> bool" where
  "journaled H p q \<longleftrightarrow> (\<exists>new. ps_journal q = ps_journal p @ new \<and> chained H (ps_state p) new
     \<and> ps_state q = resume (ps_state p) new)"

lemma journaled_one:
  assumes "ps_journal q = ps_journal p @ [x]" "linked H (ps_state p) x" "ps_state q = recorded_state x"
  shows "journaled H p q"
  unfolding journaled_def using assms by (intro exI [of _ "[x]"]) (simp add: resume_def)

lemma persist_journaled: "journaled (en_digest env) p (snd (persist env candidate kind p))"
proof (cases "ps_failed p")
  case False
  let ?r = "journal_entry (en_digest env) (ps_state p) candidate kind"
  let ?sha = "en_digest env (CRecord ?r)"
  show ?thesis
  proof (cases "en_sink env ?r ?sha")
    case None
    then have q: "snd (persist env candidate kind p) = p\<lparr>ps_state := candidate\<lparr>ss_journal_sequence := jr_sequence ?r,
          ss_journal_sha256 := Some ?sha\<rparr>, ps_fresh := False, ps_journal := ps_journal p @ [(?r, ?sha)]\<rparr>"
      using False by (simp add: persist_def Let_def)
    show ?thesis
      by (rule journaled_one [of _ _ "(?r, ?sha)"])
         (simp_all add: q linked_def recorded_state_def journal_entry_def export_spot_state_def)
  next
    case (Some e)
    then show ?thesis using False by (simp add: persist_def Let_def journaled_def resume_def)
  qed
qed (simp add: persist_def journaled_def resume_def)

interpretation chain: paper_contract "journaled (en_digest env)" env for env :: "'g env"
proof
  fix p q u :: "'g session"
  show "journaled (en_digest env) p p" by (simp add: journaled_def resume_def)
  show "journaled (en_digest env) p q \<Longrightarrow> journaled (en_digest env) q u \<Longrightarrow> journaled (en_digest env) p u"
    by (auto simp: journaled_def chained_append resume_append)
  show "ps_state q = ps_state p \<Longrightarrow> ps_journal q = ps_journal p \<Longrightarrow> (ps_failed p \<Longrightarrow> ps_failed q) \<Longrightarrow>
      journaled (en_digest env) p q"
    by (simp add: journaled_def resume_def)
qed (rule persist_journaled)

section \<open>A failed sink\<close>

definition frozen :: "'g session \<Rightarrow> 'g session \<Rightarrow> bool" where
  "frozen p q \<longleftrightarrow> (ps_failed p \<longrightarrow> ps_failed q \<and> ps_state q = ps_state p \<and> ps_journal q = ps_journal p)"

interpretation freeze: paper_contract frozen env for env :: "'g env"
  by unfold_locales (auto simp: frozen_def persist_def)

section \<open>Replaying the journal\<close>

text \<open>A state that the recovery accepts as it is.\<close>

definition acceptable :: "digest \<Rightarrow> spot_binding \<Rightarrow> spot_state \<Rightarrow> bool" where
  "acceptable H b s \<longleftrightarrow> restore_spot_state H (export_spot_state H s) b = Inr s"

lemma replay_linked:
  assumes "linked H s x" "acceptable H b (jr_state (fst x))"
  shows "replay_record H b s x = Inr (recorded_state x)"
  using assms
  by (simp add: replay_record_def linked_def recorded_state_def acceptable_def export_spot_state_def split_beta)

lemma replay_chained:
  assumes "chained H s xs" "\<forall>x \<in> set xs. acceptable H b (jr_state (fst x))"
  shows "foldE (replay_record H b) s xs = Inr (resume s xs)"
  using assms
proof (induction xs arbitrary: s)
  case (Cons x xs)
  then have "replay_record H b s x = Inr (recorded_state x)" by (intro replay_linked) simp_all
  then show ?case using Cons by (simp add: resume_Cons)
qed (simp add: resume_def)

text \<open>The records of a chain are numbered and name their predecessor.\<close>

lemma chained_nth:
  assumes "chained H s xs" "k < length xs"
  shows "linked H (resume s (take k xs)) (xs ! k)"
proof -
  have "chained H s (take k xs @ xs ! k # drop (Suc k) xs)"
    using assms by (simp add: id_take_nth_drop [symmetric])
  then show ?thesis by (simp add: chained_append)
qed

lemma resume_take:
  "chained H s xs \<Longrightarrow> k \<le> length xs \<Longrightarrow> ss_journal_sequence (resume s (take k xs)) = ss_journal_sequence s + int k"
proof (induction k)
  case (Suc k)
  then have "linked H (resume s (take k xs)) (xs ! k)" by (intro chained_nth) simp_all
  then show ?case using Suc
    by (simp add: take_Suc_conv_app_nth resume_append resume_Cons linked_def recorded_state_def resume_def [of _ "[]"])
qed (simp add: resume_def)

end
