(* ===== verification/Demo_Paper.thy ===== *)
theory Demo_Paper
  imports Paper_Journal Demo_Basket
begin

text \<open>
  A concrete paper session on which the properties of the journal are applied: the BTCUSDT session
  before its first candle, a sink that accepts every record, and the command that stops it.
\<close>

definition demo_env :: "unit env" where
  "demo_env = \<lparr> en_digest = demo_digest, en_sink = (\<lambda>r h. None), en_on_bar = (\<lambda>g s t. Inr (g, None)) \<rparr>"

definition demo_paper :: "unit session" where
  "demo_paper = \<lparr> ps_state = demo_state, ps_failed = False, ps_timestamp = 0, ps_fresh = True, ps_strategy = (),
     ps_journal = [] \<rparr>"

definition demo_hold :: spot_command where
  "demo_hold = \<lparr> cm_command_id = ''c'', cm_action = Some StopAndHold, cm_reason = None \<rparr>"

definition demo_stopped :: "unit session" where
  "demo_stopped = snd (command demo_env demo_hold demo_paper)"

lemma demo_env_fields: "en_digest demo_env = demo_digest" "en_sink demo_env r h = None"
  by (simp_all add: demo_env_def)

lemma demo_paper_fields:
  "ps_state demo_paper = demo_state" "ps_failed demo_paper = False" "ps_fresh demo_paper = True"
  "ps_journal demo_paper = []" "ps_timestamp demo_paper = 0"
  by (simp_all add: demo_paper_def)

section \<open>The session is accepted\<close>

text \<open>Field values with at most eighteen decimals.\<close>

lemma input_grid: "multiple_of_10_powi 18 x \<Longrightarrow> 0 \<le> x \<Longrightarrow> x \<le> 10 ^ 18 \<Longrightarrow> input_number_ok x"
proof -
  assume x: "multiple_of_10_powi 18 x" "0 \<le> x" "x \<le> 10 ^ 18"
  moreover have "(10 :: rat) ^ 18 \<le> 10 ^ 36" by (rule power_increasing) simp_all
  ultimately show "input_number_ok x" unfolding input_number_ok_def by (intro conjI number_okI) auto
qed

lemma positive_grid: "multiple_of_10_powi 18 x \<Longrightarrow> 0 < x \<Longrightarrow> x \<le> 10 ^ 18 \<Longrightarrow> positive_ok x"
  by (simp add: positive_ok_def input_grid del: power_numeral)

lemmas model_checks = id_ok_def count_ok_def opt_ok_def positive_grid input_grid

lemma demo_sha_hex: "hex64_ok demo_sha"
  by (simp add: hex64_ok_def demo_sha_def list_all_iff)

lemma demo_binding_valid: "validate_binding demo_binding = Inr demo_binding"
  by (simp add: validate_binding_def demo_binding_def binding_fields_ok_def demo_sha_hex
      timeframe_ms_def timeframe_table_def model_checks)

lemma demo_instrument_valid: "validate_instrument demo_instrument = Inr demo_instrument"
  by (simp add: validate_instrument_def demo_instrument_def instrument_fields_ok_def model_checks)

lemma demo_policy_valid: "validate_policy demo_policy = Inr demo_policy"
  by (simp add: validate_policy_def demo_policy_def model_checks)

lemma demo_created:
  "create_spot_session demo_digest demo_binding (Dca demo_dca) demo_instrument demo_policy = Inr demo_state"
proof -
  have "validate_recipe (Dca demo_dca) = Inr (Dca demo_dca)" by (simp add: demo_dca_valid)
  moreover have "bd_policy_sha256 demo_binding = demo_sha" "bd_instrument_sha256 demo_binding = demo_sha"
    "bd_initial_quote_cash demo_binding = 2000" "in_symbol demo_instrument = ''BTCUSDT''"
    "in_base_asset demo_instrument = ''BTC''" "in_quote_asset demo_instrument = ''USDT''"
    by (simp_all add: demo_binding_def demo_instrument_def)
  moreover have "fee_caps_check demo_binding demo_policy = Inr ()"
    by (simp add: fee_caps_check_def demo_binding_def demo_policy_def)
  moreover have "recipe_check demo_instrument demo_policy (Dca demo_dca) = Inr ()"
    by (simp add: recipe_check_def dca_maximum_def eval) (simp add: demo_dca_def eval)
  moreover have "recipe_budget (Dca demo_dca) = 1000" by (simp add: recipe_budget_def demo_dca_def)
  ultimately show ?thesis
    by (simp add: create_spot_session_def demo_binding_valid demo_instrument_valid demo_policy_valid
        demo_digest_def demo_config demo_state_def)
qed

lemma demo_acceptable:
  assumes "ss_binding s = demo_binding" "ss_recipe s = Dca demo_dca" "ss_instrument s = demo_instrument"
    "ss_policy s = demo_policy" "ss_orders s = []" "ss_events s = []" "ss_buffered_events s = []"
    "ss_event_sequence s = 0" "ss_reconciliation_revision s = 0" "ss_mark s = None"
    "ss_liquidity_used s = 0" "ss_liquidity_allowance s = 0" "ss_maximum_drawdown s = 0" "ss_peak_equity s = 2000"
    "ss_account s = (initial_account 2000 1000 10)\<lparr>ac_cleanup_reserve := r\<rparr>" "r \<in> {0, 10}"
    "count_ok (ss_observation_sequence s)" "count_ok (ss_journal_sequence s)" "ss_price_crossing_index s = 0"
  shows "acceptable demo_digest demo_binding s"
proof -
  have "state_fields_ok s"
    using assms by (auto simp: state_fields_ok_def account_fields_ok_def initial_account_def count_ok_def opt_ok_def
        nonneg_ok_def)
  moreover have "restore_checks s = Inr ()"
    using assms by (auto simp: restore_checks_def eval)
  ultimately show ?thesis
    using assms by (simp add: acceptable_def restore_spot_state_def export_spot_state_def demo_binding_valid demo_created)
qed

section \<open>The command that stops it\<close>

definition demo_ob :: spot_observation where
  "demo_ob = next_observation demo_paper (Command demo_hold)"

definition demo_received :: spot_state where
  "demo_received = demo_state\<lparr>ss_pending_observation := Some demo_ob\<rparr>"

definition demo_seen :: spot_state where
  "demo_seen = demo_received\<lparr>ss_journal_sequence := 1, ss_journal_sha256 := Some demo_sha\<rparr>"

definition demo_held :: spot_state where
  "demo_held = demo_seen\<lparr>ss_observations := [(ob_observation_id demo_ob, demo_sha)], ss_observation_sequence := 1,
     ss_commands := [(''c'', demo_hold)], ss_trace := [TrCommand demo_hold],
     ss_controller := initial_controller\<lparr>ct_phase := StoppedHolding, ct_terminal_command_id := Some ''c'',
       ct_terminal_action := Some StopAndHold, ct_terminal_reason := Some ''manual''\<rparr>,
     ss_account := (initial_account 2000 1000 10)\<lparr>ac_cleanup_reserve := 0\<rparr>\<rparr>"

lemma demo_ob_id: "ob_observation_id demo_ob = ''paper-o1''"
proof -
  have "int_text 1 = ''1''" by code_simp
  then show ?thesis by (simp add: demo_ob_def next_observation_def demo_paper_fields demo_state_fields Let_def)
qed

lemma demo_ob_fields: "ob_sequence demo_ob = 1" "ob_payload demo_ob = Command demo_hold" "ob_timestamp_ms demo_ob = 0"
  by (simp_all add: demo_ob_def next_observation_def demo_paper_fields demo_state_fields Let_def)

lemma demo_ob_valid: "validate_observation demo_ob = Inr demo_ob"
  by (simp add: validate_observation_def demo_ob_id demo_ob_fields id_ok_def count_ok_def)

lemma demo_advances: "\<exists>t. advance_spot demo_digest demo_seen demo_ob = Inr t \<and> tr_state t = demo_held"
proof -
  have s: "ss_commands demo_state = []" "ss_trace demo_state = []"
    by (simp_all add: demo_state_def initial_state_def)
  have "demo_digest (CObservation demo_ob) = demo_sha" by (simp add: demo_digest_def)
  with s show ?thesis
    by (simp add: advance_spot_def demo_ob_valid ingest_def accept_observation_def demo_held_def demo_seen_def
        demo_received_def demo_ob_fields observe_command_def demo_hold_def transition_def deciding adopt_decision_def
        route_decision_def eval)
qed

text \<open>Two records: the observation as received, and the state it led to.\<close>

definition demo_records :: "(journal_record \<times> string) list" where
  "demo_records =
     [(journal_entry demo_digest demo_state demo_received ''observation_received'', demo_sha),
      (journal_entry demo_digest demo_seen (demo_held\<lparr>ss_pending_observation := None\<rparr>) ''command'', demo_sha)]"

lemma demo_seen_fields:
  "ss_journal_sequence demo_seen = 1" "ss_journal_sha256 demo_seen = Some demo_sha" "ss_binding demo_seen = demo_binding"
  "ss_journal_sequence demo_state = 0" "ss_journal_sha256 demo_state = None"
  by (simp_all add: demo_seen_def demo_received_def demo_state_fields demo_state_def initial_state_def)

lemma demo_held_fields:
  "ss_orders demo_held = []" "ss_reconciliation_required demo_held = False" "ss_quarantine demo_held = []"
  by (simp_all add: demo_held_def demo_seen_def demo_received_def demo_state_fields)

lemma demo_drains: "ss_orders (ps_state p) = [] \<Longrightarrow> drain demo_env p = (Inr (), p)"
  by (simp add: drain_def numeral_eq_Suc drain_step_def stateP_def effect_defs find_status_def)

lemma demo_commands:
  "fst (command demo_env demo_hold demo_paper) = Inr ()" "ps_journal demo_stopped = demo_records"
  "ps_state demo_stopped = demo_held\<lparr>ss_pending_observation := None, ss_journal_sequence := 2,
     ss_journal_sha256 := Some demo_sha\<rparr>"
proof -
  obtain t where t: "advance_spot demo_digest demo_seen demo_ob = Inr t" "tr_state t = demo_held"
    using demo_advances by blast
  have d: "demo_digest x = demo_sha" for x by (simp add: demo_digest_def)
  let ?p1 = "demo_paper\<lparr>ps_state := demo_seen, ps_fresh := False, ps_journal := [hd demo_records]\<rparr>"
  let ?p2 = "demo_paper\<lparr>ps_state := demo_held\<lparr>ss_pending_observation := None, ss_journal_sequence := 2,
     ss_journal_sha256 := Some demo_sha\<rparr>, ps_fresh := False, ps_journal := demo_records\<rparr>"
  have "update_state demo_env (\<lambda>s. s\<lparr>ss_pending_observation := Some demo_ob\<rparr>) ''observation_received'' demo_paper = (Inr (), ?p1)"
    by (simp add: update_state_def stateP_def effect_defs persist_def demo_paper_fields demo_env_fields d Let_def
        demo_records_def demo_received_def demo_seen_def journal_entry_def demo_seen_fields)
  moreover have "advanceP demo_env demo_ob ?p1 = (Inr demo_held, ?p1)"
    by (simp add: advanceP_def demo_env_fields t)
  moreover have "persist demo_env (demo_held\<lparr>ss_pending_observation := None\<rparr>) ''command'' ?p1 = (Inr (), ?p2)"
    by (simp add: persist_def demo_env_fields demo_paper_fields d Let_def demo_records_def journal_entry_def demo_seen_fields)
  moreover have "next_observation demo_paper (Command demo_hold) = demo_ob" by (simp add: demo_ob_def)
  ultimately have "observe demo_env (Command demo_hold) demo_paper = (Inr (), ?p2)"
    by (simp add: observe_def bindP_def liftP_def demo_ob_valid)
  then have "command demo_env demo_hold demo_paper = (Inr (), ?p2)"
    using demo_drains [of ?p2] by (simp add: command_def bindP_def demo_held_fields)
  then show "fst (command demo_env demo_hold demo_paper) = Inr ()" "ps_journal demo_stopped = demo_records"
    "ps_state demo_stopped = demo_held\<lparr>ss_pending_observation := None, ss_journal_sequence := 2,
       ss_journal_sha256 := Some demo_sha\<rparr>"
    by (simp_all add: demo_stopped_def)
qed

lemma demo_records_acceptable:
  "acceptable demo_digest demo_binding demo_state"
  "\<forall>x \<in> set demo_records. acceptable demo_digest demo_binding (jr_state (fst x))"
proof -
  have f: "ss_liquidity_used demo_state = 0" "ss_liquidity_allowance demo_state = 0" "ss_maximum_drawdown demo_state = 0"
    "ss_peak_equity demo_state = 2000" "ss_price_crossing_index demo_state = 0"
    by (simp_all add: demo_state_def initial_state_def demo_binding_def or_else_def)
  then show "acceptable demo_digest demo_binding demo_state"
    by (intro demo_acceptable [where r = 10])
      (simp_all add: demo_state_fields demo_seen_fields initial_account_def count_ok_def)
  have "acceptable demo_digest demo_binding demo_received"
    using f by (intro demo_acceptable [where r = 10])
      (simp_all add: demo_received_def demo_state_fields demo_seen_fields initial_account_def count_ok_def)
  moreover have "acceptable demo_digest demo_binding (demo_held\<lparr>ss_pending_observation := None\<rparr>)"
    using f by (intro demo_acceptable [where r = 0])
      (simp_all add: demo_held_def demo_seen_def demo_received_def demo_state_fields demo_seen_fields initial_account_def
        count_ok_def)
  ultimately show "\<forall>x \<in> set demo_records. acceptable demo_digest demo_binding (jr_state (fst x))"
    by (simp add: demo_records_def journal_entry_def)
qed

lemma demo_starts:
  "new_session demo_env () True demo_sha [Dca demo_dca] demo_binding demo_instrument demo_policy = Inr demo_paper"
proof -
  have "bd_mode demo_binding = PaperMode" "bd_graph_sha256 demo_binding = demo_sha" by (simp_all add: demo_binding_def)
  then show ?thesis
    by (simp add: new_session_def demo_binding_valid demo_env_fields demo_created demo_paper_def)
qed

lemma demo_runs: "(paper_step demo_env)\<^sup>*\<^sup>* demo_paper demo_stopped"
  unfolding demo_stopped_def by (intro r_into_rtranclp command_step)

end
