(* ===== verification/Paper_Properties.thy ===== *)
theory Paper_Properties
  imports Demo_Paper
begin

text \<open>
  What the journal of the paper session is good for: it is a hash chain that ends in the current
  state, replaying it from a checkpoint rebuilds the state it led to, and a session whose sink or
  reducer has failed never moves again.
\<close>

section \<open>The journal\<close>






section \<open>Failures\<close>

text \<open>
  Once the journal sink or the reducer has raised, no method changes the state or the journal
  of the session any more, and candles and commands are refused.
\<close>

theorem failed_paper_frozen:
  assumes failed: "ps_failed p" and run: "(paper_step env)\<^sup>*\<^sup>* p q"
  shows "ps_failed q \<and> ps_state q = ps_state p \<and> ps_journal q = ps_journal p
    \<and> (\<exists>e. fst (on_candle env c q) = Inl e) \<and> (\<exists>e. fst (command env d q) = Inl e)"
proof -
  have "frozen p q" using run by (rule freeze.run_keeps)
  then have q: "ps_failed q" "ps_state q = ps_state p" "ps_journal q = ps_journal p" using failed by (auto simp: frozen_def)
  have "\<exists>e. fst (observe env (Command d) q) = Inl e"
    using q(1) by (auto simp: observe_def update_state_def stateP_def effect_defs persist_def split: sum.split)
  then have "\<exists>e. fst (command env d q) = Inl e"
    by (auto simp: command_def bindP_def split: prod.split sum.split)
  then show ?thesis using q by (simp add: on_candle_def)
qed

text \<open>A sink that refuses the very first record.\<close>

definition demo_refusing :: "unit env" where
  "demo_refusing = demo_env\<lparr>en_sink := (\<lambda>r h. Some (RuntimeError ''disk''))\<rparr>"

lemma demo_refused: "ps_failed (snd (command demo_refusing demo_hold demo_paper))"
proof -
  have "next_observation demo_paper (Command demo_hold) = demo_ob" by (simp add: demo_ob_def)
  then show ?thesis
    by (simp add: command_def observe_def bindP_def liftP_def demo_ob_valid update_state_def stateP_def getP_def
        persist_def demo_paper_fields demo_refusing_def Let_def)
qed

theorem failed_paper_frozen_witness:
  "\<exists>e. fst (command demo_refusing demo_hold (snd (finish demo_refusing None
     (snd (command demo_refusing demo_hold demo_paper))))) = Inl e"
  using failed_paper_frozen [OF demo_refused r_into_rtranclp [of "paper_step demo_refusing", OF finish_step]] by blast

end
