(* ===== verification/Price_Grid.thy ===== *)
theory Price_Grid
  imports Account_Admission Controller_Properties Spot_Execution
begin

text \<open>
  Every price a session works with lies on the tick of its instrument: the limits of its orders,
  which admission checks, and its protective stop, which the recipes round to the tick. This holds
  through every account operation, every decision and hence every observation.
\<close>

definition ticks :: "spot_instrument \<Rightarrow> rat \<Rightarrow> bool" where
  "ticks n x \<longleftrightarrow> (\<exists>m. x = of_int m * in_price_tick n)"

definition on_grid :: "spot_instrument \<Rightarrow> spot_state \<Rightarrow> bool" where
  "on_grid n s \<longleftrightarrow> positive_ok (in_price_tick n) \<and> ss_instrument s = n
     \<and> list_all (\<lambda>(k, i, closed). \<forall>p. it_limit_price i = Some p \<longrightarrow> ticks n p) (order_rows s)
     \<and> (\<forall>v. ct_stop (ss_controller s) = Some v \<longrightarrow> ticks n v)"

lemma on_grid_cong:
  assumes "order_rows s' = order_rows s" "ss_instrument s' = ss_instrument s"
    "ct_stop (ss_controller s') = ct_stop (ss_controller s)"
  shows "on_grid n s' = on_grid n s"
  using assms by (simp add: on_grid_def)

section \<open>Rounding to the tick\<close>

text \<open>A product that passes a field check fits into the 256 digits, so it was not rounded.\<close>

lemma exact_product:
  assumes "multiple_of_10_powi 18 t" "\<bar>dmul (of_int m) t\<bar> \<le> 10 ^ 100"
  shows "dmul (of_int m) t = of_int m * t"
proof -
  let ?x = "of_int m * t" and ?b = "(10 :: rat) ^ 101"
  have x: "multiple_of_10_powi 18 ?x" using multiple_mult [OF multiple_of_int [of 0] assms(1)] by simp
  have "(10 :: int) ^ 101 < 10 ^ 256" by (rule power_strict_increasing) simp_all
  then have "\<bar>(10 :: int) ^ 101\<bar> < 10 ^ 256" by (simp only: power_abs abs_numeral)
  from rnd_of_int [OF this] have b: "rnd ?b = ?b" "rnd (- ?b) = - ?b" by (simp_all only: of_int_power of_int_numeral dec.rnd_uminus)
  have lt: "(10 :: rat) ^ 100 < ?b" by (rule pow10_less) simp
  have "?x \<le> ?b" using dec.fixed_le_rnd [OF b(1), of ?x] assms(2) lt unfolding dmul_def by linarith
  moreover have "- ?b \<le> ?x" using dec.rnd_le_fixed [OF b(2), of ?x] assms(2) lt unfolding dmul_def by linarith
  ultimately have "\<bar>?x\<bar> \<le> ?b" by linarith
  then have "\<bar>?x\<bar> * 10 ^ 18 \<le> ?b * 10 ^ 18" by (rule mult_right_mono) simp
  also have "\<dots> = (10 :: rat) ^ 119" by (simp only: power_add [symmetric]) simp
  also have "\<dots> < 10 ^ 256" by (rule pow10_less) simp
  finally show ?thesis unfolding dmul_def by (rule rnd_exact [OF x])
qed

lemma ceil_step_ticks:
  assumes "positive_ok t" "ceil_step v t = Inr r" "nonneg_ok r"
  shows "\<exists>m. r = of_int m * t"
proof -
  have t: "multiple_of_10_powi 18 t" using assms(1) by (auto simp: positive_ok_def input_number_ok_def)
  obtain q :: rat where "dmul (of_int \<lceil>q\<rceil>) t = r"
    using assms(2) unfolding ceil_step_def by (simp only: bindE_eq_Inr sum.inject) blast
  moreover have "\<bar>r\<bar> \<le> 10 ^ 100" using assms(3) by (auto simp: nonneg_ok_def number_ok_def simp del: power_numeral)
  ultimately show ?thesis using exact_product [OF t] by metis
qed

section \<open>Account operations\<close>

lemma account_grid_cong:
  "on_grid n (s\<lparr>ss_buffered_events := bs\<rparr>) = on_grid n s" "on_grid n (s\<lparr>ss_replacements := reps\<rparr>) = on_grid n s"
  "on_grid n (s\<lparr>ss_account := a, ss_trace := t\<rparr>) = on_grid n s"
  by (rule on_grid_cong; simp add: order_rows_def)+

lemma submit_on_grid:
  assumes "on_grid n s" "submit_spot_order s i = Inr s'"
  shows "on_grid n s'"
  using assms(2)
proof (cases rule: submit_spot_order_cases)
  case (admitted c r)
  have r: "od_intent r = i" using reserveD(2) [OF admitted(8)] by (auto simp: new_order_def)
  have c: "ss_instrument s' = ss_instrument s" "ss_controller s' = ss_controller s"
    using reserveD(1) [OF admitted(8)] by (auto simp: admitted(9))
  have rows: "order_rows s' = order_rows s @ [(it_client_order_id i, i, od_terminal_reconciled r)]"
    by (simp add: admitted(9) order_rows_def r)
  have "\<forall>p. it_limit_price i = Some p \<longrightarrow> ticks (ss_instrument s) p"
    using evidence_okI [OF admitted(6,7)] by (auto simp: evidence_ok_def ticks_def)
  then show ?thesis using assms(1) by (simp add: on_grid_def c rows)
qed (use assms(1) in simp)

interpretation prices: account_invariant "on_grid n" for n
proof
  fix s s' :: spot_state and k cid g
  assume inv: "on_grid n s" and "cancel_spot_order s k cid g = Inr s'"
  from this(2) show "on_grid n s'"
  proof (cases rule: cancel_spot_order_cases)
    case (canceled r)
    have "order_rows s' = order_rows s"
      by (rule order_rows_update [OF canceled(1)]) (auto simp: canceled(3))
    then show ?thesis using inv on_grid_cong [of s' s] by (simp add: canceled(3))
  qed (use inv in simp)
next
  fix s s' :: spot_state and e
  assume inv: "on_grid n s" and step: "apply_spot_event s e = Inr s'"
  have "ct_stop (ss_controller s') = ct_stop (ss_controller s)"
    using step
  proof (cases rule: apply_spot_event_cases)
    case (committed r c r1)
    have "ct_stop (ss_controller c) = ct_stop (ss_controller s)" using committed_fillD(1) [OF committed(11,3)] by auto
    then show ?thesis by (simp add: committed(12))
  qed (auto simp: buffer_event_def split: if_splits)
  then show "on_grid n s'" using inv event_frame.step_view [OF step] on_grid_cong [of s' s] by simp
next
  fix s s' :: spot_state and v
  assume inv: "on_grid n s" and step: "apply_spot_fee_valuation s v = Inr s'"
  obtain vs t where "fee_frame s' = fee_frame (s\<lparr>ss_valuations := vs, ss_trace := t\<rparr>)"
    using fee_valuationD [OF step] by blast
  from fee_frameD(1) [OF this] have "ct_stop (ss_controller s') = ct_stop (ss_controller s)" by auto
  then show "on_grid n s'" using inv valuation_frame.step_view [OF step] on_grid_cong [of s' s]
    by (simp add: order_rows_def)
next
  fix s :: spot_state and x b r t
  assume "on_grid n s"
  then show "on_grid n (s\<lparr>ss_orders := map (\<lambda>(k, r). (k, reconciled r)) (ss_orders s),
      ss_controller := (ss_controller s)\<lparr>ct_refusal_reason := x\<rparr>,
      ss_reconciliation_required := False, ss_fee_reconciliation_required := b,
      ss_reconciliation_revision := r, ss_trace := t\<rparr>)"
    by (simp add: on_grid_def order_rows_def list.pred_map o_def case_prod_beta)
next
  fix s s' :: spot_state and i
  assume "on_grid n s" "submit_spot_order s i = Inr s'"
  then show "on_grid n s'" by (rule submit_on_grid)
qed (rule account_grid_cong)+

section \<open>Decisions\<close>

text \<open>The part of \<open>on_grid\<close> that the recipes see: the tick, the instrument and the stop.\<close>

definition stop_on_grid :: "spot_instrument \<Rightarrow> spot_state \<Rightarrow> bool" where
  "stop_on_grid n s \<longleftrightarrow> positive_ok (in_price_tick n) \<and> ss_instrument s = n
     \<and> (\<forall>v. snd (cycle_stop s) = Some v \<longrightarrow> ticks n v)"

lemma on_grid_stop: "on_grid n s \<Longrightarrow> stop_on_grid n s"
  by (simp add: on_grid_def stop_on_grid_def cycle_stop_def)

lemma stop_on_grid_frame:
  "stop_on_grid n s \<Longrightarrow> terminal_frame s' = terminal_frame s \<Longrightarrow> stop_on_grid n s'"
  by (simp add: stop_on_grid_def terminal_frame_stop(5) [of s' s] terminal_frame_cycle_stop [of s' s])

text \<open>What a decision leaves of the stop: it is still on the tick.\<close>

definition stop_ticks :: "spot_instrument \<Rightarrow> spot_state \<Rightarrow> bool" where
  "stop_ticks n s \<longleftrightarrow> (\<forall>v. snd (cycle_stop s) = Some v \<longrightarrow> ticks n v)"

lemma stop_ticks_kept: "stop_on_grid n s \<Longrightarrow> cycle_stop s' = cycle_stop s \<Longrightarrow> stop_ticks n s'"
  by (simp add: stop_on_grid_def stop_ticks_def)

lemma raise_stop_ticks:
  assumes "stop_on_grid n s" "ceil_step v (in_price_tick (ss_instrument s)) = Inr stop"
    and "raise_stop s stop ds = Inr (s', ds')"
  shows "stop_ticks n s'"
proof -
  have "ticks n stop" if "nonneg_ok stop"
    using ceil_step_ticks [OF _ assms(2) that] assms(1) by (auto simp: stop_on_grid_def ticks_def)
  then show ?thesis using assms(1,3)
    by (auto simp: raise_stop_def Let_def set_controller_def stop_ticks_def stop_on_grid_def cycle_stop_def
        split: if_splits)
qed

lemma dca_step_ticks:
  assumes "dca_step H p0 s payload ds = Inr (s', ds')" "stop_on_grid n s"
  shows "stop_ticks n s'"
proof -
  have start: "stop_ticks n s'" if "dca_start H q s ds = Inr (s', ds')" for q
    using that assms(2)
    by (auto simp: dca_start_def Let_def stop_ticks_def stop_on_grid_def cycle_stop_def set_controller_def
        initial_controller_def split: if_splits)
  have active: "stop_ticks n s'" if a: "dca_active H q s base ds = Inr (s', ds')" for q base
  proof -
    obtain fp vwap s1 ds1 armed where p: "dca_protect q s base fp vwap ds = Inr (s1, ds1, armed)"
      and f: "dca_follow H q s1 base vwap armed ds1 = Inr (s', ds')"
      using a by (auto simp: dca_active_def split: option.splits)
    have "stop_ticks n s1"
      using p raise_stop_ticks [OF assms(2)] by (auto simp: dca_protect_def Let_def stop_ticks_def)
    then show ?thesis using dca_follow_cycle_stop [OF f] by (simp add: stop_ticks_def)
  qed
  show ?thesis using assms
    by (auto simp: dca_step_def dest: start active stop_and_close_cycle_stop stop_ticks_kept split: if_splits list.splits)
qed

lemma grid_step_ticks:
  assumes "grid_step H p0 s payload ds = Inr (s', ds')" "stop_on_grid n s"
  shows "stop_ticks n s'"
proof -
  have start: "stop_ticks n s'" if a: "grid_start H q s ds = Inr (s', ds')" for q
  proof -
    obtain quantity v c selected where v: "ceil_step (gp_stop_price q) (in_price_tick (ss_instrument s)) = Inr v" "nonneg_ok v"
      and s': "arm_slots H quantity (gp_quantity_per_slot q) (set_controller s (c\<lparr>ct_stop := Some v\<rparr>)) ds selected
        = Inr (s', ds')"
      using a by (auto simp: grid_start_def Let_def split: option.splits if_splits)
    have "ticks n v" using ceil_step_ticks [OF _ v] assms(2) by (auto simp: stop_on_grid_def ticks_def)
    then show ?thesis using arm_slots_cycle_stop [OF s'] by (simp add: stop_ticks_def cycle_stop_def set_controller_def)
  qed
  have slots: "cycle_stop s' = cycle_stop s" if "foldE (grid_slot H q payload) (s, ds) xs = Inr (s', ds')" for q xs
    using slots.fold_view [OF that] by simp
  show ?thesis using assms
    by (auto simp: grid_step_def dest: start slots stop_ticks_kept split: if_splits)
qed

lemma decide_ticks:
  assumes "decide H s p = Inr d" "on_grid n s" "dn_controller d = Some c" "ct_stop c = Some v"
  shows "ticks n v"
proof -
  obtain handled s1 ds1 s2 ds2 where
    cs: "common_safety H (restarted s p) p [] = Inr (handled, s1, ds1)"
    and step: "if handled then (s2, ds2) = (s1, ds1)
     else (case ss_recipe s1 of Dca q \<Rightarrow> dca_step H q s1 p ds1 | Grid q \<Rightarrow> grid_step H q s1 p ds1) = Inr (s2, ds2)"
    and c: "dn_controller d = Some (ss_controller s2)"
    using assms(1) by (rule decideE)
  have "stop_on_grid n (restarted s p)"
    using on_grid_stop [OF assms(2)] by (simp add: restarted_def stop_on_grid_def set_controller_def cycle_stop_def)
  then have s1: "stop_on_grid n s1" using common_safetyD [OF cs] stop_on_grid_frame by blast
  then have "stop_ticks n s2"
    using step stop_ticks_kept by (cases handled) (auto dest: dca_step_ticks grid_step_ticks split: recipe.splits)
  then show ?thesis using assms(3,4) c by (auto simp: stop_ticks_def cycle_stop_def)
qed

section \<open>Observations\<close>

lemma trigger_on_grid: "on_grid n (trigger_terminal s a reason cid) = on_grid n s"
  by (rule on_grid_cong; simp add: trigger_terminal_def Let_def set_controller_def order_rows_def)

lemma market_on_grid:
  "on_grid n (s\<lparr>ss_bar_ids := i, ss_crossing_digests := c, ss_price_bar := b, ss_price_phase := ph,
     ss_price_crossing_index := k, ss_bar_index := j, ss_mark := m\<rparr>) = on_grid n s"
  "on_grid n (s\<lparr>ss_bar_ids := i\<rparr>) = on_grid n s"
  "on_grid n (s\<lparr>ss_closed_bar_digests := cd, ss_bar_index := j, ss_mark := m\<rparr>) = on_grid n s"
  "on_grid n (s\<lparr>ss_commands := cm\<rparr>) = on_grid n s" "on_grid n (s\<lparr>ss_trace := t\<rparr>) = on_grid n s"
  "on_grid n (s\<lparr>ss_observations := os, ss_observation_sequence := q\<rparr>) = on_grid n s"
  by (rule on_grid_cong; simp add: order_rows_def)+

fun ingested_on_grid :: "spot_instrument \<Rightarrow> ingested \<Rightarrow> bool" where
  "ingested_on_grid n (Ingested s p) = on_grid n s"
| "ingested_on_grid n (Repeated s) = on_grid n s"

lemma ingest_on_grid:
  assumes "ingest H s ob = Inr y" "on_grid n s"
  shows "ingested_on_grid n y"
proof (cases "ob_payload ob")
  case (ClosedBar p)
  then show ?thesis using assms
    by (auto simp: ingest_def observe_closed_bar_def set_mark_def Let_def trigger_on_grid market_on_grid
        split: option.splits if_splits)
next
  case (Price p)
  then show ?thesis using assms
    by (auto simp: ingest_def observe_price_def set_mark_def Let_def market_on_grid split: if_splits)
next
  case (Executions es)
  then show ?thesis using assms prices.events.fold_inv by (auto simp: ingest_def)
next
  case (Command c)
  then show ?thesis using assms
    by (auto simp: ingest_def observe_command_def Let_def trigger_on_grid market_on_grid split: option.splits if_splits)
next
  case (Reconciliation q)
  then show ?thesis using assms prices.reconcile_inv by (auto simp: ingest_def)
next
  case (FeeValuation v)
  then show ?thesis using assms prices.valuation_inv by (auto simp: ingest_def)
qed

interpretation routing: reducer route "on_grid n" for n
proof
  fix s s' :: spot_state and d
  assume "on_grid n s" "route s d = Inr s'"
  then show "on_grid n s'"
    by (cases d) (auto simp: route_def market_on_grid dest: submit_on_grid prices.cancel_inv)
qed

lemma contain_on_grid:
  assumes "contain H s reason = Inr (s', d)" "on_grid n s"
  shows "on_grid n s'"
proof -
  let ?s1 = "trigger_terminal (set_controller s ((ss_controller s)
       \<lparr>ct_refusal_reason := Some (''admission_failure:'' @ reason)\<rparr>)) StopAndFlatten ''admission_failure'' None"
  obtain s2 ds where t: "terminal_decisions H ?s1 [] = Inr (s2, ds)"
    and r: "foldE route (s2\<lparr>ss_trace := ss_trace s2 @ [TrContainment reason]\<rparr>) ds = Inr s'"
    using assms(1) by (auto simp: contain_def Let_def)
  have f: "terminal_frame s2 = terminal_frame ?s1" using terminal_decisionsD [OF t] by blast
  have "on_grid n (set_controller s ((ss_controller s)\<lparr>ct_refusal_reason := x\<rparr>))" for x
    using assms(2) by (subst on_grid_cong [of _ s]) (simp_all add: set_controller_def order_rows_def)
  then have "on_grid n s2"
    using on_grid_cong [of s2 ?s1 n] terminal_frame_stop [OF f] by (simp add: trigger_on_grid order_rows_def)
  then show ?thesis using routing.fold_inv [OF _ r] by (simp add: market_on_grid)
qed

lemma transition_on_grid:
  assumes "transition H s p before = Inr t" "on_grid n s"
  shows "on_grid n (tr_state t)"
proof -
  obtain d b s' d' where d: "decide H s p = Inr d" "adopt_decision s d = Inr b"
    and r: "route_decision H b d = Inr (s', d')" and t: "tr_state t = s'"
    using assms(1) by (auto simp: transition_def)
  have "order_rows b = order_rows s \<and> ss_instrument b = ss_instrument s \<and> dn_controller d = Some (ss_controller b)"
    using d(2) by (auto simp: adopt_decision_def order_rows_def split: option.splits)
  then have b: "on_grid n b" using assms(2) decide_ticks [OF d(1) assms(2)] by (simp add: on_grid_def)
  have "on_grid n s'" using r routing.fold_inv [OF b] contain_on_grid [OF _ b]
    by (auto simp: route_decision_def split: sum.splits if_splits)
  then show ?thesis by (simp add: t)
qed

lemma advance_spot_cases [consumes 1, case_names known repeated taken]:
  assumes "advance_spot H s ob = Inr t"
  obtains "t = unchanged s"
  | s' where "ingest H (accept_observation s ob (H (CObservation ob))) ob = Inr (Repeated s')" "t = unchanged s'"
  | s' p where "ingest H (accept_observation s ob (H (CObservation ob))) ob = Inr (Ingested s' p)"
      "transition H s' p (length (ss_trace s)) = Inr t"
proof -
  have v: "validate_observation ob = Inr ob"
    using assms by (auto simp: advance_spot_def validate_observation_def split: if_splits)
  show thesis
  proof (cases "truthy (map_of (ss_observations s) (ob_observation_id ob))")
    case True
    then show thesis using assms by (intro that(1)) (auto simp: advance_spot_def v Let_def split: if_splits)
  next
    case False
    then obtain y where "ingest H (accept_observation s ob (H (CObservation ob))) ob = Inr y"
      "(case y of Repeated s' \<Rightarrow> Inr (unchanged s')
        | Ingested s' p \<Rightarrow> transition H s' p (length (ss_trace s))) = Inr t"
      using assms by (auto simp: advance_spot_def v Let_def split: if_split_asm)
    then show thesis using that(2,3) by (cases y) auto
  qed
qed

lemma advance_on_grid:
  assumes "advance_spot H s ob = Inr t" "on_grid n s"
  shows "on_grid n (tr_state t)"
proof -
  have acc: "on_grid n (accept_observation s ob d)" for d
    using assms(2) by (simp add: accept_observation_def market_on_grid)
  from assms(1) show ?thesis
  proof (cases rule: advance_spot_cases)
    case (repeated s')
    then show ?thesis using ingest_on_grid [OF repeated(1) acc] by (simp add: unchanged_def)
  next
    case (taken s' p)
    then show ?thesis using ingest_on_grid [OF taken(1) acc] transition_on_grid [OF taken(2)] by simp
  qed (use assms(2) in \<open>simp add: unchanged_def\<close>)
qed

end
