(* ===== verification/Paper_Paths.thy ===== *)
theory Paper_Paths
  imports Demo_Paper Price_Grid
begin

text \<open>
  The price path of a candle terminates. \<open>_leg\<close> is a loop without a bound, here the partial
  function \<open>leg_while\<close>; on a session whose prices lie on the tick it returns, within the number of
  ticks that the leg spans, and that is the bound with which the paper session of the model runs
  it. Prices lie on the tick in every state a session reaches.
\<close>

section \<open>Relations on the state\<close>

locale state_contract =
  fixes S :: "spot_state \<Rightarrow> spot_state \<Rightarrow> bool" and env :: "'g env"
  assumes state_refl: "S s s"
    and state_trans: "S s s' \<Longrightarrow> S s' s'' \<Longrightarrow> S s s''"
    and succeeds: "successor (en_digest env) s c \<Longrightarrow> S s c"
    and chaining: "S s (s\<lparr>ss_journal_sequence := k, ss_journal_sha256 := h\<rparr>)"

sublocale state_contract \<subseteq> paper_contract "\<lambda>p q. S (ps_state p) (ps_state q)" env
proof
  fix p q u :: "'g session" and c kind
  show "S (ps_state p) (ps_state p)" by (rule state_refl)
  show "S (ps_state p) (ps_state q) \<Longrightarrow> S (ps_state q) (ps_state u) \<Longrightarrow> S (ps_state p) (ps_state u)"
    by (rule state_trans)
  show "ps_state q = ps_state p \<Longrightarrow> S (ps_state p) (ps_state q)" by (simp add: state_refl)
  assume c: "successor (en_digest env) (ps_state p) c"
  show "S (ps_state p) (ps_state (snd (persist env c kind p)))"
    using state_trans [OF succeeds [OF c] chaining] by (auto simp: persist_def Let_def state_refl split: option.split)
qed

section \<open>Prices on the tick\<close>

lemma successor_on_grid: "successor H s c \<Longrightarrow> on_grid n s \<Longrightarrow> on_grid n c"
proof (induction rule: successor.induct)
  case (advanced s ob t)
  then have "on_grid n (tr_state t)" by (rule advance_on_grid)
  then show ?case by (subst on_grid_cong [of _ "tr_state t"]) (simp_all add: order_rows_def)
qed (auto simp: on_grid_def order_rows_def add_liquidity_def receive_candle_def close_bar_def record_equity_def Let_def
    split: option.splits)

interpretation tick: state_contract "\<lambda>s s'. on_grid n s \<longrightarrow> on_grid n s'" env for n and env :: "'g env"
proof
  fix s c :: spot_state and k h
  show "successor (en_digest env) s c \<Longrightarrow> on_grid n s \<longrightarrow> on_grid n c" using successor_on_grid by blast
  show "on_grid n s \<longrightarrow> on_grid n (s\<lparr>ss_journal_sequence := k, ss_journal_sha256 := h\<rparr>)"
    by (simp add: on_grid_def order_rows_def)
qed auto

lemma initial_on_grid:
  assumes "validate_instrument i = Inr n"
  shows "on_grid n (initial_state b r n pol)"
proof -
  have "positive_ok (in_price_tick n)"
    using assms by (auto simp: validate_instrument_def instrument_fields_ok_def split: if_splits option.splits)
  then show ?thesis by (simp add: on_grid_def initial_state_def initial_controller_def order_rows_def)
qed

text \<open>
  in every state that a paper session reaches, every limit price of an order and the
  protective stop are whole numbers of ticks of the instrument, which never changes.
\<close>

theorem session_on_grid:
  assumes "new_session env g ok graph_sha256 recipes b i pol = Inr p" "(paper_step env)\<^sup>*\<^sup>* p q"
  shows "on_grid (ss_instrument (ps_state p)) (ps_state q)"
  using assms(1)
proof (rule new_sessionE)
  fix b' r n pol'
  assume n: "validate_instrument i = Inr n" and p: "ps_state p = initial_state b' r n pol'"
  have "on_grid n (ps_state p)" unfolding p by (rule initial_on_grid [OF n])
  then have "on_grid n (ps_state q)" using tick.run_keeps [OF assms(2), of n] by blast
  moreover have "ss_instrument (ps_state p) = n" by (simp add: p initial_state_def)
  ultimately show ?thesis by simp
qed

theorem session_on_grid_witness: "on_grid demo_instrument (ps_state demo_stopped)"
  using session_on_grid [OF demo_starts demo_runs] by (simp add: demo_paper_fields demo_state_fields)

section \<open>The loop over a leg\<close>

text \<open>\<open>SpotPaperSession._leg\<close>: one point after the other until the end of the leg is reached.\<close>

partial_function (option) leg_while ::
  "'g env \<Rightarrow> bool \<Rightarrow> rat \<Rightarrow> rat \<Rightarrow> price_phase \<Rightarrow> 'g session \<Rightarrow> (unit res \<times> 'g session) option" where
  "leg_while env descending cursor end_price phase p =
     (if cursor = end_price then Some (Inr (), p)
      else
        let x = following descending (leg_candidates (ps_state p) descending cursor end_price) in
        case point env recursion_limit x phase False p of
          (Inl e, q) \<Rightarrow> Some (Inl e, q)
        | (Inr _, q) \<Rightarrow> leg_while env descending x end_price phase q)"

text \<open>The ticks strictly inside what is left of a leg, and the points it can still stop at.\<close>

definition inside :: "spot_instrument \<Rightarrow> rat \<Rightarrow> rat \<Rightarrow> int set" where
  "inside n a b = {m. min a b < of_int m * in_price_tick n \<and> of_int m * in_price_tick n < max a b}"

definition stops_left :: "spot_instrument \<Rightarrow> rat \<Rightarrow> rat \<Rightarrow> nat" where
  "stops_left n a b = (if a = b then 0 else Suc (card (inside n a b)))"

lemma inside_bounds:
  assumes "positive_ok (in_price_tick n)"
  shows "finite (inside n a b)" "card (inside n a b) \<le> nat \<lceil>\<bar>a - b\<bar> / in_price_tick n\<rceil>"
proof -
  let ?t = "in_price_tick n"
  let ?l = "min a b / ?t" and ?u = "max a b / ?t"
  have t: "0 < ?t" using assms by (simp add: positive_ok_def)
  have sub: "inside n a b \<subseteq> {\<lfloor>?l\<rfloor> + 1 .. \<lceil>?u\<rceil> - 1}"
  proof
    fix m assume "m \<in> inside n a b"
    then have "?l < of_int m" "of_int m < ?u" using t by (simp_all add: inside_def divide_less_eq less_divide_eq)
    then show "m \<in> {\<lfloor>?l\<rfloor> + 1 .. \<lceil>?u\<rceil> - 1}" by (auto simp: less_ceiling_iff) linarith
  qed
  then show "finite (inside n a b)" by (rule finite_subset) simp
  have "?u - ?l = \<bar>a - b\<bar> / ?t" by (simp add: diff_divide_distrib [symmetric] min_def max_def)
  moreover have "\<lceil>?u\<rceil> - \<lfloor>?l\<rfloor> - 1 \<le> \<lceil>?u - ?l\<rceil>" by linarith
  ultimately have "\<lceil>?u\<rceil> - \<lfloor>?l\<rfloor> - 1 \<le> \<lceil>\<bar>a - b\<bar> / ?t\<rceil>" by simp
  then have "nat (\<lceil>?u\<rceil> - \<lfloor>?l\<rfloor> - 1) \<le> nat \<lceil>\<bar>a - b\<bar> / ?t\<rceil>" by (rule nat_mono)
  moreover have "card (inside n a b) \<le> card {\<lfloor>?l\<rfloor> + 1 .. \<lceil>?u\<rceil> - 1}" using sub by (intro card_mono) simp_all
  ultimately show "card (inside n a b) \<le> nat \<lceil>\<bar>a - b\<bar> / ?t\<rceil>" by simp
qed

lemma stops_left_less:
  assumes "positive_ok (in_price_tick n)" "a \<noteq> b" "x = b \<or> ticks n x \<and> min a b < x \<and> x < max a b"
  shows "stops_left n x b < stops_left n a b"
proof (cases "x = b")
  case False
  then obtain m where m: "x = of_int m * in_price_tick n" and x: "min a b < x" "x < max a b"
    using assms(3) by (auto simp: ticks_def)
  have "inside n x b \<subseteq> inside n a b - {m}" using x by (auto simp: inside_def m)
  moreover have "m \<in> inside n a b" using x by (simp add: inside_def m)
  ultimately have "card (inside n x b) < card (inside n a b)"
    using inside_bounds(1) [OF assms(1)] by (intro psubset_card_mono) auto
  then show ?thesis using assms(2) by (simp add: stops_left_def)
qed (use assms(2) in \<open>simp add: stops_left_def\<close>)

text \<open>The next point is the end of the leg or a tick strictly inside what is left of it.\<close>

lemma foldl_choice: "(\<And>a b. f a b \<in> {a, b}) \<Longrightarrow> foldl f a xs \<in> set (a # xs)"
  by (induction xs arbitrary: a) (simp, metis foldl_Cons insert_iff list.simps(15) empty_iff)

lemma following_member: "following d (x # xs) \<in> set (x # xs)"
  unfolding following_def list.sel by (cases d) (simp_all only: if_True if_False, (rule foldl_choice, simp add: max_def min_def)+)

lemma next_point:
  assumes "on_grid n s" "x = following d (leg_candidates s d c e)"
  shows "x = e \<or> ticks n x \<and> min c e < x \<and> x < max c e"
proof -
  let ?open = "List.map_filter (\<lambda>r.
        if eligible s r
        then (case it_limit_price (od_intent r) of
                None \<Rightarrow> None
              | Some x \<Rightarrow>
                  if d \<and> it_side (od_intent r) = Buy \<and> e \<le> x \<and> x < c
                     \<or> \<not> d \<and> it_side (od_intent r) = Sell \<and> c < x \<and> x \<le> e
                  then Some x else None)
        else None) (dict_values (ss_orders s))"
  have rows: "ticks n p" if "r \<in> set (dict_values (ss_orders s))" "it_limit_price (od_intent r) = Some p" for r p
    using assms(1) that by (force simp: on_grid_def order_rows_def list_all_iff)
  have "x \<in> set (leg_candidates s d c e)"
    unfolding assms(2) leg_candidates_def by (rule following_member)
  then consider "x = e" | "x \<in> set ?open"
    | "ct_stop (ss_controller s) = Some x" "d" "e \<le> x" "x < c"
    by (auto simp: leg_candidates_def split: option.splits if_splits)
  then show ?thesis
  proof cases
    case 2
    then obtain r where r: "r \<in> set (dict_values (ss_orders s))"
      "(if eligible s r
        then (case it_limit_price (od_intent r) of
                None \<Rightarrow> None
              | Some x \<Rightarrow>
                  if d \<and> it_side (od_intent r) = Buy \<and> e \<le> x \<and> x < c
                     \<or> \<not> d \<and> it_side (od_intent r) = Sell \<and> c < x \<and> x \<le> e
                  then Some x else None)
        else None) = Some x"
      unfolding in_map_filter by blast
    from r(2) have "it_limit_price (od_intent r) = Some x \<and> (e \<le> x \<and> x < c \<or> c < x \<and> x \<le> e)"
      by (simp split: option.split_asm if_split_asm) blast
    then show ?thesis using rows [OF r(1)] by (auto simp: min_def max_def)
  next
    case 3
    then show ?thesis using assms(1) by (auto simp: on_grid_def min_def max_def)
  qed simp
qed

lemma leg_while_returns:
  assumes "on_grid n (ps_state p)" "stops_left n c e \<le> k"
  shows "leg_while env d c e phase p = Some (leg_loop env k d c e phase p)"
  using assms
proof (induction k arbitrary: c p)
  case 0
  then have "c = e" by (simp add: stops_left_def split: if_splits)
  then show ?case by (subst leg_while.simps, subst leg_loop.simps) (simp add: returnP_def)
next
  case (Suc k)
  show ?case
  proof (cases "c = e")
    case True
    then show ?thesis by (subst leg_while.simps, subst leg_loop.simps) (simp add: returnP_def)
  next
    case False
    define x where "x = following d (leg_candidates (ps_state p) d c e)"
    obtain r q where q: "point env recursion_limit x phase False p = (r, q)" by fastforce
    have "on_grid n (ps_state q)"
      using keepsD [OF tick.keeps_point q] Suc.prems(1) by blast
    moreover have "positive_ok (in_price_tick n)" using Suc.prems(1) by (simp add: on_grid_def)
    then have "stops_left n x e < stops_left n c e"
      using False next_point [OF Suc.prems(1) x_def] by (rule stops_left_less)
    then have "stops_left n x e \<le> k" using Suc.prems(2) by simp
    ultimately have "leg_while env d x e phase q = Some (leg_loop env k d x e phase q)" by (rule Suc.IH)
    then show ?thesis using False q
      by (cases r) (simp_all add: leg_while.simps [of env d c] leg_loop.simps [of env "Suc k"] stateP_def getP_def
          bindP_def x_def [symmetric] Let_def)
  qed
qed

text \<open>
  C27: the loop over a leg of the price path returns, whatever the orders and the strategy do: run
  without a bound it gives the result that \<open>leg\<close> has with any bound from the number of ticks
  the leg spans plus one, so the bound that the paper session uses is never exhausted.
\<close>

theorem leg_returns:
  assumes "on_grid n (ps_state p)" "leg_bound (ps_state p) start end_price \<le> k"
  shows "leg_while env (end_price < start) start end_price phase p = Some (leg env k start end_price phase p)"
proof -
  have n: "positive_ok (in_price_tick n)" "ss_instrument (ps_state p) = n" using assms(1) by (simp_all add: on_grid_def)
  have "stops_left n start end_price \<le> Suc (nat \<lceil>\<bar>start - end_price\<bar> / in_price_tick n\<rceil>)"
    using inside_bounds(2) [OF n(1), of start end_price] by (simp add: stops_left_def)
  also have "\<dots> \<le> k" using assms(2) by (simp add: leg_bound_def n(2))
  finally show ?thesis unfolding leg_def by (rule leg_while_returns [OF assms(1)])
qed

theorem leg_returns_witness:
  "\<exists>r q. leg_while demo_env True 20 19 PhDescending demo_paper = Some (r, q)"
proof -
  have "on_grid demo_instrument (ps_state demo_paper)"
    using initial_on_grid [OF demo_instrument_valid] by (simp add: demo_paper_fields demo_state_def)
  from leg_returns [OF this order_refl, of demo_env 19 20 PhDescending] show ?thesis
    by (cases "leg demo_env (leg_bound (ps_state demo_paper) 20 19) 20 19 PhDescending demo_paper") auto
qed

end
