(* ===== verification/Matching_Properties.thy ===== *)
theory Matching_Properties
  imports Spot_Matching Account_Facts Demo_Session
begin

text \<open>
  What an execution that the paper lane models is worth: it stays inside the order, the venue
  bounds and the liquidity of the bar.
\<close>



text \<open>The bar trades at 19 and has liquidity for one of the two units of a BUY limited at 20.\<close>

definition demo_bar :: spot_state where
  "demo_bar = demo_open\<lparr>ss_liquidity_allowance := 1, ss_liquidity_used := 0\<rparr>"

lemma demo_bar_fields [eval]:
  "ss_binding demo_bar = demo_binding" "ss_policy demo_bar = demo_policy" "ss_instrument demo_bar = demo_instrument"
  "ss_event_sequence demo_bar = 0" "ss_liquidity_allowance demo_bar = 1" "ss_liquidity_used demo_bar = 0"
  by (simp_all add: demo_bar_def eval)




end
