(* ===== verification/Temporal_Values.thy ===== *)
theory Temporal_Values
  imports Graph_Model Spot_Models
begin

text \<open>
  The scalar values that travel through the temporal blocks of a strategy: the versioned numeric
  values and conditions of \<open>src/koval/strategy/graph/entities.py\<close> with their contracts, the market
  event, and the guards all these blocks share, \<open>src/koval/strategy/nodes/value_contracts.py\<close>.

  The value of a ready \<open>NumericValueV1\<close> is a finite float, here the rational it stands for; the
  blocks of this part only compare and copy it. A Python value of the wrong shape (pydantic's
  \<open>strict\<close> and \<open>extra="forbid"\<close>) is excluded by the types; the bounds and the validators written
  out in the classes are the functions \<open>identity_contract\<close> and those built on it. The decision
  evidence a block reports (\<open>observe\<close>) does not enter its result and is left out.
\<close>

section \<open>Values with an identity\<close>

datatype value_unit = Price_Quote_Per_Base | Base_Volume | Percent | Ratio | Dimensionless

datatype readiness = Ready | Warming_Up | Missing | Stale | Invalid

record value_identity =
  vi_bar_index :: int
  vi_timestamp_ms :: int
  vi_source_node_id :: string
  vi_unit :: value_unit
  vi_symbol :: string
  vi_timeframe :: "string option"
  vi_as_of_ms :: "int option"
  vi_available_at_ms :: "int option"
  vi_readiness :: readiness
  vi_reason :: "string option"
  vi_formula_version :: string
  vi_input_cursor :: "string option"

text \<open>\<open>not x\<close> for an optional string: \<open>None\<close> and the empty string are both false.\<close>

definition falsy :: "string option \<Rightarrow> bool" where
  "falsy x = (case x of None \<Rightarrow> True | Some s \<Rightarrow> s = [])"

definition identity_contract :: "'a value_identity_scheme \<Rightarrow> unit res" where
  "identity_contract v =
     (if vi_formula_version v = [] then Inl (ValidationError ''formula_version is required'')
      else if list_ex (\<lambda>t. case t of None \<Rightarrow> False | Some t \<Rightarrow> t < 0) [vi_as_of_ms v, vi_available_at_ms v]
      then Inl (ValidationError ''value clocks must be nonnegative'')
      else if (case (vi_as_of_ms v, vi_available_at_ms v) of (Some a, Some t) \<Rightarrow> t < a | _ \<Rightarrow> False)
      then Inl (ValidationError ''availability precedes input bar end'')
      else if vi_readiness v = Ready then
        if vi_symbol v = [] \<or> falsy (vi_timeframe v) \<or> falsy (vi_input_cursor v)
        then Inl (ValidationError ''ready value requires identity and cursor'')
        else ensure (vi_as_of_ms v \<noteq> None \<and> vi_available_at_ms v \<noteq> None \<and> vi_reason v = None)
               (ValidationError ''ready value requires clocks and no unavailable reason'')
      else ensure (\<not> falsy (vi_reason v)) (ValidationError ''unavailable value requires a reason''))"

record numeric_value = value_identity +
  nv_value :: "rat option"

definition numeric_contract :: "numeric_value \<Rightarrow> unit res" where
  "numeric_contract v =
     bindE (identity_contract v) (\<lambda>_.
     if vi_readiness v = Ready
     then ensure (nv_value v \<noteq> None) (ValidationError ''ready numeric value must be finite'')
     else ensure (nv_value v = None) (ValidationError ''unavailable numeric value must be null''))"

record condition = value_identity +
  cv_value :: "bool option"

definition condition_contract :: "condition \<Rightarrow> unit res" where
  "condition_contract v =
     bindE (identity_contract v) (\<lambda>_.
     ensure ((cv_value v \<noteq> None) = (vi_readiness v = Ready))
       (ValidationError ''condition must be boolean exactly when ready''))"

text \<open>A momentary event of a bar; what its metadata holds depends on the block.\<close>

datatype direction = Bullish | Bearish | Neutral

record 'm market_event =
  me_bar_index :: int
  me_timestamp_ms :: int
  me_source_node_id :: string
  me_kind :: string
  me_direction :: "direction option"
  me_price_levels :: "rat list"
  me_metadata :: 'm

text \<open>An entity on an edge, by its class.\<close>

datatype 'm carried_value =
    Carried_Condition condition
  | Carried_Number numeric_value
  | Carried_Event "'m market_event"
  | Carried_Other

text \<open>The fields of \<open>BarContext\<close> these blocks read.\<close>

record bar_context =
  bx_bar_index :: int
  bx_timestamp_ms :: int
  bx_decision_timestamp_ms :: "int option"
  bx_symbol :: string
  bx_timeframe :: "string option"

section \<open>Guards and provenance\<close>

record operand_binding =
  ob_symbol :: string
  ob_timeframe :: "string option"
  ob_unit :: value_unit
  ob_formula_version :: string
  ob_source_node_id :: string

definition scalar_binding :: "'a value_identity_scheme \<Rightarrow> operand_binding" where
  "scalar_binding v =
     \<lparr> ob_symbol = vi_symbol v, ob_timeframe = vi_timeframe v, ob_unit = vi_unit v,
       ob_formula_version = vi_formula_version v, ob_source_node_id = vi_source_node_id v \<rparr>"

definition scalar_identity :: "'a value_identity_scheme \<Rightarrow> string \<times> string option \<times> value_unit" where
  "scalar_identity v = (vi_symbol v, vi_timeframe v, vi_unit v)"

definition check_identity :: "'c bar_context_scheme \<Rightarrow> bool \<Rightarrow> 'a value_identity_scheme \<Rightarrow> unit res" where
  "check_identity ctx price_only v =
     (if (vi_symbol v \<noteq> [] \<and> vi_symbol v \<noteq> bx_symbol ctx) \<or>
         (\<not> falsy (vi_timeframe v) \<and> vi_timeframe v \<noteq> bx_timeframe ctx)
      then Inl (ValueError ''scalar identity differs from primary context'')
      else ensure (\<not> price_only \<or> vi_unit v = Price_Quote_Per_Base)
             (ValueError ''scalar identity requires price units''))"

text \<open>The last loop of \<open>scalar_status\<close>, over values that are ready.\<close>

fun cursor_status ::
  "'c bar_context_scheme \<Rightarrow> int \<Rightarrow> 'a value_identity_scheme list \<Rightarrow> (readiness \<times> string option) res" where
  "cursor_status ctx decision [] = Inr (Ready, None)"
| "cursor_status ctx decision (v # vs) =
     (if vi_timestamp_ms v \<noteq> bx_timestamp_ms ctx \<or> vi_bar_index v \<noteq> bx_bar_index ctx
      then Inr (Stale, Some ''stale_input_cursor'')
      else case vi_available_at_ms v of
             None \<Rightarrow> Inl TypeError
           | Some t \<Rightarrow> if decision < t then Inr (Missing, Some ''future_availability'')
                        else cursor_status ctx decision vs)"

definition scalar_status ::
  "'c bar_context_scheme \<Rightarrow> 'a value_identity_scheme option list \<Rightarrow> bool \<Rightarrow> (readiness \<times> string option) res" where
  "scalar_status ctx operands price_only =
     (let present = List.map_filter id operands in
      if 1 < length (remdups (map scalar_identity present))
      then Inl (ValueError ''scalar identity mismatch (symbol/timeframe/unit)'')
      else
        bindE (foldE (\<lambda>_ v. check_identity ctx price_only v) () present) (\<lambda>_.
        if None \<in> set operands then Inr (Missing, Some ''missing_input'')
        else case find (\<lambda>v. vi_readiness v \<noteq> Ready) present of
               Some v \<Rightarrow> Inr (vi_readiness v, vi_reason v)
             | None \<Rightarrow>
                 case bx_decision_timestamp_ms ctx of
                   None \<Rightarrow> Inr (Missing, Some ''missing_timing'')
                 | Some decision \<Rightarrow> cursor_status ctx decision present))"

text \<open>The length of the primary bar; \<open>_TIMEFRAME_MS[None]\<close> is a \<open>KeyError\<close> too.\<close>

definition bar_interval :: "'c bar_context_scheme \<Rightarrow> int res" where
  "bar_interval ctx =
     (case bx_timeframe ctx of None \<Rightarrow> Inl (ValueError ''unknown timeframe'') | Some tf \<Rightarrow> timeframe_ms tf)"

section \<open>The text of an operand list\<close>

text \<open>
  \<open>json.dumps\<close> with the default \<open>ensure_ascii\<close>: the quote, the backslash and every character
  outside the printable ASCII range are escaped.
\<close>

definition hex_char :: "nat \<Rightarrow> char" where
  "hex_char d = (if d < 10 then digit_char d else char_of (87 + d))"

definition json_escape :: "char \<Rightarrow> string" where
  "json_escape c =
     (if c = CHR 0x22 then [CHR 0x5C, CHR 0x22]
      else if c = CHR 0x5C then [CHR 0x5C, CHR 0x5C]
      else if c = CHR 0x0A then [CHR 0x5C, CHR ''n'']
      else if c = CHR 0x0D then [CHR 0x5C, CHR ''r'']
      else if c = CHR 0x09 then [CHR 0x5C, CHR ''t'']
      else if c = CHR 0x0C then [CHR 0x5C, CHR ''f'']
      else if c = CHR 0x08 then [CHR 0x5C, CHR ''b'']
      else if (of_char c :: nat) < 32 \<or> 126 < (of_char c :: nat)
      then [CHR 0x5C, CHR ''u'', CHR ''0'', CHR ''0'', hex_char (of_char c div 16), hex_char (of_char c mod 16)]
      else [c])"

definition json_quote :: "string \<Rightarrow> string" where
  "json_quote s = [CHR 0x22] @ concat (map json_escape s) @ [CHR 0x22]"

definition json_optional :: "string option \<Rightarrow> string" where
  "json_optional x = (case x of None \<Rightarrow> ''null'' | Some s \<Rightarrow> json_quote s)"

fun separated :: "string list \<Rightarrow> string" where
  "separated [] = []"
| "separated [x] = x"
| "separated (x # y # xs) = x @ '','' @ separated (y # xs)"

fun unit_text :: "value_unit \<Rightarrow> string" where
  "unit_text Price_Quote_Per_Base = ''price_quote_per_base''"
| "unit_text Base_Volume = ''base_volume''"
| "unit_text Percent = ''percent''"
| "unit_text Ratio = ''ratio''"
| "unit_text Dimensionless = ''dimensionless''"

definition json_field :: "string \<Rightarrow> string \<Rightarrow> string" where
  "json_field k v = json_quote k @ '':'' @ v"

definition binding_text :: "operand_binding \<Rightarrow> string" where
  "binding_text b =
     ''{'' @ separated
       [json_field ''formula_version'' (json_quote (ob_formula_version b)),
        json_field ''source_node_id'' (json_quote (ob_source_node_id b)),
        json_field ''symbol'' (json_quote (ob_symbol b)),
        json_field ''timeframe'' (json_optional (ob_timeframe b)),
        json_field ''unit'' (json_quote (unit_text (ob_unit b)))] @ ''}''"

definition optional_max :: "int option list \<Rightarrow> int option" where
  "optional_max ts = (case List.map_filter id ts of [] \<Rightarrow> None | t # ts' \<Rightarrow> Some (foldl max t ts'))"

text \<open>
  The fields \<open>scalar_data\<close> gives every result, whatever the value is: the readiness and the reason
  come from the caller.
\<close>

definition scalar_data ::
  "'c bar_context_scheme \<Rightarrow> 'a value_identity_scheme option list \<Rightarrow> string \<Rightarrow> value_unit option \<Rightarrow>
     readiness \<times> string option \<Rightarrow> value_identity" where
  "scalar_data ctx operands formula unit status =
     (let present = List.map_filter id operands in
      \<lparr> vi_bar_index = bx_bar_index ctx, vi_timestamp_ms = bx_timestamp_ms ctx,
        vi_source_node_id = formula,
        vi_unit = (case unit of Some u \<Rightarrow> u
                   | None \<Rightarrow> (case present of v # _ \<Rightarrow> vi_unit v | [] \<Rightarrow> Dimensionless)),
        vi_symbol = bx_symbol ctx, vi_timeframe = bx_timeframe ctx,
        vi_as_of_ms = optional_max (map vi_as_of_ms present),
        vi_available_at_ms = optional_max (map vi_available_at_ms present),
        vi_readiness = fst status, vi_reason = snd status,
        vi_formula_version = formula @ '':['' @ separated (map (\<lambda>v. case v of None \<Rightarrow> ''null''
          | Some v \<Rightarrow> binding_text (scalar_binding v)) operands) @ '']'',
        vi_input_cursor = Some (''['' @ separated (map (\<lambda>v. case v of None \<Rightarrow> ''null''
          | Some v \<Rightarrow> json_optional (vi_input_cursor v)) operands) @ '']'') \<rparr>)"

definition at_most_one :: "string \<Rightarrow> 'e list dict \<Rightarrow> 'e option res" where
  "at_most_one name inputs =
     (case map_of inputs name of
        None \<Rightarrow> Inr None
      | Some [] \<Rightarrow> Inr None
      | Some [v] \<Rightarrow> Inr (Some v)
      | Some _ \<Rightarrow> Inl (ValueError ''scalar port accepts at most one value''))"

end
