(* ===== verification/Condition_Reducers.thy ===== *)
theory Condition_Reducers
  imports Temporal_Values
begin

text \<open>
  The temporal reducers of \<open>src/koval/strategy/nodes/condition_reducers.py\<close>:
  \<open>state.condition_hold\<close>, true after a number of consecutive ready true conditions, and
  \<open>fact.condition_edge\<close>, one event after consecutive ready false and true; and the crossing of two
  numeric values, \<open>src/koval/strategy/nodes/cross.py\<close>.

  The state of a block is a dictionary that is empty before the first step (\<open>Fresh\<close>) and holds
  exactly the fields of the block's state class afterwards. It is checked before every use,
  because a host may restore it. An evaluation returns its output and the state it leaves, or
  raises before any change of the state.
\<close>

section \<open>Saved states\<close>

record reducer_state =
  rs_version :: int
  rs_last_timestamp_ms :: int
  rs_last_bar_index :: int
  rs_symbol :: string
  rs_timeframe :: "string option"
  rs_binding :: "operand_binding option"

record hold_state = reducer_state +
  hs_formula_version :: string
  hs_bars :: int
  hs_count :: int
  hs_output :: condition

record edge_state = reducer_state +
  es_formula_version :: string
  es_previous :: "condition option"

datatype node_state = Fresh | Hold_State hold_state | Edge_State edge_state | Other_State

datatype reducer_kind = Hold int | Edge

definition reducer_fields :: "'a reducer_state_scheme \<Rightarrow> unit res" where
  "reducer_fields s =
     ensure (rs_version s = 1 \<and> 0 \<le> rs_last_timestamp_ms s \<and> 0 \<le> rs_last_bar_index s \<and>
             (case rs_binding s of None \<Rightarrow> True | Some b \<Rightarrow> ob_formula_version b \<noteq> []))
       (ValidationError ''reducer state fields'')"

text \<open>\<open>_HoldState\<close>: its fields, the contract of its output, and \<open>_consistent\<close>.\<close>

definition hold_state_check :: "hold_state \<Rightarrow> unit res" where
  "hold_state_check s =
     bindE (reducer_fields s) (\<lambda>_.
     bindE (ensure (hs_formula_version s = ''condition_hold_v1'' \<and> 1 \<le> hs_bars s \<and> hs_bars s \<le> 400 \<and>
                    0 \<le> hs_count s \<and> hs_count s \<le> 400) (ValidationError ''hold state fields'')) (\<lambda>_.
     bindE (condition_contract (hs_output s)) (\<lambda>_.
     bindE (ensure (hs_count s \<le> hs_bars s) (ValidationError ''hold count exceeds configured bars'')) (\<lambda>_.
     let out = hs_output s in
     ensure (\<not> (vi_timestamp_ms out \<noteq> rs_last_timestamp_ms s
          \<or> vi_bar_index out \<noteq> rs_last_bar_index s
          \<or> vi_symbol out \<noteq> rs_symbol s
          \<or> vi_timeframe out \<noteq> rs_timeframe s
          \<or> (vi_readiness out \<noteq> Ready \<and> hs_count s \<noteq> 0)
          \<or> (vi_readiness out = Ready \<and> cv_value out \<noteq> Some (hs_count s = hs_bars s))))
       (ValidationError ''hold state cursor/output mismatch'')))))"

definition edge_state_check :: "edge_state \<Rightarrow> unit res" where
  "edge_state_check s =
     bindE (reducer_fields s) (\<lambda>_.
     bindE (ensure (es_formula_version s = ''condition_edge_v1'') (ValidationError ''edge state fields'')) (\<lambda>_.
     case es_previous s of
       None \<Rightarrow> Inr ()
     | Some p \<Rightarrow>
         bindE (condition_contract p) (\<lambda>_.
         ensure (\<not> (vi_readiness p \<noteq> Ready
              \<or> vi_timestamp_ms p \<noteq> rs_last_timestamp_ms s
              \<or> vi_bar_index p \<noteq> rs_last_bar_index s
              \<or> vi_symbol p \<noteq> rs_symbol s
              \<or> vi_timeframe p \<noteq> rs_timeframe s
              \<or> rs_binding s \<noteq> Some (scalar_binding p)))
           (ValidationError ''edge state cursor/previous mismatch''))))"

text \<open>The text of the parameters in the formula of a hold output.\<close>

definition hold_formula :: "int \<Rightarrow> string" where
  "hold_formula bars = ''condition_hold_v1:{'' @ json_field ''bars'' (int_text bars) @ ''}''"

definition starts_with :: "string \<Rightarrow> string \<Rightarrow> bool" where
  "starts_with p s \<longleftrightarrow> take (length p) s = p"

fun validate_condition_reducer_state :: "reducer_kind \<Rightarrow> node_state \<Rightarrow> unit res" where
  "validate_condition_reducer_state kind Fresh = Inr ()"
| "validate_condition_reducer_state (Hold bars) (Hold_State s) =
     bindE (hold_state_check s) (\<lambda>_.
     if hs_bars s \<noteq> bars then Inl (ValueError ''hold state config mismatch'')
     else ensure (starts_with (hold_formula bars @ '':'') (vi_formula_version (hs_output s)))
            (ValueError ''hold state output formula mismatch''))"
| "validate_condition_reducer_state Edge (Edge_State s) = edge_state_check s"
| "validate_condition_reducer_state kind st = Inl (ValidationError ''reducer state fields'')"

section \<open>Cursor and readiness\<close>

fun saved_reducer :: "node_state \<Rightarrow> reducer_state option" where
  "saved_reducer (Hold_State s) = Some (reducer_state.truncate s)"
| "saved_reducer (Edge_State s) = Some (reducer_state.truncate s)"
| "saved_reducer _ = None"

text \<open>The binding of the input, whether the cursor is a repeated one, and whether it is the next one.\<close>

definition reducer_cursor ::
  "'c bar_context_scheme \<Rightarrow> condition option \<Rightarrow> reducer_state option \<Rightarrow> (operand_binding option \<times> bool \<times> bool) res" where
  "reducer_cursor ctx v state =
     (let b = map_option scalar_binding v in
      case state of
        None \<Rightarrow> Inr (b, False, False)
      | Some s \<Rightarrow>
          let final = rs_last_timestamp_ms s;
              same = (rs_symbol s = bx_symbol ctx \<and> rs_timeframe s = bx_timeframe ctx \<and> rs_binding s = b) in
          if bx_timestamp_ms ctx < final then Inl (ValueError ''condition reducer cursor moved backwards'')
          else if final < bx_timestamp_ms ctx \<and> bx_bar_index ctx \<le> rs_last_bar_index s
          then Inl (ValueError ''condition reducer primary index moved backwards'')
          else if bx_timestamp_ms ctx = final then
            if \<not> same \<or> bx_bar_index ctx \<noteq> rs_last_bar_index s
            then Inl (ValueError ''duplicate cursor binding mismatch'')
            else Inr (b, True, False)
          else Inr (b, False, same \<and>
                 (case bar_interval ctx of
                    Inl _ \<Rightarrow> False
                  | Inr interval \<Rightarrow> bx_timestamp_ms ctx = final + interval \<and>
                                   bx_bar_index ctx = rs_last_bar_index s + 1)))"

definition reducer_status ::
  "'c bar_context_scheme \<Rightarrow> condition option \<Rightarrow> (readiness \<times> string option) res" where
  "reducer_status ctx v =
     bindE (scalar_status ctx [v] False) (\<lambda>(r, reason).
     if r \<noteq> Ready then Inr (r, reason)
     else if bx_symbol ctx = [] \<or> falsy (bx_timeframe ctx) then Inr (Missing, Some ''missing_identity'')
     else case bar_interval ctx of
            Inl _ \<Rightarrow> Inr (Invalid, Some ''unsupported_timeframe'')
          | Inr interval \<Rightarrow>
              case bx_decision_timestamp_ms ctx of
                None \<Rightarrow> Inl TypeError
              | Some decision \<Rightarrow>
                  if decision < bx_timestamp_ms ctx + interval then Inr (Missing, Some ''future_availability'')
                  else if bx_timestamp_ms ctx + 2 * interval \<le> decision
                  then Inr (Stale, Some ''stale_primary_bar'')
                  else Inr (Ready, None))"

definition condition_input :: "'m carried_value list dict \<Rightarrow> condition option res" where
  "condition_input inputs =
     bindE (at_most_one ''condition'' inputs) (\<lambda>v.
     case v of
       None \<Rightarrow> Inr None
     | Some (Carried_Condition c) \<Rightarrow> Inr (Some c)
     | Some _ \<Rightarrow> Inl (ValueError ''condition reducer requires ConditionV1''))"

definition truth :: "condition option \<Rightarrow> bool option" where
  "truth v = (case v of None \<Rightarrow> None | Some c \<Rightarrow> cv_value c)"

section \<open>Hold\<close>

definition hold_count :: "int \<Rightarrow> bool \<Rightarrow> node_state \<Rightarrow> readiness \<Rightarrow> condition option \<Rightarrow> int" where
  "hold_count bars consecutive state r v =
     (let prior = (if consecutive then (case state of Hold_State s \<Rightarrow> hs_count s | _ \<Rightarrow> 0) else 0) in
      if r = Ready \<and> truth v = Some True then min bars (prior + 1) else 0)"

definition hold_output :: "int \<Rightarrow> 'c bar_context_scheme \<Rightarrow> condition option \<Rightarrow> readiness \<times> string option \<Rightarrow> int \<Rightarrow> condition" where
  "hold_output bars ctx v status count =
     value_identity.extend (scalar_data ctx [v] (hold_formula bars) None status)
       \<lparr> cv_value = if fst status = Ready then Some (count = bars) else None \<rparr>"

definition hold_evaluate ::
  "int \<Rightarrow> 'c bar_context_scheme \<Rightarrow> 'm carried_value list dict \<Rightarrow> node_state \<Rightarrow> (condition \<times> node_state) res" where
  "hold_evaluate bars ctx inputs state =
     bindE (validate_condition_reducer_state (Hold bars) state) (\<lambda>_.
     bindE (condition_input inputs) (\<lambda>v.
     bindE (reducer_cursor ctx v (saved_reducer state)) (\<lambda>(b, duplicate, consecutive).
     if duplicate then
       (case state of
          Hold_State s \<Rightarrow> bindE (condition_contract (hs_output s)) (\<lambda>_. Inr (hs_output s, state))
        | _ \<Rightarrow> Inl KeyError)
     else
       bindE (reducer_status ctx v) (\<lambda>status.
       let count = hold_count bars consecutive state (fst status) v;
           out = hold_output bars ctx v status count;
           saved = \<lparr> rs_version = 1, rs_last_timestamp_ms = bx_timestamp_ms ctx,
                     rs_last_bar_index = bx_bar_index ctx, rs_symbol = bx_symbol ctx,
                     rs_timeframe = bx_timeframe ctx, rs_binding = b,
                     hs_formula_version = ''condition_hold_v1'', hs_bars = bars, hs_count = count,
                     hs_output = out \<rparr> in
       bindE (condition_contract out) (\<lambda>_.
       bindE (hold_state_check saved) (\<lambda>_. Inr (out, Hold_State saved)))))))"

section \<open>Rising edge\<close>

record edge_metadata =
  em_formula_version :: string
  em_state_version :: int
  em_current :: condition
  em_previous :: condition

definition edge_event :: "'c bar_context_scheme \<Rightarrow> condition \<Rightarrow> condition \<Rightarrow> edge_metadata market_event" where
  "edge_event ctx current previous =
     \<lparr> me_bar_index = bx_bar_index ctx, me_timestamp_ms = bx_timestamp_ms ctx,
       me_source_node_id = ''fact.condition_edge'', me_kind = ''condition_edge'',
       me_direction = Some Bullish, me_price_levels = [],
       me_metadata = \<lparr> em_formula_version = ''condition_edge_v1'', em_state_version = 1,
                       em_current = current, em_previous = previous \<rparr> \<rparr>"

definition saved_previous :: "node_state \<Rightarrow> condition option" where
  "saved_previous st = (case st of Edge_State s \<Rightarrow> es_previous s | _ \<Rightarrow> None)"

definition edge_between ::
  "'c bar_context_scheme \<Rightarrow> condition option \<Rightarrow> condition option \<Rightarrow> edge_metadata market_event option" where
  "edge_between ctx previous current =
     (case (previous, current) of
        (Some p, Some c) \<Rightarrow>
          if cv_value p = Some False \<and> cv_value c = Some True then Some (edge_event ctx c p) else None
      | _ \<Rightarrow> None)"

definition edge_evaluate ::
  "'c bar_context_scheme \<Rightarrow> 'm carried_value list dict \<Rightarrow> node_state \<Rightarrow>
     (edge_metadata market_event option \<times> node_state) res" where
  "edge_evaluate ctx inputs state =
     bindE (validate_condition_reducer_state Edge state) (\<lambda>_.
     bindE (condition_input inputs) (\<lambda>v.
     bindE (reducer_cursor ctx v (saved_reducer state)) (\<lambda>(b, duplicate, consecutive).
     if duplicate then Inr (None, state)
     else
       bindE (reducer_status ctx v) (\<lambda>(r, reason).
       let previous = (if consecutive then saved_previous state else None);
           current = (if r = Ready then v else None);
           event = edge_between ctx previous current;
           saved = \<lparr> rs_version = 1, rs_last_timestamp_ms = bx_timestamp_ms ctx,
                     rs_last_bar_index = bx_bar_index ctx, rs_symbol = bx_symbol ctx,
                     rs_timeframe = bx_timeframe ctx, rs_binding = b,
                     es_formula_version = ''condition_edge_v1'', es_previous = current \<rparr> in
       bindE (edge_state_check saved) (\<lambda>_. Inr (event, Edge_State saved))))))"

section \<open>Crossing\<close>

datatype cross_mode = Up | Down | Both

definition cross_direction :: "rat \<Rightarrow> rat \<Rightarrow> rat \<Rightarrow> rat \<Rightarrow> cross_mode option" where
  "cross_direction previous_left previous_right left right =
     (if previous_left \<le> previous_right \<and> right < left then Some Up
      else if previous_right \<le> previous_left \<and> left < right then Some Down
      else None)"

record cross_state =
  cs_version :: int
  cs_last_timestamp_ms :: int
  cs_previous :: "(numeric_value \<times> numeric_value) option"

record cross_metadata =
  cm_direction :: cross_mode
  cm_left :: numeric_value
  cm_right :: numeric_value
  cm_previous :: "numeric_value \<times> numeric_value"

definition cross_event ::
  "'c bar_context_scheme \<Rightarrow> cross_mode \<Rightarrow> numeric_value \<times> numeric_value \<Rightarrow> numeric_value \<times> numeric_value \<Rightarrow>
     cross_metadata market_event" where
  "cross_event ctx d previous current =
     \<lparr> me_bar_index = bx_bar_index ctx, me_timestamp_ms = bx_timestamp_ms ctx,
       me_source_node_id = ''fact.cross'', me_kind = ''cross'',
       me_direction = Some (if d = Up then Bullish else Bearish),
       me_price_levels = (if vi_unit (snd current) = Price_Quote_Per_Base
         then (case nv_value (snd current) of None \<Rightarrow> [] | Some x \<Rightarrow> [x]) else []),
       me_metadata = \<lparr> cm_direction = d, cm_left = fst current, cm_right = snd current,
                       cm_previous = previous \<rparr> \<rparr>"

text \<open>
  The direction of the crossing between two pairs that are one bar apart and have the same
  bindings. \<open>timeframe_ms\<close> may raise here; a ready value has a number.
\<close>

definition crossing ::
  "'c bar_context_scheme \<Rightarrow> int \<Rightarrow> (numeric_value \<times> numeric_value) option \<Rightarrow> numeric_value \<times> numeric_value \<Rightarrow>
     (cross_mode \<times> numeric_value \<times> numeric_value) option res" where
  "crossing ctx final previous current =
     (case previous of
        None \<Rightarrow> Inr None
      | Some p \<Rightarrow>
          bindE (bar_interval ctx) (\<lambda>interval.
          if bx_timestamp_ms ctx = final + interval
             \<and> scalar_binding (fst p) = scalar_binding (fst current)
             \<and> scalar_binding (snd p) = scalar_binding (snd current)
          then
            (case (nv_value (fst p), nv_value (snd p), nv_value (fst current), nv_value (snd current)) of
               (Some pl, Some pr, Some l, Some r) \<Rightarrow>
                 Inr (map_option (\<lambda>d. (d, p)) (cross_direction pl pr l r))
             | _ \<Rightarrow> Inl TypeError)
          else Inr None))"

definition number_input :: "string \<Rightarrow> 'm carried_value list dict \<Rightarrow> numeric_value option res" where
  "number_input name inputs =
     bindE (at_most_one name inputs) (\<lambda>v.
     case v of
       None \<Rightarrow> Inr None
     | Some (Carried_Number x) \<Rightarrow> Inr (Some x)
     | Some _ \<Rightarrow> Inl TypeError)"

text \<open>The pair of a step whose operands are ready, and the event of a crossing that was found.\<close>

definition current_pair ::
  "numeric_value option \<Rightarrow> numeric_value option \<Rightarrow> readiness \<Rightarrow> (numeric_value \<times> numeric_value) option" where
  "current_pair left right r =
     (case (left, right) of (Some x, Some y) \<Rightarrow> if r = Ready then Some (x, y) else None | _ \<Rightarrow> None)"

definition cross_between ::
  "cross_mode \<Rightarrow> 'c bar_context_scheme \<Rightarrow> (cross_mode \<times> numeric_value \<times> numeric_value) option \<Rightarrow>
     (numeric_value \<times> numeric_value) option \<Rightarrow> cross_metadata market_event option" where
  "cross_between mode ctx found current =
     (case (found, current) of
        (Some (d, p), Some c) \<Rightarrow> if mode = d \<or> mode = Both then Some (cross_event ctx d p c) else None
      | _ \<Rightarrow> None)"

definition cross_evaluate ::
  "cross_mode \<Rightarrow> 'c bar_context_scheme \<Rightarrow> 'm carried_value list dict \<Rightarrow> cross_state option \<Rightarrow>
     (cross_metadata market_event option \<times> cross_state option) res" where
  "cross_evaluate mode ctx inputs state =
     bindE (ensure (case state of None \<Rightarrow> True | Some s \<Rightarrow> cs_version s = 1)
       (ValueError ''unsupported cross state version'')) (\<lambda>_.
     bindE (number_input ''left'' inputs) (\<lambda>left.
     bindE (number_input ''right'' inputs) (\<lambda>right.
     bindE (scalar_status ctx [left, right] False) (\<lambda>(r, reason).
     if (case state of None \<Rightarrow> False | Some s \<Rightarrow> bx_timestamp_ms ctx < cs_last_timestamp_ms s)
     then Inl (ValueError ''cross cursor moved backwards'')
     else if map_option cs_last_timestamp_ms state = Some (bx_timestamp_ms ctx) then Inr (None, state)
     else
       let current = current_pair left right r;
           saved = \<lparr> cs_version = 1, cs_last_timestamp_ms = bx_timestamp_ms ctx, cs_previous = current \<rparr> in
       bindE (case (state, current) of
           (Some s, Some c) \<Rightarrow> crossing ctx (cs_last_timestamp_ms s) (cs_previous s) c
         | _ \<Rightarrow> Inr None) (\<lambda>found.
       Inr (cross_between mode ctx found current, Some saved))))))"

section \<open>Graph checkpoints\<close>

text \<open>
  \<open>validate_condition_graph_checkpoint\<close>: a graph with reducers is restored from one complete
  decision. \<open>reducers\<close> are the reducer nodes of the executor and \<open>ids\<close> all its nodes.
\<close>

record graph_checkpoint =
  gc_version :: int
  gc_states :: "node_state dict"
  gc_stepped_bar :: int

definition reducer_identity :: "reducer_state option \<Rightarrow> (int \<times> string \<times> string option) option" where
  "reducer_identity st = map_option (\<lambda>s. (rs_last_timestamp_ms s, rs_symbol s, rs_timeframe s)) st"

definition check_reducer :: "graph_checkpoint \<Rightarrow> node_state \<Rightarrow> string \<times> reducer_kind \<Rightarrow> unit res" where
  "check_reducer ck reference = (\<lambda>(nid, kind).
     case map_of (gc_states ck) nid of
       None \<Rightarrow> Inl KeyError
     | Some saved \<Rightarrow>
         bindE (validate_condition_reducer_state kind saved) (\<lambda>_.
         case saved_reducer saved of
           None \<Rightarrow> Inl (ValueError ''condition graph checkpoint cursor/identity mismatch'')
         | Some s \<Rightarrow> ensure (rs_last_bar_index s = gc_stepped_bar ck \<and>
                            reducer_identity (Some s) = reducer_identity (saved_reducer reference))
             (ValueError ''condition graph checkpoint cursor/identity mismatch'')))"

definition validate_condition_graph_checkpoint ::
  "string list \<Rightarrow> reducer_kind dict \<Rightarrow> graph_checkpoint \<Rightarrow> unit res" where
  "validate_condition_graph_checkpoint ids reducers ck =
     (case reducers of
        [] \<Rightarrow> Inr ()
      | (nid, _) # _ \<Rightarrow>
          if gc_version ck \<noteq> 1 \<or> gc_stepped_bar ck < -1
          then Inl (ValueError ''condition graph state envelope mismatch'')
          else if gc_stepped_bar ck = -1
          then ensure (gc_states ck = []) (ValueError ''initial condition graph checkpoint must be empty'')
          else if set (dict_keys (gc_states ck)) \<noteq> set ids
          then Inl (ValueError ''condition graph checkpoint requires the complete state map'')
          else case map_of (gc_states ck) nid of
                 None \<Rightarrow> Inl KeyError
               | Some reference \<Rightarrow> foldE (\<lambda>_ r. check_reducer ck reference r) () reducers)"

end
