(* ===== verification/Temporal_Runs.thy ===== *)
theory Temporal_Runs
  imports Prelude
begin

text \<open>
  Runs of a stateful block over a sequence of inputs. A block that remembers the cursor of its
  last input, ignores an input of the same cursor and refuses an earlier one is a
  \<open>temporal_reducer\<close>: what it has become after a run depends only on the first input of each
  cursor. The reducers of conditions and the crossing of values interpret the locale.
\<close>

section \<open>Runs\<close>

fun outputs_of :: "('s \<Rightarrow> 'x \<Rightarrow> ('r \<times> 's) res) \<Rightarrow> 's \<Rightarrow> 'x list \<Rightarrow> ('r list \<times> 's) res" where
  "outputs_of f s [] = Inr ([], s)"
| "outputs_of f s (x # xs) =
     bindE (f s x) (\<lambda>(r, s'). bindE (outputs_of f s' xs) (\<lambda>(rs, s''). Inr (r # rs, s'')))"

lemma outputs_of_snoc:
  "outputs_of f s (xs @ [x]) = Inr (rs, t) \<longleftrightarrow>
     (\<exists>rs' r u. outputs_of f s xs = Inr (rs', u) \<and> f u x = Inr (r, t) \<and> rs = rs' @ [r])"
proof (induction xs arbitrary: s rs)
  case (Cons y ys)
  show ?case
  proof
    assume "outputs_of f s ((y # ys) @ [x]) = Inr (rs, t)"
    then obtain r1 s1 rs1 where "f s y = Inr (r1, s1)" "outputs_of f s1 (ys @ [x]) = Inr (rs1, t)"
      "rs = r1 # rs1" by auto
    then show "\<exists>rs' r u. outputs_of f s (y # ys) = Inr (rs', u) \<and> f u x = Inr (r, t) \<and> rs = rs' @ [r]"
      using Cons.IH [of s1 rs1] by fastforce
  next
    assume "\<exists>rs' r u. outputs_of f s (y # ys) = Inr (rs', u) \<and> f u x = Inr (r, t) \<and> rs = rs' @ [r]"
    then obtain r1 s1 rs1 r u where "f s y = Inr (r1, s1)" "outputs_of f s1 ys = Inr (rs1, u)"
      "f u x = Inr (r, t)" "rs = (r1 # rs1) @ [r]" by auto
    then show "outputs_of f s ((y # ys) @ [x]) = Inr (rs, t)"
      using Cons.IH [of s1 "rs1 @ [r]"] by auto
  qed
qed auto

text \<open>The first input of each cursor, in order.\<close>

fun firsts :: "('x \<Rightarrow> int) \<Rightarrow> int option \<Rightarrow> 'x list \<Rightarrow> 'x list" where
  "firsts time_of c [] = []"
| "firsts time_of c (x # xs) =
     (if c = Some (time_of x) then firsts time_of c xs else x # firsts time_of (Some (time_of x)) xs)"

definition cursor_after :: "('x \<Rightarrow> int) \<Rightarrow> int option \<Rightarrow> 'x list \<Rightarrow> int option" where
  "cursor_after time_of c xs = (if xs = [] then c else Some (time_of (last xs)))"

lemma firsts_snoc:
  "firsts time_of c (xs @ [x]) =
     (if cursor_after time_of c xs = Some (time_of x) then firsts time_of c xs
      else firsts time_of c xs @ [x])"
  by (induction xs arbitrary: c) (auto simp: cursor_after_def)

lemma in_firsts: "x \<in> set (firsts time_of c xs) \<Longrightarrow> x \<in> set xs"
  by (induction xs arbitrary: c) (auto split: if_splits)

lemma firsts_empty: "firsts time_of None xs = [] \<longleftrightarrow> xs = []"
  by (cases xs) auto

lemma firsts_idem [simp]: "firsts time_of c (firsts time_of c xs) = firsts time_of c xs"
  by (induction xs arbitrary: c) auto

lemma length_firsts: "length (firsts time_of c xs) \<le> length xs"
  by (induction xs arbitrary: c) (auto intro: le_SucI)

lemma firsts_snocD:
  assumes "firsts time_of c (xs @ [x]) = xs @ [x]"
  shows "firsts time_of c xs = xs" "cursor_after time_of c xs \<noteq> Some (time_of x)"
  using assms length_firsts [of time_of c xs] by (auto simp: firsts_snoc split: if_splits)

lemma cursor_of_firsts:
  "cursor_after time_of c (firsts time_of c xs) = cursor_after time_of c xs"
proof (induction xs rule: rev_induct)
  case (snoc x xs)
  then show ?case by (auto simp: firsts_snoc cursor_after_def split: if_splits)
qed (simp add: cursor_after_def)

section \<open>Blocks that remember their cursor\<close>

locale temporal_reducer =
  fixes evaluate :: "'s \<Rightarrow> 'x \<Rightarrow> ('r \<times> 's) res"
    and cursor :: "'s \<Rightarrow> int option"
    and time_of :: "'x \<Rightarrow> int"
  assumes repeated: "evaluate s x = Inr (r, s') \<Longrightarrow> cursor s = Some (time_of x) \<Longrightarrow> s' = s"
    and advanced: "evaluate s x = Inr (r, s') \<Longrightarrow> cursor s \<noteq> Some (time_of x)
      \<Longrightarrow> cursor s' = Some (time_of x) \<and> (\<forall>t. cursor s = Some t \<longrightarrow> t < time_of x)"
begin

lemma cursor_next: "evaluate s x = Inr (r, s') \<Longrightarrow> cursor s' = Some (time_of x)"
  using repeated advanced by (cases "cursor s = Some (time_of x)") auto

lemma run_cursor: "outputs_of evaluate s xs = Inr (rs, s') \<Longrightarrow> cursor s' = cursor_after time_of (cursor s) xs"
  by (induction xs arbitrary: s rs rule: rev_induct)
    (auto simp: outputs_of_snoc cursor_after_def dest: cursor_next)

lemma run_firsts:
  "outputs_of evaluate s xs = Inr (rs, s') \<Longrightarrow>
     \<exists>rs'. outputs_of evaluate s (firsts time_of (cursor s) xs) = Inr (rs', s')"
proof (induction xs arbitrary: rs s' rule: rev_induct)
  case (snoc x xs)
  from snoc.prems obtain rs0 r u where run: "outputs_of evaluate s xs = Inr (rs0, u)"
    and e: "evaluate u x = Inr (r, s')" by (auto simp: outputs_of_snoc)
  from snoc.IH [OF run] obtain rs' where
    rs': "outputs_of evaluate s (firsts time_of (cursor s) xs) = Inr (rs', u)" by blast
  show ?case
  proof (cases "cursor u = Some (time_of x)")
    case True
    then show ?thesis using rs' repeated [OF e True] run_cursor [OF run] by (auto simp: firsts_snoc)
  next
    case False
    then have "firsts time_of (cursor s) (xs @ [x]) = firsts time_of (cursor s) xs @ [x]"
      using run_cursor [OF run] by (simp add: firsts_snoc)
    then show ?thesis using rs' e by (auto simp: outputs_of_snoc)
  qed
qed simp

text \<open>The cursors of a run only move forward.\<close>

lemma run_times:
  "outputs_of evaluate s xs = Inr (rs, s') \<Longrightarrow>
     sorted_wrt (<) (map time_of (firsts time_of (cursor s) xs)) \<and>
     (\<forall>x \<in> set xs. \<exists>t. cursor s' = Some t \<and> time_of x \<le> t)"
proof (induction xs arbitrary: rs s' rule: rev_induct)
  case (snoc x xs)
  from snoc.prems obtain rs0 r u where run: "outputs_of evaluate s xs = Inr (rs0, u)"
    and e: "evaluate u x = Inr (r, s')" by (auto simp: outputs_of_snoc)
  note IH = snoc.IH [OF run]
  show ?case
  proof (cases "cursor u = Some (time_of x)")
    case True
    then show ?thesis using IH repeated [OF e True] run_cursor [OF run] by (auto simp: firsts_snoc)
  next
    case False
    then have n: "firsts time_of (cursor s) (xs @ [x]) = firsts time_of (cursor s) xs @ [x]"
      using run_cursor [OF run] by (simp add: firsts_snoc)
    have a: "cursor s' = Some (time_of x)" "\<And>t. cursor u = Some t \<Longrightarrow> t < time_of x"
      using advanced [OF e False] by auto
    have "time_of y < time_of x" if "y \<in> set xs" for y using IH a(2) that by force
    then show ?thesis using IH a(1)
      by (auto simp: n sorted_wrt_append dest: in_firsts less_imp_le)
  qed
qed simp

end

end
