(* ===== verification/Condition_Properties.thy ===== *)
theory Condition_Properties
  imports Condition_Reducers Temporal_Runs
begin

text \<open>
  What the temporal reducers compute, over every run from an empty state. A moment is a bar with
  the inputs of the block. The reference definitions speak of the list of moments alone: the value
  of a hold is whether its last \<open>bars\<close> moments are all true and one bar apart, the event of an edge
  and of a crossing whether the last two are.
\<close>

section \<open>Moments\<close>

type_synonym 'm moment = "bar_context \<times> 'm carried_value list dict"

definition moment_time :: "'m moment \<Rightarrow> int" where
  "moment_time m = bx_timestamp_ms (fst m)"

definition input_at :: "'m moment \<Rightarrow> condition option" where
  "input_at m = (case condition_input (snd m) of Inl _ \<Rightarrow> None | Inr v \<Rightarrow> v)"

definition ready_at :: "'m moment \<Rightarrow> bool" where
  "ready_at m \<longleftrightarrow> (case reducer_status (fst m) (input_at m) of Inl _ \<Rightarrow> False | Inr (r, _) \<Rightarrow> r = Ready)"

definition value_at :: "'m moment \<Rightarrow> bool option" where
  "value_at m = (if ready_at m then truth (input_at m) else None)"

definition one_bar_apart :: "bar_context \<Rightarrow> bar_context \<Rightarrow> bool" where
  "one_bar_apart c d \<longleftrightarrow>
     bx_symbol c = bx_symbol d \<and> bx_timeframe c = bx_timeframe d \<and> bx_bar_index d = bx_bar_index c + 1 \<and>
     bar_interval d = Inr (bx_timestamp_ms d - bx_timestamp_ms c)"

definition next_moment :: "'m moment \<Rightarrow> 'm moment \<Rightarrow> bool" where
  "next_moment m m' \<longleftrightarrow> one_bar_apart (fst m) (fst m') \<and>
     map_option scalar_binding (input_at m) = map_option scalar_binding (input_at m')"

definition held :: "nat \<Rightarrow> 'm moment list \<Rightarrow> bool" where
  "held n ms \<longleftrightarrow>
     (let final = drop (length ms - n) ms in
      n \<le> length ms \<and> list_all (\<lambda>m. value_at m = Some True) final \<and> successively next_moment final)"

text \<open>How many moments at the end of a list, here the start of its reverse, are true and adjacent.\<close>

fun streak :: "'m moment list \<Rightarrow> nat" where
  "streak [] = 0"
| "streak [m] = (if value_at m = Some True then 1 else 0)"
| "streak (m # m' # ms) =
     (if value_at m \<noteq> Some True then 0 else if next_moment m' m then Suc (streak (m' # ms)) else 1)"

lemma streak_prefix:
  "n \<le> streak ms \<longleftrightarrow>
     n \<le> length ms \<and> list_all (\<lambda>m. value_at m = Some True) (take n ms) \<and>
     successively (\<lambda>x y. next_moment y x) (take n ms)"
proof (induction ms arbitrary: n rule: streak.induct)
  case (2 m)
  then show ?case by (cases n) auto
next
  case (3 m m' ms)
  show ?case
  proof (cases n)
    case (Suc k)
    show ?thesis
    proof (cases k)
      case 0
      then show ?thesis using Suc by auto
    next
      case (Suc j)
      then show ?thesis using 3 [of k] \<open>n = Suc k\<close> by (cases "value_at m = Some True \<and> next_moment m' m") auto
    qed
  qed simp
qed simp

lemma streak_held: "n \<le> streak (rev ms) \<longleftrightarrow> held n ms"
  by (simp add: streak_prefix held_def Let_def take_rev list_all_iff successively_rev)

lemma streak_rev_snoc:
  "streak (rev (ms @ [m])) =
     (if value_at m \<noteq> Some True then 0
      else if ms \<noteq> [] \<and> next_moment (last ms) m then Suc (streak (rev ms)) else 1)"
  by (cases ms rule: rev_cases) auto

section \<open>Cursors\<close>

fun node_cursor :: "node_state \<Rightarrow> int option" where
  "node_cursor st = map_option rs_last_timestamp_ms (saved_reducer st)"

declare node_cursor.simps [simp del]

text \<open>The saved cursor is the one of the last moment.\<close>

definition at_moment :: "reducer_state \<Rightarrow> 'm moment \<Rightarrow> bool" where
  "at_moment s m \<longleftrightarrow>
     rs_last_timestamp_ms s = bx_timestamp_ms (fst m) \<and> rs_last_bar_index s = bx_bar_index (fst m) \<and>
     rs_symbol s = bx_symbol (fst m) \<and> rs_timeframe s = bx_timeframe (fst m) \<and>
     rs_binding s = map_option scalar_binding (input_at m)"

lemma reducer_cursor_cases:
  assumes "reducer_cursor ctx v state = Inr (b, duplicate, consecutive)"
  shows "b = map_option scalar_binding v"
    "duplicate \<longleftrightarrow> map_option rs_last_timestamp_ms state = Some (bx_timestamp_ms ctx)"
    "\<not> duplicate \<Longrightarrow> state = Some s \<Longrightarrow> rs_last_timestamp_ms s < bx_timestamp_ms ctx"
    "state = None \<Longrightarrow> \<not> consecutive"
  using assms by (auto simp: reducer_cursor_def Let_def split: option.splits if_splits)

lemma reducer_cursor_next:
  assumes "reducer_cursor (fst m') (input_at m') (Some s) = Inr (b, False, consecutive)" "at_moment s m"
  shows "consecutive \<longleftrightarrow> next_moment m m'"
  using assms
  by (auto simp: reducer_cursor_def Let_def at_moment_def next_moment_def one_bar_apart_def
      split: if_splits sum.splits)

section \<open>Hold\<close>

definition hold_block :: "int \<Rightarrow> node_state \<Rightarrow> 'm moment \<Rightarrow> (condition \<times> node_state) res" where
  "hold_block bars st m = hold_evaluate bars (fst m) (snd m) st"

text \<open>An evaluation at a repeated cursor, and at a new one.\<close>

lemma hold_block_repeated:
  assumes "hold_block bars st m = Inr (c, st')" "node_cursor st = Some (moment_time m)"
  shows "\<exists>s. st' = st \<and> st = Hold_State s \<and> c = hs_output s"
  using assms
  by (auto simp: hold_block_def hold_evaluate_def node_cursor.simps moment_time_def
      dest!: reducer_cursor_cases(2) split: if_splits node_state.splits)

lemma hold_block_new:
  assumes "hold_block bars st m = Inr (c, st')" "node_cursor st \<noteq> Some (moment_time m)"
  obtains s consecutive where "st' = Hold_State s" "c = hs_output s" "1 \<le> bars"
    "reducer_cursor (fst m) (input_at m) (saved_reducer st) = Inr (rs_binding s, False, consecutive)"
    "at_moment (reducer_state.truncate s) m"
    "hs_count s = (if value_at m = Some True
       then min bars ((if consecutive then (case st of Hold_State s \<Rightarrow> hs_count s | _ \<Rightarrow> 0) else 0) + 1) else 0)"
    "cv_value (hs_output s) = (if ready_at m then Some (hs_count s = bars) else None)"
proof -
  from assms(1) obtain v b duplicate consecutive where v: "condition_input (snd m) = Inr v"
    and c: "reducer_cursor (fst m) v (saved_reducer st) = Inr (b, duplicate, consecutive)"
    by (auto simp: hold_block_def hold_evaluate_def)
  have o: "input_at m = v" by (simp add: input_at_def v)
  have d: "\<not> duplicate" using reducer_cursor_cases(2) [OF c] assms(2)
    by (simp add: node_cursor.simps moment_time_def)
  from assms(1) v c d obtain r reason s where st: "reducer_status (fst m) v = Inr (r, reason)"
    and s: "s = \<lparr> rs_version = 1, rs_last_timestamp_ms = bx_timestamp_ms (fst m),
        rs_last_bar_index = bx_bar_index (fst m), rs_symbol = bx_symbol (fst m),
        rs_timeframe = bx_timeframe (fst m), rs_binding = b,
        hs_formula_version = ''condition_hold_v1'', hs_bars = bars,
        hs_count = hold_count bars consecutive st r v,
        hs_output = hold_output bars (fst m) v (r, reason) (hold_count bars consecutive st r v) \<rparr>"
    and res: "hold_state_check s = Inr ()" "st' = Hold_State s" "c = hs_output s"
    by (fastforce simp: hold_block_def hold_evaluate_def Let_def)
  have ready: "ready_at m \<longleftrightarrow> r = Ready" by (simp add: ready_at_def o st)
  have "1 \<le> bars" using res(1) by (simp add: hold_state_check_def s)
  then show ?thesis using that [of s consecutive] res c d ready o
    by (auto simp: s at_moment_def reducer_state.defs hold_count_def hold_output_def value_at_def
        value_identity.defs Let_def dest: reducer_cursor_cases(1))
qed

lemma reducer_cursor_passed:
  assumes "reducer_cursor ctx v (saved_reducer st) = Inr (b, False, consecutive)" "node_cursor st = Some t"
  shows "t < bx_timestamp_ms ctx"
  using assms by (auto simp: node_cursor.simps dest: reducer_cursor_cases(3))

interpretation hold: temporal_reducer "hold_block bars" node_cursor moment_time for bars
proof
  fix s s' :: node_state and m :: "'m moment" and c
  assume e: "hold_block bars s m = Inr (c, s')"
  show "s' = s" if "node_cursor s = Some (moment_time m)" using hold_block_repeated [OF e that] by blast
  assume "node_cursor s \<noteq> Some (moment_time m)"
  then show "node_cursor s' = Some (moment_time m) \<and> (\<forall>t. node_cursor s = Some t \<longrightarrow> t < moment_time m)"
    using e by (elim hold_block_new)
      (auto simp: node_cursor.simps [of "Hold_State _"] at_moment_def moment_time_def dest: reducer_cursor_passed)
qed

text \<open>The state after a run over moments of different bars.\<close>

definition hold_tracks :: "int \<Rightarrow> 'm moment list \<Rightarrow> node_state \<Rightarrow> bool" where
  "hold_tracks bars ms st \<longleftrightarrow>
     (if ms = [] then st = Fresh
      else \<exists>s. st = Hold_State s \<and> at_moment (reducer_state.truncate s) (last ms) \<and>
             hs_count s = min bars (int (streak (rev ms))) \<and> 1 \<le> bars \<and>
             cv_value (hs_output s) = (if ready_at (last ms) then Some (hs_count s = bars) else None))"

lemma hold_tracks_run:
  assumes "outputs_of (hold_block bars) Fresh ms = Inr (cs, st)" "firsts moment_time None ms = ms"
  shows "hold_tracks bars ms st"
  using assms
proof (induction ms arbitrary: cs st rule: rev_induct)
  case Nil
  then show ?case by (simp add: hold_tracks_def)
next
  case (snoc m ms)
  from snoc.prems obtain cs0 c u where run: "outputs_of (hold_block bars) Fresh ms = Inr (cs0, u)"
    and e: "hold_block bars u m = Inr (c, st)" by (auto simp: outputs_of_snoc)
  have f: "firsts moment_time None ms = ms" and new: "node_cursor u \<noteq> Some (moment_time m)"
    using firsts_snocD [OF snoc.prems(2)] hold.run_cursor [OF run] by (auto simp: node_cursor.simps [of Fresh])
  note tr = snoc.IH [OF run f]
  obtain s consecutive where s: "st = Hold_State s" "1 \<le> bars"
    "reducer_cursor (fst m) (input_at m) (saved_reducer u) = Inr (rs_binding s, False, consecutive)"
    "at_moment (reducer_state.truncate s) m"
    "hs_count s = (if value_at m = Some True
       then min bars ((if consecutive then (case u of Hold_State s \<Rightarrow> hs_count s | _ \<Rightarrow> 0) else 0) + 1) else 0)"
    "cv_value (hs_output s) = (if ready_at m then Some (hs_count s = bars) else None)"
    using e new by (rule hold_block_new) blast
  have "hs_count s = min bars (int (streak (rev (ms @ [m]))))"
  proof (cases "ms = []")
    case True
    then show ?thesis using tr s by (auto simp: hold_tracks_def dest: reducer_cursor_cases(4))
  next
    case False
    then obtain p where p: "u = Hold_State p" "at_moment (reducer_state.truncate p) (last ms)"
      "hs_count p = min bars (int (streak (rev ms)))" using tr by (auto simp: hold_tracks_def)
    have "consecutive \<longleftrightarrow> next_moment (last ms) m"
      using reducer_cursor_next [OF _ p(2)] s(3) p(1) by simp
    then show ?thesis using s(2,5) p False by (auto simp: streak_rev_snoc simp del: rev_append)
  qed
  then show ?case using s by (auto simp: hold_tracks_def)
qed

lemma hold_final:
  assumes "outputs_of (hold_block bars) Fresh (ms @ [m]) = Inr (cs, st)"
  obtains s where "st = Hold_State s" "last cs = hs_output s"
proof -
  from assms obtain cs0 c u where e: "hold_block bars u m = Inr (c, st)" "cs = cs0 @ [c]"
    by (auto simp: outputs_of_snoc)
  show ?thesis
  proof (cases "node_cursor u = Some (moment_time m)")
    case True
    then show ?thesis using hold_block_repeated [OF e(1) True] that e(2) by auto
  next
    case False
    then show ?thesis using e(1) hold_block_new that e(2) by (metis last_snoc)
  qed
qed

text \<open>
  C31: After any run of a hold over bars of a session, repeated bars included, its output is
  unavailable when the input of the last bar is not ready, and otherwise true exactly when the last
  \<open>bars\<close> different bars were all ready and true, one primary bar apart, with the same operand.
\<close>

theorem hold_counts_bars:
  assumes "outputs_of (hold_block bars) Fresh ms = Inr (cs, st)" "ms \<noteq> []"
  shows "cv_value (last cs) =
    (let bs = firsts moment_time None ms in
     if ready_at (last bs) then Some (held (nat bars) bs) else None)"
proof -
  from assms(2) obtain ms' m where ms: "ms = ms' @ [m]" by (metis rev_exhaust)
  let ?bs = "firsts moment_time None ms"
  have ne: "?bs \<noteq> []" using assms(2) by (simp add: firsts_empty)
  from hold.run_firsts [OF assms(1)] obtain cs' where
    run: "outputs_of (hold_block bars) Fresh ?bs = Inr (cs', st)" by (auto simp: node_cursor.simps)
  have "hold_tracks bars ?bs st" using run firsts_idem by (rule hold_tracks_run)
  moreover obtain s where "st = Hold_State s" "last cs = hs_output s"
    using assms(1) hold_final unfolding ms by blast
  ultimately have "1 \<le> bars" "cv_value (last cs) =
      (if ready_at (last ?bs) then Some (min bars (int (streak (rev ?bs))) = bars) else None)"
    using ne by (auto simp: hold_tracks_def)
  moreover have "min bars (int n) = bars \<longleftrightarrow> nat bars \<le> n" for n by linarith
  ultimately show ?thesis by (simp add: Let_def streak_held)
qed

section \<open>Rising edge\<close>

definition edge_block :: "node_state \<Rightarrow> 'm moment \<Rightarrow> (edge_metadata market_event option \<times> node_state) res" where
  "edge_block st m = edge_evaluate (fst m) (snd m) st"

text \<open>The event between two adjacent moments.\<close>

definition rising :: "'m moment \<Rightarrow> 'm moment \<Rightarrow> edge_metadata market_event option" where
  "rising m m' =
     (if next_moment m m' \<and> value_at m = Some False \<and> value_at m' = Some True
      then (case (input_at m, input_at m') of
          (Some p, Some c) \<Rightarrow> Some (edge_event (fst m') c p) | _ \<Rightarrow> None)
      else None)"

lemma edge_block_repeated:
  assumes "edge_block st m = Inr (e, st')" "node_cursor st = Some (moment_time m)"
  shows "st' = st" "e = None"
  using assms
  by (auto simp: edge_block_def edge_evaluate_def node_cursor.simps moment_time_def Let_def
      dest!: reducer_cursor_cases(2) split: if_splits)

lemma edge_block_new:
  assumes "edge_block st m = Inr (e, st')" "node_cursor st \<noteq> Some (moment_time m)"
  obtains s consecutive where "st' = Edge_State s"
    "reducer_cursor (fst m) (input_at m) (saved_reducer st) = Inr (rs_binding s, False, consecutive)"
    "at_moment (reducer_state.truncate s) m"
    "es_previous s = (if ready_at m then input_at m else None)"
    "e = edge_between (fst m) (if consecutive then saved_previous st else None) (es_previous s)"
proof -
  from assms(1) obtain v b duplicate consecutive where v: "condition_input (snd m) = Inr v"
    and c: "reducer_cursor (fst m) v (saved_reducer st) = Inr (b, duplicate, consecutive)"
    by (auto simp: edge_block_def edge_evaluate_def)
  have o: "input_at m = v" by (simp add: input_at_def v)
  have d: "\<not> duplicate" using reducer_cursor_cases(2) [OF c] assms(2)
    by (simp add: node_cursor.simps moment_time_def)
  from assms(1) v c d obtain r reason where st: "reducer_status (fst m) v = Inr (r, reason)"
    by (auto simp: edge_block_def edge_evaluate_def)
  define s where s: "s = \<lparr> rs_version = 1, rs_last_timestamp_ms = bx_timestamp_ms (fst m),
      rs_last_bar_index = bx_bar_index (fst m), rs_symbol = bx_symbol (fst m),
      rs_timeframe = bx_timeframe (fst m), rs_binding = b,
      es_formula_version = ''condition_edge_v1'', es_previous = (if r = Ready then v else None) \<rparr>"
  have res: "st' = Edge_State s" "e = edge_between (fst m) (if consecutive then saved_previous st else None) (es_previous s)"
    using assms(1) v c d st
    by (simp_all add: edge_block_def edge_evaluate_def Let_def s)
  have ready: "ready_at m \<longleftrightarrow> r = Ready" by (simp add: ready_at_def o st)
  show ?thesis using that [of s consecutive] res c d ready o
    by (auto simp: s at_moment_def reducer_state.defs dest: reducer_cursor_cases(1))
qed

interpretation edge: temporal_reducer edge_block node_cursor moment_time
proof
  fix s s' :: node_state and m :: "'m moment" and e
  assume ev: "edge_block s m = Inr (e, s')"
  show "s' = s" if "node_cursor s = Some (moment_time m)" using edge_block_repeated [OF ev that] by blast
  assume "node_cursor s \<noteq> Some (moment_time m)"
  then show "node_cursor s' = Some (moment_time m) \<and> (\<forall>t. node_cursor s = Some t \<longrightarrow> t < moment_time m)"
    using ev by (elim edge_block_new)
      (auto simp: node_cursor.simps [of "Edge_State _"] at_moment_def moment_time_def dest: reducer_cursor_passed)
qed

definition edge_tracks :: "'m moment list \<Rightarrow> node_state \<Rightarrow> bool" where
  "edge_tracks ms st \<longleftrightarrow>
     (if ms = [] then st = Fresh
      else \<exists>s. st = Edge_State s \<and> at_moment (reducer_state.truncate s) (last ms) \<and>
             es_previous s = (if ready_at (last ms) then input_at (last ms) else None))"

lemma edge_tracks_run:
  assumes "outputs_of edge_block Fresh ms = Inr (es, st)"
  shows "edge_tracks (firsts moment_time None ms) st"
  using assms
proof (induction ms arbitrary: es st rule: rev_induct)
  case Nil
  then show ?case by (simp add: edge_tracks_def)
next
  case (snoc m ms)
  from snoc.prems obtain es0 e u where run: "outputs_of edge_block Fresh ms = Inr (es0, u)"
    and e: "edge_block u m = Inr (e, st)" by (auto simp: outputs_of_snoc)
  have cur: "node_cursor u = cursor_after moment_time None ms"
    using edge.run_cursor [OF run] by (simp add: node_cursor.simps [of Fresh])
  show ?case
  proof (cases "node_cursor u = Some (moment_time m)")
    case True
    then show ?thesis using snoc.IH [OF run] edge_block_repeated [OF e True] cur by (simp add: firsts_snoc)
  next
    case False
    then show ?thesis using cur e
      by (elim edge_block_new) (auto simp: firsts_snoc edge_tracks_def)
  qed
qed

text \<open>
  In every run of a rising edge, a bar gives the event of a false and a true condition that
  are ready, one primary bar apart and of the same operand, and nothing otherwise; a repeated bar
  never gives the event again.
\<close>

theorem edge_fires_once:
  assumes "outputs_of edge_block Fresh (ms @ [m]) = Inr (es, st)"
  shows "last es =
    (if ms = [] \<or> cursor_after moment_time None ms = Some (moment_time m) then None
     else rising (last (firsts moment_time None ms)) m)"
proof -
  from assms obtain es0 e u where run: "outputs_of edge_block Fresh ms = Inr (es0, u)"
    and e: "edge_block u m = Inr (e, st)" "es = es0 @ [e]" by (auto simp: outputs_of_snoc)
  have cur: "node_cursor u = cursor_after moment_time None ms"
    using edge.run_cursor [OF run] by (simp add: node_cursor.simps [of Fresh])
  let ?l = "last (firsts moment_time None ms)"
  note tr = edge_tracks_run [OF run]
  show ?thesis
  proof (cases "node_cursor u = Some (moment_time m)")
    case True
    then show ?thesis using edge_block_repeated(2) [OF e(1) True] cur e(2) by simp
  next
    case False
    obtain s consecutive where "st = Edge_State s"
      and s1: "reducer_cursor (fst m) (input_at m) (saved_reducer u) = Inr (rs_binding s, False, consecutive)"
      and "at_moment (reducer_state.truncate s) m"
      and s2: "es_previous s = (if ready_at m then input_at m else None)"
      and s3: "e = edge_between (fst m) (if consecutive then saved_previous u else None) (es_previous s)"
      by (rule edge_block_new [OF e(1) False])
    note s = s1 s2 s3
    show ?thesis
    proof (cases "ms = []")
      case True
      then show ?thesis using tr s(3) e(2) by (auto simp: edge_tracks_def edge_between_def saved_previous_def)
    next
      case nonempty: False
      then obtain p where p: "u = Edge_State p" "at_moment (reducer_state.truncate p) ?l"
        "es_previous p = (if ready_at ?l then input_at ?l else None)"
        using tr by (auto simp: edge_tracks_def firsts_empty)
      have "consecutive \<longleftrightarrow> next_moment ?l m" using reducer_cursor_next [OF _ p(2)] s(1) p(1) by simp
      then show ?thesis using s(2,3) e(2) p nonempty False cur
        by (auto simp: rising_def value_at_def truth_def saved_previous_def edge_between_def split: option.splits)
    qed
  qed
qed

section \<open>Crossing\<close>

definition cross_block ::
  "cross_mode \<Rightarrow> cross_state option \<Rightarrow> 'm moment \<Rightarrow> (cross_metadata market_event option \<times> cross_state option) res" where
  "cross_block mode st m = cross_evaluate mode (fst m) (snd m) st"

definition cross_cursor :: "cross_state option \<Rightarrow> int option" where
  "cross_cursor st = map_option cs_last_timestamp_ms st"

text \<open>The pair of a moment whose operands are ready.\<close>

definition pair_at :: "'m moment \<Rightarrow> (numeric_value \<times> numeric_value) option" where
  "pair_at m =
     (case (number_input ''left'' (snd m), number_input ''right'' (snd m)) of
        (Inr (Some l), Inr (Some r)) \<Rightarrow>
          (case scalar_status (fst m) [Some l, Some r] False of
             Inr (Ready, _) \<Rightarrow> Some (l, r) | _ \<Rightarrow> None)
      | _ \<Rightarrow> None)"

definition same_operands :: "numeric_value \<times> numeric_value \<Rightarrow> numeric_value \<times> numeric_value \<Rightarrow> bool" where
  "same_operands p c \<longleftrightarrow> scalar_binding (fst p) = scalar_binding (fst c) \<and> scalar_binding (snd p) = scalar_binding (snd c)"

definition pair_direction :: "numeric_value \<times> numeric_value \<Rightarrow> numeric_value \<times> numeric_value \<Rightarrow> cross_mode option" where
  "pair_direction p c =
     (case (nv_value (fst p), nv_value (snd p), nv_value (fst c), nv_value (snd c)) of
        (Some pl, Some pr, Some l, Some r) \<Rightarrow> cross_direction pl pr l r | _ \<Rightarrow> None)"

definition crossed :: "cross_mode \<Rightarrow> 'm moment \<Rightarrow> 'm moment \<Rightarrow> cross_metadata market_event option" where
  "crossed mode m m' =
     (case (pair_at m, pair_at m') of
        (Some p, Some c) \<Rightarrow>
          if bar_interval (fst m') = Inr (moment_time m' - moment_time m) \<and> same_operands p c
          then (case pair_direction p c of
              Some d \<Rightarrow> if mode = d \<or> mode = Both then Some (cross_event (fst m') d p c) else None
            | None \<Rightarrow> None)
          else None
      | _ \<Rightarrow> None)"

lemma cross_block_repeated:
  assumes "cross_block mode st m = Inr (e, st')" "cross_cursor st = Some (moment_time m)"
  shows "st' = st" "e = None"
  using assms
  by (auto simp: cross_block_def cross_evaluate_def cross_cursor_def moment_time_def split: if_splits option.splits)

lemma cross_block_new:
  assumes "cross_block mode st m = Inr (e, st')" "cross_cursor st \<noteq> Some (moment_time m)"
  obtains found where
    "st' = Some \<lparr> cs_version = 1, cs_last_timestamp_ms = moment_time m, cs_previous = pair_at m \<rparr>"
    "\<And>s. st = Some s \<Longrightarrow> cs_last_timestamp_ms s < moment_time m"
    "(case (st, pair_at m) of (Some s, Some c) \<Rightarrow> crossing (fst m) (cs_last_timestamp_ms s) (cs_previous s) c
      | _ \<Rightarrow> Inr None) = Inr found"
    "e = cross_between mode (fst m) found (pair_at m)"
proof -
  from assms(1) obtain left right r reason where i: "number_input ''left'' (snd m) = Inr left"
    "number_input ''right'' (snd m) = Inr right" "scalar_status (fst m) [left, right] False = Inr (r, reason)"
    by (auto simp: cross_block_def cross_evaluate_def)
  have pair: "current_pair left right r = pair_at m"
    using i by (cases left; cases right; cases r) (simp_all add: pair_at_def current_pair_def)
  have later: "\<And>s. st = Some s \<Longrightarrow> cs_last_timestamp_ms s < moment_time m"
    using assms i by (auto simp: cross_block_def cross_evaluate_def cross_cursor_def moment_time_def split: if_splits)
  have "map_option cs_last_timestamp_ms st \<noteq> Some (bx_timestamp_ms (fst m))"
    using assms(2) by (simp add: cross_cursor_def moment_time_def)
  then obtain found where
    "(case (st, pair_at m) of (Some s, Some c) \<Rightarrow> crossing (fst m) (cs_last_timestamp_ms s) (cs_previous s) c
      | _ \<Rightarrow> Inr None) = Inr found"
    "e = cross_between mode (fst m) found (pair_at m)"
    "st' = Some \<lparr> cs_version = 1, cs_last_timestamp_ms = moment_time m, cs_previous = pair_at m \<rparr>"
    using assms(1) i
    by (cases st) (auto simp: cross_block_def cross_evaluate_def pair moment_time_def Let_def)
  then show ?thesis using that later by blast
qed

interpretation cross: temporal_reducer "cross_block mode" cross_cursor moment_time for mode
proof
  fix s s' :: "cross_state option" and m :: "'m moment" and e
  assume ev: "cross_block mode s m = Inr (e, s')"
  show "s' = s" if "cross_cursor s = Some (moment_time m)" using cross_block_repeated [OF ev that] by blast
  assume "cross_cursor s \<noteq> Some (moment_time m)"
  with ev show "cross_cursor s' = Some (moment_time m) \<and> (\<forall>t. cross_cursor s = Some t \<longrightarrow> t < moment_time m)"
    by (rule cross_block_new) (auto simp: cross_cursor_def)
qed

lemma crossing_pair:
  assumes "crossing ctx final previous c = Inr found"
  shows "cross_between mode ctx found (Some c) =
    (case previous of None \<Rightarrow> None
     | Some p \<Rightarrow>
         if bar_interval ctx = Inr (bx_timestamp_ms ctx - final) \<and> same_operands p c
         then (case pair_direction p c of
             Some d \<Rightarrow> if mode = d \<or> mode = Both then Some (cross_event ctx d p c) else None
           | None \<Rightarrow> None)
         else None)"
  using assms
  by (auto simp: crossing_def cross_between_def same_operands_def pair_direction_def
      split: option.splits if_splits)

definition cross_tracks :: "'m moment list \<Rightarrow> cross_state option \<Rightarrow> bool" where
  "cross_tracks ms st \<longleftrightarrow>
     st = (if ms = [] then None
           else Some \<lparr> cs_version = 1, cs_last_timestamp_ms = moment_time (last ms), cs_previous = pair_at (last ms) \<rparr>)"

lemma cross_tracks_run:
  assumes "outputs_of (cross_block mode) None ms = Inr (es, st)"
  shows "cross_tracks (firsts moment_time None ms) st"
  using assms
proof (induction ms arbitrary: es st rule: rev_induct)
  case Nil
  then show ?case by (simp add: cross_tracks_def)
next
  case (snoc m ms)
  from snoc.prems obtain es0 e u where run: "outputs_of (cross_block mode) None ms = Inr (es0, u)"
    and e: "cross_block mode u m = Inr (e, st)" by (auto simp: outputs_of_snoc)
  have cur: "cross_cursor u = cursor_after moment_time None ms"
    using cross.run_cursor [OF run] by (simp add: cross_cursor_def)
  show ?case
  proof (cases "cross_cursor u = Some (moment_time m)")
    case True
    then show ?thesis using snoc.IH [OF run] cross_block_repeated [OF e True] cur by (simp add: firsts_snoc)
  next
    case False
    then show ?thesis using cur e
      by (elim cross_block_new) (auto simp: firsts_snoc cross_tracks_def)
  qed
qed

text \<open>
  In every run of a crossing, a bar gives an event exactly when it and the last different bar
  before it have ready operands of the same identity, lie one primary bar apart and the left value
  passes the right one strictly in a direction the block looks for; the event carries both pairs. A
  repeated bar gives none.
\<close>

theorem cross_fires_once:
  assumes "outputs_of (cross_block mode) None (ms @ [m]) = Inr (es, st)"
  shows "last es =
    (if ms = [] \<or> cursor_after moment_time None ms = Some (moment_time m) then None
     else crossed mode (last (firsts moment_time None ms)) m)"
proof -
  from assms obtain es0 e u where run: "outputs_of (cross_block mode) None ms = Inr (es0, u)"
    and e: "cross_block mode u m = Inr (e, st)" "es = es0 @ [e]" by (auto simp: outputs_of_snoc)
  have cur: "cross_cursor u = cursor_after moment_time None ms"
    using cross.run_cursor [OF run] by (simp add: cross_cursor_def)
  let ?l = "last (firsts moment_time None ms)"
  note tr = cross_tracks_run [OF run]
  show ?thesis
  proof (cases "cross_cursor u = Some (moment_time m)")
    case True
    then show ?thesis using cross_block_repeated(2) [OF e(1) True] cur e(2) by simp
  next
    case False
    obtain found where "st = Some \<lparr> cs_version = 1, cs_last_timestamp_ms = moment_time m, cs_previous = pair_at m \<rparr>"
      and f: "(case (u, pair_at m) of (Some s, Some c) \<Rightarrow> crossing (fst m) (cs_last_timestamp_ms s) (cs_previous s) c
        | _ \<Rightarrow> Inr None) = Inr found"
      and ev: "e = cross_between mode (fst m) found (pair_at m)"
      by (rule cross_block_new [OF e(1) False])
    show ?thesis
    proof (cases "ms = [] \<or> pair_at m = None")
      case True
      then show ?thesis using tr f ev e(2)
        by (auto simp: cross_tracks_def cross_between_def crossed_def split: option.splits)
    next
      case more: False
      then obtain c where c: "pair_at m = Some c" by auto
      from more tr have u: "u = Some \<lparr> cs_version = 1, cs_last_timestamp_ms = moment_time ?l, cs_previous = pair_at ?l \<rparr>"
        by (simp add: cross_tracks_def firsts_empty)
      then have "crossing (fst m) (moment_time ?l) (pair_at ?l) c = Inr found" using f c by simp
      from crossing_pair [OF this, of mode] show ?thesis using ev e(2) more False cur c
        by (simp add: crossed_def moment_time_def split: option.splits)
    qed
  qed
qed

section \<open>A session of one-minute bars\<close>

definition minute_bar :: "nat \<Rightarrow> bar_context" where
  "minute_bar k = \<lparr> bx_bar_index = int k, bx_timestamp_ms = 60000 * int k,
     bx_decision_timestamp_ms = Some (60000 * int k + 60000), bx_symbol = ''BTC'', bx_timeframe = Some ''1m'' \<rparr>"

definition demo_value :: "string \<Rightarrow> nat \<Rightarrow> value_identity" where
  "demo_value source k = \<lparr> vi_bar_index = int k, vi_timestamp_ms = 60000 * int k, vi_source_node_id = source,
     vi_unit = Ratio, vi_symbol = ''BTC'', vi_timeframe = Some ''1m'', vi_as_of_ms = Some (60000 * int k + 60000),
     vi_available_at_ms = Some (60000 * int k + 60000), vi_readiness = Ready, vi_reason = None,
     vi_formula_version = ''v1'', vi_input_cursor = Some ''c'' \<rparr>"

definition demo_condition :: "nat \<Rightarrow> bool \<Rightarrow> unit moment" where
  "demo_condition k b =
     (minute_bar k, [(''condition'', [Carried_Condition (value_identity.extend (demo_value ''cmp'' k) \<lparr> cv_value = Some b \<rparr>)])])"

definition demo_pair :: "nat \<Rightarrow> rat \<Rightarrow> rat \<Rightarrow> unit moment" where
  "demo_pair k l r =
     (minute_bar k, [(''left'', [Carried_Number (value_identity.extend (demo_value ''fast'' k) \<lparr> nv_value = Some l \<rparr>)]),
                   (''right'', [Carried_Number (value_identity.extend (demo_value ''slow'' k) \<lparr> nv_value = Some r \<rparr>)])])"

definition demo_rise :: "unit moment list" where
  "demo_rise = [demo_condition 0 False, demo_condition 1 True, demo_condition 2 True, demo_condition 2 True]"

lemma demo_hold_runs:
  "(case outputs_of (hold_block 2) Fresh demo_rise of
      Inl _ \<Rightarrow> False | Inr (cs, st) \<Rightarrow> map cv_value cs = [Some False, Some False, Some True, Some True])"
  by code_simp

lemma hold_counts_bars_witness:
  "\<exists>cs st. outputs_of (hold_block 2) Fresh demo_rise = Inr (cs, st) \<and>
     (let bs = firsts moment_time None demo_rise in
      cv_value (last cs) = (if ready_at (last bs) then Some (held (nat 2) bs) else None)) \<and> cv_value (last cs) = Some True"
proof -
  obtain cs st where run: "outputs_of (hold_block 2) Fresh demo_rise = Inr (cs, st)"
    "map cv_value cs = [Some False, Some False, Some True, Some True]"
    using demo_hold_runs by (auto split: sum.splits)
  have "demo_rise \<noteq> []" by (simp add: demo_rise_def)
  note v = hold_counts_bars [OF run(1) this]
  have "last (map cv_value cs) = Some True" "cs \<noteq> []" using run(2) by auto
  then have "cv_value (last cs) = Some True" by (simp add: last_map)
  with v show ?thesis using run(1) unfolding Let_def by blast
qed

lemma demo_edge_runs:
  "(case outputs_of edge_block Fresh [demo_condition 0 False, demo_condition 1 True] of
      Inl _ \<Rightarrow> False | Inr (es, st) \<Rightarrow> map (\<lambda>e. e = None) es = [True, False])"
  by code_simp

lemma edge_fires_once_witness:
  "\<exists>es st. outputs_of edge_block Fresh [demo_condition 0 False, demo_condition 1 True] = Inr (es, st) \<and>
     last es = rising (demo_condition 0 False) (demo_condition 1 True) \<and> last es \<noteq> None"
proof -
  obtain es st where run: "outputs_of edge_block Fresh ([demo_condition 0 False] @ [demo_condition 1 True]) = Inr (es, st)"
    "map (\<lambda>e. e = None) es = [True, False]"
    using demo_edge_runs by (auto split: sum.splits)
  have "moment_time (demo_condition 0 False) \<noteq> moment_time (demo_condition 1 True)" by code_simp
  with edge_fires_once [OF run(1)] have "last es = rising (demo_condition 0 False) (demo_condition 1 True)"
    by (simp add: cursor_after_def)
  moreover have "last (map (\<lambda>e. e = None) es) = False" using run(2) by simp
  moreover have "es \<noteq> []" using run(2) by auto
  ultimately show ?thesis using run(1) by (auto simp: last_map)
qed

lemma demo_cross_runs:
  "(case outputs_of (cross_block Up) None [demo_pair 0 1 1, demo_pair 1 3 2] of
      Inl _ \<Rightarrow> False | Inr (es, st) \<Rightarrow> map (\<lambda>e. e = None) es = [True, False])"
  by code_simp

lemma cross_fires_once_witness:
  "\<exists>es st. outputs_of (cross_block Up) None [demo_pair 0 1 1, demo_pair 1 3 2] = Inr (es, st) \<and>
     last es = crossed Up (demo_pair 0 1 1) (demo_pair 1 3 2) \<and> last es \<noteq> None"
proof -
  obtain es st where run: "outputs_of (cross_block Up) None ([demo_pair 0 1 1] @ [demo_pair 1 3 2]) = Inr (es, st)"
    "map (\<lambda>e. e = None) es = [True, False]"
    using demo_cross_runs by (auto split: sum.splits)
  have "moment_time (demo_pair 0 1 1) \<noteq> moment_time (demo_pair 1 3 2)" by code_simp
  with cross_fires_once [OF run(1)] have "last es = crossed Up (demo_pair 0 1 1) (demo_pair 1 3 2)"
    by (simp add: cursor_after_def)
  moreover have "last (map (\<lambda>e. e = None) es) = False" using run(2) by simp
  moreover have "es \<noteq> []" using run(2) by auto
  ultimately show ?thesis using run(1) by (auto simp: last_map)
qed

end
