(* ===== verification/Event_Chains.thy ===== *)
theory Event_Chains
  imports Temporal_Values "HOL-Library.Product_Lexorder"
begin

text \<open>
  The blocks that assemble events of different bars into setups,
  \<open>src/koval/strategy/nodes/aggregator.py\<close>: \<open>interp.event_aggregator\<close> keeps the open chains of the
  bars before, and \<open>interp.setup_generator\<close> names the setup and resolves its direction.

  The decision recorder of a bar (\<open>ctx.evidence\<close>) enters as the optional function \<open>obs\<close> from an
  event to the observations it has for it; a chain keeps them. What the recorder retains of a setup
  does not enter the candidate and is left out. The dictionaries of the state are records: a state
  without the keys \<open>chains\<close> and \<open>minted\<close> stands for the empty one.
\<close>

section \<open>Parameters and state\<close>

datatype order_policy = Strict | Any_Order

datatype direction_policy = Consistent | Ignore_Direction

record agg_params =
  ag_event_sequence :: "string list"
  ag_timeout_bars :: int
  ag_order_policy :: order_policy
  ag_direction_policy :: direction_policy
  ag_max_open_chains :: nat

definition agg_params_ok :: "agg_params \<Rightarrow> bool" where
  "agg_params_ok p \<longleftrightarrow> 1 \<le> ag_timeout_bars p \<and> 1 \<le> ag_max_open_chains p"

record matched_event =
  mt_source :: string
  mt_bar :: int
  mt_kind :: string
  mt_direction :: "direction option"

record 'o chain =
  ch_matched :: "matched_event list"
  ch_evidence :: "'o list"
  ch_remaining :: "string list"
  ch_deadline_bar :: int
  ch_direction :: "direction option"

record 'o agg_state =
  as_chains :: "'o chain list"
  as_minted :: nat

definition no_chains :: "'o agg_state" where
  "no_chains = \<lparr>as_chains = [], as_minted = 0\<rparr>"

record setup_candidate =
  sc_bar_index :: int
  sc_timestamp_ms :: int
  sc_source_node_id :: string
  sc_setup_id :: string
  sc_setup_type :: string
  sc_direction :: direction
  sc_contributing_events :: "(string \<times> int) list"
  sc_window :: "int \<times> int"
  sc_event_kinds :: "string list"
  sc_event_strengths :: "rat option list"

section \<open>One event\<close>

definition can_take :: "agg_params \<Rightarrow> string \<Rightarrow> direction option \<Rightarrow> 'o chain \<Rightarrow> bool" where
  "can_take p kind d c \<longleftrightarrow>
     (case ag_order_policy p of
        Strict \<Rightarrow> ch_remaining c \<noteq> [] \<and> hd (ch_remaining c) = kind
      | Any_Order \<Rightarrow> kind \<in> set (ch_remaining c)) \<and>
     (ag_direction_policy p = Consistent \<and> ch_direction c \<noteq> None \<longrightarrow> d = ch_direction c)"

definition matched_of :: "'m market_event \<Rightarrow> matched_event" where
  "matched_of e = \<lparr> mt_source = me_source_node_id e, mt_bar = me_bar_index e, mt_kind = me_kind e,
                    mt_direction = me_direction e \<rparr>"

definition observations_of :: "('m market_event \<Rightarrow> 'o list) option \<Rightarrow> 'm market_event \<Rightarrow> 'o list" where
  "observations_of obs e = (case obs of None \<Rightarrow> [] | Some f \<Rightarrow> f e)"

definition take_event ::
  "agg_params \<Rightarrow> ('m market_event \<Rightarrow> 'o list) option \<Rightarrow> 'm market_event \<Rightarrow> 'o chain \<Rightarrow> 'o chain" where
  "take_event p obs e c =
     c\<lparr> ch_matched := ch_matched c @ [matched_of e],
        ch_evidence := ch_evidence c @ observations_of obs e,
        ch_remaining := remove1 (me_kind e) (ch_remaining c),
        ch_direction := (if ag_direction_policy p = Consistent \<and> ch_direction c = None
                         then me_direction e else ch_direction c) \<rparr>"

text \<open>The oldest chain that can take the event takes it.\<close>

fun offer ::
  "agg_params \<Rightarrow> ('m market_event \<Rightarrow> 'o list) option \<Rightarrow> 'm market_event \<Rightarrow> 'o chain list \<Rightarrow> 'o chain list option" where
  "offer p obs e [] = None"
| "offer p obs e (c # cs) =
     (if can_take p (me_kind e) (me_direction e) c then Some (take_event p obs e c # cs)
      else map_option (Cons c) (offer p obs e cs))"

definition can_seed :: "agg_params \<Rightarrow> 'm market_event \<Rightarrow> bool" where
  "can_seed p e \<longleftrightarrow>
     (case ag_order_policy p of
        Strict \<Rightarrow> ag_event_sequence p \<noteq> [] \<and> me_kind e = hd (ag_event_sequence p)
      | Any_Order \<Rightarrow> me_kind e \<in> set (ag_event_sequence p)) \<and>
     (ag_direction_policy p = Consistent \<longrightarrow> me_direction e \<in> {Some Bullish, Some Bearish})"

definition seed ::
  "agg_params \<Rightarrow> ('m market_event \<Rightarrow> 'o list) option \<Rightarrow> int \<Rightarrow> 'm market_event \<Rightarrow> 'o chain" where
  "seed p obs bar e =
     \<lparr> ch_matched = [matched_of e], ch_evidence = observations_of obs e,
       ch_remaining = remove1 (me_kind e) (ag_event_sequence p),
       ch_deadline_bar = bar + ag_timeout_bars p,
       ch_direction = (if ag_direction_policy p = Consistent then me_direction e else None) \<rparr>"

definition on_event ::
  "agg_params \<Rightarrow> ('m market_event \<Rightarrow> 'o list) option \<Rightarrow> int \<Rightarrow> 'o chain list \<Rightarrow> 'm market_event \<Rightarrow> 'o chain list" where
  "on_event p obs bar opened e =
     (case offer p obs e opened of
        Some opened' \<Rightarrow> opened'
      | None \<Rightarrow> if can_seed p e then opened @ [seed p obs bar e] else opened)"

section \<open>One bar\<close>

fun arrow_join :: "string list \<Rightarrow> string" where
  "arrow_join [] = []"
| "arrow_join [x] = x"
| "arrow_join (x # y # xs) = x @ ''->'' @ arrow_join (y # xs)"

definition setup_id :: "string \<Rightarrow> int \<Rightarrow> int \<Rightarrow> nat \<Rightarrow> string" where
  "setup_id source first_bar last_bar minted =
     source @ ''@'' @ int_text first_bar @ ''-'' @ int_text last_bar @ ''#'' @ nat_text minted"

definition candidate_of :: "'c bar_context_scheme \<Rightarrow> nat \<Rightarrow> 'o chain \<Rightarrow> setup_candidate" where
  "candidate_of ctx minted c =
     (let ms = ch_matched c; kinds = map mt_kind ms; a = mt_bar (hd ms); b = mt_bar (last ms) in
      \<lparr> sc_bar_index = bx_bar_index ctx, sc_timestamp_ms = bx_timestamp_ms ctx,
        sc_source_node_id = ''event_aggregator'',
        sc_setup_id = setup_id (mt_source (hd ms)) a b minted,
        sc_setup_type = arrow_join kinds,
        sc_direction = (case ch_direction c of None \<Rightarrow> Neutral | Some d \<Rightarrow> d),
        sc_contributing_events = map (\<lambda>m. (mt_source m, mt_bar m)) ms,
        sc_window = (a, b), sc_event_kinds = kinds, sc_event_strengths = map (\<lambda>_. None) ms \<rparr>)"

definition completed :: "'o chain list \<Rightarrow> 'o chain list" where
  "completed opened =
     sort_key (\<lambda>c. (mt_bar (hd (ch_matched c)), mt_source (hd (ch_matched c))))
       (filter (\<lambda>c. ch_remaining c = []) opened)"

definition kept_partials :: "agg_params \<Rightarrow> 'o chain list \<Rightarrow> 'o chain list" where
  "kept_partials p opened =
     (let ps = filter (\<lambda>c. ch_remaining c \<noteq> []) opened in drop (length ps - ag_max_open_chains p) ps)"

definition event_aggregator ::
  "agg_params \<Rightarrow> ('m market_event \<Rightarrow> 'o list) option \<Rightarrow> 'c bar_context_scheme \<Rightarrow> 'm market_event list \<Rightarrow>
     'o agg_state \<Rightarrow> setup_candidate option \<times> 'o agg_state" where
  "event_aggregator p obs ctx events s =
     (if ag_event_sequence p = [] then (None, s)
      else
        let alive = filter (\<lambda>c. bx_bar_index ctx \<le> ch_deadline_bar c) (as_chains s);
            opened = foldl (on_event p obs (bx_bar_index ctx)) alive events;
            s' = s\<lparr>as_chains := kept_partials p opened\<rparr> in
        case completed opened of
          [] \<Rightarrow> (None, s')
        | chosen # _ \<Rightarrow>
            (Some (candidate_of ctx (as_minted s + 1) chosen), s'\<lparr>as_minted := as_minted s + 1\<rparr>))"

section \<open>Naming the setup\<close>

datatype direction_mode = Keep_Direction | Invert_Direction

fun invert :: "direction \<Rightarrow> direction" where
  "invert Bullish = Bearish"
| "invert Bearish = Bullish"
| "invert Neutral = Neutral"

definition setup_generator ::
  "string dict \<Rightarrow> direction_mode \<Rightarrow> setup_candidate list \<Rightarrow> setup_candidate option" where
  "setup_generator type_map mode cands =
     (case cands of
        [] \<Rightarrow> None
      | c # _ \<Rightarrow> Some (c\<lparr> sc_setup_type := (case map_of type_map (sc_setup_type c) of None \<Rightarrow> sc_setup_type c | Some t \<Rightarrow> t),
                        sc_direction := (if mode = Invert_Direction then invert (sc_direction c) else sc_direction c),
                        sc_source_node_id := ''setup_generator'' \<rparr>))"

end
