(* ===== verification/Chain_Properties.thy ===== *)
theory Chain_Properties
  imports Event_Chains "HOL-Library.Sublist" "HOL-Library.Multiset"
begin

text \<open>
  What the event aggregator guarantees over every sequence of bars: the chains it keeps are pieces
  of the configured sequence, a setup is a subsequence of the events seen within the time limit,
  no event enters two setups, and setup identities never repeat.
\<close>

section \<open>Runs\<close>

type_synonym 'm event_bar = "bar_context \<times> 'm market_event list"

definition agg_step ::
  "agg_params \<Rightarrow> ('m market_event \<Rightarrow> 'o list) option \<Rightarrow> setup_candidate list \<times> 'o agg_state \<Rightarrow> 'm event_bar \<Rightarrow>
     setup_candidate list \<times> 'o agg_state" where
  "agg_step p obs r b =
     (let (c, s) = event_aggregator p obs (fst b) (snd b) (snd r) in
      (fst r @ (case c of None \<Rightarrow> [] | Some c \<Rightarrow> [c]), s))"

definition assemble ::
  "agg_params \<Rightarrow> ('m market_event \<Rightarrow> 'o list) option \<Rightarrow> 'm event_bar list \<Rightarrow> setup_candidate list \<times> 'o agg_state" where
  "assemble p obs bars = foldl (agg_step p obs) ([], no_chains) bars"

definition events_of :: "'m event_bar list \<Rightarrow> 'm market_event list" where
  "events_of bars = concat (map snd bars)"

text \<open>The bars come in order, and the events of a bar carry its index.\<close>

definition timely :: "'m event_bar list \<Rightarrow> bool" where
  "timely bars \<longleftrightarrow> sorted (map (\<lambda>b. bx_bar_index (fst b)) bars) \<and>
     (\<forall>b \<in> set bars. \<forall>e \<in> set (snd b). me_bar_index e = bx_bar_index (fst b))"

lemma assemble_snoc: "assemble p obs (bars @ [b]) = agg_step p obs (assemble p obs bars) b"
  by (simp add: assemble_def)

section \<open>One event\<close>

lemma offer_induct:
  assumes "offer p obs e cs = Some cs'" "\<forall>c \<in> set cs. P c"
    and "\<And>c. P c \<Longrightarrow> can_take p (me_kind e) (me_direction e) c \<Longrightarrow> Q (take_event p obs e c)"
    and "\<And>c. P c \<Longrightarrow> Q c"
  shows "\<forall>c \<in> set cs'. Q c"
  using assms(1,2)
proof (induction cs arbitrary: cs')
  case (Cons c cs)
  then show ?case using assms(3,4) by (auto split: if_splits)
qed simp

definition all_matched :: "'o chain list \<Rightarrow> matched_event multiset" where
  "all_matched cs = sum_list (map (\<lambda>c. mset (ch_matched c)) cs)"

lemma all_matched_simps [simp]:
  "all_matched [] = {#}" "all_matched (c # cs) = mset (ch_matched c) + all_matched cs"
  "all_matched (cs @ ds) = all_matched cs + all_matched ds"
  by (simp_all add: all_matched_def)

lemma all_matched_filter: "all_matched (filter P cs) + all_matched (filter (\<lambda>c. \<not> P c) cs) = all_matched cs"
  by (induction cs) auto

lemma all_matched_drop: "all_matched (drop n cs) \<subseteq># all_matched cs"
proof -
  have "all_matched cs = all_matched (take n cs) + all_matched (drop n cs)"
    by (simp flip: all_matched_simps(3))
  then show ?thesis by simp
qed

lemma offer_matched:
  "offer p obs e cs = Some cs' \<Longrightarrow> all_matched cs' = all_matched cs + {#matched_of e#}"
  by (induction cs arbitrary: cs') (auto simp: take_event_def split: if_splits)

lemma on_event_matched: "all_matched (on_event p obs bar cs e) \<subseteq># all_matched cs + {#matched_of e#}"
  by (auto simp: on_event_def offer_matched seed_def split: option.splits)

lemma foldl_on_event_matched:
  "all_matched (foldl (on_event p obs bar) cs es) \<subseteq># all_matched cs + mset (map matched_of es)"
proof (induction es arbitrary: cs)
  case (Cons e es)
  have "all_matched (foldl (on_event p obs bar) cs (e # es)) \<subseteq># all_matched (on_event p obs bar cs e) + mset (map matched_of es)"
    using Cons [of "on_event p obs bar cs e"] by simp
  also have "\<dots> \<subseteq># all_matched cs + {#matched_of e#} + mset (map matched_of es)"
    by (rule mset_subset_eq_mono_add [OF on_event_matched]) simp
  finally show ?case by simp
qed simp

section \<open>Chains\<close>

text \<open>A chain is a piece of the sequence, within its deadline, over the events \<open>es\<close> seen so far.\<close>

definition progress_ok :: "agg_params \<Rightarrow> string list \<Rightarrow> string list \<Rightarrow> bool" where
  "progress_ok p kinds remaining \<longleftrightarrow>
     (case ag_order_policy p of
        Strict \<Rightarrow> kinds @ remaining = ag_event_sequence p
      | Any_Order \<Rightarrow> mset kinds + mset remaining = mset (ag_event_sequence p))"

definition direction_ok :: "agg_params \<Rightarrow> direction option list \<Rightarrow> direction option \<Rightarrow> bool" where
  "direction_ok p ds d \<longleftrightarrow>
     (if ag_direction_policy p = Consistent then d \<in> {Some Bullish, Some Bearish} \<and> (\<forall>x \<in> set ds. x = d) else d = None)"

definition chain_ok :: "agg_params \<Rightarrow> matched_event list \<Rightarrow> 'o chain \<Rightarrow> bool" where
  "chain_ok p seen c \<longleftrightarrow>
     ch_matched c \<noteq> [] \<and> subseq (ch_matched c) seen \<and>
     progress_ok p (map mt_kind (ch_matched c)) (ch_remaining c) \<and>
     direction_ok p (map mt_direction (ch_matched c)) (ch_direction c) \<and>
     ch_deadline_bar c = mt_bar (hd (ch_matched c)) + ag_timeout_bars p \<and>
     (\<forall>m \<in> set (ch_matched c). mt_bar m \<le> ch_deadline_bar c)"

lemma chain_ok_more: "chain_ok p seen c \<Longrightarrow> chain_ok p (seen @ ms) c"
  by (auto simp: chain_ok_def intro: subseq_order.order_trans)

lemma take_event_ok:
  assumes "chain_ok p seen c" "can_take p (me_kind e) (me_direction e) c" "me_bar_index e \<le> ch_deadline_bar c"
  shows "chain_ok p (seen @ [matched_of e]) (take_event p obs e c)"
proof -
  have "progress_ok p (map mt_kind (ch_matched c) @ [me_kind e]) (remove1 (me_kind e) (ch_remaining c))"
    using assms(1,2)
    by (cases "ch_remaining c") (auto simp: chain_ok_def progress_ok_def can_take_def split: order_policy.splits)
  then show ?thesis using assms
    by (auto simp: chain_ok_def take_event_def can_take_def direction_ok_def matched_of_def)
qed

lemma seed_ok:
  assumes "can_seed p e" "me_bar_index e = bar" "0 \<le> ag_timeout_bars p"
  shows "chain_ok p (seen @ [matched_of e]) (seed p obs bar e)"
proof -
  have "progress_ok p [me_kind e] (remove1 (me_kind e) (ag_event_sequence p))"
    using assms(1) by (cases "ag_event_sequence p") (auto simp: progress_ok_def can_seed_def split: order_policy.splits)
  then show ?thesis using assms
    by (auto simp: chain_ok_def seed_def can_seed_def direction_ok_def matched_of_def)
qed

lemma on_event_ok:
  fixes obs :: "('m market_event \<Rightarrow> 'o list) option"
  assumes "\<forall>c \<in> set cs. chain_ok p seen c \<and> bar \<le> ch_deadline_bar c" "me_bar_index e = bar" "0 \<le> ag_timeout_bars p"
  shows "\<forall>c \<in> set (on_event p obs bar cs e). chain_ok p (seen @ [matched_of e]) c \<and> bar \<le> ch_deadline_bar c"
proof (cases "offer p obs e cs")
  case None
  then show ?thesis using assms seed_ok [of p e bar seen obs]
    by (auto simp: on_event_def chain_ok_more) (simp add: seed_def)
next
  case (Some cs')
  have "\<forall>c \<in> set cs'. chain_ok p (seen @ [matched_of e]) c \<and> bar \<le> ch_deadline_bar c"
    using Some assms(1)
  proof (rule offer_induct)
    fix c :: "'o chain"
    assume "chain_ok p seen c \<and> bar \<le> ch_deadline_bar c" "can_take p (me_kind e) (me_direction e) c"
    then show "chain_ok p (seen @ [matched_of e]) (take_event p obs e c) \<and> bar \<le> ch_deadline_bar (take_event p obs e c)"
      using take_event_ok [of p seen c e obs] assms(2) by (simp add: take_event_def)
  qed (simp add: chain_ok_more)
  then show ?thesis using Some by (simp add: on_event_def)
qed

lemma foldl_on_event_ok:
  assumes "\<forall>c \<in> set cs. chain_ok p seen c \<and> bar \<le> ch_deadline_bar c" "\<forall>e \<in> set es. me_bar_index e = bar"
    "0 \<le> ag_timeout_bars p"
  shows "\<forall>c \<in> set (foldl (on_event p obs bar) cs es). chain_ok p (seen @ map matched_of es) c"
  using assms(1,2)
proof (induction es arbitrary: cs seen)
  case (Cons e es)
  have "\<forall>c \<in> set (on_event p obs bar cs e). chain_ok p (seen @ [matched_of e]) c \<and> bar \<le> ch_deadline_bar c"
    using Cons.prems assms(3) by (intro on_event_ok) auto
  from Cons.IH [OF this] show ?case using Cons.prems(2) by simp
qed simp

section \<open>One bar\<close>

text \<open>The chains after the events of a bar, before the complete ones are taken out.\<close>

definition bar_chains ::
  "agg_params \<Rightarrow> ('m market_event \<Rightarrow> 'o list) option \<Rightarrow> 'm event_bar \<Rightarrow> 'o agg_state \<Rightarrow> 'o chain list" where
  "bar_chains p obs b s =
     foldl (on_event p obs (bx_bar_index (fst b)))
       (filter (\<lambda>c. bx_bar_index (fst b) \<le> ch_deadline_bar c) (as_chains s)) (snd b)"

lemma event_aggregator_cases:
  obtains (empty) "ag_event_sequence p = []" "event_aggregator p obs (fst b) (snd b) s = (None, s)"
  | (open_only) "event_aggregator p obs (fst b) (snd b) s = (None, s\<lparr>as_chains := kept_partials p (bar_chains p obs b s)\<rparr>)"
  | (found) c where "c \<in> set (bar_chains p obs b s)" "ch_remaining c = []"
      "event_aggregator p obs (fst b) (snd b) s =
         (Some (candidate_of (fst b) (as_minted s + 1) c),
          s\<lparr>as_chains := kept_partials p (bar_chains p obs b s), as_minted := as_minted s + 1\<rparr>)"
proof (cases "ag_event_sequence p = []")
  case True
  then show ?thesis using empty by (simp add: event_aggregator_def)
next
  case nonempty: False
  have e: "event_aggregator p obs (fst b) (snd b) s =
      (let s' = s\<lparr>as_chains := kept_partials p (bar_chains p obs b s)\<rparr> in
       case completed (bar_chains p obs b s) of
         [] \<Rightarrow> (None, s')
       | c # _ \<Rightarrow> (Some (candidate_of (fst b) (as_minted s + 1) c), s'\<lparr>as_minted := as_minted s + 1\<rparr>))"
    using nonempty by (simp add: event_aggregator_def bar_chains_def Let_def)
  show ?thesis
  proof (cases "completed (bar_chains p obs b s)")
    case Nil
    then show ?thesis using e open_only by simp
  next
  case (Cons c cs)
  then have "c \<in> set (completed (bar_chains p obs b s))" by simp
  then have "c \<in> set (bar_chains p obs b s)" "ch_remaining c = []" by (auto simp: completed_def)
  then show ?thesis using Cons e found [of c] by simp
  qed
qed

lemma kept_partials_subset: "set (kept_partials p cs) \<subseteq> set cs"
  by (auto simp: kept_partials_def Let_def dest: in_set_dropD)

lemma kept_partials_matched: "all_matched (kept_partials p cs) \<subseteq># all_matched (filter (\<lambda>c. ch_remaining c \<noteq> []) cs)"
  by (simp add: kept_partials_def Let_def all_matched_drop)

lemma length_kept_partials: "length (kept_partials p cs) \<le> ag_max_open_chains p"
  by (simp add: kept_partials_def Let_def)

lemma bar_chains_ok:
  assumes "\<forall>c \<in> set (as_chains s). chain_ok p seen c" "\<forall>e \<in> set (snd b). me_bar_index e = bx_bar_index (fst b)"
    "0 \<le> ag_timeout_bars p"
  shows "\<forall>c \<in> set (bar_chains p obs b s). chain_ok p (seen @ map matched_of (snd b)) c"
  unfolding bar_chains_def using assms by (intro foldl_on_event_ok) auto

lemma bar_chains_matched: "all_matched (bar_chains p obs b s) \<subseteq># all_matched (as_chains s) + mset (map matched_of (snd b))"
proof -
  have "all_matched (filter (\<lambda>c. bx_bar_index (fst b) \<le> ch_deadline_bar c) (as_chains s)) \<subseteq># all_matched (as_chains s)"
    by (metis all_matched_filter mset_subset_eq_add_left)
  then show ?thesis unfolding bar_chains_def
    by (rule subset_mset.order_trans [OF foldl_on_event_matched mset_subset_eq_mono_add]) simp
qed

section \<open>Setups\<close>

text \<open>A candidate is made of a complete chain.\<close>

definition from_chain :: "agg_params \<Rightarrow> matched_event list \<Rightarrow> setup_candidate \<Rightarrow> bool" where
  "from_chain p seen x \<longleftrightarrow>
     (\<exists>ms d. ms \<noteq> [] \<and> subseq ms seen \<and> progress_ok p (map mt_kind ms) [] \<and> direction_ok p (map mt_direction ms) d \<and>
       (\<forall>m \<in> set ms. mt_bar m \<le> mt_bar (hd ms) + ag_timeout_bars p) \<and>
       sc_event_kinds x = map mt_kind ms \<and> sc_contributing_events x = map (\<lambda>m. (mt_source m, mt_bar m)) ms \<and>
       sc_window x = (mt_bar (hd ms), mt_bar (last ms)) \<and>
       sc_direction x = (case d of None \<Rightarrow> Neutral | Some d \<Rightarrow> d))"

lemma candidate_from_chain:
  assumes "chain_ok p seen c" "ch_remaining c = []"
  shows "from_chain p seen (candidate_of ctx n c)"
  unfolding from_chain_def
  by (rule exI [of _ "ch_matched c"], rule exI [of _ "ch_direction c"])
    (use assms in \<open>auto simp: chain_ok_def candidate_of_def Let_def\<close>)

lemma from_chain_more: "from_chain p seen x \<Longrightarrow> from_chain p (seen @ ms) x"
  unfolding from_chain_def by (meson subseq_rev_drop_many)

lemma assemble_ok:
  assumes "timely bars" "0 \<le> ag_timeout_bars p" "assemble p obs bars = (cs, s)"
  shows "(\<forall>x \<in> set cs. from_chain p (map matched_of (events_of bars)) x) \<and>
    (\<forall>c \<in> set (as_chains s). chain_ok p (map matched_of (events_of bars)) c)"
  using assms(1,3)
proof (induction bars arbitrary: cs s rule: rev_induct)
  case Nil
  then show ?case by (auto simp: assemble_def no_chains_def)
next
  case (snoc b bars)
  obtain cs0 s0 where run: "assemble p obs bars = (cs0, s0)" by fastforce
  have b: "timely bars" "\<forall>e \<in> set (snd b). me_bar_index e = bx_bar_index (fst b)"
    using snoc.prems(1) by (auto simp: timely_def sorted_append)
  note IH = snoc.IH [OF b(1) run]
  let ?seen = "map matched_of (events_of (bars @ [b]))"
  have seen: "?seen = map matched_of (events_of bars) @ map matched_of (snd b)" by (simp add: events_of_def)
  have ok: "\<forall>c \<in> set (bar_chains p obs b s0). chain_ok p ?seen c"
    unfolding seen using IH b(2) assms(2) by (intro bar_chains_ok) auto
  have old: "\<forall>x \<in> set cs0. from_chain p ?seen x" "\<forall>c \<in> set (as_chains s0). chain_ok p ?seen c"
    using IH by (auto simp: seen intro: from_chain_more chain_ok_more)
  have step: "agg_step p obs (cs0, s0) b = (cs, s)" using snoc.prems(2) run by (simp add: assemble_snoc)
  have kept: "\<forall>c \<in> set (kept_partials p (bar_chains p obs b s0)). chain_ok p ?seen c"
    using ok kept_partials_subset [of p "bar_chains p obs b s0"] by blast
  show ?case
  proof (cases rule: event_aggregator_cases [of p obs b s0])
    case empty
    then show ?thesis using step old by (auto simp: agg_step_def)
  next
    case open_only
    then show ?thesis using step old kept by (auto simp: agg_step_def)
  next
    case (found c)
    then show ?thesis using step old kept ok candidate_from_chain [of p ?seen c]
      by (auto simp: agg_step_def)
  qed
qed

text \<open>What \<open>from_chain\<close> says in terms of the events.\<close>

lemma subseq_of_map:
  assumes "subseq ms (map f es)"
  obtains es' where "subseq es' es" "ms = map f es'"
proof -
  from assms obtain N where "ms = nths (map f es) N" by (auto simp: subseq_conv_nths)
  then have "ms = map f (nths es N)" by (simp add: nths_map)
  then show ?thesis using that [of "nths es N"] by (auto simp: subseq_conv_nths)
qed

lemma timely_sorted:
  assumes "timely bars"
  shows "sorted (map me_bar_index (events_of bars))"
  using assms
proof (induction bars rule: rev_induct)
  case (snoc b bars)
  have "sorted (map me_bar_index (snd b))"
    using snoc.prems by (auto simp: timely_def sorted_iff_nth_mono)
  then show ?case using snoc by (fastforce simp: timely_def events_of_def sorted_append)
qed (simp add: events_of_def)

lemma sorted_subseq: "subseq xs ys \<Longrightarrow> sorted (map f ys) \<Longrightarrow> sorted (map f xs)"
  by (metis subseq_conv_nths nths_map sorted_nths)

text \<open>
  C32: Over bars in order, every setup the aggregator emits is a subsequence of the events seen so
  far whose kinds are the configured sequence (in order under the strict policy), which under the
  consistent policy all have the setup's direction, and which lie within the timeout.
\<close>

theorem setups_follow_sequence:
  assumes "timely bars" "agg_params_ok p" "assemble p obs bars = (cs, s)"
  shows "\<forall>x \<in> set cs. \<exists>es. subseq es (events_of bars) \<and>
    sc_contributing_events x = map (\<lambda>e. (me_source_node_id e, me_bar_index e)) es \<and>
    (case ag_order_policy p of
       Strict \<Rightarrow> map me_kind es = ag_event_sequence p
     | Any_Order \<Rightarrow> mset (map me_kind es) = mset (ag_event_sequence p)) \<and>
    (ag_direction_policy p = Consistent \<longrightarrow>
       sc_direction x \<noteq> Neutral \<and> (\<forall>e \<in> set es. me_direction e = Some (sc_direction x))) \<and>
    sc_window x = (me_bar_index (hd es), me_bar_index (last es)) \<and>
    fst (sc_window x) \<le> snd (sc_window x) \<and> snd (sc_window x) \<le> fst (sc_window x) + ag_timeout_bars p"
proof
  fix x assume "x \<in> set cs"
  moreover have "0 \<le> ag_timeout_bars p" using assms(2) by (simp add: agg_params_ok_def)
  ultimately obtain ms d where ms: "ms \<noteq> []" "subseq ms (map matched_of (events_of bars))"
    "progress_ok p (map mt_kind ms) []" "direction_ok p (map mt_direction ms) d"
    "\<forall>m \<in> set ms. mt_bar m \<le> mt_bar (hd ms) + ag_timeout_bars p"
    and x: "sc_contributing_events x = map (\<lambda>m. (mt_source m, mt_bar m)) ms"
    "sc_window x = (mt_bar (hd ms), mt_bar (last ms))" "sc_direction x = (case d of None \<Rightarrow> Neutral | Some d \<Rightarrow> d)"
    using assemble_ok [OF assms(1) _ assms(3)] unfolding from_chain_def by blast
  from ms(2) obtain es where es: "subseq es (events_of bars)" "ms = map matched_of es" by (rule subseq_of_map)
  have "sorted (map me_bar_index es)" using sorted_subseq es(1) timely_sorted [OF assms(1)] by blast
  then have "me_bar_index (hd es) \<le> me_bar_index (last es)" using ms(1) es(2)
    by (cases es) (auto simp: last_map)
  moreover have "me_bar_index (last es) \<le> me_bar_index (hd es) + ag_timeout_bars p"
    using ms(1,5) es(2) by (auto simp: hd_map matched_of_def)
  moreover have "case ag_order_policy p of
       Strict \<Rightarrow> map me_kind es = ag_event_sequence p
     | Any_Order \<Rightarrow> mset (map me_kind es) = mset (ag_event_sequence p)"
    using ms(3) es(2) by (simp add: progress_ok_def matched_of_def comp_def split: order_policy.splits)
  moreover have "ag_direction_policy p = Consistent \<longrightarrow>
      sc_direction x \<noteq> Neutral \<and> (\<forall>e \<in> set es. me_direction e = Some (sc_direction x))"
    using ms(4) es(2) x(3) by (auto simp: direction_ok_def matched_of_def)
  ultimately show "\<exists>es. subseq es (events_of bars) \<and>
    sc_contributing_events x = map (\<lambda>e. (me_source_node_id e, me_bar_index e)) es \<and>
    (case ag_order_policy p of
       Strict \<Rightarrow> map me_kind es = ag_event_sequence p
     | Any_Order \<Rightarrow> mset (map me_kind es) = mset (ag_event_sequence p)) \<and>
    (ag_direction_policy p = Consistent \<longrightarrow>
       sc_direction x \<noteq> Neutral \<and> (\<forall>e \<in> set es. me_direction e = Some (sc_direction x))) \<and>
    sc_window x = (me_bar_index (hd es), me_bar_index (last es)) \<and>
    fst (sc_window x) \<le> snd (sc_window x) \<and> snd (sc_window x) \<le> fst (sc_window x) + ag_timeout_bars p"
    using es x ms(1) by (intro exI [of _ es]) (simp add: matched_of_def comp_def hd_map last_map)
qed

section \<open>Events are used once\<close>

definition event_key :: "matched_event \<Rightarrow> string \<times> int" where
  "event_key m = (mt_source m, mt_bar m)"

definition used_keys :: "setup_candidate list \<Rightarrow> 'o agg_state \<Rightarrow> (string \<times> int) multiset" where
  "used_keys cs s = sum_list (map (\<lambda>x. mset (sc_contributing_events x)) cs) + image_mset event_key (all_matched (as_chains s))"

lemma matched_member: "c \<in> set cs \<Longrightarrow> mset (ch_matched c) \<subseteq># all_matched cs"
  by (induction cs) (auto intro: subset_mset.add_increasing)

lemma setup_leaves_rest:
  assumes "c \<in> set cs" "ch_remaining c = []"
  shows "mset (ch_matched c) + all_matched (kept_partials p cs) \<subseteq># all_matched cs"
proof -
  have "mset (ch_matched c) \<subseteq># all_matched (filter (\<lambda>c. \<not> ch_remaining c \<noteq> []) cs)"
    using assms by (intro matched_member) simp
  from mset_subset_eq_mono_add [OF this kept_partials_matched [of p cs]]
  show ?thesis using all_matched_filter [of "\<lambda>c. ch_remaining c \<noteq> []" cs] by (simp add: add.commute)
qed

lemma kept_within: "all_matched (kept_partials p cs) \<subseteq># all_matched cs"
  by (metis (no_types, lifting) all_matched_filter kept_partials_matched mset_subset_eq_add_left
      subset_mset.order_trans)

lemma agg_step_used:
  assumes "agg_step p obs (cs, s) b = (cs', s')"
  shows "used_keys cs' s' \<subseteq># used_keys cs s + mset (map (\<lambda>e. (me_source_node_id e, me_bar_index e)) (snd b))"
proof -
  let ?new = "mset (map matched_of (snd b))"
  let ?chains = "bar_chains p obs b s"
  have new: "image_mset event_key ?new = mset (map (\<lambda>e. (me_source_node_id e, me_bar_index e)) (snd b))"
    by (simp add: event_key_def matched_of_def image_mset.compositionality comp_def flip: mset_map)
  have bound: "image_mset event_key M \<subseteq># image_mset event_key (all_matched (as_chains s)) +
      mset (map (\<lambda>e. (me_source_node_id e, me_bar_index e)) (snd b))"
    if "M \<subseteq># all_matched ?chains" for M
    using image_mset_subseteq_mono [OF subset_mset.order_trans [OF that bar_chains_matched], of event_key] new
    by simp
  show ?thesis
  proof (cases rule: event_aggregator_cases [of p obs b s])
    case empty
    then show ?thesis using assms by (auto simp: agg_step_def used_keys_def)
  next
    case open_only
    then show ?thesis using assms bound [OF kept_within] by (auto simp: agg_step_def used_keys_def)
  next
    case (found c)
    have "mset (sc_contributing_events (candidate_of (fst b) (as_minted s + 1) c)) = image_mset event_key (mset (ch_matched c))"
      by (simp add: candidate_of_def Let_def event_key_def [abs_def])
    then show ?thesis using assms found(3) bound [OF setup_leaves_rest [OF found(1,2), of p]]
      by (auto simp: agg_step_def used_keys_def)
  qed
qed

subsection \<open>Identities\<close>

lemma digit_not_hash: "d < 10 \<Longrightarrow> digit_char d \<noteq> CHR ''#''"
proof
  assume "d < 10" "digit_char d = CHR ''#''"
  then have "(48 + d :: nat) = of_char (CHR ''#'')" using of_char_digit [of d] by simp
  then show False by simp
qed

lemma nat_text_no_hash: "CHR ''#'' \<notin> set (nat_text n)"
proof (induction n rule: nat_text.induct)
  case (1 n)
  show ?case
    using 1 digit_not_hash [of n] digit_not_hash [of "n mod 10"] by (subst nat_text.simps) auto
qed

lemma setup_id_minted: "setup_id a i j m = setup_id b k l n \<Longrightarrow> m = n"
proof -
  have t: "takeWhile (\<lambda>c. c \<noteq> CHR ''#'') (rev (setup_id a i j m)) = rev (nat_text m)" for a i j m
    using nat_text_no_hash [of m] by (simp add: setup_id_def takeWhile_append)
  assume "setup_id a i j m = setup_id b k l n"
  then have "rev (nat_text m) = rev (nat_text n)" by (metis t)
  then show "m = n" by simp
qed

definition minted_in_order :: "setup_candidate list \<Rightarrow> 'o agg_state \<Rightarrow> bool" where
  "minted_in_order cs s \<longleftrightarrow> as_minted s = length cs \<and>
     (\<forall>i < length cs. \<exists>a j k. sc_setup_id (cs ! i) = setup_id a j k (Suc i))"

lemma minted_distinct:
  assumes "minted_in_order cs s"
  shows "distinct (map sc_setup_id cs)"
  unfolding distinct_conv_nth
proof (intro allI impI)
  fix i j
  assume ij: "i < length (map sc_setup_id cs)" "j < length (map sc_setup_id cs)" "i \<noteq> j"
  with assms obtain a k l a' k' l' where "sc_setup_id (cs ! i) = setup_id a k l (Suc i)"
    "sc_setup_id (cs ! j) = setup_id a' k' l' (Suc j)" unfolding minted_in_order_def length_map by metis
  then have "sc_setup_id (cs ! i) \<noteq> sc_setup_id (cs ! j)" using ij(3) setup_id_minted by fastforce
  then show "map sc_setup_id cs ! i \<noteq> map sc_setup_id cs ! j" using ij by simp
qed

lemma agg_step_minted:
  assumes "agg_step p obs (cs, s) b = (cs', s')" "minted_in_order cs s" "length (as_chains s) \<le> ag_max_open_chains p"
  shows "minted_in_order cs' s' \<and> length (as_chains s') \<le> ag_max_open_chains p"
proof (cases rule: event_aggregator_cases [of p obs b s])
  case (found c)
  have "\<exists>a j k. sc_setup_id (candidate_of (fst b) (Suc n) c) = setup_id a j k (Suc n)" for n
    by (auto simp: candidate_of_def Let_def)
  with assms found(3) show ?thesis
    by (auto simp: agg_step_def minted_in_order_def nth_append length_kept_partials less_Suc_eq)
qed (use assms in \<open>auto simp: agg_step_def minted_in_order_def length_kept_partials\<close>)

lemma assemble_used:
  assumes "assemble p obs bars = (cs, s)"
  shows "used_keys cs s \<subseteq># mset (map (\<lambda>e. (me_source_node_id e, me_bar_index e)) (events_of bars)) \<and>
    minted_in_order cs s \<and> length (as_chains s) \<le> ag_max_open_chains p"
  using assms
proof (induction bars arbitrary: cs s rule: rev_induct)
  case Nil
  then show ?case by (auto simp: assemble_def no_chains_def used_keys_def minted_in_order_def)
next
  case (snoc b bars)
  obtain cs0 s0 where run: "assemble p obs bars = (cs0, s0)" by fastforce
  then have step: "agg_step p obs (cs0, s0) b = (cs, s)" using snoc.prems by (simp add: assemble_snoc)
  note IH = snoc.IH [OF run]
  have "used_keys cs s \<subseteq># used_keys cs0 s0 + mset (map (\<lambda>e. (me_source_node_id e, me_bar_index e)) (snd b))"
    using step by (rule agg_step_used)
  also have "\<dots> \<subseteq># mset (map (\<lambda>e. (me_source_node_id e, me_bar_index e)) (events_of bars)) +
      mset (map (\<lambda>e. (me_source_node_id e, me_bar_index e)) (snd b))"
    using IH by (intro mset_subset_eq_mono_add) auto
  finally show ?case using agg_step_minted [OF step] IH by (simp add: events_of_def)
qed

text \<open>
  C33: Over any bars, the events of the setups emitted and of the chains still open are all
  different events of the input: no event enters two setups, or a setup and an open chain. No two
  setups have the same identity, and no more chains are open than the parameter allows.
\<close>

theorem events_enter_one_setup:
  fixes s :: "'o agg_state"
  assumes "assemble p obs bars = (cs, s)"
  shows "sum_list (map (\<lambda>x. mset (sc_contributing_events x)) cs) +
      sum_list (map (\<lambda>c. mset (map (\<lambda>m. (mt_source m, mt_bar m)) (ch_matched c))) (as_chains s))
        \<subseteq># mset (map (\<lambda>e. (me_source_node_id e, me_bar_index e)) (events_of bars)) \<and>
    distinct (map sc_setup_id cs) \<and> length (as_chains s) \<le> ag_max_open_chains p"
proof -
  note u = assemble_used [OF assms]
  have "image_mset event_key (all_matched ds) =
      sum_list (map (\<lambda>c. mset (map (\<lambda>m. (mt_source m, mt_bar m)) (ch_matched c))) ds)" for ds :: "'o chain list"
    by (induction ds) (simp_all add: event_key_def)
  moreover have "distinct (map sc_setup_id cs)" using u by (blast intro: minted_distinct)
  ultimately show ?thesis using u by (simp add: used_keys_def)
qed

section \<open>A sweep and a break\<close>

definition demo_event :: "int \<Rightarrow> string \<Rightarrow> unit market_event" where
  "demo_event bar kind = \<lparr> me_bar_index = bar, me_timestamp_ms = 60000 * bar, me_source_node_id = ''n'' @ kind,
     me_kind = kind, me_direction = Some Bullish, me_price_levels = [], me_metadata = () \<rparr>"

definition demo_event_bar :: "int \<Rightarrow> string list \<Rightarrow> unit event_bar" where
  "demo_event_bar bar kinds =
     (\<lparr> bx_bar_index = bar, bx_timestamp_ms = 60000 * bar, bx_decision_timestamp_ms = None,
        bx_symbol = ''BTC'', bx_timeframe = Some ''1m'' \<rparr>, map (demo_event bar) kinds)"

definition demo_chain_params :: agg_params where
  "demo_chain_params = \<lparr> ag_event_sequence = [''sweep'', ''break''], ag_timeout_bars = 3,
     ag_order_policy = Strict, ag_direction_policy = Consistent, ag_max_open_chains = 2 \<rparr>"

definition demo_event_bars :: "unit event_bar list" where
  "demo_event_bars = [demo_event_bar 0 [''sweep''], demo_event_bar 1 [''sweep''], demo_event_bar 2 [''break'']]"

lemma demo_assembles:
  "(\<lambda>(cs, s). map sc_window cs = [(0, 2)] \<and> length (as_chains s) = 1)
     (assemble demo_chain_params (None :: (unit market_event \<Rightarrow> unit list) option) demo_event_bars)"
  by code_simp

lemma setups_follow_sequence_witness:
  "\<exists>cs s. assemble demo_chain_params (None :: (unit market_event \<Rightarrow> unit list) option) demo_event_bars = (cs, s) \<and>
     cs \<noteq> [] \<and> (\<forall>x \<in> set cs. \<exists>es. subseq es (events_of demo_event_bars) \<and>
       map me_kind es = [''sweep'', ''break''] \<and> snd (sc_window x) \<le> fst (sc_window x) + 3)"
proof -
  obtain cs s where run: "assemble demo_chain_params (None :: (unit market_event \<Rightarrow> unit list) option) demo_event_bars = (cs, s)"
    "map sc_window cs = [(0, 2)]" using demo_assembles by (auto split: prod.splits)
  have "timely demo_event_bars" "agg_params_ok demo_chain_params" by code_simp+
  from setups_follow_sequence [OF this run(1)] show ?thesis using run
    by (fastforce simp: demo_chain_params_def)
qed

lemma events_enter_one_setup_witness:
  "\<exists>cs s. assemble demo_chain_params (None :: (unit market_event \<Rightarrow> unit list) option) demo_event_bars = (cs, s) \<and>
     cs \<noteq> [] \<and> as_chains s \<noteq> [] \<and> distinct (map sc_setup_id cs) \<and> length (as_chains s) \<le> 2"
proof -
  obtain cs s where run: "assemble demo_chain_params (None :: (unit market_event \<Rightarrow> unit list) option) demo_event_bars = (cs, s)"
    "map sc_window cs = [(0, 2)]" "length (as_chains s) = 1" using demo_assembles by (auto split: prod.splits)
  from events_enter_one_setup [OF run(1)] show ?thesis using run
    by (fastforce simp: demo_chain_params_def)
qed

end
