(* ===== verification/Runtime_Journal.thy ===== *)
theory Runtime_Journal
  imports Prelude
begin

text \<open>
  The tamper-evident record of a live run, \<open>src/koval/engine/runtime_journal.py\<close>: a journal appends
  numbered records that carry the digest of the one before, and \<open>verify_runtime_records\<close> checks an
  archive of them.

  Parameters: \<open>digest\<close>, the SHA-256 of the normalised JSON of a record without its own digest; the
  sink of the host, which acknowledges a record or raises; the clock. The records the sink has
  acknowledged are kept as \<open>jn_archive\<close> beside the fields of the object. The fields
  that verification does not read itself are the content of a record.
\<close>

section \<open>Records\<close>

record ('p, 'c) journal_content =
  jc_kind :: string
  jc_event_timestamp_ms :: int
  jc_received_timestamp_ms :: int
  jc_payload :: 'p
  jc_spot_context :: "'c option"

record 'x journal_body =
  jb_version :: string
  jb_session_id :: string
  jb_record_id :: string
  jb_sequence :: int
  jb_previous_sha256 :: "string option"
  jb_content :: 'x

record 'x runtime_record =
  jr_body :: "'x journal_body"
  jr_sha256 :: "string option"

definition record_id :: "string \<Rightarrow> int \<Rightarrow> string" where
  "record_id session n = session @ '':'' @ int_text n"

section \<open>Verification\<close>

text \<open>One record: the digest and the session before it, its expected number, and the digest it leaves.\<close>

definition record_ok ::
  "('x journal_body \<Rightarrow> string) \<Rightarrow> string option \<Rightarrow> string \<Rightarrow> int \<Rightarrow> 'x runtime_record \<Rightarrow> bool" where
  "record_ok digest previous session expected r \<longleftrightarrow>
     (let v = jr_body r in
      \<not> (jb_version v \<noteq> ''koval_runtime_journal_v1''
         \<or> session = []
         \<or> jb_session_id v \<noteq> session
         \<or> jb_sequence v \<noteq> expected
         \<or> jb_record_id v \<noteq> record_id session expected
         \<or> jb_previous_sha256 v \<noteq> previous
         \<or> jr_sha256 r \<noteq> Some (digest v)))"

fun verify_from ::
  "('x journal_body \<Rightarrow> string) \<Rightarrow> string option \<Rightarrow> string option \<Rightarrow> int \<Rightarrow> 'x runtime_record list \<Rightarrow> string option res" where
  "verify_from digest previous session expected [] = Inr previous"
| "verify_from digest previous session expected (r # rs) =
     (let own = (case session of None \<Rightarrow> jb_session_id (jr_body r) | Some s \<Rightarrow> s) in
      if record_ok digest previous own expected r
      then verify_from digest (jr_sha256 r) (Some own) (expected + 1) rs
      else Inl (ValueError ''runtime journal integrity failure''))"

definition verify_runtime_records ::
  "('x journal_body \<Rightarrow> string) \<Rightarrow> 'x runtime_record list \<Rightarrow> string option res" where
  "verify_runtime_records digest rs = verify_from digest None None 1 rs"

section \<open>The runtime_journal\<close>

type_synonym ('p, 'c) sink = "('p, 'c) journal_content runtime_record \<Rightarrow> spot_error option"

record ('p, 'c) runtime_journal =
  jn_session_id :: string
  jn_sink :: "('p, 'c) sink option"
  jn_sequence :: int
  jn_sha256 :: "string option"
  jn_accepted_bar :: "int option"
  jn_processed_bar :: "int option"
  jn_context :: "'c option"
  jn_archive :: "('p, 'c) journal_content runtime_record list"

definition new_journal :: "string \<Rightarrow> ('p, 'c) sink option \<Rightarrow> 'c option \<Rightarrow> ('p, 'c) runtime_journal" where
  "new_journal session sink ctx =
     \<lparr> jn_session_id = session, jn_sink = sink, jn_sequence = 0, jn_sha256 = None,
       jn_accepted_bar = None, jn_processed_bar = None, jn_context = ctx, jn_archive = [] \<rparr>"

definition next_body ::
  "('p, 'c) runtime_journal \<Rightarrow> string \<Rightarrow> int \<Rightarrow> int \<Rightarrow> 'p \<Rightarrow> ('p, 'c) journal_content journal_body" where
  "next_body j kind timestamp now payload =
     \<lparr> jb_version = ''koval_runtime_journal_v1'', jb_session_id = jn_session_id j,
       jb_record_id = record_id (jn_session_id j) (jn_sequence j + 1),
       jb_sequence = jn_sequence j + 1, jb_previous_sha256 = jn_sha256 j,
       jb_content = \<lparr> jc_kind = kind, jc_event_timestamp_ms = timestamp, jc_received_timestamp_ms = now,
                      jc_payload = payload, jc_spot_context = jn_context j \<rparr> \<rparr>"

text \<open>\<open>write\<close>: a sink that raises leaves the journal as it was.\<close>

definition journal_write ::
  "(('p, 'c) journal_content journal_body \<Rightarrow> string) \<Rightarrow> string \<Rightarrow> int \<Rightarrow> int \<Rightarrow> 'p \<Rightarrow> ('p, 'c) runtime_journal \<Rightarrow>
     string res \<times> ('p, 'c) runtime_journal" where
  "journal_write digest kind timestamp now payload j =
     (let body = next_body j kind timestamp now payload;
          r = \<lparr> jr_body = body, jr_sha256 = Some (digest body) \<rparr>;
          written = j\<lparr> jn_sequence := jn_sequence j + 1, jn_sha256 := jr_sha256 r,
            jn_accepted_bar := (if kind = ''bar_received'' then Some timestamp else jn_accepted_bar j),
            jn_processed_bar := (if kind = ''bar_processed'' then Some timestamp else jn_processed_bar j) \<rparr> in
      case jn_sink j of
        None \<Rightarrow> (Inr (jb_record_id body), written)
      | Some sink \<Rightarrow>
          (case sink r of
             Some e \<Rightarrow> (Inl e, j)
           | None \<Rightarrow> (Inr (jb_record_id body), written\<lparr>jn_archive := jn_archive j @ [r]\<rparr>)))"

record checkpoint =
  kp_version :: string
  kp_session_id :: string
  kp_archive_enabled :: bool
  kp_sequence :: int
  kp_record_sha256 :: "string option"
  kp_last_accepted_bar_ms :: "int option"
  kp_last_processed_bar_ms :: "int option"
  kp_recovery :: string

definition checkpoint_of :: "('p, 'c) runtime_journal \<Rightarrow> checkpoint" where
  "checkpoint_of j =
     \<lparr> kp_version = ''koval_runtime_checkpoint_v1'', kp_session_id = jn_session_id j,
       kp_archive_enabled = (jn_sink j \<noteq> None), kp_sequence = jn_sequence j,
       kp_record_sha256 = jn_sha256 j, kp_last_accepted_bar_ms = jn_accepted_bar j,
       kp_last_processed_bar_ms = jn_processed_bar j,
       kp_recovery = ''reconcile_broker_and_replay_required'' \<rparr>"

section \<open>An archive verifies\<close>

text \<open>A call of \<open>write\<close> with its arguments, and any sequence of calls, whether they raise or not.\<close>

type_synonym 'p write_call = "string \<times> int \<times> int \<times> 'p"

definition write_all ::
  "(('p, 'c) journal_content journal_body \<Rightarrow> string) \<Rightarrow> 'p write_call list \<Rightarrow> ('p, 'c) runtime_journal \<Rightarrow> ('p, 'c) runtime_journal" where
  "write_all digest es j = foldl (\<lambda>j (kind, t, now, payload). snd (journal_write digest kind t now payload j)) j es"

definition session_after :: "string option \<Rightarrow> 'x runtime_record list \<Rightarrow> string option" where
  "session_after session rs =
     (case (session, rs) of (None, r # _) \<Rightarrow> Some (jb_session_id (jr_body r)) | _ \<Rightarrow> session)"

lemma session_after_simps [simp]:
  "session_after session [] = session" "session_after (Some s) rs = Some s"
  "session_after None (r # rs) = Some (jb_session_id (jr_body r))"
  by (simp_all add: session_after_def split: option.splits)

lemma verify_append:
  "verify_from digest previous session n (rs @ rs') =
     bindE (verify_from digest previous session n rs)
       (\<lambda>h. verify_from digest h (session_after session rs) (n + int (length rs)) rs')"
proof (induction rs arbitrary: previous session n)
  case (Cons r rs)
  have n: "n + 1 + int (length rs) = n + int (length (r # rs))" by simp
  show ?case
    by (cases session) (simp_all only: append_Cons verify_from.simps Let_def Cons n option.case session_after_simps
        if_distrib [of "\<lambda>x. bindE x f" for f] bindE_simps)
qed simp

definition last_bar :: "string \<Rightarrow> ('p, 'c) journal_content runtime_record list \<Rightarrow> int option" where
  "last_bar kind rs =
     (let bars = filter (\<lambda>r. jc_kind (jb_content (jr_body r)) = kind) rs in
      if bars = [] then None else Some (jc_event_timestamp_ms (jb_content (jr_body (last bars)))))"

definition archived :: "(('p, 'c) journal_content journal_body \<Rightarrow> string) \<Rightarrow> ('p, 'c) runtime_journal \<Rightarrow> bool" where
  "archived digest j \<longleftrightarrow>
     verify_runtime_records digest (jn_archive j) = Inr (jn_sha256 j) \<and>
     jn_sequence j = int (length (jn_archive j)) \<and>
     jn_accepted_bar j = last_bar ''bar_received'' (jn_archive j) \<and>
     jn_processed_bar j = last_bar ''bar_processed'' (jn_archive j) \<and>
     jn_sink j \<noteq> None \<and> jn_session_id j \<noteq> [] \<and>
     (\<forall>r \<in> set (jn_archive j). jb_session_id (jr_body r) = jn_session_id j)"

lemma last_bar_snoc:
  "last_bar kind (rs @ [r]) =
     (if jc_kind (jb_content (jr_body r)) = kind then Some (jc_event_timestamp_ms (jb_content (jr_body r)))
      else last_bar kind rs)"
  by (simp add: last_bar_def Let_def)

lemma write_archived:
  assumes "archived digest j"
  shows "archived digest (snd (journal_write digest kind t now payload j))"
proof -
  from assms obtain sink where s: "jn_sink j = Some sink" by (auto simp: archived_def)
  let ?b = "next_body j kind t now payload"
  let ?r = "\<lparr> jr_body = ?b, jr_sha256 = Some (digest ?b) \<rparr>"
  have own: "session_after None (jn_archive j) = (if jn_archive j = [] then None else Some (jn_session_id j))"
    using assms by (cases "jn_archive j") (auto simp: archived_def)
  have "verify_runtime_records digest (jn_archive j @ [?r]) = Inr (Some (digest ?b))"
    using assms own
    by (auto simp: verify_runtime_records_def verify_append archived_def record_ok_def next_body_def Let_def
        add.commute)
  then show ?thesis using assms s
    by (auto simp: journal_write_def Let_def archived_def last_bar_snoc next_body_def split: option.splits)
qed

lemma new_journal_archived:
  "session \<noteq> [] \<Longrightarrow> archived digest (new_journal session (Some sink) ctx)"
  by (simp add: archived_def new_journal_def verify_runtime_records_def last_bar_def)

lemma write_all_archived: "archived digest j \<Longrightarrow> archived digest (write_all digest es j)"
  by (induction es arbitrary: j) (auto simp: write_all_def write_archived)

lemma write_keeps_config:
  "jn_session_id (snd (journal_write digest kind t now payload j)) = jn_session_id j \<and>
   jn_sink (snd (journal_write digest kind t now payload j)) = jn_sink j"
  by (simp add: journal_write_def Let_def split: option.splits)

lemma write_all_config:
  "jn_session_id (write_all digest es j) = jn_session_id j \<and> jn_sink (write_all digest es j) = jn_sink j"
  by (induction es arbitrary: j) (auto simp: write_all_def write_keeps_config)

text \<open>
  Whatever is written to a fresh journal, and whichever of the writes the sink refuses, the
  records it acknowledged verify, with the digest and the number of the checkpoint, and the bars of
  the checkpoint are those of the last records of their kind.
\<close>

theorem written_records_verify:
  assumes "session \<noteq> []"
  shows "let j = write_all digest es (new_journal session (Some sink) ctx); k = checkpoint_of j in
    verify_runtime_records digest (jn_archive j) = Inr (kp_record_sha256 k) \<and>
    kp_sequence k = int (length (jn_archive j)) \<and> kp_session_id k = session \<and>
    kp_last_accepted_bar_ms k = last_bar ''bar_received'' (jn_archive j) \<and>
    kp_last_processed_bar_ms k = last_bar ''bar_processed'' (jn_archive j)"
  using write_all_archived [OF new_journal_archived [OF assms], of digest es sink ctx]
    write_all_config [of digest es "new_journal session (Some sink) ctx"]
  by (simp add: archived_def checkpoint_of_def Let_def new_journal_def)

section \<open>Tampering is evident\<close>

lemma verify_snoc:
  assumes "verify_runtime_records digest (rs @ [r]) = Inr h"
  obtains p where "verify_runtime_records digest rs = Inr p" "h = Some (digest (jr_body r))"
    "jr_sha256 r = h" "jb_previous_sha256 (jr_body r) = p" "jb_sequence (jr_body r) = int (length rs) + 1"
  using assms by (auto simp: verify_runtime_records_def verify_append record_ok_def Let_def split: if_splits)

lemma verified_empty: "verify_runtime_records digest rs = Inr h \<Longrightarrow> h = None \<longleftrightarrow> rs = []"
  by (cases rs rule: rev_cases) (auto simp: verify_runtime_records_def [of _ "[]"] elim: verify_snoc)

text \<open>
  C34: Two archives that both verify with the same final digest are equal, when the digest does
  not collide on their records: no record of a verified archive can be changed, removed, inserted or
  reordered without changing the digest that a checkpoint keeps.
\<close>

theorem same_digest_same_records:
  assumes "verify_runtime_records digest rs = Inr h" "verify_runtime_records digest rs' = Inr h"
    and "inj_on digest (jr_body ` (set rs \<union> set rs'))"
  shows "rs = rs'"
  using assms
proof (induction rs arbitrary: rs' h rule: rev_induct)
  case Nil
  then show ?case using verified_empty [OF Nil.prems(1)] verified_empty [OF Nil.prems(2)] by simp
next
  case (snoc r rs)
  obtain p where r: "verify_runtime_records digest rs = Inr p" "h = Some (digest (jr_body r))"
    "jr_sha256 r = h" "jb_previous_sha256 (jr_body r) = p"
    using snoc.prems(1) by (rule verify_snoc)
  then have "rs' \<noteq> []" using verified_empty [OF snoc.prems(2)] by auto
  then obtain qs q where rs': "rs' = qs @ [q]" by (metis rev_exhaust)
  obtain p' where q: "verify_runtime_records digest qs = Inr p'" "h = Some (digest (jr_body q))"
    "jr_sha256 q = h" "jb_previous_sha256 (jr_body q) = p'"
    using snoc.prems(2) unfolding rs' by (rule verify_snoc)
  have "jr_body r = jr_body q"
    using snoc.prems(3) r(2) q(2) by (auto simp: rs' dest!: inj_onD)
  then have "r = q" "p = p'" using r q by auto
  moreover have "inj_on digest (jr_body ` (set rs \<union> set qs))"
    using snoc.prems(3) by (rule inj_on_subset) (auto simp: rs')
  ultimately show ?case using snoc.IH [OF r(1)] q(1) rs' by simp
qed

section \<open>A short archive\<close>

text \<open>A digest of a demonstration: the identity and the kind of the record.\<close>

definition kind_digest :: "(string, unit) journal_content journal_body \<Rightarrow> string" where
  "kind_digest b = jb_record_id b @ jc_kind (jb_content b)"

definition demo_sink :: "(string, unit) sink" where
  "demo_sink r = (if jc_kind (jb_content (jr_body r)) = ''refused'' then Some (RuntimeError ''disk full'') else None)"

definition demo_journal :: "(string, unit) runtime_journal" where
  "demo_journal = write_all kind_digest
     [(''bar_received'', 60000, 1, ''a''), (''refused'', 60000, 2, ''b''), (''bar_processed'', 60000, 3, ''c'')]
     (new_journal ''run'' (Some demo_sink) None)"

lemma written_records_verify_witness:
  "verify_runtime_records kind_digest (jn_archive demo_journal) = Inr (kp_record_sha256 (checkpoint_of demo_journal)) \<and>
   length (jn_archive demo_journal) = 2 \<and> kp_last_accepted_bar_ms (checkpoint_of demo_journal) = Some 60000"
proof -
  have "length (jn_archive demo_journal) = 2 \<and> kp_last_accepted_bar_ms (checkpoint_of demo_journal) = Some 60000"
    by code_simp
  moreover have "''run'' \<noteq> []" by simp
  from written_records_verify [OF this, of kind_digest
      "[(''bar_received'', 60000, 1, ''a''), (''refused'', 60000, 2, ''b''), (''bar_processed'', 60000, 3, ''c'')]"
      demo_sink None]
  have "verify_runtime_records kind_digest (jn_archive demo_journal) = Inr (kp_record_sha256 (checkpoint_of demo_journal))"
    by (simp only: demo_journal_def Let_def)
  ultimately show ?thesis by simp
qed

text \<open>The refused record left no trace: the archive is that of the two other calls.\<close>

definition other_journal :: "(string, unit) runtime_journal" where
  "other_journal = write_all kind_digest [(''bar_received'', 60000, 1, ''a''), (''bar_processed'', 60000, 3, ''c'')]
     (new_journal ''run'' (Some demo_sink) None)"

lemma same_digest_same_records_witness: "jn_archive demo_journal = jn_archive other_journal"
proof (rule same_digest_same_records)
  show "verify_runtime_records kind_digest (jn_archive demo_journal) = Inr (jn_sha256 demo_journal)"
    "verify_runtime_records kind_digest (jn_archive other_journal) = Inr (jn_sha256 demo_journal)" by code_simp+
  show "inj_on kind_digest (jr_body ` (set (jn_archive demo_journal) \<union> set (jn_archive other_journal)))"
    by (simp add: inj_on_def) code_simp
qed

end
