(* ===== verification/Float64.thy ===== *)
theory Float64
  imports Rounding
begin

text \<open>
  Python floats. A finite float is the rational it stands for; an operation on finite floats
  computes the exact result and rounds it once to binary64 (53 significant bits, ties to even,
  multiples of \<open>2 ^ -1074\<close> below the normal range), and overflows when the rounded result reaches
  \<open>2 ^ 1024\<close>. The sign of zero is not kept: the code of this development only compares such values.
\<close>

text \<open>\<open>magnitude 2 x\<close> is the exponent of the leading bit of \<open>x\<close>.\<close>

datatype float64 = Fin rat | Pos_Inf | Neg_Inf | Not_A_Number

definition round64 :: "rat \<Rightarrow> rat" where
  "round64 x =
     (if x = 0 then 0
      else if magnitude 2 x < - 1022 then of_int (round_half_even (x * 2 ^ 1074)) / 2 ^ 1074
      else round_sig 2 53 x)"

definition fl64 :: "rat \<Rightarrow> rat option" where
  "fl64 x = (let r = round64 x in if r \<noteq> 0 \<and> 1024 \<le> magnitude 2 r then None else Some r)"

text \<open>The finite value of an expression, and its next operation.\<close>

definition flop :: "(rat \<Rightarrow> rat) \<Rightarrow> rat option \<Rightarrow> rat option" where
  "flop f x = (case x of None \<Rightarrow> None | Some v \<Rightarrow> fl64 (f v))"

definition positive_price :: "float64 \<Rightarrow> rat option" where
  "positive_price x = (case x of Fin v \<Rightarrow> if 0 < v then Some v else None | _ \<Rightarrow> None)"

section \<open>Exact results\<close>

text \<open>A result of at most 53 bits that is not too small is exact.\<close>

lemma fl64_exact:
  assumes x: "x = of_int n / 2 ^ k" and n: "\<bar>n\<bar> < 2 ^ 53" and k: "k \<le> 1022"
  shows "fl64 x = Some x"
proof (cases "x = 0")
  case True
  then show ?thesis by (simp add: fl64_def round64_def)
next
  case False
  have B: "1 < (2 :: rat)" by simp
  note bounds = magnitude_bounds [of 2 x, simplified, OF False]
  have ax: "\<bar>x\<bar> * 2 ^ k = of_int \<bar>n\<bar>" by (simp add: x)
  have small: "\<bar>x\<bar> * 2 ^ k < 2 ^ 53" unfolding ax using n by (metis of_int_less_iff of_int_numeral of_int_power)
  have r: "round_sig 2 53 x = x" using round_sig_exact [of 2 53 x n k] x small by simp
  have "1 \<le> \<bar>n\<bar>" using False x by auto
  then have "(1 :: rat) \<le> \<bar>x\<bar> * 2 ^ k" unfolding ax by (simp only: of_int_1_le_iff)
  then have "(2 :: rat) powi (- int k) \<le> \<bar>x\<bar>" by (simp add: power_int_minus field_simps)
  with bounds have "(2 :: rat) powi (- int k) < 2 powi (magnitude 2 x + 1)" by linarith
  then have low: "- 1022 \<le> magnitude 2 x" using k by (simp only: powi_less_iff [OF B])
  have "\<bar>x\<bar> * 1 \<le> \<bar>x\<bar> * 2 ^ k" by (intro mult_left_mono) simp_all
  with small have "\<bar>x\<bar> < 2 ^ 53" by simp
  then have "\<bar>x\<bar> < 2 powi 53" by simp
  with bounds have "(2 :: rat) powi magnitude 2 x < 2 powi 53" by linarith
  then have "magnitude 2 x < 53" by (simp only: powi_less_iff [OF B])
  then show ?thesis using low by (simp add: fl64_def round64_def r Let_def)
qed

text \<open>Evaluation skips the rounding of small whole numbers, halves and quarters.\<close>

lemma fl64_code [code]:
  "fl64 x =
     (let (n, d) = quotient_of x in
      if (d = 1 \<or> d = 2 \<or> d = 4) \<and> \<bar>n\<bar> < 9007199254740992 then Some x
      else let r = round64 x in if r \<noteq> 0 \<and> 1024 \<le> magnitude 2 r then None else Some r)"
proof -
  obtain n d where q: "quotient_of x = (n, d)" by fastforce
  then have x: "x = of_int n / of_int d" by (rule quotient_of_div)
  have "fl64 x = Some x" if "d = 1 \<or> d = 2 \<or> d = 4" "\<bar>n\<bar> < 9007199254740992"
    using that x fl64_exact [of x n 0] fl64_exact [of x n 1] fl64_exact [of x n 2] by auto
  then show ?thesis by (auto simp: q Let_def fl64_def)
qed

end
