(* ===== verification/Level_Setup.thy ===== *)
theory Level_Setup
  imports Condition_Reducers Float64
begin

text \<open>
  The frozen level of a strategy: one trigger freezes price bounds, and one later opportunity
  consumes them. The snapshot of \<open>src/koval/strategy/graph/entities.py\<close>, its identities
  (\<open>level_identity.py\<close>), the checkpoint and its validation (\<open>level_state.py\<close>), the price
  predicates (\<open>src/koval/strategy/helpers/levels.py\<close>) and the evaluator
  (\<open>src/koval/strategy/nodes/levels.py\<close>).

  Parameters: \<open>hash\<close>, the SHA-256 of the canonical JSON of what it is given, and \<open>evidence\<close>, the
  rows the decision recorder has of the inputs used, none without a recorder.

  The source keeps the frozen fields of a snapshot, the cursor of its end and its consumption as
  separate nullable fields and refuses a snapshot in which only some fields of a group are null;
  here each group is one optional record. The same holds of the trigger watermark of the state.
\<close>

section \<open>Parameters\<close>

datatype level_mode = Sweep_Reclaim | Breakout_Retest | Breakout

record level_params =
  lp_mode :: level_mode
  lp_expires_after_bars :: int
  lp_invalidation_buffer_pct :: rat
  lp_tolerance_pct :: "rat option"

definition level_params_check :: "level_params \<Rightarrow> unit res" where
  "level_params_check p =
     (if \<not> (1 \<le> lp_expires_after_bars p \<and> lp_expires_after_bars p \<le> 400 \<and>
            0 \<le> lp_invalidation_buffer_pct p \<and> lp_invalidation_buffer_pct p < 100 \<and>
            (case lp_tolerance_pct p of None \<Rightarrow> True | Some t \<Rightarrow> 0 \<le> t \<and> t < 100))
      then Inl (ValidationError ''level parameters'')
      else if lp_mode p = Breakout_Retest
      then ensure (lp_tolerance_pct p \<noteq> None) (ValidationError ''breakout_retest requires tolerance_pct'')
      else ensure (lp_tolerance_pct p = None)
             (ValidationError ''tolerance_pct is only supported for breakout_retest''))"

section \<open>Snapshots\<close>

datatype level_status = Unavailable | Armed | Consumed | Expired | Invalidated

record frozen_level =
  fz_level_id :: string
  fz_lower :: rat
  fz_upper :: rat
  fz_center :: rat
  fz_lower_source :: numeric_value
  fz_upper_source :: "numeric_value option"
  fz_source_hash :: string
  fz_trigger_key :: string
  fz_trigger_source_node_id :: string
  fz_trigger_timestamp_ms :: int
  fz_trigger_bar :: int
  fz_detected_at_ms :: int
  fz_armed_bar :: int
  fz_expires_bar :: int

record level_end =
  ln_bar :: int
  ln_timestamp_ms :: int

record consumption =
  cn_at_ms :: int
  cn_cursor :: string
  cn_event_id :: string

record level_snapshot =
  lv_bar_index :: int
  lv_timestamp_ms :: int
  lv_source_node_id :: string
  lv_symbol :: string
  lv_timeframe :: "string option"
  lv_frozen :: "frozen_level option"
  lv_status :: level_status
  lv_readiness :: readiness
  lv_reason :: "string option"
  lv_config_hash :: string
  lv_terminal :: "level_end option"
  lv_consumption :: "consumption option"

text \<open>A row of retained evidence, and the state without its own hash.\<close>

record 'o arming_row =
  ar_timestamp_ms :: int
  ar_content :: 'o

record 'o level_body =
  lb_version :: int
  lb_config_hash :: string
  lb_node_id :: string
  lb_graph_binding_hash :: "string option"
  lb_context_hash :: string
  lb_symbol :: string
  lb_timeframe :: "string option"
  lb_last_timestamp_ms :: int
  lb_last_bar_index :: int
  lb_last_decision_timestamp_ms :: "int option"
  lb_last_payload_hash :: string
  lb_last_close :: "rat option"
  lb_last_primary_valid :: bool
  lb_last_trigger :: "(string \<times> int \<times> int) option"
  lb_arming_evidence :: "'o arming_row list"
  lb_arming_evidence_hash :: string
  lb_output :: level_snapshot

record 'o level_state = "'o level_body" +
  ls_integrity_hash :: string

section \<open>Contexts and identities\<close>

record level_context = bar_context +
  lx_open :: float64
  lx_high :: float64
  lx_low :: float64
  lx_close :: float64
  lx_volume :: float64
  lx_history_start_ms :: "int option"
  lx_opens :: "float64 list option"
  lx_highs :: "float64 list option"
  lx_lows :: "float64 list option"
  lx_closes :: "float64 list option"
  lx_volumes :: "float64 list option"

text \<open>What is hashed: the configuration, an event, the sources, an identity, evidence, a state.\<close>

record 'm payload_content =
  pc_bar_index :: int
  pc_timestamp_ms :: int
  pc_decision_timestamp_ms :: "int option"
  pc_symbol :: string
  pc_timeframe :: "string option"
  pc_prices :: "float64 list"
  pc_status :: "readiness \<times> string option"
  pc_trigger :: "'m market_event option"
  pc_lower :: "numeric_value option"
  pc_upper :: "numeric_value option"

datatype ('m, 'o) level_hashed =
    Hashed_Config level_params
  | Hashed_Event "'m market_event"
  | Hashed_Sources numeric_value "numeric_value option"
  | Hashed_Level string string string
  | Hashed_Opportunity string string
  | Hashed_Payload "'m payload_content"
  | Hashed_Context level_context
  | Hashed_Evidence "'o arming_row list"
  | Hashed_State "'o level_body"

definition json_int_optional :: "int option \<Rightarrow> string" where
  "json_int_optional x = (case x of None \<Rightarrow> ''null'' | Some i \<Rightarrow> int_text i)"

definition cursor_text :: "int \<Rightarrow> int \<Rightarrow> int option \<Rightarrow> string" where
  "cursor_text bar t decision =
     ''['' @ separated [int_text bar, int_text t, json_int_optional decision] @ '']''"

definition decision_cursor :: "level_context \<Rightarrow> string" where
  "decision_cursor ctx = cursor_text (bx_bar_index ctx) (bx_timestamp_ms ctx) (bx_decision_timestamp_ms ctx)"

section \<open>Price predicates\<close>

text \<open>\<open>level_center\<close>: the sum may overflow, halves of finite floats do not.\<close>

definition level_center :: "rat \<Rightarrow> rat \<Rightarrow> rat option" where
  "level_center lower upper =
     (case flop (\<lambda>s. s / 2) (fl64 (lower + upper)) of
        Some c \<Rightarrow> Some c
      | None \<Rightarrow>
          (case (fl64 (lower / 2), fl64 (upper / 2)) of
             (Some a, Some b) \<Rightarrow> fl64 (a + b) | _ \<Rightarrow> None))"

definition invalidation_threshold :: "rat \<Rightarrow> rat \<Rightarrow> rat option" where
  "invalidation_threshold lower buffer_pct =
     flop (\<lambda>f. lower * f) (flop (\<lambda>q. 1 - q) (fl64 (buffer_pct / 100)))"

text \<open>A threshold that overflows is infinite: nothing lies above it.\<close>

definition level_invalidated :: "rat \<Rightarrow> rat \<Rightarrow> rat \<Rightarrow> rat \<Rightarrow> bool" where
  "level_invalidated opening close lower buffer_pct \<longleftrightarrow>
     (case invalidation_threshold lower buffer_pct of
        None \<Rightarrow> True
      | Some t \<Rightarrow> opening < t \<or> close < t)"

definition sweep_reclaimed :: "rat \<Rightarrow> rat \<Rightarrow> rat \<Rightarrow> bool" where
  "sweep_reclaimed low close lower \<longleftrightarrow> low < lower \<and> lower < close"

definition retest_threshold :: "rat \<Rightarrow> rat \<Rightarrow> rat option" where
  "retest_threshold level tolerance_pct =
     flop (\<lambda>f. level * f) (flop (\<lambda>q. 1 + q) (fl64 (tolerance_pct / 100)))"

definition breakout_retested :: "rat \<Rightarrow> rat \<Rightarrow> rat \<Rightarrow> rat \<Rightarrow> bool" where
  "breakout_retested low close level tolerance_pct \<longleftrightarrow>
     (case retest_threshold level tolerance_pct of None \<Rightarrow> True | Some t \<Rightarrow> low \<le> t) \<and> level < close"

section \<open>The contract of a snapshot\<close>

definition source_matches :: "level_snapshot \<Rightarrow> frozen_level \<Rightarrow> numeric_value \<Rightarrow> bool" where
  "source_matches v f s \<longleftrightarrow>
     vi_readiness s = Ready \<and> vi_unit s = Price_Quote_Per_Base \<and> vi_symbol s = lv_symbol v \<and>
     vi_timeframe s = lv_timeframe v \<and> vi_bar_index s = fz_armed_bar f \<and>
     vi_timestamp_ms s = fz_trigger_timestamp_ms f \<and>
     (case vi_available_at_ms s of None \<Rightarrow> False | Some t \<Rightarrow> t \<le> fz_detected_at_ms f)"

definition frozen_source_hash :: "(('m, 'o) level_hashed \<Rightarrow> string) \<Rightarrow> numeric_value \<Rightarrow> numeric_value option \<Rightarrow> string" where
  "frozen_source_hash hash lower upper = hash (Hashed_Sources lower upper)"

definition frozen_level_id :: "(('m, 'o) level_hashed \<Rightarrow> string) \<Rightarrow> string \<Rightarrow> string \<Rightarrow> string \<Rightarrow> string" where
  "frozen_level_id hash nid key source_hash = hash (Hashed_Level nid key source_hash)"

definition opportunity_id :: "(('m, 'o) level_hashed \<Rightarrow> string) \<Rightarrow> string \<Rightarrow> string \<Rightarrow> string" where
  "opportunity_id hash level_id cursor = hash (Hashed_Opportunity level_id cursor)"

definition frozen_check :: "(('m, 'o) level_hashed \<Rightarrow> string) \<Rightarrow> level_snapshot \<Rightarrow> frozen_level \<Rightarrow> unit res" where
  "frozen_check hash v f =
     (if lv_readiness v \<noteq> Ready then Inl (ValidationError ''frozen level requires complete ready provenance'')
      else if \<not> (0 < fz_lower f \<and> 0 < fz_upper f \<and> 0 < fz_center f)
      then Inl (ValidationError ''frozen bounds must be finite positive prices'')
      else if fz_upper f < fz_lower f \<or> Some (fz_center f) \<noteq> level_center (fz_lower f) (fz_upper f)
      then Inl (ValidationError ''frozen bounds/center mismatch'')
      else if lv_symbol v = [] \<or> falsy (lv_timeframe v) \<or> fz_trigger_bar f \<noteq> fz_armed_bar f
      then Inl (ValidationError ''frozen level identity mismatch'')
      else if \<not> (0 \<le> fz_armed_bar f \<and> fz_armed_bar f < fz_expires_bar f) \<or> lv_bar_index v < fz_armed_bar f
      then Inl (ValidationError ''frozen level lifecycle cursor mismatch'')
      else if fz_trigger_timestamp_ms f < 0 \<or> fz_detected_at_ms f < fz_trigger_timestamp_ms f
      then Inl (ValidationError ''frozen level detection clock mismatch'')
      else if \<not> source_matches v f (fz_lower_source f) \<or>
              (case fz_upper_source f of None \<Rightarrow> False | Some u \<Rightarrow> \<not> source_matches v f u)
      then Inl (ValidationError ''frozen level source identity mismatch'')
      else if nv_value (fz_lower_source f) \<noteq> Some (fz_lower f) \<or>
              (case fz_upper_source f of None \<Rightarrow> Some (fz_lower f) | Some u \<Rightarrow> nv_value u) \<noteq> Some (fz_upper f)
      then Inl (ValidationError ''frozen level source values mismatch'')
      else ensure (fz_source_hash f = frozen_source_hash hash (fz_lower_source f) (fz_upper_source f) \<and>
                   fz_level_id f = frozen_level_id hash (lv_source_node_id v) (fz_trigger_key f) (fz_source_hash f))
             (ValidationError ''frozen level identity/hash mismatch''))"

definition lifecycle_check :: "level_snapshot \<Rightarrow> frozen_level \<Rightarrow> unit res" where
  "lifecycle_check v f =
     (if lv_status v = Armed
      then ensure (lv_reason v = None \<and> lv_terminal v = None \<and> lv_consumption v = None)
             (ValidationError ''armed level cannot contain terminal fields'')
      else case lv_terminal v of
             None \<Rightarrow> Inl (ValidationError ''terminal level requires transition cursor and reason'')
           | Some e \<Rightarrow>
               if falsy (lv_reason v)
               then Inl (ValidationError ''terminal level requires transition cursor and reason'')
               else if \<not> (fz_armed_bar f < ln_bar e \<and> ln_bar e \<le> lv_bar_index v) \<or>
                       ln_timestamp_ms e \<le> fz_trigger_timestamp_ms f
               then Inl (ValidationError ''terminal level transition must follow arming'')
               else if lv_status v = Consumed
               then ensure (lv_consumption v \<noteq> None) (ValidationError ''consumed level requires event binding'')
               else ensure (lv_consumption v = None)
                      (ValidationError ''non-consumed level cannot contain event binding''))"

definition snapshot_contract :: "(('m, 'o) level_hashed \<Rightarrow> string) \<Rightarrow> level_snapshot \<Rightarrow> unit res" where
  "snapshot_contract hash v =
     (if lv_bar_index v < 0 \<or> lv_timestamp_ms v < 0 \<or> lv_source_node_id v = []
      then Inl (ValidationError ''level requires a nonnegative cursor and node identity'')
      else if lv_status v = Unavailable then
        if lv_frozen v \<noteq> None \<or> lv_terminal v \<noteq> None \<or> lv_consumption v \<noteq> None
        then Inl (ValidationError ''unavailable level must have null frozen fields'')
        else ensure (lv_readiness v \<noteq> Ready \<and> \<not> falsy (lv_reason v))
               (ValidationError ''unavailable level requires readiness and reason'')
      else case lv_frozen v of
             None \<Rightarrow> Inl (ValidationError ''frozen level requires complete ready provenance'')
           | Some f \<Rightarrow>
               bindE (numeric_contract (fz_lower_source f)) (\<lambda>_.
               bindE (case fz_upper_source f of None \<Rightarrow> Inr () | Some u \<Rightarrow> numeric_contract u) (\<lambda>_.
               bindE (frozen_check hash v f) (\<lambda>_. lifecycle_check v f))))"

end
