(* ===== verification/Level_Reducer.thy ===== *)
theory Level_Reducer
  imports Level_Setup
begin

text \<open>
  The evaluator of the frozen level, \<open>src/koval/strategy/nodes/levels.py\<close>, and the checkpoint it
  keeps, \<open>LevelSetupStateV1\<close> of \<open>src/koval/strategy/graph/level_state.py\<close>. An evaluation validates
  the saved state, reads its three inputs, decides whether the cursor is a repeated or the next one,
  services the level or arms a new one, and saves one complete state before it returns. The state
  is \<open>None\<close> before the first step.
\<close>

section \<open>The saved state\<close>

definition terminal_check :: "(('m, 'o) level_hashed \<Rightarrow> string) \<Rightarrow> level_snapshot \<Rightarrow> frozen_level \<Rightarrow> int \<Rightarrow> unit res" where
  "terminal_check hash v f interval =
     (case (lv_status v, lv_terminal v, lv_consumption v) of
        (Consumed, Some e, Some c) \<Rightarrow>
          let cursor = cursor_text (ln_bar e) (ln_timestamp_ms e) (Some (cn_at_ms c)) in
          ensure (\<not> (cn_cursor c \<noteq> cursor \<or> cn_event_id c \<noteq> opportunity_id hash (fz_level_id f) cursor \<or>
                     fz_expires_bar f < ln_bar e \<or> lv_reason v \<noteq> Some ''opportunity_consumed'' \<or>
                     \<not> (ln_timestamp_ms e + interval \<le> cn_at_ms c \<and> cn_at_ms c < ln_timestamp_ms e + 2 * interval)))
            (ValidationError ''level state consumed event/cursor mismatch'')
      | (Expired, Some e, _) \<Rightarrow>
          ensure (\<not> (ln_bar e \<le> fz_expires_bar f \<or> lv_reason v \<noteq> Some ''expiry_elapsed''))
            (ValidationError ''level state expiry mismatch'')
      | _ \<Rightarrow> Inr ())"

definition output_check :: "(('m, 'o) level_hashed \<Rightarrow> string) \<Rightarrow> 'o level_state \<Rightarrow> unit res" where
  "output_check hash s =
     (let v = lb_output s in
      case (lv_status v, lv_frozen v) of
        (Unavailable, _) \<Rightarrow> Inr ()
      | (_, None) \<Rightarrow> Inr ()
      | (_, Some f) \<Rightarrow>
          if fz_source_hash f \<noteq> frozen_source_hash hash (fz_lower_source f) (fz_upper_source f) \<or>
             fz_level_id f \<noteq> frozen_level_id hash (lb_node_id s) (fz_trigger_key f) (fz_source_hash f)
          then Inl (ValidationError ''level state frozen identity/hash mismatch'')
          else if (case lb_last_trigger s of
                 None \<Rightarrow> True
               | Some (_, t, bar) \<Rightarrow> t < fz_trigger_timestamp_ms f \<or> bar < fz_armed_bar f)
          then Inl (ValidationError ''level state missing arming trigger watermark'')
          else
            bindE (case lv_timeframe v of None \<Rightarrow> Inl (ValueError ''unknown timeframe'') | Some tf \<Rightarrow> timeframe_ms tf) (\<lambda>interval.
            if fz_detected_at_ms f < fz_trigger_timestamp_ms f + interval \<or>
               fz_trigger_timestamp_ms f + 2 * interval \<le> fz_detected_at_ms f
            then Inl (ValidationError ''level state invalid detection clock'')
            else if lv_status v = Armed \<and> fz_expires_bar f < lv_bar_index v
            then Inl (ValidationError ''level state armed beyond expiry'')
            else terminal_check hash v f interval))"

text \<open>The field bounds of the state and its validator, up to the output.\<close>

definition level_fields_ok :: "'o level_state \<Rightarrow> bool" where
  "level_fields_ok s \<longleftrightarrow>
     hex64_ok (ls_integrity_hash s) \<and> lb_version s = 1 \<and> hex64_ok (lb_config_hash s) \<and> lb_node_id s \<noteq> [] \<and>
     (case lb_graph_binding_hash s of None \<Rightarrow> True | Some h \<Rightarrow> hex64_ok h) \<and> hex64_ok (lb_context_hash s) \<and>
     0 \<le> lb_last_timestamp_ms s \<and> 0 \<le> lb_last_bar_index s \<and>
     (case lb_last_decision_timestamp_ms s of None \<Rightarrow> True | Some t \<Rightarrow> 0 \<le> t) \<and>
     hex64_ok (lb_last_payload_hash s) \<and>
     (case lb_last_close s of None \<Rightarrow> True | Some c \<Rightarrow> 0 < c) \<and>
     (case lb_last_trigger s of None \<Rightarrow> True | Some (k, t, bar) \<Rightarrow> hex64_ok k \<and> 0 \<le> t \<and> 0 \<le> bar) \<and>
     hex64_ok (lb_arming_evidence_hash s) \<and> (\<forall>r \<in> set (lb_arming_evidence s). 0 \<le> ar_timestamp_ms r)"

definition level_state_check :: "(('m, 'o) level_hashed \<Rightarrow> string) \<Rightarrow> 'o level_state \<Rightarrow> unit res" where
  "level_state_check hash s =
     bindE (ensure (level_fields_ok s) (ValidationError ''level state fields'')) (\<lambda>_.
     bindE (snapshot_contract hash (lb_output s)) (\<lambda>_.
     let v = lb_output s in
     if hash (Hashed_State (level_body.truncate s)) \<noteq> ls_integrity_hash s
     then Inl (ValidationError ''level checkpoint integrity mismatch'')
     else if hash (Hashed_Evidence (lb_arming_evidence s)) \<noteq> lb_arming_evidence_hash s
     then Inl (ValidationError ''level state arming evidence hash mismatch'')
     else if list_ex (\<lambda>r. lb_last_timestamp_ms s < ar_timestamp_ms r) (lb_arming_evidence s)
     then Inl (ValidationError ''level state future arming evidence'')
     else if lv_source_node_id v \<noteq> lb_node_id s \<or> lv_config_hash v \<noteq> lb_config_hash s \<or>
             lv_symbol v \<noteq> lb_symbol s \<or> lv_timeframe v \<noteq> lb_timeframe s \<or>
             lv_timestamp_ms v \<noteq> lb_last_timestamp_ms s \<or> lv_bar_index v \<noteq> lb_last_bar_index s
     then Inl (ValidationError ''level state output/cursor/identity mismatch'')
     else if lb_last_primary_valid s \<noteq> (lb_last_close s \<noteq> None)
     then Inl (ValidationError ''level state primary-close mismatch'')
     else if (case lb_last_trigger s of None \<Rightarrow> False
             | Some (_, t, bar) \<Rightarrow> lb_last_timestamp_ms s < t \<or> lb_last_bar_index s < bar)
     then Inl (ValidationError ''level state trigger watermark is in the future'')
     else output_check hash s))"

definition validate_level_setup_state ::
  "(('m, 'o) level_hashed \<Rightarrow> string) \<Rightarrow> level_params \<Rightarrow> string \<Rightarrow> string option \<Rightarrow> 'o level_state option \<Rightarrow> unit res" where
  "validate_level_setup_state hash p nid binding state =
     (case state of
        None \<Rightarrow> Inr ()
      | Some s \<Rightarrow>
          bindE (level_state_check hash s) (\<lambda>_.
          if lb_node_id s \<noteq> nid \<or> lb_config_hash s \<noteq> hash (Hashed_Config p) \<or> lb_graph_binding_hash s \<noteq> binding
          then Inl (ValueError ''level state node/config identity mismatch'')
          else case (lv_status (lb_output s), lv_frozen (lb_output s)) of
                 (Unavailable, _) \<Rightarrow> Inr ()
               | (_, None) \<Rightarrow> Inr ()
               | (_, Some f) \<Rightarrow>
                   if fz_expires_bar f \<noteq> fz_armed_bar f + lp_expires_after_bars p
                   then Inl (ValueError ''level state expiry config mismatch'')
                   else if lp_mode p = Breakout_Retest \<and> fz_upper_source f \<noteq> None
                   then Inl (ValueError ''breakout_retest state requires a single level'')
                   else ensure (lp_mode p \<noteq> Breakout_Retest \<or>
                          (case lp_tolerance_pct p of None \<Rightarrow> False | Some t \<Rightarrow> retest_threshold (fz_lower f) t \<noteq> None))
                          (ValueError ''level state nonfinite retest threshold'')))"

section \<open>The primary bar\<close>

definition primary_status :: "level_context \<Rightarrow> readiness \<times> string option" where
  "primary_status ctx =
     (if bx_symbol ctx = [] \<or> falsy (bx_timeframe ctx) then (Missing, Some ''missing_identity'')
      else case bar_interval ctx of
        Inl _ \<Rightarrow> (Invalid, Some ''unsupported_timeframe'')
      | Inr interval \<Rightarrow>
          (case bx_decision_timestamp_ms ctx of
             None \<Rightarrow> (Missing, Some ''missing_timing'')
           | Some decision \<Rightarrow>
               if decision < bx_timestamp_ms ctx + interval then (Missing, Some ''future_availability'')
               else if bx_timestamp_ms ctx + 2 * interval \<le> decision then (Stale, Some ''stale_primary_bar'')
               else
                 (case (positive_price (lx_open ctx), positive_price (lx_high ctx),
                        positive_price (lx_low ctx), positive_price (lx_close ctx)) of
                    (Some opening, Some high, Some low, Some close) \<Rightarrow>
                      if min opening close < low \<or> high < max opening close
                      then (Invalid, Some ''invalid_primary_ohlc'')
                      else
                        (case (lx_closes ctx, lx_history_start_ms ctx) of
                           (Some (c # cs), Some start) \<Rightarrow>
                             if start + int (length cs) * interval \<noteq> bx_timestamp_ms ctx
                             then (Invalid, Some ''noncontiguous_primary_history'')
                             else if last (c # cs) \<noteq> lx_close ctx
                             then (Invalid, Some ''primary_close_mismatch'')
                             else (Ready, None)
                         | _ \<Rightarrow> (Missing, Some ''missing_primary_history''))
                  | _ \<Rightarrow> (Invalid, Some ''invalid_primary_bar''))))"

section \<open>Inputs and cursor\<close>

record 'm level_inputs =
  li_trigger :: "'m market_event option"
  li_lower :: "numeric_value option"
  li_upper :: "numeric_value option"

definition level_number :: "'m carried_value option \<Rightarrow> numeric_value option res" where
  "level_number v =
     (case v of
        None \<Rightarrow> Inr None
      | Some (Carried_Number x) \<Rightarrow> bindE (numeric_contract x) (\<lambda>_. Inr (Some x))
      | Some _ \<Rightarrow> Inl (ValueError ''level input requires NumericValueV1''))"

definition level_inputs_of :: "'m carried_value list dict \<Rightarrow> 'm level_inputs res" where
  "level_inputs_of inputs =
     (if \<not> set (dict_keys inputs) \<subseteq> {''trigger'', ''lower'', ''upper''}
      then Inl (ValueError ''unknown level input port'')
      else
        bindE (at_most_one ''trigger'' inputs) (\<lambda>trigger.
        bindE (at_most_one ''lower'' inputs) (\<lambda>lower.
        bindE (at_most_one ''upper'' inputs) (\<lambda>upper.
        bindE (case trigger of
            None \<Rightarrow> Inr None
          | Some (Carried_Event e) \<Rightarrow> Inr (Some e)
          | Some _ \<Rightarrow> Inl (ValueError ''level input requires MarketEvent'')) (\<lambda>event.
        bindE (level_number lower) (\<lambda>l.
        bindE (level_number upper) (\<lambda>u.
        Inr \<lparr> li_trigger = event, li_lower = l, li_upper = u \<rparr>)))))))"

definition payload_hash :: "(('m, 'o) level_hashed \<Rightarrow> string) \<Rightarrow> level_context \<Rightarrow> 'm level_inputs \<Rightarrow> string" where
  "payload_hash hash ctx i =
     hash (Hashed_Payload
       \<lparr> pc_bar_index = bx_bar_index ctx, pc_timestamp_ms = bx_timestamp_ms ctx,
         pc_decision_timestamp_ms = bx_decision_timestamp_ms ctx, pc_symbol = bx_symbol ctx,
         pc_timeframe = bx_timeframe ctx, pc_prices = [lx_open ctx, lx_high ctx, lx_low ctx, lx_close ctx],
         pc_status = primary_status ctx, pc_trigger = li_trigger i, pc_lower = li_lower i, pc_upper = li_upper i \<rparr>)"

text \<open>Whether the cursor is a repeated one, and whether it is the next one.\<close>

definition level_cursor :: "level_context \<Rightarrow> 'o level_state option \<Rightarrow> string \<Rightarrow> (bool \<times> bool) res" where
  "level_cursor ctx state payload =
     (if bx_bar_index ctx < 0 \<or> bx_timestamp_ms ctx < 0
      then Inl (ValueError ''level requires nonnegative integer primary cursors'')
      else if (case bx_decision_timestamp_ms ctx of None \<Rightarrow> False | Some d \<Rightarrow> d < 0)
      then Inl (ValueError ''level requires an integer decision clock'')
      else case state of
        None \<Rightarrow> Inr (False, False)
      | Some s \<Rightarrow>
          if lb_symbol s \<noteq> bx_symbol ctx \<or> lb_timeframe s \<noteq> bx_timeframe ctx
          then Inl (ValueError ''level primary identity mismatch'')
          else if bx_timestamp_ms ctx < lb_last_timestamp_ms s \<or> bx_bar_index ctx < lb_last_bar_index s
          then Inl (ValueError ''level cursor moved backwards'')
          else if bx_timestamp_ms ctx = lb_last_timestamp_ms s then
            if bx_bar_index ctx \<noteq> lb_last_bar_index s \<or> payload \<noteq> lb_last_payload_hash s
            then Inl (ValueError ''level duplicate cursor payload conflict'')
            else Inr (True, False)
          else if (case (bx_decision_timestamp_ms ctx, lb_last_decision_timestamp_ms s) of
                 (Some d, Some p) \<Rightarrow> d < p | _ \<Rightarrow> False)
          then Inl (ValueError ''level decision clock moved backwards'')
          else if bx_bar_index ctx \<le> lb_last_bar_index s
          then Inl (ValueError ''level primary index moved backwards'')
          else case bar_interval ctx of
                 Inl _ \<Rightarrow> Inr (False, False)
               | Inr interval \<Rightarrow>
                   Inr (False, bx_timestamp_ms ctx = lb_last_timestamp_ms s + interval \<and>
                               bx_bar_index ctx = lb_last_bar_index s + 1))"

text \<open>The key of a trigger that may arm a level on this bar.\<close>

definition trigger_status ::
  "(('m, 'o) level_hashed \<Rightarrow> string) \<Rightarrow> level_context \<Rightarrow> 'm market_event option \<Rightarrow> 'o level_state option \<Rightarrow>
     (string option \<times> string option) res" where
  "trigger_status hash ctx event state =
     (case event of
        None \<Rightarrow> Inr (None, Some ''no_trigger'')
      | Some e \<Rightarrow>
          if me_source_node_id e = [] \<or> me_kind e = [] \<or> me_bar_index e < 0 \<or> me_timestamp_ms e < 0
          then Inl (ValueError ''malformed level trigger identity'')
          else if me_timestamp_ms e \<noteq> bx_timestamp_ms ctx \<or> me_bar_index e \<noteq> bx_bar_index ctx
          then Inr (None, Some ''stale_or_future_trigger'')
          else if (case state of
                 None \<Rightarrow> False
               | Some s \<Rightarrow>
                   (case lb_last_trigger s of
                      None \<Rightarrow> False
                    | Some (_, t, bar) \<Rightarrow> me_timestamp_ms e \<le> t \<or> me_bar_index e \<le> bar))
          then Inr (None, Some ''replayed_trigger'')
          else Inr (Some (hash (Hashed_Event e)), None))"

section \<open>Arming\<close>

definition unavailable_level ::
  "level_context \<Rightarrow> string \<Rightarrow> string \<Rightarrow> readiness \<times> string option \<Rightarrow> level_snapshot" where
  "unavailable_level ctx nid config status =
     \<lparr> lv_bar_index = bx_bar_index ctx, lv_timestamp_ms = bx_timestamp_ms ctx, lv_source_node_id = nid,
       lv_symbol = bx_symbol ctx, lv_timeframe = bx_timeframe ctx, lv_frozen = None,
       lv_status = Unavailable, lv_readiness = fst status, lv_reason = snd status, lv_config_hash = config,
       lv_terminal = None, lv_consumption = None \<rparr>"

definition armed_level ::
  "(('m, 'o) level_hashed \<Rightarrow> string) \<Rightarrow> level_params \<Rightarrow> string \<Rightarrow> level_context \<Rightarrow> 'm market_event \<Rightarrow> string \<Rightarrow> string \<Rightarrow>
     numeric_value \<Rightarrow> numeric_value option \<Rightarrow> rat \<Rightarrow> rat \<Rightarrow> rat \<Rightarrow> int \<Rightarrow> level_snapshot" where
  "armed_level hash p nid ctx event key config lower upper lo hi center decision =
     (let source_hash = frozen_source_hash hash lower upper in
      \<lparr> lv_bar_index = bx_bar_index ctx, lv_timestamp_ms = bx_timestamp_ms ctx, lv_source_node_id = nid,
        lv_symbol = bx_symbol ctx, lv_timeframe = bx_timeframe ctx,
        lv_frozen = Some \<lparr> fz_level_id = frozen_level_id hash nid key source_hash, fz_lower = lo, fz_upper = hi,
          fz_center = center, fz_lower_source = lower, fz_upper_source = upper, fz_source_hash = source_hash,
          fz_trigger_key = key, fz_trigger_source_node_id = me_source_node_id event,
          fz_trigger_timestamp_ms = me_timestamp_ms event, fz_trigger_bar = me_bar_index event,
          fz_detected_at_ms = decision, fz_armed_bar = bx_bar_index ctx,
          fz_expires_bar = bx_bar_index ctx + lp_expires_after_bars p \<rparr>,
        lv_status = Armed, lv_readiness = Ready, lv_reason = None, lv_config_hash = config,
        lv_terminal = None, lv_consumption = None \<rparr>)"

text \<open>\<open>_arm\<close>; a snapshot that breaks its contract raises. A center that overflows cannot be finite.\<close>

definition arm ::
  "(('m, 'o) level_hashed \<Rightarrow> string) \<Rightarrow> level_params \<Rightarrow> string \<Rightarrow> level_context \<Rightarrow> 'm market_event \<Rightarrow> string \<Rightarrow> string \<Rightarrow>
     numeric_value option \<Rightarrow> numeric_value option \<Rightarrow> level_snapshot res" where
  "arm hash p nid ctx event key config lower upper =
     (let checked = (\<lambda>v. bindE (snapshot_contract hash v) (\<lambda>_. Inr v));
          refused = (\<lambda>status. checked (unavailable_level ctx nid config status)) in
      if lp_mode p = Breakout_Retest \<and> upper \<noteq> None
      then Inl (ValueError ''breakout_retest requires a single lower level; omit upper'')
      else
        bindE (scalar_status ctx (if upper = None then [lower] else [lower, upper]) True) (\<lambda>status.
        if fst status \<noteq> Ready then refused status
        else
          (case (lower, bx_decision_timestamp_ms ctx) of
             (Some l, Some decision) \<Rightarrow>
               (case (nv_value l, case upper of None \<Rightarrow> nv_value l | Some u \<Rightarrow> nv_value u) of
                  (Some lo, Some hi) \<Rightarrow>
                    if lo \<le> 0 \<or> hi < lo then refused (Invalid, Some ''invalid_bounds'')
                    else if lp_mode p = Breakout_Retest \<and>
                        (case lp_tolerance_pct p of None \<Rightarrow> True | Some t \<Rightarrow> retest_threshold lo t = None)
                    then refused (Invalid, Some ''nonfinite_retest_threshold'')
                    else
                      (case level_center lo hi of
                         None \<Rightarrow> Inl (ValidationError ''frozen bounds must be finite positive prices'')
                       | Some center \<Rightarrow>
                           checked (armed_level hash p nid ctx event key config l upper lo hi center decision))
                | _ \<Rightarrow> Inl TypeError)
           | _ \<Rightarrow> Inl TypeError)))"

section \<open>Servicing an armed level\<close>

record level_metadata =
  lm_event_id :: string
  lm_level_id :: string
  lm_consumption_cursor :: string
  lm_decision_timestamp_ms :: "int option"
  lm_mode :: level_mode
  lm_lower :: rat
  lm_upper :: rat
  lm_center :: rat
  lm_source_hash :: string
  lm_trigger_key :: string
  lm_open :: float64
  lm_low :: float64
  lm_close :: float64
  lm_previous_close :: "rat option"
  lm_previous_cursor :: "int \<times> int \<times> int option"

text \<open>What the bar decides about an armed level: its status and the reason.\<close>

definition level_verdict ::
  "level_params \<Rightarrow> frozen_level \<Rightarrow> 'o level_state \<Rightarrow> bool \<Rightarrow> readiness \<times> string option \<Rightarrow> level_context \<Rightarrow>
     (level_status \<times> string option) res" where
  "level_verdict p f s consecutive status ctx =
     (if fz_expires_bar f < bx_bar_index ctx then Inr (Expired, Some ''expiry_elapsed'')
      else if \<not> consecutive \<or> fst status \<noteq> Ready \<or> \<not> lb_last_primary_valid s
      then Inr (Invalidated, Some (if falsy (snd status) then ''primary_discontinuity'' else the (snd status)))
      else
        (case (lx_open ctx, lx_low ctx, lx_close ctx) of
           (Fin opening, Fin low, Fin close) \<Rightarrow>
             if level_invalidated opening close (fz_lower f) (lp_invalidation_buffer_pct p)
             then Inr (Invalidated, Some ''price_below_invalidation'')
             else
               (case (case lp_mode p of
                    Sweep_Reclaim \<Rightarrow> Some (sweep_reclaimed low close (fz_lower f))
                  | Breakout_Retest \<Rightarrow>
                      map_option (breakout_retested low close (fz_lower f)) (lp_tolerance_pct p)
                  | Breakout \<Rightarrow>
                      map_option (\<lambda>c. cross_direction c (fz_upper f) close (fz_upper f) = Some Up) (lb_last_close s)) of
                  None \<Rightarrow> Inl TypeError
                | Some passed \<Rightarrow>
                    Inr (if passed then (Consumed, Some ''opportunity_consumed'') else (Armed, None)))
         | _ \<Rightarrow> Inl TypeError))"

definition opportunity_event ::
  "level_params \<Rightarrow> level_snapshot \<Rightarrow> frozen_level \<Rightarrow> 'o level_state \<Rightarrow> level_context \<Rightarrow> string \<Rightarrow> string \<Rightarrow>
     level_metadata market_event" where
  "opportunity_event p v f s ctx cursor event_id =
     \<lparr> me_bar_index = bx_bar_index ctx, me_timestamp_ms = bx_timestamp_ms ctx,
       me_source_node_id = lv_source_node_id v, me_kind = ''level_opportunity'', me_direction = Some Bullish,
       me_price_levels = [fz_lower f, fz_upper f],
       me_metadata = \<lparr> lm_event_id = event_id, lm_level_id = fz_level_id f, lm_consumption_cursor = cursor,
         lm_decision_timestamp_ms = bx_decision_timestamp_ms ctx, lm_mode = lp_mode p,
         lm_lower = fz_lower f, lm_upper = fz_upper f, lm_center = fz_center f,
         lm_source_hash = fz_source_hash f, lm_trigger_key = fz_trigger_key f,
         lm_open = lx_open ctx, lm_low = lx_low ctx, lm_close = lx_close ctx,
         lm_previous_close = lb_last_close s,
         lm_previous_cursor = (lb_last_bar_index s, lb_last_timestamp_ms s, lb_last_decision_timestamp_ms s) \<rparr> \<rparr>"

definition service ::
  "(('m, 'o) level_hashed \<Rightarrow> string) \<Rightarrow> level_params \<Rightarrow> level_context \<Rightarrow> level_snapshot \<Rightarrow> frozen_level \<Rightarrow> 'o level_state \<Rightarrow>
     bool \<Rightarrow> readiness \<times> string option \<Rightarrow> (level_snapshot \<times> level_metadata market_event option) res" where
  "service hash p ctx v f s consecutive status =
     bindE (level_verdict p f s consecutive status ctx) (\<lambda>(verdict, why).
     let cursor = decision_cursor ctx;
         event_id = opportunity_id hash (fz_level_id f) cursor;
         moved = v\<lparr> lv_bar_index := bx_bar_index ctx, lv_timestamp_ms := bx_timestamp_ms ctx,
           lv_status := verdict, lv_reason := why,
           lv_terminal := (if verdict = Armed then lv_terminal v
             else Some \<lparr>ln_bar = bx_bar_index ctx, ln_timestamp_ms = bx_timestamp_ms ctx\<rparr>),
           lv_consumption := (if verdict = Consumed
             then map_option (\<lambda>d. \<lparr>cn_at_ms = d, cn_cursor = cursor, cn_event_id = event_id\<rparr>)
                    (bx_decision_timestamp_ms ctx)
             else lv_consumption v) \<rparr> in
     bindE (snapshot_contract hash moved) (\<lambda>_.
     Inr (moved, if verdict = Consumed then Some (opportunity_event p v f s ctx cursor event_id) else None)))"

section \<open>One evaluation\<close>

text \<open>
  The next level and the event of a new cursor. A terminal level stays until a new trigger arms
  another; a trigger while a level is armed is not used.
\<close>

definition next_level ::
  "(('m, 'o) level_hashed \<Rightarrow> string) \<Rightarrow> level_params \<Rightarrow> string \<Rightarrow> string \<Rightarrow> level_context \<Rightarrow> 'm level_inputs \<Rightarrow>
     'o level_state option \<Rightarrow> bool \<Rightarrow> string option \<times> string option \<Rightarrow>
     (level_snapshot \<times> level_metadata market_event option) res" where
  "next_level hash p nid config ctx i state consecutive trigger =
     (let status = primary_status ctx;
          fresh = (\<lambda>key event. arm hash p nid ctx event key config (li_lower i) (li_upper i));
          idle = (let v = unavailable_level ctx nid config
              (if fst status \<noteq> Ready then fst status else Missing,
               if \<not> falsy (snd status) then snd status else snd trigger) in
            bindE (snapshot_contract hash v) (\<lambda>_. Inr (v, None))) in
      case state of
        Some s \<Rightarrow>
          let v = lb_output s in
          (case (lv_status v, lv_frozen v) of
             (Armed, Some f) \<Rightarrow> service hash p ctx v f s consecutive status
           | (Unavailable, _) \<Rightarrow>
               (case (fst trigger, li_trigger i) of
                  (Some key, Some event) \<Rightarrow>
                    if fst status = Ready then bindE (fresh key event) (\<lambda>l. Inr (l, None)) else idle
                | _ \<Rightarrow> idle)
           | _ \<Rightarrow>
               let kept = v\<lparr> lv_bar_index := bx_bar_index ctx, lv_timestamp_ms := bx_timestamp_ms ctx \<rparr> in
               bindE (snapshot_contract hash kept) (\<lambda>_.
               case (fst trigger, li_trigger i) of
                 (Some key, Some event) \<Rightarrow>
                   if fst status = Ready
                   then bindE (fresh key event) (\<lambda>l. Inr (if lv_status l = Armed then l else kept, None))
                   else Inr (kept, None)
               | _ \<Rightarrow> Inr (kept, None)))
      | None \<Rightarrow>
          (case (fst trigger, li_trigger i) of
             (Some key, Some event) \<Rightarrow>
               if fst status = Ready then bindE (fresh key event) (\<lambda>l. Inr (l, None)) else idle
           | _ \<Rightarrow> idle))"

definition arming_now :: "level_context \<Rightarrow> level_snapshot \<Rightarrow> bool" where
  "arming_now ctx v \<longleftrightarrow> lv_status v = Armed \<and> map_option fz_armed_bar (lv_frozen v) = Some (bx_bar_index ctx)"

definition next_body_of ::
  "(('m, 'o) level_hashed \<Rightarrow> string) \<Rightarrow> ('m level_inputs \<Rightarrow> 'o arming_row list) \<Rightarrow> level_params \<Rightarrow> string \<Rightarrow> string option \<Rightarrow>
     level_context \<Rightarrow> 'm level_inputs \<Rightarrow> 'o level_state option \<Rightarrow> string \<Rightarrow> string option \<Rightarrow> level_snapshot \<Rightarrow> 'o level_body" where
  "next_body_of hash evidence p nid binding ctx i state payload key v =
     (let ready = (fst (primary_status ctx) = Ready);
          rows = (if arming_now ctx v then evidence i
                  else (case state of None \<Rightarrow> [] | Some s \<Rightarrow> lb_arming_evidence s)) in
      \<lparr> lb_version = 1, lb_config_hash = hash (Hashed_Config p), lb_node_id = nid,
        lb_graph_binding_hash = binding, lb_context_hash = hash (Hashed_Context ctx),
        lb_symbol = bx_symbol ctx, lb_timeframe = bx_timeframe ctx,
        lb_last_timestamp_ms = bx_timestamp_ms ctx, lb_last_bar_index = bx_bar_index ctx,
        lb_last_decision_timestamp_ms = bx_decision_timestamp_ms ctx, lb_last_payload_hash = payload,
        lb_last_close = (if ready then positive_price (lx_close ctx) else None),
        lb_last_primary_valid = ready,
        lb_last_trigger = (case key of
            Some k \<Rightarrow> Some (k, bx_timestamp_ms ctx, bx_bar_index ctx)
          | None \<Rightarrow> (case state of None \<Rightarrow> None | Some s \<Rightarrow> lb_last_trigger s)),
        lb_arming_evidence = rows, lb_arming_evidence_hash = hash (Hashed_Evidence rows), lb_output = v \<rparr>)"

definition level_evaluate ::
  "(('m, 'o) level_hashed \<Rightarrow> string) \<Rightarrow> ('m level_inputs \<Rightarrow> 'o arming_row list) \<Rightarrow> level_params \<Rightarrow> string \<Rightarrow> string option \<Rightarrow>
     level_context \<Rightarrow> 'm carried_value list dict \<Rightarrow> 'o level_state option \<Rightarrow>
     ((level_snapshot \<times> level_metadata market_event option) \<times> 'o level_state option) res" where
  "level_evaluate hash evidence p nid binding ctx inputs state =
     bindE (validate_level_setup_state hash p nid binding state) (\<lambda>_.
     bindE (level_inputs_of inputs) (\<lambda>i.
     let payload = payload_hash hash ctx i in
     bindE (level_cursor ctx state payload) (\<lambda>(duplicate, consecutive).
     if duplicate then
       (case state of
          None \<Rightarrow> Inl KeyError
        | Some s \<Rightarrow> bindE (snapshot_contract hash (lb_output s)) (\<lambda>_. Inr ((lb_output s, None), state)))
     else
       bindE (trigger_status hash ctx (li_trigger i) state) (\<lambda>trigger.
       bindE (next_level hash p nid (hash (Hashed_Config p)) ctx i state consecutive trigger) (\<lambda>(v, event).
       let body = next_body_of hash evidence p nid binding ctx i state payload (fst trigger) v;
           saved = level_body.extend body \<lparr>ls_integrity_hash = hash (Hashed_State body)\<rparr> in
       bindE (level_state_check hash saved) (\<lambda>_. Inr ((v, event), Some saved)))))))"

end
