(* ===== verification/Level_Properties.thy ===== *)
theory Level_Properties
  imports Level_Reducer Temporal_Runs
begin

text \<open>
  The life of a frozen level. \<open>lifecycle\<close> is the state machine the block promises: a level is
  armed on one bar, serviced while it is armed, and ends once; an opportunity is emitted exactly
  when it is consumed. Every evaluation is a step of it, and over a run no level gives two
  opportunities.
\<close>

section \<open>The state machine\<close>

definition not_armed :: "level_snapshot option \<Rightarrow> bool" where
  "not_armed u \<longleftrightarrow> map_option lv_status u \<noteq> Some Armed"

definition never_armed :: "level_snapshot option \<Rightarrow> bool" where
  "never_armed u \<longleftrightarrow> (case u of None \<Rightarrow> True | Some v \<Rightarrow> lv_status v = Unavailable)"

text \<open>The price action that consumes a level, in each mode.\<close>

definition confirmed :: "level_params \<Rightarrow> frozen_level \<Rightarrow> level_context \<Rightarrow> bool" where
  "confirmed p f ctx \<longleftrightarrow>
     (\<exists>low close. lx_low ctx = Fin low \<and> lx_close ctx = Fin close \<and>
       (case lp_mode p of
          Sweep_Reclaim \<Rightarrow> low < fz_lower f \<and> fz_lower f < close
        | Breakout_Retest \<Rightarrow> fz_lower f < close
        | Breakout \<Rightarrow> fz_upper f < close))"

inductive lifecycle ::
  "level_params \<Rightarrow> level_context \<Rightarrow> level_snapshot option \<Rightarrow> level_snapshot \<Rightarrow> level_metadata market_event option \<Rightarrow> bool"
  for p ctx where
  waiting: "never_armed u \<Longrightarrow> lv_status v = Unavailable \<Longrightarrow> lifecycle p ctx u v None"
| arming: "not_armed u \<Longrightarrow> lv_status v = Armed \<Longrightarrow> lv_frozen v = Some f \<Longrightarrow> fz_armed_bar f = bx_bar_index ctx
    \<Longrightarrow> fz_expires_bar f = bx_bar_index ctx + lp_expires_after_bars p \<Longrightarrow> lifecycle p ctx u v None"
| holding: "lv_status u = Armed \<Longrightarrow> lv_frozen u = Some f \<Longrightarrow> bx_bar_index ctx \<le> fz_expires_bar f
    \<Longrightarrow> fst (primary_status ctx) = Ready
    \<Longrightarrow> lv_status v = Armed \<Longrightarrow> lv_frozen v = Some f \<Longrightarrow> lifecycle p ctx (Some u) v None"
| consuming: "lv_status u = Armed \<Longrightarrow> lv_frozen u = Some f \<Longrightarrow> bx_bar_index ctx \<le> fz_expires_bar f
    \<Longrightarrow> fst (primary_status ctx) = Ready \<Longrightarrow> confirmed p f ctx
    \<Longrightarrow> lv_status v = Consumed \<Longrightarrow> lv_frozen v = Some f
    \<Longrightarrow> lv_terminal v = Some \<lparr>ln_bar = bx_bar_index ctx, ln_timestamp_ms = bx_timestamp_ms ctx\<rparr>
    \<Longrightarrow> me_bar_index e = bx_bar_index ctx \<Longrightarrow> lm_level_id (me_metadata e) = fz_level_id f
    \<Longrightarrow> me_price_levels e = [fz_lower f, fz_upper f] \<Longrightarrow> lifecycle p ctx (Some u) v (Some e)"
| ending: "lv_status u = Armed \<Longrightarrow> lv_frozen u = Some f
    \<Longrightarrow> lv_status v = (if fz_expires_bar f < bx_bar_index ctx then Expired else Invalidated)
    \<Longrightarrow> lv_frozen v = Some f
    \<Longrightarrow> lv_terminal v = Some \<lparr>ln_bar = bx_bar_index ctx, ln_timestamp_ms = bx_timestamp_ms ctx\<rparr>
    \<Longrightarrow> lifecycle p ctx (Some u) v None"
| resting: "lv_status u \<notin> {Armed, Unavailable}
    \<Longrightarrow> v = u\<lparr>lv_bar_index := bx_bar_index ctx, lv_timestamp_ms := bx_timestamp_ms ctx\<rparr>
    \<Longrightarrow> lifecycle p ctx (Some u) v None"

inductive_cases lifecycle_event: "lifecycle p ctx u v (Some e)"

section \<open>Steps\<close>

lemma arm_cases:
  assumes "arm hash p nid ctx event key config lower upper = Inr v"
  shows "lv_status v = Unavailable \<or>
    (lv_status v = Armed \<and> (\<exists>f. lv_frozen v = Some f \<and> fz_armed_bar f = bx_bar_index ctx \<and>
       fz_expires_bar f = bx_bar_index ctx + lp_expires_after_bars p))"
  using assms
  by (auto simp: arm_def Let_def unavailable_level_def armed_level_def split: if_splits option.splits)

lemma arm_lifecycle:
  assumes "arm hash p nid ctx event key config lower upper = Inr v" "not_armed u"
  shows "(lv_status v = Unavailable \<longrightarrow> never_armed u \<longrightarrow> lifecycle p ctx u v None) \<and>
    (lv_status v = Armed \<longrightarrow> lifecycle p ctx u v None)"
  using arm_cases [OF assms(1)] assms(2) by (auto intro: waiting arming)

lemma verdict_cases:
  assumes "level_verdict p f s consecutive status ctx = Inr (verdict, why)"
  shows "verdict = Expired \<and> fz_expires_bar f < bx_bar_index ctx \<or>
    verdict = Invalidated \<and> bx_bar_index ctx \<le> fz_expires_bar f \<or>
    verdict = Armed \<and> bx_bar_index ctx \<le> fz_expires_bar f \<and> fst status = Ready \<or>
    verdict = Consumed \<and> bx_bar_index ctx \<le> fz_expires_bar f \<and> fst status = Ready \<and> confirmed p f ctx"
  using assms
  by (auto simp: level_verdict_def confirmed_def sweep_reclaimed_def breakout_retested_def cross_direction_def
      split: if_splits float64.splits option.splits level_mode.splits)

lemma service_lifecycle:
  assumes "service hash p ctx u f s consecutive (primary_status ctx) = Inr (v, e)" "lv_status u = Armed" "lv_frozen u = Some f"
  shows "lifecycle p ctx (Some u) v e"
proof -
  from assms(1) obtain verdict why where verdict: "level_verdict p f s consecutive (primary_status ctx) ctx = Inr (verdict, why)"
    by (auto simp: service_def)
  let ?cursor = "decision_cursor ctx"
  let ?id = "opportunity_id hash (fz_level_id f) ?cursor"
  have e: "e = (if verdict = Consumed then Some (opportunity_event p u f s ctx ?cursor ?id) else None)"
    and v: "lv_status v = verdict" "lv_frozen v = lv_frozen u"
    "verdict \<noteq> Armed \<longrightarrow> lv_terminal v = Some \<lparr>ln_bar = bx_bar_index ctx, ln_timestamp_ms = bx_timestamp_ms ctx\<rparr>"
    using assms(1) by (auto simp: service_def verdict Let_def)
  from verdict_cases [OF verdict] consider "verdict = (if fz_expires_bar f < bx_bar_index ctx then Expired else Invalidated)"
    | "verdict = Consumed" "bx_bar_index ctx \<le> fz_expires_bar f" "fst (primary_status ctx) = Ready" "confirmed p f ctx"
    | "verdict = Armed" "bx_bar_index ctx \<le> fz_expires_bar f" "fst (primary_status ctx) = Ready"
    by fastforce
  then show ?thesis
  proof cases
    case 1
    then have "verdict \<noteq> Armed" "e = None" using e by auto
    then show ?thesis using 1 v assms(2,3) by (auto intro: ending)
  next
    case 2
    then show ?thesis using e v assms(2,3) by (auto simp: opportunity_event_def intro: consuming)
  next
    case 3
    then show ?thesis using e v assms(2,3) by (auto intro: holding)
  qed
qed

lemma idle_lifecycle: "never_armed u \<Longrightarrow> lifecycle p ctx u (unavailable_level ctx nid config status) None"
  by (rule waiting) (simp_all add: unavailable_level_def)

lemma never_armed_not_armed: "never_armed u \<Longrightarrow> not_armed u"
  by (auto simp: never_armed_def not_armed_def split: option.splits)

text \<open>The start of a block that has no level: it arms one or stays idle.\<close>

lemma start_lifecycle:
  assumes "(case (key, event) of
      (Some k, Some ev) \<Rightarrow> if ready then bindE (arm hash p nid ctx ev k config lower upper) (\<lambda>l. Inr (l, None)) else idle
    | _ \<Rightarrow> idle) = Inr (v, e)"
    and idle: "idle = bindE (snapshot_contract hash (unavailable_level ctx nid config status))
      (\<lambda>_. Inr (unavailable_level ctx nid config status, None))"
    and "never_armed u"
  shows "lifecycle p ctx u v e"
proof -
  have i: "lifecycle p ctx u v e" if "idle = Inr (v, e)" using that idle by (auto intro: idle_lifecycle [OF assms(3)])
  have a: "lifecycle p ctx u v e"
    if "bindE (arm hash p nid ctx ev k config lower upper) (\<lambda>l. Inr (l, None)) = Inr (v, e)" for ev k
    using that arm_lifecycle never_armed_not_armed [OF assms(3)] assms(3) arm_cases by fastforce
  show ?thesis using assms(1) i a by (auto split: option.splits if_splits)
qed

lemma rest_lifecycle:
  assumes "lv_status u \<notin> {Armed, Unavailable}"
    and "kept = u\<lparr>lv_bar_index := bx_bar_index ctx, lv_timestamp_ms := bx_timestamp_ms ctx\<rparr>"
    and "(case (key, event) of
      (Some k, Some ev) \<Rightarrow>
        if ready then bindE (arm hash p nid ctx ev k config lower upper)
          (\<lambda>l. Inr (if lv_status l = Armed then l else kept, None)) else Inr (kept, None)
    | _ \<Rightarrow> Inr (kept, None)) = Inr (v, e)"
  shows "lifecycle p ctx (Some u) v e"
proof -
  have r: "lifecycle p ctx (Some u) kept None" using assms(1,2) by (rule resting)
  have n: "not_armed (Some u)" using assms(1) by (simp add: not_armed_def)
  have a: "lifecycle p ctx (Some u) l None"
    if "arm hash p nid ctx ev k config lower upper = Inr l" "lv_status l = Armed" for ev k l
    using arm_lifecycle [OF that(1) n] that(2) by simp
  show ?thesis using assms(3) r a by (auto split: option.splits if_splits)
qed

lemma next_level_lifecycle:
  assumes "next_level hash p nid config ctx i state consecutive trigger = Inr (v, e)"
    and "\<And>s. state = Some s \<Longrightarrow> (lv_status (lb_output s) = Unavailable) = (lv_frozen (lb_output s) = None)"
  shows "lifecycle p ctx (map_option lb_output state) v e"
proof (cases "never_armed (map_option lb_output state)")
  case True
  then have "(case (fst trigger, li_trigger i) of
      (Some k, Some ev) \<Rightarrow>
        if fst (primary_status ctx) = Ready
        then bindE (arm hash p nid ctx ev k config (li_lower i) (li_upper i)) (\<lambda>l. Inr (l, None))
        else (let v = unavailable_level ctx nid config
              (if fst (primary_status ctx) \<noteq> Ready then fst (primary_status ctx) else Missing,
               if \<not> falsy (snd (primary_status ctx)) then snd (primary_status ctx) else snd trigger) in
            bindE (snapshot_contract hash v) (\<lambda>_. Inr (v, None)))
    | _ \<Rightarrow> (let v = unavailable_level ctx nid config
              (if fst (primary_status ctx) \<noteq> Ready then fst (primary_status ctx) else Missing,
               if \<not> falsy (snd (primary_status ctx)) then snd (primary_status ctx) else snd trigger) in
            bindE (snapshot_contract hash v) (\<lambda>_. Inr (v, None)))) = Inr (v, e)"
    using assms(1) by (cases state) (auto simp: next_level_def never_armed_def Let_def split: option.splits)
  then show ?thesis by (rule start_lifecycle) (simp_all add: True Let_def)
next
  case False
  then obtain s f where s: "state = Some s" "lv_status (lb_output s) \<noteq> Unavailable" "lv_frozen (lb_output s) = Some f"
    using assms(2) by (cases state) (auto simp: never_armed_def)
  show ?thesis
  proof (cases "lv_status (lb_output s) = Armed")
    case True
    then have "service hash p ctx (lb_output s) f s consecutive (primary_status ctx) = Inr (v, e)"
      using assms(1) s by (simp add: next_level_def Let_def)
    then show ?thesis using service_lifecycle True s by simp
  next
    case ended: False
    show ?thesis using assms(1) s(2) ended unfolding s(1)
      by (auto simp: next_level_def Let_def s(3) split: level_status.splits intro: rest_lifecycle [rotated 2])
  qed
qed

section \<open>Evaluations\<close>

type_synonym 'm level_moment = "level_context \<times> 'm carried_value list dict"

definition level_time :: "'m level_moment \<Rightarrow> int" where
  "level_time m = bx_timestamp_ms (fst m)"

definition level_block ::
  "(('m, 'o) level_hashed \<Rightarrow> string) \<Rightarrow> ('m level_inputs \<Rightarrow> 'o arming_row list) \<Rightarrow> level_params \<Rightarrow> string \<Rightarrow> string option \<Rightarrow>
     'o level_state option \<Rightarrow> 'm level_moment \<Rightarrow>
     ((level_snapshot \<times> level_metadata market_event option) \<times> 'o level_state option) res" where
  "level_block hash evidence p nid binding st m = level_evaluate hash evidence p nid binding (fst m) (snd m) st"

definition level_last :: "'o level_state option \<Rightarrow> int option" where
  "level_last st = map_option lb_last_timestamp_ms st"

lemma snapshot_contract_frozen:
  "snapshot_contract hash v = Inr () \<Longrightarrow> (lv_status v = Unavailable) = (lv_frozen v = None)"
  by (auto simp: snapshot_contract_def split: if_splits option.splits)

lemma snapshot_contract_terminal:
  assumes "snapshot_contract hash v = Inr ()" "lv_frozen v = Some f" "lv_status v = Consumed" "lv_terminal v = Some e"
  shows "fz_armed_bar f < ln_bar e"
  using assms by (auto simp: snapshot_contract_def lifecycle_check_def split: if_splits)

lemma level_state_check_output:
  assumes "level_state_check hash s = Inr ()"
  shows "snapshot_contract hash (lb_output s) = Inr ()" "lv_bar_index (lb_output s) = lb_last_bar_index s"
  using assms by (auto simp: level_state_check_def Let_def split: if_splits)

lemma level_cursor_cases:
  assumes "level_cursor ctx st payload = Inr (duplicate, consecutive)"
  shows "duplicate \<longleftrightarrow> level_last st = Some (bx_timestamp_ms ctx)"
    and "\<not> duplicate \<Longrightarrow> st = Some s \<Longrightarrow>
      lb_last_timestamp_ms s < bx_timestamp_ms ctx \<and> lb_last_bar_index s < bx_bar_index ctx"
  using assms by (auto simp: level_cursor_def level_last_def split: if_splits option.splits sum.splits)

lemma level_block_repeated:
  assumes "level_block hash evidence p nid binding st m = Inr ((v, e), st')" "level_last st = Some (level_time m)"
  shows "st' = st \<and> e = None \<and> (\<exists>s. st = Some s \<and> v = lb_output s)"
  using assms
  by (auto simp: level_block_def level_evaluate_def level_time_def Let_def
      dest!: level_cursor_cases(1) split: if_splits option.splits)

lemma level_block_new:
  assumes "level_block hash evidence p nid binding st m = Inr ((v, e), st')" "level_last st \<noteq> Some (level_time m)"
  obtains s where "st' = Some s" "lb_output s = v" "level_state_check hash s = Inr ()"
    "lb_last_bar_index s = bx_bar_index (fst m)" "lb_last_timestamp_ms s = level_time m"
    "lifecycle p (fst m) (map_option lb_output st) v e"
    "\<And>u. st = Some u \<Longrightarrow> lb_last_timestamp_ms u < level_time m \<and> lb_last_bar_index u < bx_bar_index (fst m)"
proof -
  from assms(1) obtain i duplicate consecutive where st: "validate_level_setup_state hash p nid binding st = Inr ()"
    and c: "level_cursor (fst m) st (payload_hash hash (fst m) i) = Inr (duplicate, consecutive)"
    and i: "level_inputs_of (snd m) = Inr i"
    by (auto simp: level_block_def level_evaluate_def Let_def)
  have d: "\<not> duplicate" using level_cursor_cases(1) [OF c] assms(2) by (simp add: level_time_def)
  from assms(1) st c i d obtain trigger where
    n: "next_level hash p nid (hash (Hashed_Config p)) (fst m) i st consecutive trigger = Inr (v, e)"
    and ok: "level_state_check hash (level_body.extend
        (next_body_of hash evidence p nid binding (fst m) i st (payload_hash hash (fst m) i) (fst trigger) v)
        \<lparr>ls_integrity_hash = hash (Hashed_State
          (next_body_of hash evidence p nid binding (fst m) i st (payload_hash hash (fst m) i) (fst trigger) v))\<rparr>) = Inr ()"
    and st': "st' = Some (level_body.extend
        (next_body_of hash evidence p nid binding (fst m) i st (payload_hash hash (fst m) i) (fst trigger) v)
        \<lparr>ls_integrity_hash = hash (Hashed_State
          (next_body_of hash evidence p nid binding (fst m) i st (payload_hash hash (fst m) i) (fst trigger) v))\<rparr>)"
    by (auto simp: level_block_def level_evaluate_def Let_def)
  have "(lv_status (lb_output u) = Unavailable) = (lv_frozen (lb_output u) = None)" if "st = Some u" for u
    using st that level_state_check_output(1) [of hash u]
    by (intro snapshot_contract_frozen) (auto simp: validate_level_setup_state_def)
  then have "lifecycle p (fst m) (map_option lb_output st) v e" using n by (intro next_level_lifecycle) auto
  then show ?thesis using that [OF st' _ ok] level_cursor_cases(2) [OF c d]
    by (simp add: level_body.defs next_body_of_def Let_def level_time_def)
qed

interpretation level: temporal_reducer "level_block hash evidence p nid binding" level_last level_time
  for hash evidence p nid binding
proof
  fix s s' m and r :: "level_snapshot \<times> level_metadata market_event option"
  assume e: "level_block hash evidence p nid binding s m = Inr (r, s')"
  show "s' = s" if "level_last s = Some (level_time m)"
    using level_block_repeated [of hash evidence p nid binding s m "fst r" "snd r" s'] e that by simp
  assume "level_last s \<noteq> Some (level_time m)"
  with e show "level_last s' = Some (level_time m) \<and> (\<forall>t. level_last s = Some t \<longrightarrow> t < level_time m)"
    by (cases r) (auto elim!: level_block_new simp: level_last_def)
qed

text \<open>
  C29: Every evaluation of a level block that returns is a step of the life cycle: at a repeated
  cursor it returns the saved level, no event and leaves the state alone; at a new one it arms,
  holds, consumes, ends or rests the level as \<open>lifecycle\<close> says, with an event exactly when the level
  is consumed: on a valid bar, before its expiry, and on the price action of the mode.
\<close>

theorem level_follows_lifecycle:
  assumes "level_block hash evidence p nid binding st m = Inr ((v, e), st')"
  shows "if level_last st = Some (level_time m)
    then st' = st \<and> e = None \<and> map_option lb_output st = Some v
    else lifecycle p (fst m) (map_option lb_output st) v e \<and> map_option lb_output st' = Some v \<and>
      level_last st' = Some (level_time m) \<and> (e \<noteq> None \<longleftrightarrow> lv_status v = Consumed \<and> map_option lv_status (map_option lb_output st) = Some Armed)"
proof (cases "level_last st = Some (level_time m)")
  case True
  then show ?thesis using level_block_repeated [OF assms] by auto
next
  case False
  from level_block_new [OF assms False] obtain s where s: "st' = Some s" "lb_output s = v"
    "lb_last_timestamp_ms s = level_time m" "lifecycle p (fst m) (map_option lb_output st) v e" by metis
  from s(4) have "e \<noteq> None \<longleftrightarrow> lv_status v = Consumed \<and> map_option lv_status (map_option lb_output st) = Some Armed"
    by cases (auto simp: not_armed_def never_armed_def)
  moreover have "level_last st' = Some (level_time m)" "map_option lb_output st' = Some v"
    using s by (simp_all add: level_last_def)
  ultimately show ?thesis using s(4) by (simp only: False if_False simp_thms)
qed

section \<open>One opportunity per level\<close>

definition opportunities :: "(level_snapshot \<times> level_metadata market_event option) list \<Rightarrow> level_metadata market_event list" where
  "opportunities rs = List.map_filter snd rs"

text \<open>
  The invariant of a run: past opportunities lie before the last bar, and before the bar that armed
  the current level.
\<close>

definition spent :: "level_metadata market_event list \<Rightarrow> 'o level_state option \<Rightarrow> bool" where
  "spent es st \<longleftrightarrow>
     (case st of
        None \<Rightarrow> es = []
      | Some s \<Rightarrow>
          (\<forall>e \<in> set es. me_bar_index e \<le> lb_last_bar_index s) \<and>
          (lv_status (lb_output s) = Armed \<longrightarrow>
             (\<forall>f. lv_frozen (lb_output s) = Some f \<longrightarrow> (\<forall>e \<in> set es. me_bar_index e < fz_armed_bar f))))"

definition opportunity_ok :: "level_metadata market_event list \<Rightarrow> level_snapshot \<times> level_metadata market_event option \<Rightarrow> bool" where
  "opportunity_ok es r \<longleftrightarrow>
     (case snd r of
        None \<Rightarrow> True
      | Some e \<Rightarrow>
          \<exists>f. lv_frozen (fst r) = Some f \<and> fz_armed_bar f < me_bar_index e \<and> me_bar_index e \<le> fz_expires_bar f \<and>
            lm_level_id (me_metadata e) = fz_level_id f \<and> (\<forall>e' \<in> set es. me_bar_index e' < fz_armed_bar f))"

lemma level_step_spent:
  assumes "level_block hash evidence p nid binding st m = Inr (r, st')" "spent es st"
  shows "spent (es @ opportunities [r]) st' \<and> opportunity_ok es r"
proof (cases "level_last st = Some (level_time m)")
  case True
  then show ?thesis using level_block_repeated [of hash evidence p nid binding st m "fst r" "snd r" st'] assms
    by (simp add: opportunities_def List.map_filter_def opportunity_ok_def)
next
  case False
  obtain v e where r: "r = (v, e)" by fastforce
  from level_block_new [OF assms(1) [unfolded r] False] obtain s where s: "st' = Some s" "lb_output s = v"
    "level_state_check hash s = Inr ()" "lb_last_bar_index s = bx_bar_index (fst m)"
    "lifecycle p (fst m) (map_option lb_output st) v e"
    "\<And>u. st = Some u \<Longrightarrow> lb_last_bar_index u < bx_bar_index (fst m)" by metis
  have old: "\<forall>x \<in> set es. me_bar_index x < bx_bar_index (fst m)"
    using assms(2) s(6) by (fastforce simp: spent_def split: option.splits)
  have contract: "snapshot_contract hash v = Inr ()" using level_state_check_output(1) [OF s(3)] s(2) by simp
  from s(5) show ?thesis
  proof cases
    case (consuming u f e')
    then obtain s0 where s0: "st = Some s0" "lb_output s0 = u" by auto
    have "fz_armed_bar f < bx_bar_index (fst m)"
      using snapshot_contract_terminal [OF contract] consuming by fastforce
    then show ?thesis using consuming s0 assms(2) s old
      by (fastforce simp: spent_def opportunity_ok_def opportunities_def List.map_filter_def r)
  next
    case (holding u f)
    then obtain s0 where s0: "st = Some s0" "lb_output s0 = u" by auto
    then show ?thesis using holding assms(2) s old
      by (auto simp: spent_def opportunity_ok_def opportunities_def List.map_filter_def r less_imp_le)
  qed (use s old in \<open>auto simp: spent_def opportunity_ok_def opportunities_def List.map_filter_def r less_imp_le\<close>)
qed

lemma opportunities_snoc: "opportunities (rs @ [r]) = opportunities rs @ opportunities [r]"
  by (simp add: opportunities_def List.map_filter_def)

lemma level_run_spent:
  assumes "outputs_of (level_block hash evidence p nid binding) None ms = Inr (rs, st)"
  shows "spent (opportunities rs) st \<and>
    (\<forall>k < length rs. opportunity_ok (opportunities (take k rs)) (rs ! k))"
  using assms
proof (induction ms arbitrary: rs st rule: rev_induct)
  case Nil
  then show ?case by (simp add: spent_def opportunities_def List.map_filter_def)
next
  case (snoc m ms)
  from snoc.prems obtain rs0 r u where run: "outputs_of (level_block hash evidence p nid binding) None ms = Inr (rs0, u)"
    and e: "level_block hash evidence p nid binding u m = Inr (r, st)" and rs: "rs = rs0 @ [r]"
    unfolding outputs_of_snoc by blast
  note IH = snoc.IH [OF run]
  from level_step_spent [OF e] IH have "spent (opportunities rs) st" "opportunity_ok (opportunities rs0) r"
    by (auto simp: rs opportunities_snoc)
  then show ?case using IH by (auto simp: rs nth_append less_Suc_eq)
qed

lemma in_opportunities: "j < k \<Longrightarrow> k \<le> length rs \<Longrightarrow> snd (rs ! j) = Some e \<Longrightarrow> e \<in> set (opportunities (take k rs))"
  unfolding opportunities_def in_map_filter
  by (metis in_set_conv_nth length_take min.absorb2 nth_take)

text \<open>
  C30: In any run of a level block, an opportunity comes after the bar that armed its level and no
  later than the bar the level expires on, and before another opportunity the block has to arm a
  level on a later bar: no level gives two.
\<close>

theorem one_opportunity_per_level:
  assumes "outputs_of (level_block hash evidence p nid binding) None ms = Inr (rs, st)"
    and "k < length rs" "snd (rs ! k) = Some e"
  shows "\<exists>f. lv_frozen (fst (rs ! k)) = Some f \<and> lm_level_id (me_metadata e) = fz_level_id f \<and>
    fz_armed_bar f < me_bar_index e \<and> me_bar_index e \<le> fz_expires_bar f \<and>
    (\<forall>j < k. \<forall>e'. snd (rs ! j) = Some e' \<longrightarrow> me_bar_index e' < fz_armed_bar f)"
proof -
  have "opportunity_ok (opportunities (take k rs)) (rs ! k)" using level_run_spent [OF assms(1)] assms(2) by blast
  then obtain f where f: "lv_frozen (fst (rs ! k)) = Some f" "fz_armed_bar f < me_bar_index e"
    "me_bar_index e \<le> fz_expires_bar f" "lm_level_id (me_metadata e) = fz_level_id f"
    "\<forall>e' \<in> set (opportunities (take k rs)). me_bar_index e' < fz_armed_bar f"
    using assms(3) by (auto simp: opportunity_ok_def)
  then show ?thesis using in_opportunities [of _ k rs] assms(2) by (blast intro: less_imp_le)
qed

end
