(* ===== verification/Demo_Level.thy ===== *)
theory Demo_Level
  imports Level_Properties
begin

text \<open>
  A level that a trigger arms at 100 on the first bar and that the close of the second bar breaks: the
  run on which the witnesses of the life cycle evaluate the block.
\<close>

section \<open>A breakout\<close>

definition level_bar :: "nat \<Rightarrow> rat \<Rightarrow> level_context" where
  "level_bar k price =
     \<lparr> bx_bar_index = int k, bx_timestamp_ms = 60000 * int k, bx_decision_timestamp_ms = Some (60000 * int k + 60000),
       bx_symbol = ''BTC'', bx_timeframe = Some ''1m'', lx_open = Fin price, lx_high = Fin price, lx_low = Fin price,
       lx_close = Fin price, lx_volume = Fin 1, lx_history_start_ms = Some (60000 * int k),
       lx_opens = None, lx_highs = None, lx_lows = None, lx_closes = Some [Fin price], lx_volumes = None \<rparr>"

definition level_source :: "nat \<Rightarrow> numeric_value" where
  "level_source k =
     \<lparr> vi_bar_index = int k, vi_timestamp_ms = 60000 * int k, vi_source_node_id = ''high'',
       vi_unit = Price_Quote_Per_Base, vi_symbol = ''BTC'', vi_timeframe = Some ''1m'',
       vi_as_of_ms = Some (60000 * int k + 60000), vi_available_at_ms = Some (60000 * int k + 60000),
       vi_readiness = Ready, vi_reason = None, vi_formula_version = ''v1'', vi_input_cursor = Some ''c'',
       nv_value = Some 100 \<rparr>"

definition level_trigger :: "nat \<Rightarrow> unit market_event" where
  "level_trigger k = \<lparr> me_bar_index = int k, me_timestamp_ms = 60000 * int k, me_source_node_id = ''cross'',
     me_kind = ''cross'', me_direction = Some Bullish, me_price_levels = [], me_metadata = () \<rparr>"

definition demo_level_params :: level_params where
  "demo_level_params = \<lparr> lp_mode = Breakout, lp_expires_after_bars = 3, lp_invalidation_buffer_pct = 50, lp_tolerance_pct = None \<rparr>"

text \<open>The hash of the demonstration: one digit per kind of content.\<close>

definition demo_level_hash :: "(unit, unit) level_hashed \<Rightarrow> string" where
  "demo_level_hash h = replicate 64 (case h of Hashed_Level _ _ _ \<Rightarrow> CHR ''1'' | Hashed_Opportunity _ _ \<Rightarrow> CHR ''2'' | _ \<Rightarrow> CHR ''0'')"

definition demo_level :: "unit level_state option \<Rightarrow> unit level_moment \<Rightarrow>
    ((level_snapshot \<times> level_metadata market_event option) \<times> unit level_state option) res" where
  "demo_level = level_block demo_level_hash (\<lambda>_. []) demo_level_params ''level'' None"

definition demo_arming :: "unit level_moment" where
  "demo_arming = (level_bar 0 90,
     [(''trigger'', [Carried_Event (level_trigger 0)]), (''lower'', [Carried_Number (level_source 0)])])"

definition demo_second :: level_context where
  "demo_second = level_bar 1 101"

definition demo_breaking :: "unit level_moment" where
  "demo_breaking = (demo_second, [])"

section \<open>Its evaluation\<close>

lemma demo_hash_hex [simp]: "hex64_ok (demo_level_hash h)"
  by (simp add: demo_level_hash_def hex64_ok_def list_all_iff split: level_hashed.split)

lemma demo_floats: "level_center 100 100 = Some 100" "invalidation_threshold 100 50 = Some 50"
  using fl64_exact [of 200 200 0] fl64_exact [of 100 100 0] fl64_exact [of 50 50 0] fl64_exact [of "1/2" 1 1]
  by (simp_all add: level_center_def invalidation_threshold_def flop_def)

lemmas demo_evals = demo_floats level_bar_def level_source_def level_trigger_def demo_level_params_def
  bar_interval_def timeframe_ms_def timeframe_table_def positive_price_def falsy_def
  numeric_contract_def identity_contract_def at_most_one_def level_number_def level_inputs_of_def
  level_cursor_def trigger_status_def primary_status_def scalar_status_def scalar_identity_def check_identity_def
  List.map_filter_def

lemmas demo_contracts = snapshot_contract_def frozen_check_def source_matches_def lifecycle_check_def

abbreviation demo_key :: string where
  "demo_key \<equiv> demo_level_hash (Hashed_Event (level_trigger 0))"

definition demo_armed :: level_snapshot where
  "demo_armed = armed_level demo_level_hash demo_level_params ''level'' (level_bar 0 90) (level_trigger 0)
     demo_key (demo_level_hash (Hashed_Config demo_level_params)) (level_source 0) None 100 100 100 60000"

lemma demo_arms:
  "arm demo_level_hash demo_level_params ''level'' (level_bar 0 90) (level_trigger 0) demo_key
     (demo_level_hash (Hashed_Config demo_level_params)) (Some (level_source 0)) None = Inr demo_armed"
  by (simp add: arm_def demo_evals Let_def armed_level_def demo_contracts demo_armed_def)

text \<open>The states after the two bars.\<close>

definition demo_saved :: "unit level_state option \<Rightarrow> unit level_moment \<Rightarrow> unit level_inputs \<Rightarrow> string option \<Rightarrow>
    level_snapshot \<Rightarrow> unit level_state" where
  "demo_saved st m i key v =
     (let body = next_body_of demo_level_hash (\<lambda>_. []) demo_level_params ''level'' None (fst m) i st
          (payload_hash demo_level_hash (fst m) i) key v in
      level_body.extend body \<lparr>ls_integrity_hash = demo_level_hash (Hashed_State body)\<rparr>)"

abbreviation demo_inputs :: "unit level_inputs" where
  "demo_inputs \<equiv> \<lparr>li_trigger = Some (level_trigger 0), li_lower = Some (level_source 0), li_upper = None\<rparr>"

abbreviation no_inputs :: "unit level_inputs" where
  "no_inputs \<equiv> \<lparr>li_trigger = None, li_lower = None, li_upper = None\<rparr>"

definition demo_level_state :: "unit level_state" where
  "demo_level_state = demo_saved None demo_arming demo_inputs (Some demo_key) demo_armed"

lemmas demo_saves = demo_saved_def next_body_of_def level_body.defs Let_def

lemma demo_ready: "primary_status (level_bar 0 90) = (Ready, None)" "primary_status demo_second = (Ready, None)"
  by (simp_all add: demo_evals demo_second_def)

lemma demo_state_ok: "level_state_check demo_level_hash demo_level_state = Inr ()"
  by (simp add: level_state_check_def level_fields_ok_def output_check_def terminal_check_def demo_level_state_def
      demo_saves payload_hash_def demo_arming_def demo_ready arming_now_def demo_armed_def armed_level_def demo_contracts demo_evals)

lemma demo_first: "demo_level None demo_arming = Inr ((demo_armed, None), Some demo_level_state)"
proof -
  have "level_inputs_of (snd demo_arming) = Inr demo_inputs" by (simp add: demo_arming_def demo_evals)
  moreover have "level_cursor (fst demo_arming) (None :: unit level_state option) payload = Inr (False, False)" for payload
    by (simp add: demo_arming_def level_cursor_def level_bar_def)
  moreover have "trigger_status demo_level_hash (fst demo_arming) (li_trigger demo_inputs) (None :: unit level_state option)
      = Inr (Some demo_key, None)"
    by (simp add: demo_arming_def demo_evals)
  ultimately show ?thesis using demo_state_ok
    by (simp add: demo_level_def level_block_def level_evaluate_def validate_level_setup_state_def next_level_def
        demo_arming_def demo_ready demo_arms demo_level_state_def demo_saved_def Let_def)
qed

text \<open>The second bar closes at 101, above the level, after a close at 90: the level is consumed.\<close>

definition demo_frozen :: frozen_level where
  "demo_frozen = the (lv_frozen demo_armed)"

abbreviation demo_opportunity :: string where
  "demo_opportunity \<equiv> opportunity_id demo_level_hash (fz_level_id demo_frozen) (decision_cursor demo_second)"

definition demo_consumed :: level_snapshot where
  "demo_consumed = demo_armed\<lparr> lv_bar_index := 1, lv_timestamp_ms := 60000, lv_status := Consumed,
     lv_reason := Some ''opportunity_consumed'', lv_terminal := Some \<lparr>ln_bar = 1, ln_timestamp_ms = 60000\<rparr>,
     lv_consumption := Some \<lparr>cn_at_ms = 120000, cn_cursor = decision_cursor demo_second, cn_event_id = demo_opportunity\<rparr> \<rparr>"

definition demo_level_event :: "level_metadata market_event" where
  "demo_level_event = opportunity_event demo_level_params demo_armed demo_frozen demo_level_state demo_second
     (decision_cursor demo_second) demo_opportunity"

lemma demo_armed_fields:
  "lv_frozen demo_armed = Some demo_frozen" "lv_status demo_armed = Armed" "lv_terminal demo_armed = None"
  "fz_expires_bar demo_frozen = 3" "fz_armed_bar demo_frozen = 0" "fz_lower demo_frozen = 100" "fz_upper demo_frozen = 100"
  by (simp_all add: demo_frozen_def demo_armed_def armed_level_def level_bar_def demo_level_params_def Let_def)

lemma demo_level_state_fields:
  "lb_output demo_level_state = demo_armed" "lb_last_close demo_level_state = Some 90" "lb_last_primary_valid demo_level_state"
  "lb_last_timestamp_ms demo_level_state = 0" "lb_last_bar_index demo_level_state = 0" "lb_symbol demo_level_state = ''BTC''"
  "lb_timeframe demo_level_state = Some ''1m''" "lb_last_decision_timestamp_ms demo_level_state = Some 60000"
  "lb_node_id demo_level_state = ''level''" "lb_graph_binding_hash demo_level_state = None"
  "lb_config_hash demo_level_state = demo_level_hash (Hashed_Config demo_level_params)"
  by (simp_all add: demo_level_state_def demo_saves demo_arming_def demo_ready demo_evals)

lemma demo_consumed_contract: "snapshot_contract demo_level_hash demo_consumed = Inr ()"
  by (simp add: demo_consumed_def demo_armed_def armed_level_def snapshot_contract_def demo_contracts demo_evals Let_def)

lemma demo_second_cursor: "decision_cursor demo_second = cursor_text 1 60000 (Some 120000)"
  by (simp add: decision_cursor_def demo_second_def level_bar_def)

lemma demo_verdict:
  "level_verdict demo_level_params demo_frozen demo_level_state True (Ready, None) demo_second
     = Inr (Consumed, Some ''opportunity_consumed'')"
  by (simp add: level_verdict_def demo_armed_fields demo_level_state_fields demo_second_def level_bar_def demo_level_params_def
      level_invalidated_def demo_floats cross_direction_def)

lemma demo_serviced:
  "service demo_level_hash demo_level_params demo_second demo_armed demo_frozen demo_level_state True (Ready, None)
     = Inr (demo_consumed, Some demo_level_event)"
proof -
  have "bx_bar_index demo_second = 1" "bx_timestamp_ms demo_second = 60000"
    "bx_decision_timestamp_ms demo_second = Some 120000"
    by (simp_all add: demo_second_def level_bar_def)
  then show ?thesis using demo_consumed_contract
    by (simp add: service_def demo_verdict Let_def demo_consumed_def demo_level_event_def)
qed

definition demo_spent :: "unit level_state" where
  "demo_spent = demo_saved (Some demo_level_state) demo_breaking no_inputs None demo_consumed"

lemma demo_consumed_fields:
  "lv_frozen demo_consumed = Some demo_frozen" "lv_status demo_consumed = Consumed"
  "lv_terminal demo_consumed = Some \<lparr>ln_bar = 1, ln_timestamp_ms = 60000\<rparr>"
  "lv_consumption demo_consumed = Some \<lparr>cn_at_ms = 120000, cn_cursor = decision_cursor demo_second, cn_event_id = demo_opportunity\<rparr>"
  "lv_reason demo_consumed = Some ''opportunity_consumed''" "lv_bar_index demo_consumed = 1"
  "lv_timestamp_ms demo_consumed = 60000" "lv_source_node_id demo_consumed = ''level''"
  "lv_symbol demo_consumed = ''BTC''" "lv_timeframe demo_consumed = Some ''1m''"
  "lv_config_hash demo_consumed = demo_level_hash (Hashed_Config demo_level_params)"
  by (simp_all add: demo_consumed_def demo_armed_fields) (simp_all add: demo_armed_def armed_level_def demo_evals Let_def)

lemma demo_frozen_fields:
  "fz_lower_source demo_frozen = level_source 0" "fz_upper_source demo_frozen = None"
  "fz_trigger_key demo_frozen = demo_key" "fz_trigger_timestamp_ms demo_frozen = 0"
  "fz_detected_at_ms demo_frozen = 60000"
  "fz_source_hash demo_frozen = frozen_source_hash demo_level_hash (level_source 0) None"
  "fz_level_id demo_frozen = frozen_level_id demo_level_hash ''level'' demo_key (fz_source_hash demo_frozen)"
  by (simp_all add: demo_frozen_def demo_armed_def armed_level_def demo_evals Let_def)

lemma demo_trigger_mark: "lb_last_trigger demo_level_state = Some (demo_key, 0, 0)" "lb_arming_evidence demo_level_state = []"
  by (simp_all add: demo_level_state_def demo_saves demo_arming_def demo_ready demo_evals)

lemma demo_breaking_bar:
  "bx_bar_index demo_second = 1" "bx_timestamp_ms demo_second = 60000" "bx_symbol demo_second = ''BTC''"
  "bx_timeframe demo_second = Some ''1m''" "bx_decision_timestamp_ms demo_second = Some 120000"
  "lx_close demo_second = Fin 101" "positive_price (Fin 101) = Some 101" "timeframe_ms ''1m'' = Inr 60000"
  by (simp_all add: demo_second_def level_bar_def positive_price_def timeframe_ms_def timeframe_table_def)

lemma demo_spent_ok: "level_state_check demo_level_hash demo_spent = Inr ()"
  by (simp add: level_state_check_def level_fields_ok_def output_check_def terminal_check_def demo_spent_def
      demo_saves payload_hash_def demo_breaking_def demo_ready arming_now_def demo_consumed_fields demo_breaking_bar
      demo_trigger_mark demo_armed_fields demo_frozen_fields demo_second_cursor demo_consumed_contract)

lemma demo_second_step: "demo_level (Some demo_level_state) demo_breaking = Inr ((demo_consumed, Some demo_level_event), Some demo_spent)"
proof -
  have inputs: "level_inputs_of (snd demo_breaking) = Inr no_inputs"
    by (simp add: demo_breaking_def level_inputs_of_def at_most_one_def level_number_def)
  have cursor: "level_cursor demo_second (Some demo_level_state) payload = Inr (False, True)" for payload
    by (simp add: level_cursor_def demo_level_state_fields demo_breaking_bar bar_interval_def)
  have trigger: "trigger_status demo_level_hash demo_second (li_trigger no_inputs) (Some demo_level_state) = Inr (None, Some ''no_trigger'')"
    by (simp add: trigger_status_def)
  have saved: "validate_level_setup_state demo_level_hash demo_level_params ''level'' None (Some demo_level_state) = Inr ()"
    using demo_state_ok
    by (simp add: validate_level_setup_state_def demo_level_state_fields demo_armed_fields demo_level_params_def)
  have next_is: "next_level demo_level_hash demo_level_params ''level'' (demo_level_hash (Hashed_Config demo_level_params))
      demo_second no_inputs (Some demo_level_state) True (None, Some ''no_trigger'') = Inr (demo_consumed, Some demo_level_event)"
    by (simp add: next_level_def demo_level_state_fields demo_armed_fields demo_ready demo_serviced)
  show ?thesis using inputs cursor trigger saved next_is demo_spent_ok
    by (simp add: demo_level_def level_block_def level_evaluate_def demo_breaking_def demo_spent_def demo_saved_def Let_def)
qed

text \<open>The life cycle on the arming bar, and the opportunity of the second bar.\<close>

lemma level_follows_lifecycle_witness:
  "lifecycle demo_level_params demo_second (Some demo_armed) demo_consumed (Some demo_level_event)"
  using level_follows_lifecycle [OF demo_second_step [unfolded demo_level_def]]
  by (simp add: level_last_def level_time_def demo_breaking_def demo_level_state_fields demo_breaking_bar split: if_splits)

lemma one_opportunity_per_level_witness:
  "\<exists>f. lv_frozen demo_consumed = Some f \<and> lm_level_id (me_metadata demo_level_event) = fz_level_id f \<and>
    fz_armed_bar f < me_bar_index demo_level_event \<and> me_bar_index demo_level_event \<le> fz_expires_bar f"
proof -
  have "outputs_of demo_level None [demo_arming, demo_breaking] =
      Inr ([(demo_armed, None), (demo_consumed, Some demo_level_event)], Some demo_spent)"
    using demo_first demo_second_step by simp
  then show ?thesis
    using one_opportunity_per_level [of demo_level_hash "\<lambda>_. []" demo_level_params "''level''" None
        "[demo_arming, demo_breaking]" "[(demo_armed, None), (demo_consumed, Some demo_level_event)]" "Some demo_spent" 1 demo_level_event]
    by (auto simp: demo_level_def)
qed

end
