(* ===== verification/Decimal_Floats.thy ===== *)
theory Decimal_Floats
  imports Prelude Float64
begin

text \<open>
  The arithmetic of the simulated futures account: Python floats (\<open>Float64\<close>, here with their
  infinities and NaN), decimals in the default context of 28 digits, and the two conversions the
  code uses between them, \<open>float(d)\<close> and \<open>Decimal(str(x))\<close>. An operation on floats never raises
  but for a zero divisor. A decimal that may be infinite or NaN is a \<open>float64\<close> whose finite values
  are any rational; the limits on the exponent of a decimal are not modelled.
\<close>

section \<open>Floats\<close>

text \<open>The float nearest to a rational; an overflow is infinite.\<close>

definition to_float :: "rat \<Rightarrow> float64" where
  "to_float x = (case fl64 x of Some r \<Rightarrow> Fin r | None \<Rightarrow> if 0 < x then Pos_Inf else Neg_Inf)"

fun fneg :: "float64 \<Rightarrow> float64" where
  "fneg (Fin a) = Fin (- a)"
| "fneg Pos_Inf = Neg_Inf"
| "fneg Neg_Inf = Pos_Inf"
| "fneg Not_A_Number = Not_A_Number"

fun fabs :: "float64 \<Rightarrow> float64" where
  "fabs (Fin a) = Fin \<bar>a\<bar>"
| "fabs Not_A_Number = Not_A_Number"
| "fabs _ = Pos_Inf"

fun fadd :: "float64 \<Rightarrow> float64 \<Rightarrow> float64" where
  "fadd (Fin a) (Fin b) = to_float (a + b)"
| "fadd Not_A_Number _ = Not_A_Number"
| "fadd _ Not_A_Number = Not_A_Number"
| "fadd Pos_Inf Neg_Inf = Not_A_Number"
| "fadd Neg_Inf Pos_Inf = Not_A_Number"
| "fadd Pos_Inf _ = Pos_Inf"
| "fadd Neg_Inf _ = Neg_Inf"
| "fadd (Fin a) y = y"

definition fsub :: "float64 \<Rightarrow> float64 \<Rightarrow> float64" where
  "fsub x y = fadd x (fneg y)"

text \<open>An infinity of the sign of \<open>a\<close>; an infinity times zero is NaN.\<close>

definition signed_infinity :: "rat \<Rightarrow> float64" where
  "signed_infinity a = (if 0 < a then Pos_Inf else if a < 0 then Neg_Inf else Not_A_Number)"

definition sign_of :: "float64 \<Rightarrow> rat" where
  "sign_of x = (case x of Fin a \<Rightarrow> a | Pos_Inf \<Rightarrow> 1 | Neg_Inf \<Rightarrow> - 1 | Not_A_Number \<Rightarrow> 0)"

definition fmul :: "float64 \<Rightarrow> float64 \<Rightarrow> float64" where
  "fmul x y =
     (case (x, y) of
        (Fin a, Fin b) \<Rightarrow> to_float (a * b)
      | (Not_A_Number, _) \<Rightarrow> Not_A_Number
      | (_, Not_A_Number) \<Rightarrow> Not_A_Number
      | _ \<Rightarrow> signed_infinity (sign_of x * sign_of y))"

definition fdiv :: "float64 \<Rightarrow> float64 \<Rightarrow> float64 res" where
  "fdiv x y =
     (case (x, y) of
        (_, Fin b) \<Rightarrow>
          if b = 0 then Inl ArithmeticError
          else Inr (case x of
                 Fin a \<Rightarrow> to_float (a / b)
               | Not_A_Number \<Rightarrow> Not_A_Number
               | _ \<Rightarrow> signed_infinity (sign_of x * b))
      | (Fin a, Not_A_Number) \<Rightarrow> Inr Not_A_Number
      | (Fin a, _) \<Rightarrow> Inr (Fin 0)
      | _ \<Rightarrow> Inr Not_A_Number)"

text \<open>Division by a literal of the source (2, 10000).\<close>

definition fquot :: "float64 \<Rightarrow> rat \<Rightarrow> float64" where
  "fquot x b = (case x of Fin a \<Rightarrow> to_float (a / b) | _ \<Rightarrow> x)"

text \<open>Comparisons are false on NaN; \<open>min\<close> and \<open>max\<close> keep their first argument unless the second is better.\<close>

fun fless :: "float64 \<Rightarrow> float64 \<Rightarrow> bool" where
  "fless (Fin a) (Fin b) = (a < b)"
| "fless (Fin a) Pos_Inf = True"
| "fless Neg_Inf (Fin b) = True"
| "fless Neg_Inf Pos_Inf = True"
| "fless _ _ = False"

definition fleq :: "float64 \<Rightarrow> float64 \<Rightarrow> bool" where
  "fleq x y \<longleftrightarrow> fless x y \<or> x = y \<and> x \<noteq> Not_A_Number"

definition fmin :: "float64 \<Rightarrow> float64 \<Rightarrow> float64" where
  "fmin x y = (if fless y x then y else x)"

definition fmax :: "float64 \<Rightarrow> float64 \<Rightarrow> float64" where
  "fmax x y = (if fless x y then y else x)"

fun is_finite :: "float64 \<Rightarrow> bool" where
  "is_finite (Fin _) = True"
| "is_finite _ = False"

definition positive_float :: "float64 \<Rightarrow> bool" where
  "positive_float x \<longleftrightarrow> is_finite x \<and> \<not> fleq x (Fin 0)"

lemma fleq_simps [simp]:
  "fleq (Fin a) (Fin b) \<longleftrightarrow> a \<le> b" "\<not> fleq Not_A_Number y" "\<not> fleq x Not_A_Number"
  "fleq Pos_Inf y \<longleftrightarrow> y = Pos_Inf" "fleq Neg_Inf y \<longleftrightarrow> y \<noteq> Not_A_Number"
  by (cases y; auto simp: fleq_def; fail | cases x; auto simp: fleq_def; fail | auto simp: fleq_def)+

lemma positive_float_iff: "positive_float x \<longleftrightarrow> (\<exists>a. x = Fin a \<and> 0 < a)"
  by (cases x) (auto simp: positive_float_def)

section \<open>Decimals of 28 digits\<close>

definition qrnd :: "rat \<Rightarrow> rat" where
  "qrnd = round_sig 10 28"

definition qadd :: "rat \<Rightarrow> rat \<Rightarrow> rat" where
  "qadd a b = qrnd (a + b)"

definition qsub :: "rat \<Rightarrow> rat \<Rightarrow> rat" where
  "qsub a b = qrnd (a - b)"

definition qmul :: "rat \<Rightarrow> rat \<Rightarrow> rat" where
  "qmul a b = qrnd (a * b)"

definition qdiv :: "rat \<Rightarrow> rat \<Rightarrow> rat res" where
  "qdiv a b = (if b = 0 then Inl ArithmeticError else Inr (qrnd (a / b)))"

interpretation qctx: rounding qrnd
  unfolding qrnd_def by (rule rounding_round_sig) simp_all

text \<open>\<open>isqrt n\<close> is the root of \<open>n\<close> rounded down; the root of a decimal is rounded once.\<close>

fun isqrt :: "nat \<Rightarrow> nat" where
  "isqrt n =
     (if n = 0 then 0
      else let r = 2 * isqrt (n div 4) in if (r + 1) * (r + 1) \<le> n then r + 1 else r)"

declare isqrt.simps [simp del]

definition dec_sqrt :: "rat \<Rightarrow> rat" where
  "dec_sqrt x =
     (if x \<le> 0 then 0
      else
        let q = 10 powi (magnitude 10 x div 2 - 27);
            y = x / (q * q);
            n = isqrt (nat \<lfloor>y\<rfloor>);
            half = (of_nat n + 1 / 2) * (of_nat n + 1 / 2) in
        if y < half \<or> y = half \<and> even n then of_nat n * q else (of_nat n + 1) * q)"

lemma isqrt_bounds: "isqrt n * isqrt n \<le> n \<and> n < (isqrt n + 1) * (isqrt n + 1)"
proof (induction n rule: isqrt.induct)
  case (1 n)
  show ?case
  proof (cases "n = 0")
    case True
    then show ?thesis by (simp add: isqrt.simps [of 0])
  next
    case False
    define s where "s = isqrt (n div 4)"
    have IH: "s * s \<le> n div 4" "n div 4 < (s + 1) * (s + 1)" using 1 [OF False] by (simp_all add: s_def)
    have "4 * (s * s) \<le> n" using IH(1) by linarith
    then have lo: "(2 * s) * (2 * s) \<le> n" by (simp add: algebra_simps)
    have "n < 4 * ((s + 1) * (s + 1))" using IH(2) by linarith
    then have hi: "n < (2 * s + 2) * (2 * s + 2)" by (simp add: algebra_simps)
    have "isqrt n = (if (2 * s + 1) * (2 * s + 1) \<le> n then 2 * s + 1 else 2 * s)"
      using False by (simp add: isqrt.simps [of n] s_def Let_def)
    then show ?thesis using lo hi by (auto simp: not_le)
  qed
qed

section \<open>Conversions\<close>

text \<open>
  \<open>str\<close> of a float is the shortest decimal that reads back as the float, and of those the nearest
  to it. The two decimals of \<open>p\<close> digits next to \<open>x\<close> are tried, the nearer first.
\<close>

definition round_trip :: "nat \<Rightarrow> rat \<Rightarrow> rat option" where
  "round_trip p x =
     (let near = round_sig 10 p x;
          q = 10 powi (magnitude 10 x - int p + 1);
          far = (if near \<le> x then near + q else near - q) in
      if round64 near = x then Some near else if round64 far = x then Some far else None)"

fun shortest_from :: "nat \<Rightarrow> nat \<Rightarrow> rat \<Rightarrow> rat" where
  "shortest_from 0 p x = round_sig 10 17 x"
| "shortest_from (Suc k) p x =
     (case round_trip p x of Some d \<Rightarrow> d | None \<Rightarrow> shortest_from k (Suc p) x)"

definition float_text :: "rat \<Rightarrow> rat" where
  "float_text x = (if x = 0 then 0 else shortest_from 16 1 x)"

definition decimal_of :: "float64 \<Rightarrow> float64" where
  "decimal_of x = (case x of Fin r \<Rightarrow> Fin (float_text r) | _ \<Rightarrow> x)"

text \<open>A decimal that must be finite, and one that must be finite and positive.\<close>

definition finite_decimal :: "string \<Rightarrow> float64 \<Rightarrow> rat res" where
  "finite_decimal m x = (case x of Fin r \<Rightarrow> Inr r | _ \<Rightarrow> Inl (ValueError m))"

definition positive_decimal :: "string \<Rightarrow> float64 \<Rightarrow> rat res" where
  "positive_decimal m x =
     (case x of Fin r \<Rightarrow> if r \<le> 0 then Inl (ValueError m) else Inr r | _ \<Rightarrow> Inl (ValueError m))"

definition nonneg_decimal :: "string \<Rightarrow> float64 \<Rightarrow> rat res" where
  "nonneg_decimal m x =
     (case x of Fin r \<Rightarrow> if r < 0 then Inl (ValueError m) else Inr r | _ \<Rightarrow> Inl (ValueError m))"

lemma positive_decimal_eq [simp]: "positive_decimal m x = Inr r \<longleftrightarrow> x = Fin r \<and> 0 < r"
  by (cases x) (auto simp: positive_decimal_def)

lemma nonneg_decimal_eq [simp]: "nonneg_decimal m x = Inr r \<longleftrightarrow> x = Fin r \<and> 0 \<le> r"
  by (cases x) (auto simp: nonneg_decimal_def)

lemma finite_decimal_eq [simp]: "finite_decimal m x = Inr r \<longleftrightarrow> x = Fin r"
  by (cases x) (auto simp: finite_decimal_def)

end
