(* ===== verification/Market_Evidence.thy ===== *)
theory Market_Evidence
  imports Decimal_Floats
begin

text \<open>
  The evidence that the simulated futures account consumes: market names
  (\<open>exchanges/markets.py\<close>, \<open>exchanges/execution_compatibility.py\<close>, \<open>engine/market_identity.py\<close>),
  fee schedules (\<open>engine/fee_evidence.py\<close>), funding (\<open>engine/funding.py\<close>), and instrument rules with
  mark prices (\<open>engine/instrument_risk.py\<close>). A constructor that validates is a check of the record.
  Raw responses, which no decision reads, are left out.
\<close>

section \<open>Symbols and markets\<close>

text \<open>ASCII text: \<open>str.strip\<close>, \<open>upper\<close> and \<open>lower\<close>.\<close>

definition is_space :: "char \<Rightarrow> bool" where
  "is_space c \<longleftrightarrow> (let n = of_char c :: nat in 9 \<le> n \<and> n \<le> 13 \<or> 28 \<le> n \<and> n \<le> 32)"

definition strip :: "string \<Rightarrow> string" where
  "strip s = rev (dropWhile is_space (rev (dropWhile is_space s)))"

definition upper_char :: "char \<Rightarrow> char" where
  "upper_char c = (let n = of_char c :: nat in if 97 \<le> n \<and> n \<le> 122 then char_of (n - 32) else c)"

definition lower_char :: "char \<Rightarrow> char" where
  "lower_char c = (let n = of_char c :: nat in if 65 \<le> n \<and> n \<le> 90 then char_of (n + 32) else c)"

definition upper :: "string \<Rightarrow> string" where
  "upper s = map upper_char s"

definition lower :: "string \<Rightarrow> string" where
  "lower s = map lower_char s"

definition is_alnum :: "char \<Rightarrow> bool" where
  "is_alnum c \<longleftrightarrow>
     (let n = of_char c :: nat in 48 \<le> n \<and> n \<le> 57 \<or> 65 \<le> n \<and> n \<le> 90 \<or> 97 \<le> n \<and> n \<le> 122)"

definition ends_with :: "string \<Rightarrow> string \<Rightarrow> bool" where
  "ends_with s suffix \<longleftrightarrow> length suffix \<le> length s \<and> drop (length s - length suffix) s = suffix"

text \<open>\<open>str(symbol).replace("/", "").replace("_", "").upper()\<close>.\<close>

definition plain_symbol :: "string \<Rightarrow> string" where
  "plain_symbol s = upper (filter (\<lambda>c. c \<noteq> CHR ''/'' \<and> c \<noteq> CHR ''_'') s)"

definition canonical_symbol :: "string \<Rightarrow> string res" where
  "canonical_symbol s =
     (let v = plain_symbol (strip s) in
      if v = [] \<or> \<not> list_all is_alnum v
      then Inl (ValueError ''symbol must contain ASCII letters and digits'') else Inr v)"

definition canonical_market :: "string \<Rightarrow> string res" where
  "canonical_market t =
     (let raw = lower (strip t) in
      if raw \<in> {''future'', ''futures'', ''usdm'', ''usd_m''} then Inr ''future''
      else if raw = ''spot'' then Inr ''spot''
      else Inl (ValueError ''unsupported market''))"

definition supported_markets :: "string \<Rightarrow> string list" where
  "supported_markets venue = (if venue \<in> {''binance'', ''whitebit''} then [''spot'', ''future''] else [])"

definition assert_supported_market :: "string \<Rightarrow> string \<Rightarrow> (string \<times> string) res" where
  "assert_supported_market exchange market =
     (let venue = lower (strip exchange) in
      bindE (canonical_market market) (\<lambda>c.
      if c \<notin> set (supported_markets venue) then Inl (ValueError ''unsupported venue/market pair'')
      else Inr (venue, c)))"

record market_identity =
  mi_exchange :: string
  mi_market :: string
  mi_canonical_symbol :: string
  mi_contract_type :: string

definition market_identity_check :: "market_identity \<Rightarrow> unit res" where
  "market_identity_check i =
     bindE (assert_supported_market (mi_exchange i) (mi_market i)) (\<lambda>(venue, market).
     if venue \<noteq> mi_exchange i \<or> market \<noteq> mi_market i
     then Inl (ValueError ''market identity must use canonical venue and market names'')
     else if mi_canonical_symbol i = []
     then Inl (ValueError ''market identity requires a canonical symbol'')
     else
       bindE (canonical_symbol (mi_canonical_symbol i)) (\<lambda>c.
       if c \<noteq> mi_canonical_symbol i then Inl (ValueError ''market identity requires a canonical symbol'')
       else ensure (mi_contract_type i = (if market = ''spot'' then ''spot'' else ''perpetual''))
              (ValueError ''unsupported contract_type'')))"

definition resolve_market_identity :: "string \<Rightarrow> string \<Rightarrow> string \<Rightarrow> market_identity res" where
  "resolve_market_identity exchange market symbol =
     bindE (assert_supported_market exchange market) (\<lambda>(venue, canonical).
     bindE (canonical_symbol symbol) (\<lambda>s.
     let i = \<lparr> mi_exchange = venue, mi_market = canonical, mi_canonical_symbol = s,
       mi_contract_type = (if canonical = ''spot'' then ''spot'' else ''perpetual'') \<rparr> in
     bindE (market_identity_check i) (\<lambda>_. Inr i)))"

section \<open>Fee schedules\<close>

datatype evidence_kind = Historical | Current_Snapshot | Approximation
datatype liquidity_role = Maker | Taker

record fee_schedule =
  fe_evidence_id :: string
  fe_maker_bps :: float64
  fe_taker_bps :: float64
  fe_currency :: string
  fe_evidence_status :: evidence_kind
  fe_source :: string
  fe_effective_from_ms :: "int option"
  fe_effective_to_ms :: "int option"
  fe_discount_treatment :: string
  fe_tier_id :: string
  fe_exchange :: "string option"
  fe_market :: "string option"
  fe_canonical_symbol :: "string option"

definition rate_in_range :: "float64 \<Rightarrow> bool" where
  "rate_in_range x \<longleftrightarrow> is_finite x \<and> fless (Fin (- 10000)) x \<and> fless x (Fin 10000)"

definition optional_nonneg :: "int option \<Rightarrow> bool" where
  "optional_nonneg t \<longleftrightarrow> (case t of None \<Rightarrow> True | Some v \<Rightarrow> 0 \<le> v)"

definition fee_context_check :: "fee_schedule \<Rightarrow> unit res" where
  "fee_context_check f =
     (case (fe_exchange f, fe_market f, fe_canonical_symbol f) of
        (None, None, None) \<Rightarrow> Inr ()
      | (Some e, Some m, Some s) \<Rightarrow>
          if e = [] \<or> m = [] \<or> s = []
          then Inl (ValueError ''fee exchange, market and canonical_symbol must be supplied together'')
          else
            bindE (resolve_market_identity e m s) (\<lambda>i.
            ensure (mi_exchange i = e \<and> mi_market i = m \<and> mi_canonical_symbol i = s)
              (ValueError ''fee market identity must be canonical''))
      | _ \<Rightarrow> Inl (ValueError ''fee exchange, market and canonical_symbol must be supplied together''))"

definition fee_schedule_check :: "fee_schedule \<Rightarrow> unit res" where
  "fee_schedule_check f =
     bindE (fee_context_check f) (\<lambda>_.
     if list_ex (\<lambda>t. strip t = [])
          [fe_evidence_id f, fe_currency f, fe_source f, fe_discount_treatment f, fe_tier_id f]
     then Inl (ValueError ''fee field is required'')
     else if \<not> rate_in_range (fe_maker_bps f) \<or> \<not> rate_in_range (fe_taker_bps f)
     then Inl (ValueError ''fee rate must be finite and within one notional'')
     else if \<not> optional_nonneg (fe_effective_from_ms f) \<or> \<not> optional_nonneg (fe_effective_to_ms f)
     then Inl (ValueError ''fee interval must be a non-negative integer'')
     else if fe_evidence_status f = Historical \<and> (fe_effective_from_ms f = None \<or> fe_effective_to_ms f = None)
     then Inl (ValueError ''historical fee evidence requires a bounded effective interval'')
     else ensure (case (fe_effective_from_ms f, fe_effective_to_ms f) of
            (Some a, Some b) \<Rightarrow> a \<le> b | _ \<Rightarrow> True)
            (ValueError ''fee effective_from_ms must not exceed effective_to_ms''))"

record fee_application =
  fp_liquidity_role :: liquidity_role
  fp_rate_bps :: float64
  fp_currency :: string
  fp_evidence_id :: string
  fp_evidence_status :: evidence_kind
  fp_source :: string
  fp_discount_treatment :: string
  fp_tier_id :: string

text \<open>The role is one of the two by its type, so that branch of the source cannot raise.\<close>

definition resolve_fee_application :: "fee_schedule \<Rightarrow> liquidity_role \<Rightarrow> int \<Rightarrow> fee_application res" where
  "resolve_fee_application f role t =
     (let before = (case fe_effective_from_ms f of None \<Rightarrow> False | Some a \<Rightarrow> t < a);
          after = (case fe_effective_to_ms f of None \<Rightarrow> False | Some b \<Rightarrow> b < t);
          outside = before \<or> after in
      if outside \<and> fe_evidence_status f = Historical
      then Inl (ValueError ''historical fee evidence does not cover the fill timestamp'')
      else Inr \<lparr> fp_liquidity_role = role,
        fp_rate_bps = (if role = Maker then fe_maker_bps f else fe_taker_bps f),
        fp_currency = fe_currency f, fp_evidence_id = fe_evidence_id f,
        fp_evidence_status = (if outside then Approximation else fe_evidence_status f),
        fp_source = fe_source f, fp_discount_treatment = fe_discount_treatment f, fp_tier_id = fe_tier_id f \<rparr>)"

section \<open>Funding\<close>

text \<open>
  Decimals of the evidence are rationals: that they are finite, which the constructors check, is
  here the type.
\<close>

datatype order_side = Buy_Side | Sell_Side

record funding_record =
  fg_symbol :: string
  fg_rate :: rat
  fg_settlement_ms :: int
  fg_mark_price :: rat
  fg_interval_ms :: int
  fg_source :: string
  fg_calculated_ms :: "int option"

definition funding_record_check :: "funding_record \<Rightarrow> unit res" where
  "funding_record_check r =
     (if strip (fg_symbol r) = [] \<or> strip (fg_source r) = []
      then Inl (ValueError ''funding symbol and source are required'')
      else if fg_mark_price r \<le> 0
      then Inl (ValueError ''funding settlement mark price must be finite'')
      else if fg_settlement_ms r < 0
      then Inl (ValueError ''funding settlement_timestamp_ms must be a non-negative integer'')
      else if fg_interval_ms r \<le> 0
      then Inl (ValueError ''funding interval_ms must be a positive integer'')
      else case fg_calculated_ms r of
             None \<Rightarrow> Inr ()
           | Some c \<Rightarrow>
               if c < 0 then Inl (ValueError ''funding rate_calculated_timestamp_ms must be a non-negative integer'')
               else ensure (c \<le> fg_settlement_ms r)
                      (ValueError ''funding rate_calculated_timestamp_ms must not follow settlement''))"

record funding_series =
  fn_exchange :: string
  fn_market :: string
  fn_canonical_symbol :: string
  fn_start_ms :: int
  fn_end_ms :: int
  fn_records :: "funding_record list"
  fn_coverage_complete :: bool
  fn_interval_ms :: "int option"
  fn_anchor_ms :: "int option"
  fn_schedule_source :: "string option"

text \<open>
  \<open>_market_symbol\<close> of the WhiteBIT futures adapter, and the name under which two symbols of an
  exchange are compared.
\<close>

definition whitebit_quotes :: "string list" where
  "whitebit_quotes = [''PERP'', ''USDT'', ''USDC'', ''USD'']"

definition whitebit_futures_symbol :: "string \<Rightarrow> string res" where
  "whitebit_futures_symbol s =
     (let n = upper (map (\<lambda>c. if c = CHR ''/'' then CHR ''_'' else c) s) in
      if CHR ''_'' \<in> set n then Inr (takeWhile (\<lambda>c. c \<noteq> CHR ''_'') n @ ''_PERP'')
      else case find (\<lambda>x. ends_with n x \<and> length x < length n) whitebit_quotes of
             Some x \<Rightarrow> Inr (take (length n - length x) n @ ''_PERP'')
           | None \<Rightarrow> Inl (ValueError ''cannot resolve WhiteBIT futures symbol''))"

definition funding_symbol :: "string \<Rightarrow> string \<Rightarrow> string res" where
  "funding_symbol exchange symbol =
     (if exchange = ''whitebit'' then bindE (whitebit_futures_symbol symbol) canonical_symbol
      else canonical_symbol symbol)"

definition same_funding_symbol :: "market_identity \<Rightarrow> funding_record \<Rightarrow> unit res" where
  "same_funding_symbol i r =
     bindE (funding_symbol (mi_exchange i) (fg_symbol r)) (\<lambda>a.
     bindE (funding_symbol (mi_exchange i) (mi_canonical_symbol i)) (\<lambda>b.
     ensure (a = b) (ValueError ''funding record symbol does not match requested instrument'')))"

text \<open>The schedule of a window that holds no settlement, and of one that does.\<close>

definition empty_coverage_check :: "funding_series \<Rightarrow> int option \<Rightarrow> unit res" where
  "empty_coverage_check s interval =
     (case interval of
        None \<Rightarrow> Inl (ValueError ''incomplete funding coverage: no settlement records'')
      | Some i \<Rightarrow>
          if i \<le> fn_end_ms s - fn_start_ms s
          then Inl (ValueError ''incomplete funding coverage: no settlement records'')
          else case fn_anchor_ms s of
                 None \<Rightarrow> Inl (ValueError ''empty funding coverage needs settlement anchor and schedule_source'')
               | Some anchor \<Rightarrow>
                   if fn_schedule_source s = None \<or> fn_schedule_source s = Some []
                   then Inl (ValueError ''empty funding coverage needs settlement anchor and schedule_source'')
                   else if anchor < 0
                   then Inl (ValueError ''funding settlement_anchor_ms must be a non-negative integer'')
                   else ensure (fn_end_ms s < fn_start_ms s + (anchor - fn_start_ms s) mod i)
                          (ValueError ''incomplete funding coverage: missing scheduled settlement''))"

definition coverage_check :: "funding_series \<Rightarrow> int \<Rightarrow> unit res" where
  "coverage_check s i =
     (let ts = map fg_settlement_ms (fn_records s) in
      if \<not> successively (\<lambda>a b. b - a = i) ts
      then Inl (ValueError ''incomplete funding coverage: missing settlement'')
      else ensure (\<not> (i \<le> hd ts - fn_start_ms s \<or> i \<le> fn_end_ms s - last ts))
             (ValueError ''incomplete funding coverage: missing boundary settlement''))"

definition validate_series :: "funding_series \<Rightarrow> unit res" where
  "validate_series s =
     bindE (resolve_market_identity (fn_exchange s) (fn_market s) (fn_canonical_symbol s)) (\<lambda>i.
     if mi_market i \<noteq> ''future'' then Inl (ValueError ''funding is unavailable for spot markets'')
     else if fn_start_ms s < 0 then Inl (ValueError ''funding requested_start_ms must be a non-negative integer'')
     else if fn_end_ms s < 0 then Inl (ValueError ''funding requested_end_ms must be a non-negative integer'')
     else if fn_end_ms s < fn_start_ms s then Inl (ValueError ''funding requested end must not precede start'')
     else
       let rs = fn_records s; ts = map fg_settlement_ms rs in
       if \<not> successively (<) ts then Inl (ValueError ''duplicate or unordered funding settlement timestamp'')
       else if list_ex (\<lambda>t. \<not> (fn_start_ms s \<le> t \<and> t \<le> fn_end_ms s)) ts
       then Inl (ValueError ''funding record is outside requested coverage'')
       else
         bindE (foldE (\<lambda>_ r. same_funding_symbol i r) () rs) (\<lambda>_.
         if list_ex (\<lambda>r. fg_interval_ms r \<noteq> fg_interval_ms (hd rs)) rs
         then Inl (ValueError ''funding interval must be one positive constant for the series'')
         else if (case fn_interval_ms s of None \<Rightarrow> False | Some v \<Rightarrow> v \<le> 0)
         then Inl (ValueError ''funding interval_ms must be a positive integer'')
         else case rs of
                [] \<Rightarrow> if fn_coverage_complete s then empty_coverage_check s (fn_interval_ms s) else Inr ()
              | r # _ \<Rightarrow>
                  if (case fn_interval_ms s of None \<Rightarrow> False | Some v \<Rightarrow> v \<noteq> fg_interval_ms r)
                  then Inl (ValueError ''declared funding interval_ms disagrees with its records'')
                  else if fn_coverage_complete s then coverage_check s (fg_interval_ms r) else Inr ()))"

definition build_funding_series ::
  "funding_record list \<Rightarrow> string \<Rightarrow> string \<Rightarrow> string \<Rightarrow> int \<Rightarrow> int \<Rightarrow> int option \<Rightarrow> int option \<Rightarrow> string option \<Rightarrow>
     funding_series res" where
  "build_funding_series records exchange market symbol start_ms end_ms interval anchor source =
     bindE (canonical_market market) (\<lambda>m.
     bindE (canonical_symbol symbol) (\<lambda>c.
     let s = \<lparr> fn_exchange = lower (strip exchange), fn_market = m, fn_canonical_symbol = c,
       fn_start_ms = start_ms, fn_end_ms = end_ms, fn_records = sort_key fg_settlement_ms records,
       fn_coverage_complete = True, fn_interval_ms = interval, fn_anchor_ms = anchor,
       fn_schedule_source = source \<rparr> in
     bindE (validate_series s) (\<lambda>_. Inr s)))"

text \<open>\<open>validate_execution_grid\<close>.\<close>

definition funding_on_grid :: "funding_series \<Rightarrow> int \<Rightarrow> unit res" where
  "funding_on_grid s interval =
     (if fn_records s \<noteq> [] \<and> interval = 0 then Inl ArithmeticError
      else ensure (list_all (\<lambda>r. fg_settlement_ms r mod interval = 0) (fn_records s))
             (ValueError ''funding settlements must align with the execution candle grid''))"

definition funding_cashflow :: "order_side \<Rightarrow> float64 \<Rightarrow> rat \<Rightarrow> rat \<Rightarrow> rat res" where
  "funding_cashflow side quantity rate mark =
     bindE (positive_decimal ''funding quantity must be finite'' quantity) (\<lambda>q.
     if mark \<le> 0 then Inl (ValueError ''funding mark price must be finite'')
     else Inr (qrnd (- qmul (qmul (qmul (if side = Buy_Side then 1 else - 1) q) rate) mark)))"

section \<open>Instrument rules\<close>

record margin_tier =
  gt_floor :: rat
  gt_cap :: "rat option"
  gt_rate :: rat
  gt_amount :: rat

definition margin_tier_check :: "margin_tier \<Rightarrow> unit res" where
  "margin_tier_check t =
     (if gt_floor t < 0 then Inl (ValueError ''margin-tier notional floor must be non-negative'')
      else if (case gt_cap t of None \<Rightarrow> False | Some c \<Rightarrow> c \<le> 0)
      then Inl (ValueError ''margin-tier notional cap must be positive and finite'')
      else if (case gt_cap t of None \<Rightarrow> False | Some c \<Rightarrow> c \<le> gt_floor t)
      then Inl (ValueError ''margin-tier notional cap must exceed its floor'')
      else if gt_rate t < 0 \<or> 1 \<le> gt_rate t then Inl (ValueError ''maintenance margin rate must be in [0, 1)'')
      else ensure (0 \<le> gt_amount t) (ValueError ''maintenance amount must be non-negative''))"

record instrument_spec =
  ns_evidence_id :: string
  ns_exchange :: string
  ns_market :: string
  ns_canonical_symbol :: string
  ns_effective_from_ms :: int
  ns_effective_to_ms :: "int option"
  ns_tick_size :: rat
  ns_step_size :: rat
  ns_minimum_quantity :: rat
  ns_minimum_notional :: rat
  ns_minimum_price :: rat
  ns_maximum_price :: rat
  ns_contract_size :: rat
  ns_collateral_currency :: string
  ns_margin_tiers :: "margin_tier list"
  ns_liquidation_fee_bps :: rat
  ns_source :: string
  ns_evidence_status :: evidence_kind
  ns_band_low :: "rat option"
  ns_band_high :: "rat option"
  ns_margin_mode :: string

definition tiers_check :: "margin_tier list \<Rightarrow> unit res" where
  "tiers_check tiers =
     (if tiers = [] then Inl (ValueError ''at least one maintenance-margin tier is required'')
      else if gt_floor (hd tiers) \<noteq> 0 then Inl (ValueError ''margin tiers must start at zero notional'')
      else ensure (successively (\<lambda>t u. case gt_cap t of None \<Rightarrow> False | Some c \<Rightarrow> c \<le> gt_floor u) tiers)
             (ValueError ''margin tiers must be sorted and non-overlapping''))"

definition instrument_spec_check :: "instrument_spec \<Rightarrow> unit res" where
  "instrument_spec_check s =
     (if ns_evidence_id s = [] \<or> ns_exchange s = [] \<or> ns_canonical_symbol s = [] \<or> ns_source s = [] \<or>
         ns_collateral_currency s = []
      then Inl (ValueError ''instrument evidence identity is required'')
      else
        bindE (canonical_market (ns_market s)) (\<lambda>m.
        if m \<noteq> ns_market s then Inl (ValueError ''instrument market must be canonical spot or future'')
        else if ns_margin_mode s \<noteq> ''cross''
        then Inl (ValueError ''instrument liquidation model currently supports cross margin only'')
        else if ns_effective_from_ms s < 0 \<or> \<not> optional_nonneg (ns_effective_to_ms s)
        then Inl (ValueError ''instrument interval must be a non-negative integer'')
        else if list_ex (\<lambda>v. v \<le> 0) [ns_tick_size s, ns_step_size s, ns_minimum_quantity s, ns_minimum_notional s,
               ns_minimum_price s, ns_maximum_price s, ns_contract_size s]
        then Inl (ValueError ''instrument field must be positive and finite'')
        else if ns_maximum_price s \<le> ns_minimum_price s
        then Inl (ValueError ''instrument maximum price must exceed minimum price'')
        else if \<not> (0 \<le> ns_liquidation_fee_bps s \<and> ns_liquidation_fee_bps s < 10000)
        then Inl (ValueError ''liquidation fee must be finite and below one notional'')
        else
          bindE (tiers_check (ns_margin_tiers s)) (\<lambda>_.
          bindE (case (ns_band_low s, ns_band_high s) of
              (None, None) \<Rightarrow> Inr ()
            | (Some l, Some h) \<Rightarrow>
                if l \<le> 0 \<or> h \<le> 0 then Inl (ValueError ''price-band multiplier must be positive and finite'')
                else ensure (l < h) (ValueError ''price-band low multiplier must be below the high multiplier'')
            | _ \<Rightarrow> Inl (ValueError ''instrument price-band multipliers must be supplied together'')) (\<lambda>_.
          ensure (case ns_effective_to_ms s of None \<Rightarrow> True | Some t \<Rightarrow> ns_effective_from_ms s \<le> t)
            (ValueError ''instrument evidence interval is invalid'')))))"

definition select_instrument_spec :: "instrument_spec list \<Rightarrow> int \<Rightarrow> instrument_spec res" where
  "select_instrument_spec specs t =
     (case filter (\<lambda>s. ns_effective_from_ms s \<le> t \<and>
             (case ns_effective_to_ms s of None \<Rightarrow> True | Some e \<Rightarrow> t \<le> e)) specs of
        [s] \<Rightarrow> Inr s
      | [] \<Rightarrow> Inl (ValueError ''no instrument evidence for timestamp'')
      | _ \<Rightarrow> Inl (ValueError ''ambiguous instrument evidence for timestamp''))"

record normalized_order =
  no_side :: order_side
  no_order_type :: string
  no_quantity :: rat
  no_price :: rat
  no_notional :: rat
  no_evidence_id :: string

text \<open>Rounding down or up to a whole number of steps; the values are positive.\<close>

definition quantize :: "rat \<Rightarrow> rat \<Rightarrow> bool \<Rightarrow> rat res" where
  "quantize value step up =
     bindE (qdiv value step) (\<lambda>q. Inr (qmul (of_int (if up then \<lceil>q\<rceil> else \<lfloor>q\<rfloor>)) step))"

definition limit_types :: "string set" where
  "limit_types = {''limit'', ''limit_at_zone''}"

definition band_check :: "instrument_spec \<Rightarrow> rat \<Rightarrow> float64 option \<Rightarrow> unit res" where
  "band_check s p reference =
     (case (reference, ns_band_low s) of
        (Some r, Some l) \<Rightarrow>
          bindE (positive_decimal ''price-band reference price must be positive and finite'' r) (\<lambda>ref.
          case ns_band_high s of
            None \<Rightarrow> Inl ArithmeticError
          | Some h \<Rightarrow>
              ensure (qmul ref l \<le> p \<and> p \<le> qmul ref h)
                (ValueError ''order price is outside the historical reference price band''))
      | _ \<Rightarrow> Inr ())"

definition normalize_order ::
  "instrument_spec \<Rightarrow> order_side \<Rightarrow> string \<Rightarrow> float64 \<Rightarrow> float64 \<Rightarrow> float64 option \<Rightarrow> normalized_order res" where
  "normalize_order s side order_type quantity p reference =
     bindE (positive_decimal ''order quantity must be positive and finite'' quantity) (\<lambda>raw_quantity.
     bindE (positive_decimal ''order price must be positive and finite'' p) (\<lambda>raw_price.
     bindE (quantize raw_quantity (ns_step_size s) False) (\<lambda>q.
     bindE (quantize raw_price (ns_tick_size s)
         ((order_type \<in> limit_types) = (side = Sell_Side))) (\<lambda>x.
     if q < ns_minimum_quantity s then Inl (ValueError ''order is below the instrument minimum quantity'')
     else if \<not> (ns_minimum_price s \<le> x \<and> x \<le> ns_maximum_price s)
     then Inl (ValueError ''order price is outside instrument price bounds'')
     else
       bindE (band_check s x reference) (\<lambda>_.
       let notional = qmul (qmul q x) (ns_contract_size s) in
       if notional < ns_minimum_notional s
       then Inl (ValueError ''order is below the instrument minimum notional'')
       else Inr \<lparr> no_side = side, no_order_type = order_type, no_quantity = q, no_price = x,
              no_notional = notional, no_evidence_id = ns_evidence_id s \<rparr>)))))"

section \<open>Mark prices\<close>

record mark_record =
  mk_timestamp_ms :: int
  mk_price :: rat
  mk_source :: string

definition mark_record_check :: "mark_record \<Rightarrow> unit res" where
  "mark_record_check r =
     (if mk_timestamp_ms r < 0 then Inl (ValueError ''mark-price timestamp must be a non-negative integer'')
      else if mk_price r \<le> 0 then Inl (ValueError ''mark price must be positive and finite'')
      else ensure (mk_source r \<noteq> []) (ValueError ''mark-price source is required''))"

record mark_series =
  ms_exchange :: string
  ms_canonical_symbol :: string
  ms_interval_ms :: int
  ms_start_ms :: int
  ms_end_ms :: int
  ms_records :: "mark_record list"
  ms_coverage_complete :: bool

text \<open>\<open>range(start, end + 1, step)\<close> for a positive step.\<close>

definition expected_times :: "int \<Rightarrow> int \<Rightarrow> int \<Rightarrow> int list" where
  "expected_times start_ms end_ms step =
     map (\<lambda>i. start_ms + int i * step) [0..<nat ((end_ms - start_ms) div step + 1)]"

definition mark_series_check :: "mark_series \<Rightarrow> unit res" where
  "mark_series_check s =
     bindE (resolve_market_identity (ms_exchange s) ''future'' (ms_canonical_symbol s)) (\<lambda>_.
     if ms_interval_ms s < 0 \<or> ms_start_ms s < 0 \<or> ms_end_ms s < 0
     then Inl (ValueError ''mark-price field must be a non-negative integer'')
     else if ms_interval_ms s \<le> 0 \<or> ms_end_ms s < ms_start_ms s
     then Inl (ValueError ''mark-price coverage interval is invalid'')
     else
       let ts = map mk_timestamp_ms (ms_records s) in
       if \<not> successively (<) ts then Inl (ValueError ''duplicate or unordered mark-price timestamp'')
       else ensure (\<not> ms_coverage_complete s \<or> ts = expected_times (ms_start_ms s) (ms_end_ms s) (ms_interval_ms s))
              (ValueError ''incomplete mark-price coverage''))"

text \<open>\<open>at\<close>, without the index it builds on its first use.\<close>

definition mark_at :: "mark_series \<Rightarrow> int \<Rightarrow> mark_record option" where
  "mark_at s t = map_of (rev (map (\<lambda>r. (mk_timestamp_ms r, r)) (ms_records s))) t"

definition build_mark_price_series ::
  "mark_record list \<Rightarrow> string \<Rightarrow> string \<Rightarrow> int \<Rightarrow> int \<Rightarrow> int \<Rightarrow> mark_series res" where
  "build_mark_price_series records exchange symbol interval start_ms end_ms =
     (if interval \<le> 0 then Inl (ValueError ''mark-price interval must be positive'')
      else
        let ordered = sort_key mk_timestamp_ms records; ts = map mk_timestamp_ms ordered in
        if \<not> distinct ts then Inl (ValueError ''duplicate mark-price timestamp'')
        else if ts \<noteq> expected_times start_ms end_ms interval
        then Inl (ValueError ''incomplete mark-price coverage: missing mark price'')
        else
          let s = \<lparr> ms_exchange = lower (strip exchange), ms_canonical_symbol = plain_symbol symbol,
            ms_interval_ms = interval, ms_start_ms = start_ms, ms_end_ms = end_ms, ms_records = ordered,
            ms_coverage_complete = True \<rparr> in
          bindE (mark_series_check s) (\<lambda>_. Inr s))"

section \<open>Liquidation\<close>

record liquidation_state =
  lq_mark_price :: rat
  lq_notional :: rat
  lq_unrealized :: rat
  lq_equity :: float64
  lq_maintenance :: rat
  lq_tier :: margin_tier
  lq_liquidated :: bool

definition covering_tier :: "instrument_spec \<Rightarrow> rat \<Rightarrow> margin_tier option" where
  "covering_tier s notional =
     find (\<lambda>t. gt_floor t \<le> notional \<and> (case gt_cap t of None \<Rightarrow> True | Some c \<Rightarrow> notional \<le> c)) (ns_margin_tiers s)"

text \<open>The cash balance comes from a float, so it and the equity may be infinite; comparing NaN raises.\<close>

definition evaluate_liquidation ::
  "instrument_spec \<Rightarrow> order_side \<Rightarrow> float64 \<Rightarrow> float64 \<Rightarrow> float64 \<Rightarrow> rat \<Rightarrow> liquidation_state res" where
  "evaluate_liquidation s side quantity entry_price cash mark =
     bindE (positive_decimal ''position quantity must be positive and finite'' quantity) (\<lambda>qty.
     bindE (positive_decimal ''position entry price must be positive and finite'' entry_price) (\<lambda>entry.
     if mark \<le> 0 then Inl (ValueError ''mark price must be positive and finite'')
     else
       let size = ns_contract_size s; notional = qmul (qmul qty mark) size in
       (case covering_tier s notional of
          None \<Rightarrow> Inl (ValueError ''no maintenance-margin tier covers position notional'')
        | Some tier \<Rightarrow>
            let sign = (if side = Buy_Side then 1 else - 1);
                unrealized = qmul (qmul (qmul (qsub mark entry) qty) size) sign;
                equity = (case cash of Fin c \<Rightarrow> Fin (qadd c unrealized) | _ \<Rightarrow> cash);
                maintenance = max 0 (qsub (qmul notional (gt_rate tier)) (gt_amount tier)) in
            if equity = Not_A_Number then Inl ArithmeticError
            else Inr \<lparr> lq_mark_price = mark, lq_notional = notional, lq_unrealized = unrealized,
                   lq_equity = equity, lq_maintenance = maintenance, lq_tier = tier,
                   lq_liquidated = fleq equity (Fin maintenance) \<rparr>)))"

end
