(* ===== verification/Fill_Models.thy ===== *)
theory Fill_Models
  imports Market_Evidence
begin

text \<open>
  What the simulated broker is built from: the execution profiles (\<open>engine/paper_profile.py\<close>), the
  arithmetic of a fill (\<open>engine/paper_fills.py\<close>), the validation of a bracket update
  (\<open>engine/protection.py\<close>), the liquidity, latency and slippage proxy (\<open>engine/execution_proxy.py\<close>)
  and the cash ledger (\<open>engine/account_ledger.py\<close>).
\<close>

section \<open>Profiles\<close>

datatype profile_version = Legacy | Fixed_Costs | Realistic

record paper_profile =
  pp_version :: profile_version
  pp_commission_bps :: float64
  pp_spread_bps :: float64
  pp_slippage_bps :: float64
  pp_leverage :: float64

definition legacy_profile :: paper_profile where
  "legacy_profile = \<lparr> pp_version = Legacy, pp_commission_bps = Fin 0, pp_spread_bps = Fin 0,
     pp_slippage_bps = Fin 0, pp_leverage = Fin 1 \<rparr>"

definition is_costed :: "paper_profile \<Rightarrow> bool" where
  "is_costed p \<longleftrightarrow> pp_version p \<in> {Fixed_Costs, Realistic}"

definition delays_protection :: "paper_profile \<Rightarrow> bool" where
  "delays_protection p \<longleftrightarrow> pp_version p = Fixed_Costs"

text \<open>\<open>ambiguity_policy is not None\<close>.\<close>

definition stop_first :: "paper_profile \<Rightarrow> bool" where
  "stop_first p \<longleftrightarrow> pp_version p = Realistic"

definition profile_adjustment :: "paper_profile \<Rightarrow> float64" where
  "profile_adjustment p = fquot (fadd (fquot (pp_spread_bps p) 2) (pp_slippage_bps p)) 10000"

text \<open>A configuration that is a mapping of a version and numbers; an empty one is \<open>None\<close>.\<close>

record profile_config =
  pf_version :: string
  pf_numbers :: "float64 dict"

definition config_number :: "float64 dict \<Rightarrow> string \<Rightarrow> rat \<Rightarrow> rat \<Rightarrow> bool \<Rightarrow> float64 res" where
  "config_number d key low high inclusive =
     (case map_of d key of
        None \<Rightarrow> Inl KeyError
      | Some v \<Rightarrow>
          if is_finite v \<and> fleq (Fin low) v \<and> (if inclusive then fleq v (Fin high) else fless v (Fin high))
          then Inr v
          else Inl (ValueError ''paper profile number must be finite and in the supported range''))"

definition resolve_paper_profile :: "profile_config option \<Rightarrow> paper_profile res" where
  "resolve_paper_profile config =
     (case config of
        None \<Rightarrow> Inr legacy_profile
      | Some c \<Rightarrow>
          let keys = set (dict_keys (pf_numbers c));
              costs = {''commission_bps'', ''spread_bps'', ''slippage_bps''} in
          if pf_version c = ''paper_legacy_v1'' then
            if keys \<noteq> {} then Inl (ValueError ''paper_legacy_v1 accepts only version'') else Inr legacy_profile
          else if pf_version c \<notin> {''paper_ohlcv_fixed_v1'', ''paper_ohlcv_realistic_v2''}
          then Inl (ValueError ''unknown paper profile version'')
          else if \<not> (costs \<subseteq> keys \<and> keys \<subseteq> insert ''leverage'' costs)
          then Inl (ValueError ''paper_ohlcv_fixed_v1 requires commission_bps, spread_bps, slippage_bps'')
          else
            bindE (config_number (pf_numbers c) ''commission_bps'' 0 10000 False) (\<lambda>commission.
            bindE (config_number (pf_numbers c) ''spread_bps'' 0 10000 False) (\<lambda>spread.
            bindE (config_number (pf_numbers c) ''slippage_bps'' 0 10000 False) (\<lambda>slippage.
            if fleq (Fin 10000) (fadd (fquot spread 2) slippage)
            then Inl (ValueError ''paper profile half spread plus slippage must be below 10000 bps'')
            else
              bindE (if ''leverage'' \<in> keys then config_number (pf_numbers c) ''leverage'' 1 125 True
                     else Inr (Fin 1)) (\<lambda>leverage.
              Inr \<lparr> pp_version = (if pf_version c = ''paper_ohlcv_fixed_v1'' then Fixed_Costs else Realistic),
                pp_commission_bps = commission, pp_spread_bps = spread, pp_slippage_bps = slippage,
                pp_leverage = leverage \<rparr>)))))"

section \<open>The arithmetic of a fill\<close>

definition adjusted_price :: "float64 \<Rightarrow> order_side \<Rightarrow> float64 \<Rightarrow> float64 option \<Rightarrow> float64" where
  "adjusted_price reference side fraction limit =
     (let sign = (if side = Buy_Side then Fin 1 else Fin (- 1));
          adjusted = fmul reference (fadd (Fin 1) (fmul sign fraction)) in
      case limit of
        None \<Rightarrow> adjusted
      | Some l \<Rightarrow> if side = Buy_Side then fmin adjusted l else fmax adjusted l)"

definition cost_split :: "float64 \<Rightarrow> float64 \<Rightarrow> float64 \<Rightarrow> float64 \<Rightarrow> float64 \<Rightarrow> (float64 \<times> float64) res" where
  "cost_split reference fill_price quantity spread_bps slippage_bps =
     (let total = fmul (fabs quantity) (fabs (fsub fill_price reference));
          weight = fadd (fquot spread_bps 2) slippage_bps in
      if total = Fin 0 \<or> weight = Fin 0 then Inr (Fin 0, Fin 0)
      else
        bindE (fdiv (fquot spread_bps 2) weight) (\<lambda>share.
        let spread = fmul total share in Inr (spread, fsub total spread)))"

definition commission :: "float64 \<Rightarrow> float64 \<Rightarrow> float64 \<Rightarrow> float64" where
  "commission quantity fill_price commission_bps =
     fquot (fmul (fmul (fabs quantity) fill_price) commission_bps) 10000"

definition required_margin :: "float64 \<Rightarrow> float64 \<Rightarrow> float64 \<Rightarrow> float64 res" where
  "required_margin quantity reference leverage = fdiv (fmul (fabs quantity) reference) leverage"

definition opposite :: "order_side \<Rightarrow> order_side" where
  "opposite s = (if s = Buy_Side then Sell_Side else Buy_Side)"

text \<open>With the two role-specific rates, as the broker calls it.\<close>

definition max_quantity_for_stop_risk ::
  "float64 \<Rightarrow> float64 \<Rightarrow> float64 \<Rightarrow> order_side \<Rightarrow> float64 \<Rightarrow> float64 \<Rightarrow> float64 \<Rightarrow> float64 res" where
  "max_quantity_for_stop_risk budget entry_fill stop_reference side fraction entry_bps exit_bps =
     (let stop_fill = adjusted_price stop_reference (opposite side) fraction None;
          price_loss = fabs (fsub entry_fill stop_fill);
          fee_per_unit = fquot (fadd (fmul entry_fill entry_bps) (fmul stop_fill exit_bps)) 10000;
          risk_per_unit = fadd price_loss fee_per_unit in
      if fleq risk_per_unit (Fin 0) then Inr (Fin 0) else fdiv (fmax (Fin 0) budget) risk_per_unit)"

section \<open>Bracket updates\<close>

definition validate_protection_update :: "order_side \<Rightarrow> float64 \<Rightarrow> float64 \<Rightarrow> float64 \<Rightarrow> unit res" where
  "validate_protection_update side current stop_price target_price =
     (let bad = ''protection prices must be positive and finite'' in
      bindE (positive_decimal bad (decimal_of current)) (\<lambda>old.
      bindE (positive_decimal bad (decimal_of stop_price)) (\<lambda>stop.
      bindE (positive_decimal bad (decimal_of target_price)) (\<lambda>target.
      if side = Buy_Side \<and> stop < old \<or> side = Sell_Side \<and> old < stop
      then Inl (ValueError ''stop update must tighten protection, not increase risk'')
      else ensure (\<not> (side = Buy_Side \<and> target \<le> stop \<or> side = Sell_Side \<and> stop \<le> target))
             (ValueError ''stop update must remain inside the protective target'')))))"

section \<open>The execution proxy\<close>

record execution_latency =
  xl_submission_ms :: int
  xl_acknowledgement_ms :: int
  xl_fill_ms :: int
  xl_cancellation_ms :: int
  xl_replacement_ms :: int
  xl_activation_ms :: int

definition latency_check :: "execution_latency \<Rightarrow> unit res" where
  "latency_check l =
     ensure (list_all (\<lambda>v. 0 \<le> v) [xl_submission_ms l, xl_acknowledgement_ms l, xl_fill_ms l,
         xl_cancellation_ms l, xl_replacement_ms l, xl_activation_ms l])
       (ValueError ''execution latency must be a non-negative integer'')"

record execution_timeline =
  tl_decision_ms :: int
  tl_submission_ms :: int
  tl_acknowledgement_ms :: int
  tl_fill_eligible_ms :: int
  tl_active_ms :: "int option"

definition execution_timeline_of :: "int \<Rightarrow> execution_latency \<Rightarrow> execution_timeline" where
  "execution_timeline_of decision l =
     (let submission = decision + xl_submission_ms l;
          acknowledgement = submission + xl_acknowledgement_ms l;
          fill_ms = acknowledgement + xl_fill_ms l in
      \<lparr> tl_decision_ms = decision, tl_submission_ms = submission, tl_acknowledgement_ms = acknowledgement,
        tl_fill_eligible_ms = fill_ms, tl_active_ms = Some (fill_ms + xl_activation_ms l) \<rparr>)"

record impact_calibration =
  ic_evidence_id :: string
  ic_calibrated_at_ms :: int
  ic_coefficient_bps :: rat
  ic_volatility :: rat
  ic_source :: string

definition calibration_check :: "impact_calibration \<Rightarrow> unit res" where
  "calibration_check c =
     (if ic_evidence_id c = [] \<or> ic_source c = []
      then Inl (ValueError ''impact calibration evidence identity and source are required'')
      else if ic_coefficient_bps c < 0 then Inl (ValueError ''impact coefficient must be finite and non-negative'')
      else if ic_volatility c < 0 then Inl (ValueError ''impact volatility must be finite and non-negative'')
      else ensure (0 \<le> ic_calibrated_at_ms c) (ValueError ''impact calibration timestamp must be non-negative''))"

record proxy_config =
  px_participation :: rat
  px_remainder_policy :: string
  px_latency :: execution_latency
  px_calibration :: "impact_calibration option"

definition participation_ok :: "rat \<Rightarrow> bool" where
  "participation_ok p \<longleftrightarrow> 0 < p \<and> p \<le> 1"

definition proxy_check :: "proxy_config \<Rightarrow> unit res" where
  "proxy_check p =
     (if \<not> participation_ok (px_participation p)
      then Inl (ValueError ''maximum volume participation must be in (0, 1]'')
      else ensure (px_remainder_policy p \<in> {''carry'', ''cancel''})
             (ValueError ''entry remainder policy must be carry or cancel''))"

definition model_label :: "proxy_config \<Rightarrow> string" where
  "model_label p = (if px_calibration p \<noteq> None then ''calibrated_ohlcv_proxy'' else ''fixed_ohlcv_proxy'')"

record liquidity_budget =
  bl_timestamp_ms :: int
  bl_capacity :: rat
  bl_remaining :: rat
  bl_consumed :: "rat dict"

definition new_liquidity_budget :: "int \<Rightarrow> float64 \<Rightarrow> rat \<Rightarrow> liquidity_budget res" where
  "new_liquidity_budget t volume participation =
     bindE (nonneg_decimal ''observed bar volume must be finite and non-negative'' volume) (\<lambda>v.
     if \<not> participation_ok participation then Inl (ValueError ''maximum participation must be in (0, 1]'')
     else let c = qmul v participation in
       Inr \<lparr> bl_timestamp_ms = t, bl_capacity = c, bl_remaining = c, bl_consumed = [] \<rparr>)"

definition allocate :: "string \<Rightarrow> float64 \<Rightarrow> liquidity_budget \<Rightarrow> (rat \<times> liquidity_budget) res" where
  "allocate order_id requested b =
     (if order_id = [] then Inl (ValueError ''liquidity allocation requires a stable order_id'')
      else
        bindE (nonneg_decimal ''requested fill quantity must be finite and non-negative'' requested) (\<lambda>quantity.
        let allocated = min quantity (bl_remaining b);
            prior = (case map_of (bl_consumed b) order_id of None \<Rightarrow> 0 | Some v \<Rightarrow> v) in
        Inr (allocated, b\<lparr> bl_remaining := qsub (bl_remaining b) allocated,
               bl_consumed := AList.update order_id (qadd prior allocated) (bl_consumed b) \<rparr>)))"

record slippage_resolution =
  sl_bps :: rat
  sl_model :: string
  sl_evidence_id :: "string option"
  sl_evidence_status :: string
  sl_source :: "string option"

definition resolve_slippage_bps ::
  "float64 \<Rightarrow> rat \<Rightarrow> int \<Rightarrow> impact_calibration option \<Rightarrow> slippage_resolution res" where
  "resolve_slippage_bps fixed participation decision calibration =
     bindE (nonneg_decimal ''fixed slippage must be finite and non-negative'' fixed) (\<lambda>bps.
     if \<not> (0 \<le> participation \<and> participation \<le> 1)
     then Inl (ValueError ''fill participation must be in [0, 1]'')
     else case calibration of
       None \<Rightarrow> Inr \<lparr> sl_bps = bps, sl_model = ''fixed_ohlcv_proxy'', sl_evidence_id = None,
         sl_evidence_status = ''unavailable'', sl_source = None \<rparr>
     | Some c \<Rightarrow>
         if decision \<le> ic_calibrated_at_ms c
         then Inl (ValueError ''impact calibration must be strictly before the decision timestamp'')
         else Inr \<lparr> sl_bps = qmul (qmul (ic_coefficient_bps c) (ic_volatility c)) (dec_sqrt participation),
           sl_model = ''calibrated_ohlcv_proxy'', sl_evidence_id = Some (ic_evidence_id c),
           sl_evidence_status = ''historical'', sl_source = Some (ic_source c) \<rparr>)"

section \<open>The cash ledger\<close>

datatype ledger_kind = Commission | Funding | Trade_Pnl | Liquidation_Fee | Adjustment

text \<open>The metadata of an entry, by what it documents.\<close>

datatype ledger_metadata =
    No_Evidence
  | Fee_Evidence fee_application
  | Funding_Evidence rat rat string
  | Liquidation_Evidence string evidence_kind string string rat
  | Liquidation_Fee_Evidence string evidence_kind string string rat rat

record ledger_entry =
  le_sequence :: int
  le_timestamp_ms :: int
  le_kind :: ledger_kind
  le_amount :: float64
  le_reference_id :: string
  le_currency :: string
  le_metadata :: ledger_metadata

record account_ledger =
  al_starting_balance :: float64
  al_entries :: "ledger_entry list"

definition new_account_ledger :: "float64 \<Rightarrow> account_ledger res" where
  "new_account_ledger starting =
     (if is_finite starting \<and> fleq (Fin 0) starting
      then Inr \<lparr> al_starting_balance = starting, al_entries = [] \<rparr>
      else Inl (ValueError ''ledger starting balance must be non-negative and finite''))"

text \<open>
  \<open>sum\<close> over floats is a parameter: Python 3.11 adds from the left, 3.12 and later compensate the
  rounding errors, and the engine runs on both.
\<close>

type_synonym float_sum = "float64 list \<Rightarrow> float64"

definition plain_sum :: float_sum where
  "plain_sum xs = foldl fadd (Fin 0) xs"

definition ledger_balance :: "float_sum \<Rightarrow> account_ledger \<Rightarrow> float64" where
  "ledger_balance add_up l = fadd (al_starting_balance l) (add_up (map le_amount (al_entries l)))"

definition ledger_fees :: "float_sum \<Rightarrow> account_ledger \<Rightarrow> float64" where
  "ledger_fees add_up l =
     fneg (add_up (map le_amount (filter (\<lambda>e. le_kind e \<in> {Commission, Liquidation_Fee}) (al_entries l))))"

definition ledger_funding :: "float_sum \<Rightarrow> account_ledger \<Rightarrow> float64" where
  "ledger_funding add_up l = add_up (map le_amount (filter (\<lambda>e. le_kind e = Funding) (al_entries l)))"

definition trade_realized_pnl :: "float_sum \<Rightarrow> account_ledger \<Rightarrow> float64" where
  "trade_realized_pnl add_up l = add_up (map le_amount (filter (\<lambda>e. le_kind e = Trade_Pnl) (al_entries l)))"

definition ledger_record ::
  "int \<Rightarrow> ledger_kind \<Rightarrow> float64 \<Rightarrow> string \<Rightarrow> string \<Rightarrow> ledger_metadata \<Rightarrow> account_ledger \<Rightarrow> account_ledger res" where
  "ledger_record t kind amount reference_id currency metadata l =
     (if \<not> is_finite amount then Inl (ValueError ''ledger amount must be finite'')
      else if t < 0 then Inl (ValueError ''ledger timestamp_ms must be a non-negative integer'')
      else Inr (l\<lparr> al_entries := al_entries l @
        [\<lparr> le_sequence = int (length (al_entries l)) + 1, le_timestamp_ms = t, le_kind = kind, le_amount = amount,
           le_reference_id = reference_id, le_currency = currency, le_metadata = metadata \<rparr>] \<rparr>))"

text \<open>\<open>math.isclose(a, b, rel_tol=1e-12, abs_tol=1e-9)\<close> and the totals derived from the entries.\<close>

definition isclose :: "float64 \<Rightarrow> float64 \<Rightarrow> rat \<Rightarrow> rat \<Rightarrow> bool" where
  "isclose a b rel_tol abs_tol =
     (if a = b \<and> a \<noteq> Not_A_Number then True
      else if a \<in> {Pos_Inf, Neg_Inf} \<or> b \<in> {Pos_Inf, Neg_Inf} then False
      else
        let diff = fabs (fsub b a) in
        fleq diff (fabs (fmul (to_float rel_tol) b)) \<or> fleq diff (fabs (fmul (to_float rel_tol) a)) \<or>
        fleq diff (to_float abs_tol))"

record ledger_reconciliation =
  lr_starting_balance :: float64
  lr_cash_movements :: float64
  lr_balance :: float64
  lr_unrealized :: float64
  lr_equity :: float64
  lr_margin_used :: float64
  lr_free_margin :: float64
  lr_balanced :: bool

definition ledger_reconcile ::
  "float_sum \<Rightarrow> float64 \<Rightarrow> float64 \<Rightarrow> float64 \<Rightarrow> string \<Rightarrow> account_ledger \<Rightarrow> ledger_reconciliation res" where
  "ledger_reconcile add_up unrealized equity margin market l =
     bindE (canonical_market market) (\<lambda>m.
     let balance = ledger_balance add_up l in
     Inr \<lparr> lr_starting_balance = al_starting_balance l,
       lr_cash_movements = fsub balance (al_starting_balance l), lr_balance = balance,
       lr_unrealized = unrealized, lr_equity = equity, lr_margin_used = margin,
       lr_free_margin = fsub (if m = ''spot'' then balance else equity) margin,
       lr_balanced = isclose (fadd balance unrealized) equity (1 / 10 ^ 12) (1 / 10 ^ 9) \<rparr>)"

end
