(* ===== verification/Paper_Broker.thy ===== *)
theory Paper_Broker
  imports Effects Fill_Models
begin

text \<open>
  The simulated futures broker, \<open>src/koval/engine/paper_broker.py\<close>: one pending bracket, one
  position, a cash ledger, and the matching of both against bars. What the constructor fixes is a
  \<open>broker_setup\<close>; what the methods change is a \<open>paper_account\<close>. A method that raises keeps what it
  did before (\<open>Effects\<close>). Numbers in the text of an intent are floats here, sides are a datatype,
  and the metadata of an order is the fields that the broker reads.
\<close>

section \<open>Data\<close>

record broker_setup =
  bu_profile :: paper_profile
  bu_market :: string
  bu_exchange :: "string option"
  bu_funding :: "funding_series option"
  bu_fee_schedule :: "fee_schedule option"
  bu_specs :: "instrument_spec list"
  bu_mark_prices :: "mark_series option"
  bu_proxy :: "proxy_config option"
  bu_add_up :: float_sum

datatype fill_kind = Entry_Fill | Stop_Loss | Take_Profit | Manual_Close | Liquidation
datatype fill_role = Entry_Role | Stop_Role | Target_Role | Flatten_Role

text \<open>The fee fields of a fill; a liquidation fills in three of them.\<close>

record fee_mark =
  fk_liquidity_role :: "liquidity_role option"
  fk_rate_bps :: "float64 option"
  fk_currency :: string
  fk_evidence_id :: string
  fk_evidence_status :: evidence_kind
  fk_discount_treatment :: "string option"
  fk_tier_id :: "string option"

record paper_fill =
  pl_kind :: fill_kind
  pl_side :: order_side
  pl_price :: float64
  pl_quantity :: float64
  pl_timestamp_ms :: int
  pl_realized_pnl :: float64
  pl_commission :: float64
  pl_reference_price :: float64
  pl_spread_cost :: float64
  pl_slippage_cost :: float64
  pl_margin :: float64
  pl_fee :: "fee_mark option"
  pl_instrument_evidence_id :: "string option"
  pl_liquidation_fee :: float64
  pl_status :: string
  pl_cumulative_quantity :: "float64 option"
  pl_order_id :: string
  pl_execution_model :: "string option"
  pl_impact_evidence_id :: "string option"
  pl_timeline :: "execution_timeline option"

record broker_position =
  qp_side :: order_side
  qp_entry_price :: float64
  qp_quantity :: float64
  qp_stop_price :: float64
  qp_target_price :: float64
  qp_entry_timestamp_ms :: int
  qp_session_id :: string
  qp_entry_client_order_id :: string
  qp_symbol :: string
  qp_stop_client_order_id :: string
  qp_target_client_order_id :: string
  qp_entry_commission :: float64
  qp_margin :: float64
  qp_active_ms :: "int option"

record pending_order =
  qo_side :: order_side
  qo_entry_price :: float64
  qo_stop_price :: float64
  qo_target_price :: float64
  qo_quantity :: float64
  qo_order_type :: string
  qo_session_id :: string
  qo_client_order_id :: string
  qo_symbol :: string
  qo_risk_budget :: "float64 option"
  qo_requested_quantity :: float64
  qo_cumulative_quantity :: float64
  qo_timeline :: "execution_timeline option"

text \<open>A fill reported to the engine, with the ledger entries that it booked.\<close>

record fill_report =
  fr_session_id :: string
  fr_client_order_id :: string
  fr_symbol :: string
  fr_role :: fill_role
  fr_fill :: paper_fill
  fr_cashflow_sequences :: "int list"

text \<open>Why an order is refused: when it is submitted, or when it would fill.\<close>

datatype refusal =
    Insufficient_Margin float64 float64
  | Spot_Short_Unsupported
  | Risk_Budget_Exhausted
  | Instrument_Constraint string

record paper_account =
  pa_ledger :: account_ledger
  pa_position :: "broker_position option"
  pa_pending :: "pending_order option"
  pa_last_close :: float64
  pa_last_timestamp_ms :: int
  pa_fill_events :: "fill_report list"
  pa_deferred_exit :: "(paper_fill \<times> broker_position \<times> fill_role) option"
  pa_journaled_sequence :: int
  pa_exit_cumulative :: float64
  pa_last_funding_ms :: "int option"
  pa_funding_cursor :: nat
  pa_entry_bar_ms :: "int option"
  pa_entry_rejection :: "refusal option"
  pa_ambiguities :: "int list"

type_synonym 'a broker_call = "(paper_account, 'a) eff"

definition market_types :: "string set" where
  "market_types = {''market''}"

definition stop_types :: "string set" where
  "stop_types = {''stop'', ''stop_market''}"

section \<open>Construction\<close>

definition some_of :: "'a option \<Rightarrow> 'a list" where
  "some_of x = (case x of None \<Rightarrow> [] | Some v \<Rightarrow> [v])"

definition evidence_exchanges :: "broker_setup \<Rightarrow> string list" where
  "evidence_exchanges x = remdups (map (\<lambda>v. lower (strip v))
     (map ns_exchange (bu_specs x) @
      some_of (Option.bind (bu_fee_schedule x) fe_exchange) @
      some_of (map_option fn_exchange (bu_funding x)) @ some_of (map_option ms_exchange (bu_mark_prices x))))"

definition evidence_symbols :: "broker_setup \<Rightarrow> string list" where
  "evidence_symbols x = remdups (map plain_symbol
     (map ns_canonical_symbol (bu_specs x) @
      some_of (Option.bind (bu_fee_schedule x) fe_canonical_symbol) @
      some_of (map_option fn_canonical_symbol (bu_funding x)) @
      some_of (map_option ms_canonical_symbol (bu_mark_prices x))))"

definition quote_currencies :: "string list" where
  "quote_currencies = [''FDUSD'', ''USDT'', ''USDC'', ''TUSD'', ''BUSD'', ''BTC'', ''ETH'', ''EUR'', ''USD'']"

definition quote_of :: "broker_setup \<Rightarrow> string \<Rightarrow> string option" where
  "quote_of x canonical =
     (if (bu_exchange x = Some ''whitebit'' \<or> ''whitebit'' \<in> set (evidence_exchanges x)) \<and>
         ends_with canonical ''PERP''
      then Some ''USDT'' else find (ends_with canonical) quote_currencies)"

definition validate_fee_currency :: "broker_setup \<Rightarrow> string \<Rightarrow> unit res" where
  "validate_fee_currency x symbol =
     (if symbol = [] then Inr ()
      else
        let quote = quote_of x (plain_symbol symbol) in
        if list_ex (\<lambda>s. Some (ns_collateral_currency s) \<noteq> quote) (bu_specs x)
        then Inl (ValueError ''paper linear accounting requires quote collateral'')
        else case bu_fee_schedule x of
               None \<Rightarrow> Inr ()
             | Some f \<Rightarrow>
                 ensure (fe_currency f = ''quote'' \<or> Some (fe_currency f) = quote)
                   (ValueError ''paper fee currency must match the instrument quote currency''))"

text \<open>The checks of the constructor after the market and the exchange are canonical.\<close>

definition evidence_check :: "broker_setup \<Rightarrow> unit res" where
  "evidence_check x =
     (if bu_fee_schedule x \<noteq> None \<and> \<not> is_costed (bu_profile x)
      then Inl (ValueError ''fee evidence requires a costed paper profile'')
      else if (case bu_fee_schedule x of None \<Rightarrow> False | Some f \<Rightarrow> fe_market f \<notin> {None, Some (bu_market x)})
      then Inl (ValueError ''fee evidence market does not match paper market'')
      else if (case bu_funding x of None \<Rightarrow> False | Some f \<Rightarrow> fn_market f \<noteq> bu_market x)
      then Inl (ValueError ''funding evidence market does not match paper market'')
      else if (case bu_funding x of None \<Rightarrow> False | Some f \<Rightarrow> \<not> fn_coverage_complete f)
      then Inl (ValueError ''paper broker requires complete funding evidence'')
      else if (case bu_mark_prices x of None \<Rightarrow> False | Some m \<Rightarrow> \<not> ms_coverage_complete m)
      then Inl (ValueError ''paper broker requires complete mark-price evidence'')
      else if list_ex (\<lambda>s. ns_market s \<noteq> bu_market x) (bu_specs x)
      then Inl (ValueError ''instrument evidence market does not match paper market'')
      else if list_ex (\<lambda>s. ns_contract_size s \<noteq> 1) (bu_specs x)
      then Inl (ValueError ''paper base-quantity accounting requires contract_size=1'')
      else if 1 < length (evidence_exchanges x) \<or>
              (case bu_exchange x of None \<Rightarrow> False | Some e \<Rightarrow> \<not> set (evidence_exchanges x) \<subseteq> {e})
      then Inl (ValueError ''paper execution evidence exchange mismatch'')
      else if 1 < length (evidence_symbols x)
      then Inl (ValueError ''paper execution evidence symbol mismatch'')
      else
        bindE (foldE (\<lambda>_ s. validate_fee_currency x s) () (evidence_symbols x)) (\<lambda>_.
        case bu_proxy x of
          None \<Rightarrow> Inr ()
        | Some p \<Rightarrow>
            if \<not> stop_first (bu_profile x)
            then Inl (ValueError ''partial execution proxy requires paper_ohlcv_realistic_v2'')
            else ensure (xl_cancellation_ms (px_latency p) = 0 \<and> xl_replacement_ms (px_latency p) = 0)
                   (ValueError ''paper cancellation and replacement latency are not supported'')))"

definition new_paper_broker ::
  "float_sum \<Rightarrow> float64 \<Rightarrow> paper_profile \<Rightarrow> string \<Rightarrow> funding_series option \<Rightarrow> fee_schedule option \<Rightarrow>
     instrument_spec list \<Rightarrow> mark_series option \<Rightarrow> proxy_config option \<Rightarrow> string option \<Rightarrow>
     (broker_setup \<times> paper_account) res" where
  "new_paper_broker add_up starting profile market funding fees specs marks proxy exchange =
     (if \<not> positive_float starting then Inl (ValueError ''paper starting balance must be positive and finite'')
      else
        bindE (new_account_ledger starting) (\<lambda>ledger.
        bindE (canonical_market market) (\<lambda>m.
        bindE (case exchange of None \<Rightarrow> Inr None
               | Some e \<Rightarrow> bindE (assert_supported_market e market) (\<lambda>(venue, _). Inr (Some venue))) (\<lambda>venue.
        if m = ''spot'' \<and> pp_leverage profile \<noteq> Fin 1 then Inl (ValueError ''spot leverage must be exactly one'')
        else
          let x = \<lparr> bu_profile = profile, bu_market = m, bu_exchange = venue, bu_funding = funding,
            bu_fee_schedule = fees, bu_specs = specs, bu_mark_prices = marks, bu_proxy = proxy,
            bu_add_up = add_up \<rparr> in
          bindE (evidence_check x) (\<lambda>_.
          Inr (x, \<lparr> pa_ledger = ledger, pa_position = None, pa_pending = None, pa_last_close = Fin 0,
            pa_last_timestamp_ms = 0, pa_fill_events = [], pa_deferred_exit = None, pa_journaled_sequence = 0,
            pa_exit_cumulative = Fin 0, pa_last_funding_ms = None, pa_funding_cursor = 0,
            pa_entry_bar_ms = None, pa_entry_rejection = None, pa_ambiguities = [] \<rparr>))))))"

definition validate_market_context :: "broker_setup \<Rightarrow> string option \<Rightarrow> string \<Rightarrow> unit res" where
  "validate_market_context x exchange symbol =
     bindE (case exchange of
         None \<Rightarrow> Inr ()
       | Some e \<Rightarrow>
           bindE (assert_supported_market e (bu_market x)) (\<lambda>(venue, _).
           ensure (set (evidence_exchanges x) \<subseteq> {venue} \<and> bu_exchange x \<in> {None, Some venue})
             (ValueError ''paper execution evidence exchange mismatch''))) (\<lambda>_.
     if evidence_symbols x \<noteq> [] \<and> plain_symbol symbol \<notin> set (evidence_symbols x)
     then Inl (ValueError ''paper execution evidence symbol mismatch'')
     else validate_fee_currency x symbol)"

definition validate_execution_grid :: "broker_setup \<Rightarrow> int \<Rightarrow> unit res" where
  "validate_execution_grid x interval =
     (case bu_funding x of None \<Rightarrow> Inr () | Some f \<Rightarrow> funding_on_grid f interval)"

section \<open>The account\<close>

definition balance :: "broker_setup \<Rightarrow> paper_account \<Rightarrow> float64" where
  "balance x s = ledger_balance (bu_add_up x) (pa_ledger s)"

definition margin_used :: "paper_account \<Rightarrow> float64" where
  "margin_used s = (case pa_position s of None \<Rightarrow> Fin 0 | Some p \<Rightarrow> qp_margin p)"

definition side_sign :: "order_side \<Rightarrow> float64" where
  "side_sign d = (if d = Buy_Side then Fin 1 else Fin (- 1))"

definition unrealized :: "paper_account \<Rightarrow> float64 \<Rightarrow> float64" where
  "unrealized s mark =
     (case pa_position s of
        None \<Rightarrow> Fin 0
      | Some p \<Rightarrow> fmul (fmul (fsub mark (qp_entry_price p)) (qp_quantity p)) (side_sign (qp_side p)))"

definition equity :: "broker_setup \<Rightarrow> paper_account \<Rightarrow> float64" where
  "equity x s = fadd (balance x s) (unrealized s (pa_last_close s))"

definition reconcile_ledger :: "broker_setup \<Rightarrow> paper_account \<Rightarrow> ledger_reconciliation res" where
  "reconcile_ledger x s =
     ledger_reconcile (bu_add_up x) (unrealized s (pa_last_close s)) (equity x s) (margin_used s) (bu_market x)
       (pa_ledger s)"

definition fee_rate :: "broker_setup \<Rightarrow> liquidity_role \<Rightarrow> float64" where
  "fee_rate x role =
     (case bu_fee_schedule x of
        None \<Rightarrow> pp_commission_bps (bu_profile x)
      | Some f \<Rightarrow> if role = Maker then fe_maker_bps f else fe_taker_bps f)"

definition configured_schedule :: "paper_profile \<Rightarrow> fee_schedule" where
  "configured_schedule p =
     \<lparr> fe_evidence_id = ''configured-paper-profile'', fe_maker_bps = pp_commission_bps p,
       fe_taker_bps = pp_commission_bps p, fe_currency = ''quote'', fe_evidence_status = Approximation,
       fe_source = ''paper_profile'', fe_effective_from_ms = None, fe_effective_to_ms = None,
       fe_discount_treatment = ''not_modelled'', fe_tier_id = ''configured'', fe_exchange = None,
       fe_market = None, fe_canonical_symbol = None \<rparr>"

definition resolve_fee :: "broker_setup \<Rightarrow> liquidity_role \<Rightarrow> int \<Rightarrow> fee_application res" where
  "resolve_fee x role t =
     (case bu_fee_schedule x of
        Some f \<Rightarrow> resolve_fee_application f role t
      | None \<Rightarrow>
          bindE (fee_schedule_check (configured_schedule (bu_profile x))) (\<lambda>_.
          resolve_fee_application (configured_schedule (bu_profile x)) role t))"

text \<open>What an entry at a price needs, and what the account has for it.\<close>

definition entry_cost :: "broker_setup \<Rightarrow> float64 \<Rightarrow> float64 \<Rightarrow> liquidity_role \<Rightarrow> float64 res" where
  "entry_cost x quantity at_price role =
     bindE (required_margin quantity at_price (pp_leverage (bu_profile x))) (\<lambda>needed.
     Inr (fadd needed (commission quantity at_price (fee_rate x role))))"

definition available :: "broker_setup \<Rightarrow> paper_account \<Rightarrow> float64 option \<Rightarrow> float64" where
  "available x s mark =
     (if bu_market x = ''spot'' then fsub (balance x s) (margin_used s)
      else fsub (case mark of None \<Rightarrow> equity x s | Some m \<Rightarrow> fadd (balance x s) (unrealized s m)) (margin_used s))"

definition affordability_error ::
  "broker_setup \<Rightarrow> paper_account \<Rightarrow> float64 \<Rightarrow> float64 \<Rightarrow> liquidity_role \<Rightarrow> float64 option \<Rightarrow> refusal option res" where
  "affordability_error x s quantity at_price role mark =
     (if \<not> is_costed (bu_profile x) then Inr None
      else
        bindE (entry_cost x quantity at_price role) (\<lambda>cost.
        if fless (available x s mark) cost then Inr (Some (Insufficient_Margin cost (available x s mark)))
        else Inr None))"

definition consume_entry_rejection :: "refusal option broker_call" where
  "consume_entry_rejection =
     bindP (getP pa_entry_rejection) (\<lambda>r.
     bindP (modifyP (\<lambda>s. s\<lparr>pa_entry_rejection := None\<rparr>)) (\<lambda>_. returnP r))"

section \<open>Submission\<close>

record bracket_request =
  bq_side :: order_side
  bq_entry_price :: float64
  bq_stop_price :: float64
  bq_target_price :: float64
  bq_quantity :: float64
  bq_order_type :: string
  bq_session_id :: string
  bq_client_order_id :: string
  bq_symbol :: string
  bq_risk_budget :: "float64 option"
  bq_decision_ms :: "int option"

definition role_of_type :: "string \<Rightarrow> liquidity_role" where
  "role_of_type t = (if t \<in> limit_types then Maker else Taker)"

definition bracket_check :: "broker_setup \<Rightarrow> bracket_request \<Rightarrow> unit res" where
  "bracket_check x r =
     (if bq_order_type r \<notin> market_types \<union> limit_types \<union> stop_types
      then Inl (ValueError ''invalid paper order: unsupported order type'')
      else if \<not> list_all positive_float [bq_entry_price r, bq_stop_price r, bq_target_price r, bq_quantity r]
      then Inl (ValueError ''invalid paper order: prices and quantity must be positive and finite'')
      else if bq_side r = Buy_Side \<and>
              \<not> (fless (bq_stop_price r) (bq_entry_price r) \<and> fless (bq_entry_price r) (bq_target_price r))
      then Inl (ValueError ''invalid paper order: long protection must satisfy stop < entry < target'')
      else if bq_side r = Sell_Side \<and>
              \<not> (fless (bq_target_price r) (bq_entry_price r) \<and> fless (bq_entry_price r) (bq_stop_price r))
      then Inl (ValueError ''invalid paper order: short protection must satisfy target < entry < stop'')
      else ensure (case bq_risk_budget r of None \<Rightarrow> True | Some b \<Rightarrow> positive_float b)
             (ValueError ''invalid paper order: risk_budget must be positive and finite''))"

definition pending_of :: "broker_setup \<Rightarrow> bracket_request \<Rightarrow> pending_order" where
  "pending_of x r =
     \<lparr> qo_side = bq_side r, qo_entry_price = bq_entry_price r, qo_stop_price = bq_stop_price r,
       qo_target_price = bq_target_price r, qo_quantity = bq_quantity r, qo_order_type = bq_order_type r,
       qo_session_id = bq_session_id r, qo_client_order_id = bq_client_order_id r, qo_symbol = bq_symbol r,
       qo_risk_budget = bq_risk_budget r, qo_requested_quantity = bq_quantity r, qo_cumulative_quantity = Fin 0,
       qo_timeline = (case (bq_decision_ms r, bu_proxy x) of
          (Some t, Some p) \<Rightarrow> Some (execution_timeline_of t (px_latency p)) | _ \<Rightarrow> None) \<rparr>"

text \<open>\<open>submit_bracket\<close>; raising \<open>PaperOrderRejected\<close> is returning the refusal.\<close>

definition submit_bracket :: "broker_setup \<Rightarrow> bracket_request \<Rightarrow> refusal option broker_call" where
  "submit_bracket x r s =
     (case bindE (validate_fee_currency x (bq_symbol r)) (\<lambda>_.
           if bq_symbol r \<noteq> [] \<and> evidence_symbols x \<noteq> [] \<and> plain_symbol (bq_symbol r) \<notin> set (evidence_symbols x)
           then Inl (ValueError ''paper execution evidence symbol mismatch'')
           else if bu_market x = ''spot'' \<and> bq_side r = Sell_Side then Inr (Some Spot_Short_Unsupported)
           else
             bindE (bracket_check x r) (\<lambda>_.
             affordability_error x s (bq_quantity r) (bq_entry_price r) (role_of_type (bq_order_type r)) None)) of
        Inl e \<Rightarrow> (Inl e, s)
      | Inr (Some why) \<Rightarrow> (Inr (Some why), s)
      | Inr None \<Rightarrow> (Inr None, s\<lparr>pa_pending := Some (pending_of x r)\<rparr>))"

record paper_ack =
  ka_session_id :: string
  ka_client_order_id :: string
  ka_status :: string
  ka_refusal :: "refusal option"

record entry_intent =
  ei_session_id :: string
  ei_client_order_id :: string
  ei_symbol :: string
  ei_side :: order_side
  ei_order_type :: string
  ei_quantity :: float64
  ei_price :: "float64 option"
  ei_stop_price :: "float64 option"
  ei_target_price :: "float64 option"
  ei_risk_budget :: "float64 option"
  ei_decision_ms :: "int option"

definition float_or_zero :: "float64 option \<Rightarrow> float64" where
  "float_or_zero v = (case v of None \<Rightarrow> Fin 0 | Some f \<Rightarrow> f)"

definition optional_positive_float :: "float64 option \<Rightarrow> float64 option" where
  "optional_positive_float v = (case v of None \<Rightarrow> None | Some f \<Rightarrow> if positive_float f then Some f else None)"

definition optional_timestamp_ms :: "int option \<Rightarrow> int option" where
  "optional_timestamp_ms v = (case v of None \<Rightarrow> None | Some t \<Rightarrow> if 0 \<le> t then Some t else None)"

definition submit_entry :: "broker_setup \<Rightarrow> entry_intent \<Rightarrow> paper_ack broker_call" where
  "submit_entry x i =
     bindP (submit_bracket x
       \<lparr> bq_side = ei_side i, bq_entry_price = float_or_zero (ei_price i),
         bq_stop_price = float_or_zero (ei_stop_price i), bq_target_price = float_or_zero (ei_target_price i),
         bq_quantity = ei_quantity i, bq_order_type = ei_order_type i, bq_session_id = ei_session_id i,
         bq_client_order_id = ei_client_order_id i, bq_symbol = ei_symbol i,
         bq_risk_budget = optional_positive_float (ei_risk_budget i),
         bq_decision_ms = optional_timestamp_ms (ei_decision_ms i) \<rparr>) (\<lambda>why.
     returnP \<lparr> ka_session_id = ei_session_id i, ka_client_order_id = ei_client_order_id i,
       ka_status = (if why = None then ''accepted'' else ''rejected''), ka_refusal = why \<rparr>)"

end
