(* ===== verification/Broker_Fills.thy ===== *)
theory Broker_Fills
  imports Paper_Broker
begin

text \<open>
  Fills of the simulated broker, \<open>src/koval/engine/paper_broker.py\<close>: reporting them to the engine,
  opening and closing the position, protective orders, and the calls that close or report it
  (\<open>flatten\<close>, \<open>poll_fills\<close>, \<open>reconcile\<close>, \<open>cancel_all\<close>).
\<close>

section \<open>Reporting fills\<close>

definition report_fill :: "paper_fill \<Rightarrow> string \<Rightarrow> string \<Rightarrow> string \<Rightarrow> fill_role \<Rightarrow> unit broker_call" where
  "report_fill f session client symbol role =
     (if session = [] \<or> client = [] then returnP ()
      else modifyP (\<lambda>s. s\<lparr>
        pa_fill_events := pa_fill_events s @
          [\<lparr> fr_session_id = session, fr_client_order_id = client, fr_symbol = symbol, fr_role = role, fr_fill = f,
             fr_cashflow_sequences = map le_sequence
               (filter (\<lambda>e. pa_journaled_sequence s < le_sequence e \<and> le_kind e \<noteq> Funding)
                  (al_entries (pa_ledger s))) \<rparr>],
        pa_journaled_sequence := int (length (al_entries (pa_ledger s))) \<rparr>))"

definition role_of_kind :: "fill_kind \<Rightarrow> fill_role" where
  "role_of_kind k = (case k of Stop_Loss \<Rightarrow> Stop_Role | Take_Profit \<Rightarrow> Target_Role | _ \<Rightarrow> Flatten_Role)"

text \<open>A protective exit before its orders have identities waits for them in \<open>pa_deferred_exit\<close>.\<close>

definition report_close :: "paper_fill \<Rightarrow> broker_position \<Rightarrow> unit broker_call" where
  "report_close f p =
     (let role = role_of_kind (pl_kind f);
          client = (case role of
             Stop_Role \<Rightarrow> qp_stop_client_order_id p
           | Target_Role \<Rightarrow> qp_target_client_order_id p
           | _ \<Rightarrow> ''paper-flatten-'' @ qp_session_id p) in
      if role \<in> {Stop_Role, Target_Role} \<and> client = [] then
        whenP (qp_session_id p \<noteq> [] \<and> qp_entry_client_order_id p \<noteq> [])
          (modifyP (\<lambda>s. s\<lparr>pa_deferred_exit := Some (f, p, role)\<rparr>))
      else report_fill f (qp_session_id p) client (qp_symbol p) role)"

definition record_cash ::
  "int \<Rightarrow> ledger_kind \<Rightarrow> float64 \<Rightarrow> string \<Rightarrow> string \<Rightarrow> ledger_metadata \<Rightarrow> unit broker_call" where
  "record_cash t kind amount reference_id currency metadata s =
     (case ledger_record t kind amount reference_id currency metadata (pa_ledger s) of
        Inl e \<Rightarrow> (Inl e, s)
      | Inr l \<Rightarrow> (Inr (), s\<lparr>pa_ledger := l\<rparr>))"

section \<open>Costs\<close>

definition budget_quantity :: "float64 \<Rightarrow> liquidity_budget option \<Rightarrow> float64" where
  "budget_quantity q liquidity =
     (case liquidity of None \<Rightarrow> q | Some b \<Rightarrow> fmin q (to_float (bl_remaining b)))"

definition allocate_fill_quantity ::
  "float64 \<Rightarrow> string \<Rightarrow> liquidity_budget option \<Rightarrow> liquidity_budget option res" where
  "allocate_fill_quantity requested order_id liquidity =
     (case liquidity of
        None \<Rightarrow> Inr None
      | Some b \<Rightarrow> bindE (allocate order_id (decimal_of requested) b) (\<lambda>(_, b'). Inr (Some b')))"

text \<open>No volume, or a volume of zero, gives no participation.\<close>

definition no_volume :: "float64 option \<Rightarrow> bool" where
  "no_volume v \<longleftrightarrow> v = None \<or> v = Some (Fin 0)"

definition participation_of :: "float64 \<Rightarrow> float64 option \<Rightarrow> rat res" where
  "participation_of q volume =
     (case (decimal_of q, map_option decimal_of volume) of
        (Fin a, Some (Fin v)) \<Rightarrow> bindE (qdiv a v) (\<lambda>r. Inr (min 1 r))
      | (Pos_Inf, Some (Fin v)) \<Rightarrow> Inr 1
      | _ \<Rightarrow> Inl ArithmeticError)"

definition slippage_for :: "broker_setup \<Rightarrow> int \<Rightarrow> float64 \<Rightarrow> float64 option \<Rightarrow> slippage_resolution res" where
  "slippage_for x t q volume =
     (case bu_proxy x of
        None \<Rightarrow> resolve_slippage_bps (decimal_of (pp_slippage_bps (bu_profile x))) 0 t None
      | Some p \<Rightarrow>
          if no_volume volume
          then resolve_slippage_bps (decimal_of (pp_slippage_bps (bu_profile x))) 0 t None
          else
            bindE (participation_of q volume) (\<lambda>share.
            resolve_slippage_bps (decimal_of (pp_slippage_bps (bu_profile x))) share t (px_calibration p)))"

definition adjustment_fraction :: "broker_setup \<Rightarrow> slippage_resolution \<Rightarrow> float64" where
  "adjustment_fraction x slippage =
     fquot (fadd (fquot (pp_spread_bps (bu_profile x)) 2) (to_float (sl_bps slippage))) 10000"

definition spec_at :: "broker_setup \<Rightarrow> int \<Rightarrow> string option res" where
  "spec_at x t =
     (if bu_specs x = [] then Inr None
      else bindE (select_instrument_spec (bu_specs x) t) (\<lambda>s. Inr (Some (ns_evidence_id s))))"

text \<open>The threshold \<open>1e-12\<close> under which a remainder is nothing.\<close>

definition dust :: float64 where
  "dust = to_float (1 / 10 ^ 12)"

definition fee_mark_of :: "fee_application \<Rightarrow> liquidity_role \<Rightarrow> fee_mark" where
  "fee_mark_of a role =
     \<lparr> fk_liquidity_role = Some role, fk_rate_bps = Some (fp_rate_bps a), fk_currency = fp_currency a,
       fk_evidence_id = fp_evidence_id a, fk_evidence_status = fp_evidence_status a,
       fk_discount_treatment = Some (fp_discount_treatment a), fk_tier_id = Some (fp_tier_id a) \<rparr>"

section \<open>Opening\<close>

text \<open>The cost of an entry fill: fee, spread, slippage, margin, and the evidence of the fee.\<close>

record fill_cost =
  fc_fee :: float64
  fc_spread :: float64
  fc_slippage :: float64
  fc_margin :: float64
  fc_application :: "fee_application option"

definition no_cost :: fill_cost where
  "no_cost = \<lparr> fc_fee = Fin 0, fc_spread = Fin 0, fc_slippage = Fin 0, fc_margin = Fin 0, fc_application = None \<rparr>"

definition cost_of_entry ::
  "broker_setup \<Rightarrow> float64 \<Rightarrow> float64 \<Rightarrow> float64 \<Rightarrow> liquidity_role \<Rightarrow> slippage_resolution option \<Rightarrow> int \<Rightarrow> fill_cost res" where
  "cost_of_entry x reference fill_price quantity role slippage t =
     (if \<not> is_costed (bu_profile x) then Inr no_cost
      else
        bindE (resolve_fee x role t) (\<lambda>a.
        bindE (cost_split reference fill_price quantity (pp_spread_bps (bu_profile x))
            (case slippage of None \<Rightarrow> pp_slippage_bps (bu_profile x) | Some r \<Rightarrow> to_float (sl_bps r))) (\<lambda>(spread, slip).
        bindE (required_margin quantity fill_price (pp_leverage (bu_profile x))) (\<lambda>margin.
        Inr \<lparr> fc_fee = commission quantity fill_price (fp_rate_bps a), fc_spread = spread, fc_slippage = slip,
          fc_margin = margin, fc_application = Some a \<rparr>))))"

definition opened_position ::
  "pending_order \<Rightarrow> float64 \<Rightarrow> float64 \<Rightarrow> fill_cost \<Rightarrow> int \<Rightarrow> broker_position option \<Rightarrow> broker_position res" where
  "opened_position od fill_price quantity cost t prior =
     (case prior of
        None \<Rightarrow> Inr \<lparr> qp_side = qo_side od, qp_entry_price = fill_price, qp_quantity = quantity,
          qp_stop_price = qo_stop_price od, qp_target_price = qo_target_price od, qp_entry_timestamp_ms = t,
          qp_session_id = qo_session_id od, qp_entry_client_order_id = qo_client_order_id od,
          qp_symbol = qo_symbol od, qp_stop_client_order_id = [], qp_target_client_order_id = [],
          qp_entry_commission = fc_fee cost, qp_margin = fc_margin cost,
          qp_active_ms = Option.bind (qo_timeline od) tl_active_ms \<rparr>
      | Some p \<Rightarrow>
          let whole = fadd (qp_quantity p) quantity in
          bindE (fdiv (fadd (fmul (qp_entry_price p) (qp_quantity p)) (fmul fill_price quantity)) whole) (\<lambda>average.
          Inr (p\<lparr> qp_entry_price := average, qp_quantity := whole,
                 qp_entry_commission := fadd (qp_entry_commission p) (fc_fee cost),
                 qp_margin := fadd (qp_margin p) (fc_margin cost) \<rparr>)))"

text \<open>The protection of an order with a timeline becomes active with its first fill.\<close>

definition activated :: "broker_setup \<Rightarrow> int \<Rightarrow> broker_position option \<Rightarrow> pending_order \<Rightarrow> pending_order res" where
  "activated x t prior od =
     (case qo_timeline od of
        None \<Rightarrow> Inr od
      | Some l \<Rightarrow>
          (case (prior, bu_proxy x) of
             (Some p, _) \<Rightarrow> Inr (od\<lparr>qo_timeline := Some (l\<lparr>tl_active_ms := qp_active_ms p\<rparr>)\<rparr>)
           | (None, Some c) \<Rightarrow>
               Inr (od\<lparr>qo_timeline := Some (l\<lparr>tl_active_ms := Some (t + xl_activation_ms (px_latency c))\<rparr>)\<rparr>)
           | (None, None) \<Rightarrow> Inl AttributeError))"

definition remainder_of :: "broker_setup \<Rightarrow> pending_order \<Rightarrow> float64 \<Rightarrow> pending_order option" where
  "remainder_of x od quantity =
     (let rest = fmax (Fin 0) (fsub (qo_quantity od) quantity) in
      case bu_proxy x of
        Some c \<Rightarrow>
          if fless dust rest \<and> px_remainder_policy c = ''carry''
          then Some (od\<lparr> qo_quantity := rest, qo_cumulative_quantity := fadd (qo_cumulative_quantity od) quantity \<rparr>)
          else None
      | None \<Rightarrow> None)"

definition entry_fill_of ::
  "pending_order \<Rightarrow> float64 \<Rightarrow> float64 \<Rightarrow> float64 \<Rightarrow> fill_cost \<Rightarrow> liquidity_role \<Rightarrow> slippage_resolution option \<Rightarrow>
     string option \<Rightarrow> int \<Rightarrow> paper_fill" where
  "entry_fill_of od reference fill_price quantity cost role slippage evidence t =
     \<lparr> pl_kind = Entry_Fill, pl_side = qo_side od, pl_price = fill_price, pl_quantity = quantity,
       pl_timestamp_ms = t, pl_realized_pnl = fneg (fc_fee cost), pl_commission = fc_fee cost,
       pl_reference_price = reference, pl_spread_cost = fc_spread cost, pl_slippage_cost = fc_slippage cost,
       pl_margin = fc_margin cost, pl_fee = map_option (\<lambda>a. fee_mark_of a role) (fc_application cost),
       pl_instrument_evidence_id = evidence, pl_liquidation_fee = Fin 0,
       pl_status = (if fless dust (fmax (Fin 0) (fsub (qo_quantity od) quantity)) then ''partial'' else ''filled''),
       pl_cumulative_quantity = Some (fadd (qo_cumulative_quantity od) quantity),
       pl_order_id = (if qo_client_order_id od = [] then ''paper-entry'' else qo_client_order_id od),
       pl_execution_model = Some (case slippage of None \<Rightarrow> ''fixed_ohlcv_proxy'' | Some r \<Rightarrow> sl_model r),
       pl_impact_evidence_id = Option.bind slippage sl_evidence_id, pl_timeline = qo_timeline od \<rparr>"

text \<open>\<open>_open\<close>; it also returns the order, whose timeline it updates.\<close>

definition open_fill ::
  "broker_setup \<Rightarrow> pending_order \<Rightarrow> float64 \<Rightarrow> float64 \<Rightarrow> int \<Rightarrow> liquidity_role \<Rightarrow> float64 \<Rightarrow> slippage_resolution option \<Rightarrow>
     (paper_fill \<times> pending_order) broker_call" where
  "open_fill x od reference fill_price t role quantity slippage =
     bindP (liftP (spec_at x t)) (\<lambda>evidence.
     bindP (liftP (cost_of_entry x reference fill_price quantity role slippage t)) (\<lambda>cost.
     bindP (case fc_application cost of
         None \<Rightarrow> returnP ()
       | Some a \<Rightarrow> record_cash t Commission (fneg (fc_fee cost)) (qo_client_order_id od) (fp_currency a)
                     (Fee_Evidence a)) (\<lambda>_.
     bindP (getP pa_position) (\<lambda>prior.
     bindP (liftP (activated x t prior od)) (\<lambda>o'.
     bindP (liftP (opened_position o' fill_price quantity cost t prior)) (\<lambda>p.
     bindP (modifyP (\<lambda>s. s\<lparr> pa_position := Some p, pa_pending := remainder_of x o' quantity,
       pa_entry_bar_ms := Some t, pa_last_close := fill_price, pa_last_timestamp_ms := t \<rparr>)) (\<lambda>_.
     let f = entry_fill_of o' reference fill_price quantity cost role slippage evidence t in
     bindP (report_fill f (qo_session_id o') (qo_client_order_id o') (qo_symbol o') Entry_Role) (\<lambda>_.
     returnP (f, o')))))))))"

definition fill_market_if_pending :: "broker_setup \<Rightarrow> int \<Rightarrow> float64 \<Rightarrow> paper_fill option broker_call" where
  "fill_market_if_pending x t at_price =
     bindP (getP pa_pending) (\<lambda>pending.
     case pending of
       None \<Rightarrow> returnP None
     | Some od \<Rightarrow>
         if qo_order_type od \<notin> market_types \<or> is_costed (bu_profile x) then returnP None
         else bindP (open_fill x od at_price at_price t Taker (qo_quantity od) None) (\<lambda>(f, _). returnP (Some f)))"

section \<open>Closing\<close>

text \<open>The quantity of an exit: within the budget of the bar, in whole steps of the instrument.\<close>

definition nearest_int :: "float64 \<Rightarrow> int res" where
  "nearest_int v =
     (case v of
        Fin r \<Rightarrow> Inr (round_half_even r)
      | Not_A_Number \<Rightarrow> Inl (ValueError ''cannot convert float NaN to integer'')
      | _ \<Rightarrow> Inl ArithmeticError)"

definition floor_float :: "float64 \<Rightarrow> int" where
  "floor_float v = (case v of Fin r \<Rightarrow> \<lfloor>r\<rfloor> | _ \<Rightarrow> 0)"

definition exit_quantity :: "broker_setup \<Rightarrow> float64 \<Rightarrow> liquidity_budget option \<Rightarrow> int \<Rightarrow> float64 res" where
  "exit_quantity x whole liquidity t =
     (let q = budget_quantity whole liquidity in
      if bu_specs x = [] then Inr q
      else
        bindE (select_instrument_spec (bu_specs x) t) (\<lambda>spec.
        bindE (fdiv q (to_float (ns_step_size spec))) (\<lambda>lots.
        bindE (nearest_int lots) (\<lambda>nearest.
        let count = (if isclose lots (to_float (of_int nearest)) 0 (1 / 10 ^ 9) then nearest else floor_float lots) in
        Inr (fmin q (to_float (qmul (of_int count) (ns_step_size spec))))))))"

definition close_order_id :: "broker_position \<Rightarrow> fill_kind \<Rightarrow> string res" where
  "close_order_id p kind =
     (case kind of
        Stop_Loss \<Rightarrow> Inr (if qp_stop_client_order_id p = [] then qp_entry_client_order_id p @ ''-stop''
                          else qp_stop_client_order_id p)
      | Take_Profit \<Rightarrow> Inr (if qp_target_client_order_id p = [] then qp_entry_client_order_id p @ ''-target''
                           else qp_target_client_order_id p)
      | Manual_Close \<Rightarrow> Inr (''paper-flatten-'' @ qp_session_id p)
      | _ \<Rightarrow> Inl KeyError)"

definition cost_of_exit ::
  "broker_setup \<Rightarrow> float64 \<Rightarrow> float64 \<Rightarrow> float64 \<Rightarrow> slippage_resolution \<Rightarrow> int \<Rightarrow> fill_cost res" where
  "cost_of_exit x reference fill_price quantity slippage t =
     (if \<not> is_costed (bu_profile x) then Inr no_cost
      else
        bindE (resolve_fee x Taker t) (\<lambda>a.
        bindE (cost_split reference fill_price quantity (pp_spread_bps (bu_profile x))
            (to_float (sl_bps slippage))) (\<lambda>(spread, slip).
        Inr \<lparr> fc_fee = commission quantity fill_price (fp_rate_bps a), fc_spread = spread, fc_slippage = slip,
          fc_margin = Fin 0, fc_application = Some a \<rparr>)))"

definition close_fill_of ::
  "broker_position \<Rightarrow> fill_kind \<Rightarrow> float64 \<Rightarrow> float64 \<Rightarrow> float64 \<Rightarrow> float64 \<Rightarrow> fill_cost \<Rightarrow> slippage_resolution \<Rightarrow>
     string option \<Rightarrow> string \<Rightarrow> float64 \<Rightarrow> int \<Rightarrow> paper_fill" where
  "close_fill_of p kind reference fill_price quantity gross cost slippage evidence order_id cumulative t =
     \<lparr> pl_kind = kind, pl_side = qp_side p, pl_price = fill_price, pl_quantity = quantity, pl_timestamp_ms = t,
       pl_realized_pnl = fsub gross (fc_fee cost), pl_commission = fc_fee cost, pl_reference_price = reference,
       pl_spread_cost = fc_spread cost, pl_slippage_cost = fc_slippage cost, pl_margin = Fin 0,
       pl_fee = map_option (\<lambda>a. fee_mark_of a Taker) (fc_application cost),
       pl_instrument_evidence_id = evidence, pl_liquidation_fee = Fin 0,
       pl_status = (if fless dust (fmax (Fin 0) (fsub (qp_quantity p) quantity)) then ''partial'' else ''filled''),
       pl_cumulative_quantity = Some cumulative, pl_order_id = order_id,
       pl_execution_model = Some (sl_model slippage), pl_impact_evidence_id = sl_evidence_id slippage,
       pl_timeline = None \<rparr>"

definition reduce_position :: "broker_position \<Rightarrow> float64 \<Rightarrow> float64 \<Rightarrow> int \<Rightarrow> paper_account \<Rightarrow> paper_account res" where
  "reduce_position p quantity fill_price t s =
     (let rest = fmax (Fin 0) (fsub (qp_quantity p) quantity);
          s' = s\<lparr> pa_exit_cumulative := fadd (pa_exit_cumulative s) quantity, pa_last_timestamp_ms := t \<rparr> in
      if fless dust rest then
        bindE (fdiv rest (qp_quantity p)) (\<lambda>ratio.
        Inr (s'\<lparr>pa_position := Some (p\<lparr> qp_quantity := rest, qp_margin := fmul (qp_margin p) ratio \<rparr>)\<rparr>))
      else Inr (s'\<lparr> pa_position := None, pa_entry_bar_ms := None, pa_exit_cumulative := Fin 0,
             pa_last_close := fill_price \<rparr>))"

definition updateP :: "(paper_account \<Rightarrow> paper_account res) \<Rightarrow> unit broker_call" where
  "updateP f s = (case f s of Inl e \<Rightarrow> (Inl e, s) | Inr s' \<Rightarrow> (Inr (), s'))"

text \<open>\<open>_close\<close> at a reference price. An exit of nothing returns no fill.\<close>

definition close_position ::
  "broker_setup \<Rightarrow> broker_position \<Rightarrow> float64 \<Rightarrow> fill_kind \<Rightarrow> int \<Rightarrow> liquidity_budget option \<Rightarrow> float64 option \<Rightarrow>
     paper_fill option broker_call" where
  "close_position x p reference kind t liquidity volume =
     bindP (liftP (close_order_id p kind)) (\<lambda>order_id.
     bindP (liftP (exit_quantity x (qp_quantity p) liquidity t)) (\<lambda>quantity.
     if fleq quantity (Fin 0) then returnP None
     else
       bindP (liftP (allocate_fill_quantity quantity order_id liquidity)) (\<lambda>_.
       bindP (liftP (slippage_for x t quantity volume)) (\<lambda>slippage.
       bindP (liftP (spec_at x t)) (\<lambda>evidence.
       let fill_price = (if is_costed (bu_profile x)
             then adjusted_price reference (opposite (qp_side p)) (adjustment_fraction x slippage) None
             else reference);
           gross = fmul (fmul (fsub fill_price (qp_entry_price p)) quantity) (side_sign (qp_side p)) in
       bindP (liftP (cost_of_exit x reference fill_price quantity slippage t)) (\<lambda>cost.
       bindP (record_cash t Trade_Pnl gross (qp_entry_client_order_id p) ''quote'' No_Evidence) (\<lambda>_.
       bindP (whenP (fc_fee cost \<noteq> Fin 0)
           (record_cash t Commission (fneg (fc_fee cost)) (qp_entry_client_order_id p)
              (case fc_application cost of None \<Rightarrow> ''quote'' | Some a \<Rightarrow> fp_currency a)
              (case fc_application cost of None \<Rightarrow> No_Evidence | Some a \<Rightarrow> Fee_Evidence a))) (\<lambda>_.
       bindP (getP (\<lambda>s. fadd (pa_exit_cumulative s) quantity)) (\<lambda>cumulative.
       bindP (updateP (reduce_position p quantity fill_price t)) (\<lambda>_.
       let f = close_fill_of p kind reference fill_price quantity gross cost slippage evidence order_id cumulative t in
       bindP (report_close f p) (\<lambda>_. returnP (Some f))))))))))))"

definition flatten_at :: "broker_setup \<Rightarrow> int \<Rightarrow> float64 \<Rightarrow> paper_fill option broker_call" where
  "flatten_at x t at_price =
     bindP (modifyP (\<lambda>s. s\<lparr>pa_pending := None\<rparr>)) (\<lambda>_.
     bindP (getP pa_position) (\<lambda>position.
     case position of
       None \<Rightarrow> returnP None
     | Some p \<Rightarrow> close_position x p at_price Manual_Close t None None))"

text \<open>\<open>flatten(symbol, session_id)\<close>; without a fill its price is read from \<open>None\<close>.\<close>

definition flatten_session :: "broker_setup \<Rightarrow> string \<Rightarrow> (paper_ack \<times> float64) option broker_call" where
  "flatten_session x session =
     bindP (modifyP (\<lambda>s. s\<lparr>pa_pending := None\<rparr>)) (\<lambda>_.
     bindP (getP id) (\<lambda>s.
     case pa_position s of
       None \<Rightarrow> returnP None
     | Some p \<Rightarrow>
         bindP (close_position x p (pa_last_close s) Manual_Close (pa_last_timestamp_ms s) None None) (\<lambda>f.
         case f of
           None \<Rightarrow> raiseP AttributeError
         | Some f \<Rightarrow> returnP (Some (\<lparr> ka_session_id = session, ka_client_order_id = ''paper-flatten-'' @ session,
             ka_status = ''filled'', ka_refusal = None \<rparr>, pl_price f)))))"

section \<open>Protective orders\<close>

definition normalized_leg :: "instrument_spec \<Rightarrow> broker_position \<Rightarrow> float64 \<Rightarrow> float64 \<Rightarrow> float64 res" where
  "normalized_leg spec p last_close leg_price =
     bindE (normalize_order spec (opposite (qp_side p)) ''stop'' (decimal_of (qp_quantity p)) (decimal_of leg_price)
       (Some (decimal_of last_close))) (\<lambda>n. Inr (to_float (no_price n)))"

definition modify_protection :: "broker_setup \<Rightarrow> float64 option \<Rightarrow> float64 option \<Rightarrow> unit broker_call" where
  "modify_protection x new_stop new_target =
     bindP (getP id) (\<lambda>s.
     case pa_position s of
       None \<Rightarrow> raiseP (ValueError ''no active protection to modify'')
     | Some p \<Rightarrow>
         let stop = (case new_stop of None \<Rightarrow> qp_stop_price p | Some v \<Rightarrow> v);
             target = (case new_target of None \<Rightarrow> qp_target_price p | Some v \<Rightarrow> v) in
         bindP (liftP (if bu_specs x = [] then Inr (stop, target)
             else
               bindE (select_instrument_spec (bu_specs x) (pa_last_timestamp_ms s)) (\<lambda>spec.
               bindE (normalized_leg spec p (pa_last_close s) stop) (\<lambda>a.
               bindE (normalized_leg spec p (pa_last_close s) target) (\<lambda>b. Inr (a, b)))))) (\<lambda>(stop', target').
         bindP (liftP (validate_protection_update (qp_side p) (qp_stop_price p) stop' target')) (\<lambda>_.
         modifyP (\<lambda>s. s\<lparr> pa_position := Some (p\<lparr> qp_stop_price := stop', qp_target_price := target' \<rparr>),
           pa_pending := map_option (\<lambda>od. od\<lparr> qo_stop_price := stop', qo_target_price := target' \<rparr>) (pa_pending s) \<rparr>))))"

definition modify_stop :: "broker_setup \<Rightarrow> float64 \<Rightarrow> unit broker_call" where
  "modify_stop x new_stop =
     bindP (getP pa_position) (\<lambda>p. whenP (p \<noteq> None) (modify_protection x (Some new_stop) None))"

record protection_request =
  pr_session_id :: string
  pr_entry_client_order_id :: string
  pr_stop_client_order_id :: string
  pr_target_client_order_id :: string
  pr_symbol :: string
  pr_side :: order_side
  pr_quantity :: float64
  pr_stop_price :: float64
  pr_target_price :: float64
  pr_target :: string
  pr_reduce_only :: bool

definition protection_reference :: "paper_account \<Rightarrow> broker_position option" where
  "protection_reference s = (case pa_deferred_exit s of Some (_, p, _) \<Rightarrow> Some p | None \<Rightarrow> pa_position s)"

text \<open>The prices of a request, once its identity and quantity agree with the position.\<close>

definition protection_prices_check :: "broker_position \<Rightarrow> protection_request \<Rightarrow> unit res" where
  "protection_prices_check p i =
     (if pr_stop_price i = qp_stop_price p \<and> pr_target_price i = qp_target_price p then Inr ()
      else if qp_stop_client_order_id p \<noteq> [] \<and> qp_target_client_order_id p \<noteq> []
      then validate_protection_update (qp_side p) (qp_stop_price p) (pr_stop_price i) (pr_target_price i)
      else if pr_side i = Buy_Side then
        if fless (pr_stop_price i) (qp_stop_price p)
        then Inl (ValueError ''invalid protective order: stop must not increase position risk'')
        else ensure (fless (pr_stop_price i) (qp_entry_price p) \<and> fless (qp_entry_price p) (pr_target_price i))
               (ValueError ''invalid protective order: long protection must satisfy stop < entry < target'')
      else
        if fless (qp_stop_price p) (pr_stop_price i)
        then Inl (ValueError ''invalid protective order: stop must not increase position risk'')
        else ensure (fless (pr_target_price i) (qp_entry_price p) \<and> fless (qp_entry_price p) (pr_stop_price i))
               (ValueError ''invalid protective order: short protection must satisfy target < entry < stop''))"

definition validate_protection_intent :: "paper_account \<Rightarrow> protection_request \<Rightarrow> broker_position res" where
  "validate_protection_intent s i =
     (case protection_reference s of
        None \<Rightarrow> Inl (ValueError ''invalid protective order: no position to protect'')
      | Some p \<Rightarrow>
          if pr_target i \<noteq> ''paper''
          then Inl (ValueError ''invalid protective order: target does not match the broker'')
          else if pr_side i \<noteq> qp_side p
          then Inl (ValueError ''invalid protective order: side does not match the position'')
          else if \<not> pr_reduce_only i then Inl (ValueError ''invalid protective order: reduce_only must be true'')
          else if [] \<in> {pr_session_id i, pr_entry_client_order_id i, pr_stop_client_order_id i,
                 pr_target_client_order_id i, pr_symbol i} \<or>
               \<not> distinct [pr_entry_client_order_id i, pr_stop_client_order_id i, pr_target_client_order_id i]
          then Inl (ValueError ''invalid protective order: identifiers and symbol are required and unique'')
          else if qp_session_id p \<noteq> [] \<and> pr_session_id i \<noteq> qp_session_id p
          then Inl (ValueError ''invalid protective order: session does not match the position'')
          else if qp_entry_client_order_id p \<noteq> [] \<and> pr_entry_client_order_id i \<noteq> qp_entry_client_order_id p
          then Inl (ValueError ''invalid protective order: entry does not match the position'')
          else if qp_symbol p \<noteq> [] \<and> pr_symbol i \<noteq> qp_symbol p
          then Inl (ValueError ''invalid protective order: symbol does not match the position'')
          else if \<not> list_all positive_float [pr_quantity i, pr_stop_price i, pr_target_price i]
          then Inl (ValueError ''invalid protective order: prices and quantity must be positive and finite'')
          else if pr_quantity i \<noteq> qp_quantity p
          then Inl (ValueError ''invalid protective order: quantity does not match the position'')
          else bindE (protection_prices_check p i) (\<lambda>_. Inr p))"

definition report_deferred_exit :: "protection_request \<Rightarrow> unit broker_call" where
  "report_deferred_exit i =
     bindP (getP pa_deferred_exit) (\<lambda>deferred.
     case deferred of
       None \<Rightarrow> returnP ()
     | Some (f, p, role) \<Rightarrow>
         if qp_session_id p \<noteq> pr_session_id i \<or> qp_entry_client_order_id p \<noteq> pr_entry_client_order_id i
         then returnP ()
         else
           bindP (report_fill f (pr_session_id i)
               (if role = Stop_Role then pr_stop_client_order_id i else pr_target_client_order_id i)
               (pr_symbol i) role) (\<lambda>_.
           modifyP (\<lambda>s. s\<lparr>pa_deferred_exit := None\<rparr>)))"

definition place_paper_protection :: "protection_request \<Rightarrow> paper_ack list broker_call" where
  "place_paper_protection i =
     bindP (getP id) (\<lambda>s.
     bindP (liftP (validate_protection_intent s i)) (\<lambda>_.
     bindP (modifyP (\<lambda>s. s\<lparr> pa_position := map_option (\<lambda>p. p\<lparr> qp_stop_price := pr_stop_price i,
         qp_target_price := pr_target_price i, qp_session_id := pr_session_id i,
         qp_entry_client_order_id := pr_entry_client_order_id i, qp_symbol := pr_symbol i,
         qp_stop_client_order_id := pr_stop_client_order_id i,
         qp_target_client_order_id := pr_target_client_order_id i \<rparr>) (pa_position s) \<rparr>)) (\<lambda>_.
     bindP (report_deferred_exit i) (\<lambda>_.
     returnP [\<lparr> ka_session_id = pr_session_id i, ka_client_order_id = pr_stop_client_order_id i,
         ka_status = ''accepted'', ka_refusal = None \<rparr>,
       \<lparr> ka_session_id = pr_session_id i, ka_client_order_id = pr_target_client_order_id i,
         ka_status = ''accepted'', ka_refusal = None \<rparr>]))))"

section \<open>Reports\<close>

definition poll_fills :: "string \<Rightarrow> fill_report list broker_call" where
  "poll_fills session =
     bindP (getP (\<lambda>s. filter (\<lambda>f. fr_session_id f = session) (pa_fill_events s))) (\<lambda>fills.
     bindP (modifyP (\<lambda>s. s\<lparr>pa_fill_events := filter (\<lambda>f. fr_session_id f \<noteq> session) (pa_fill_events s)\<rparr>)) (\<lambda>_.
     returnP fills))"

definition cancel_all :: "string \<Rightarrow> paper_ack list broker_call" where
  "cancel_all session =
     bindP (getP pa_pending) (\<lambda>pending.
     bindP (modifyP (\<lambda>s. s\<lparr>pa_pending := None\<rparr>)) (\<lambda>_.
     returnP [\<lparr> ka_session_id = session, ka_client_order_id = ''paper-cancel-'' @ session,
       ka_status = (if pending \<noteq> None then ''canceled'' else ''accepted''), ka_refusal = None \<rparr>]))"

record open_order =
  oo_ack :: paper_ack
  oo_remaining :: float64
  oo_cumulative :: float64
  oo_requested :: float64

record broker_report =
  rp_session_id :: string
  rp_open_orders :: "open_order list"
  rp_fills :: "fill_report list"
  rp_positions :: "broker_position list"
  rp_ledger_balanced :: bool
  rp_execution_model :: string

definition reconcile_broker :: "broker_setup \<Rightarrow> string \<Rightarrow> broker_report broker_call" where
  "reconcile_broker x session =
     bindP (getP id) (\<lambda>s.
     bindP (liftP (reconcile_ledger x s)) (\<lambda>r.
     returnP \<lparr> rp_session_id = session,
       rp_open_orders = map (\<lambda>od. \<lparr> oo_ack = \<lparr> ka_session_id = session, ka_client_order_id = qo_client_order_id od,
           ka_status = (if qo_cumulative_quantity od \<noteq> Fin 0 then ''partial'' else ''accepted''), ka_refusal = None \<rparr>,
           oo_remaining = qo_quantity od, oo_cumulative = qo_cumulative_quantity od,
           oo_requested = qo_requested_quantity od \<rparr>)
         (filter (\<lambda>od. qo_session_id od = session) (some_of (pa_pending s))),
       rp_fills = filter (\<lambda>f. fr_session_id f = session) (pa_fill_events s),
       rp_positions = filter (\<lambda>p. qp_session_id p = session) (some_of (pa_position s)),
       rp_ledger_balanced = lr_balanced r,
       rp_execution_model = (case bu_proxy x of None \<Rightarrow> ''fixed_ohlcv_proxy'' | Some p \<Rightarrow> model_label p) \<rparr>))"

end
