(* ===== verification/Broker_Bars.thy ===== *)
theory Broker_Bars
  imports Broker_Fills
begin

text \<open>
  A bar of the simulated broker, \<open>process_bar\<close> of \<open>src/koval/engine/paper_broker.py\<close>, in the order of
  the source: funding, liquidation, the working protection, the pending entry, and the protection
  of an entry that has just filled.
\<close>

section \<open>Bars\<close>

record ohlc =
  oh_open :: float64
  oh_high :: float64
  oh_low :: float64
  oh_close :: float64
  oh_volume :: "float64 option"

definition liquidity_for :: "broker_setup \<Rightarrow> int \<Rightarrow> float64 option \<Rightarrow> liquidity_budget option res" where
  "liquidity_for x t volume =
     (case bu_proxy x of
        None \<Rightarrow> Inr None
      | Some p \<Rightarrow>
          (case volume of
             Some v \<Rightarrow>
               if \<not> is_finite v \<or> fless v (Fin 0)
               then Inl (ValueError ''execution proxy requires finite non-negative bar volume'')
               else bindE (new_liquidity_budget t (decimal_of v) (px_participation p)) (\<lambda>b. Inr (Some b))
           | None \<Rightarrow> Inl (ValueError ''execution proxy requires finite non-negative bar volume'')))"

section \<open>Funding\<close>

definition settle_record :: "funding_record \<Rightarrow> unit broker_call" where
  "settle_record r =
     bindP (modifyP (\<lambda>s. s\<lparr> pa_funding_cursor := pa_funding_cursor s + 1,
         pa_last_funding_ms := Some (fg_settlement_ms r) \<rparr>)) (\<lambda>_.
     bindP (getP pa_position) (\<lambda>position.
     case position of
       None \<Rightarrow> returnP ()
     | Some p \<Rightarrow>
         bindP (liftP (funding_cashflow (qp_side p) (decimal_of (qp_quantity p)) (fg_rate r) (fg_mark_price r))) (\<lambda>amount.
         record_cash (fg_settlement_ms r) Funding (to_float amount) (''funding-'' @ int_text (fg_settlement_ms r))
           ''quote'' (Funding_Evidence (fg_rate r) (fg_mark_price r) (fg_source r)))))"

fun settle_records :: "int \<Rightarrow> funding_record list \<Rightarrow> unit broker_call" where
  "settle_records t [] = returnP ()"
| "settle_records t (r # rs) =
     (if t < fg_settlement_ms r then returnP ()
      else bindP (settle_record r) (\<lambda>_. settle_records t rs))"

definition settle_funding :: "broker_setup \<Rightarrow> int \<Rightarrow> unit broker_call" where
  "settle_funding x t =
     (case bu_funding x of
        None \<Rightarrow> returnP ()
      | Some f \<Rightarrow>
          if \<not> (fn_start_ms f \<le> t \<and> t \<le> fn_end_ms f)
          then raiseP (ValueError ''funding evidence does not cover the bar timestamp'')
          else bindP (getP pa_funding_cursor) (\<lambda>k. settle_records t (drop k (fn_records f))))"

section \<open>Liquidation\<close>

definition liquidation_fill :: "broker_position \<Rightarrow> instrument_spec \<Rightarrow> float64 \<Rightarrow> float64 \<Rightarrow> float64 \<Rightarrow> int \<Rightarrow> paper_fill" where
  "liquidation_fill p spec fill_price gross fee t =
     \<lparr> pl_kind = Liquidation, pl_side = qp_side p, pl_price = fill_price, pl_quantity = qp_quantity p,
       pl_timestamp_ms = t, pl_realized_pnl = fsub gross fee, pl_commission = Fin 0, pl_reference_price = fill_price,
       pl_spread_cost = Fin 0, pl_slippage_cost = Fin 0, pl_margin = Fin 0,
       pl_fee = Some \<lparr> fk_liquidity_role = None, fk_rate_bps = None, fk_currency = ns_collateral_currency spec,
         fk_evidence_id = ns_evidence_id spec, fk_evidence_status = ns_evidence_status spec,
         fk_discount_treatment = None, fk_tier_id = None \<rparr>,
       pl_instrument_evidence_id = Some (ns_evidence_id spec), pl_liquidation_fee = fee, pl_status = ''filled'',
       pl_cumulative_quantity = None, pl_order_id = [], pl_execution_model = None, pl_impact_evidence_id = None,
       pl_timeline = None \<rparr>"

definition liquidate :: "broker_position \<Rightarrow> instrument_spec \<Rightarrow> mark_record \<Rightarrow> liquidation_state \<Rightarrow> int \<Rightarrow> paper_fill broker_call" where
  "liquidate p spec mark state t =
     (let fill_price = to_float (mk_price mark);
          gross = fmul (fmul (fsub fill_price (qp_entry_price p)) (qp_quantity p)) (side_sign (qp_side p));
          fee = to_float (qrnd (qmul (lq_notional state) (ns_liquidation_fee_bps spec) / 10000)) in
      bindP (record_cash t Trade_Pnl gross (qp_entry_client_order_id p) ''quote''
        (Liquidation_Evidence (ns_evidence_id spec) (ns_evidence_status spec) (ns_source spec) (mk_source mark)
           (lq_maintenance state))) (\<lambda>_.
      bindP (record_cash t Liquidation_Fee (fneg fee) (qp_entry_client_order_id p) (ns_collateral_currency spec)
        (Liquidation_Fee_Evidence (ns_evidence_id spec) (ns_evidence_status spec) (ns_source spec) (mk_source mark)
           (lq_maintenance state) (ns_liquidation_fee_bps spec))) (\<lambda>_.
      bindP (modifyP (\<lambda>s. s\<lparr> pa_position := None, pa_entry_bar_ms := None, pa_last_close := fill_price,
        pa_last_timestamp_ms := t \<rparr>)) (\<lambda>_.
      let f = liquidation_fill p spec fill_price gross fee t in
      bindP (report_close f p) (\<lambda>_. returnP f)))))"

definition liquidation_due ::
  "broker_setup \<Rightarrow> paper_account \<Rightarrow> int \<Rightarrow> (broker_position \<times> instrument_spec \<times> mark_record \<times> liquidation_state) option res" where
  "liquidation_due x s t =
     (case (pa_position s, bu_mark_prices x) of
        (Some p, Some marks) \<Rightarrow>
          (case mark_at marks t of
             None \<Rightarrow> Inl (ValueError ''no mark price evidence for open position'')
           | Some mark \<Rightarrow>
               bindE (select_instrument_spec (bu_specs x) t) (\<lambda>spec.
               bindE (evaluate_liquidation spec (qp_side p) (decimal_of (qp_quantity p)) (decimal_of (qp_entry_price p))
                   (decimal_of (balance x s)) (mk_price mark)) (\<lambda>state.
               Inr (if lq_liquidated state then Some (p, spec, mark, state) else None))))
      | _ \<Rightarrow> Inr None)"

definition liquidate_if_required :: "broker_setup \<Rightarrow> int \<Rightarrow> paper_fill option broker_call" where
  "liquidate_if_required x t =
     bindP (getP id) (\<lambda>s.
     bindP (liftP (liquidation_due x s t)) (\<lambda>due.
     case due of
       None \<Rightarrow> returnP None
     | Some (p, spec, mark, state) \<Rightarrow> bindP (liquidate p spec mark state t) (\<lambda>f. returnP (Some f))))"

section \<open>Protective exits\<close>

text \<open>
  The exit of a bar: its kind, its reference price, and whether both levels were touched. A gap at
  the open is seen first, the stop before the target.
\<close>

definition exit_hit :: "broker_position \<Rightarrow> ohlc \<Rightarrow> bool \<Rightarrow> (fill_kind \<times> float64) option \<times> bool" where
  "exit_hit p b gap =
     (let long = (qp_side p = Buy_Side);
          stop = qp_stop_price p; target = qp_target_price p in
      if gap \<and> (if long then fleq (oh_open b) stop else fleq stop (oh_open b))
      then (Some (Stop_Loss, oh_open b), False)
      else if gap \<and> (if long then fleq target (oh_open b) else fleq (oh_open b) target)
      then (Some (Take_Profit, oh_open b), False)
      else
        let hit_sl = (if long then fleq (oh_low b) stop else fleq stop (oh_high b));
            hit_tp = (if long then fleq target (oh_high b) else fleq (oh_low b) target) in
        (if hit_sl then Some (Stop_Loss, stop) else if hit_tp then Some (Take_Profit, target) else None,
         hit_sl \<and> hit_tp))"

definition exit_cross ::
  "broker_setup \<Rightarrow> int \<Rightarrow> ohlc \<Rightarrow> bool \<Rightarrow> liquidity_budget option \<Rightarrow> paper_fill option broker_call" where
  "exit_cross x t b gap liquidity =
     bindP (getP pa_position) (\<lambda>position.
     case position of
       None \<Rightarrow> returnP None
     | Some p \<Rightarrow>
         if (case qp_active_ms p of None \<Rightarrow> False | Some a \<Rightarrow> t < a) then returnP None
         else
           let (hit, both) = exit_hit p b gap in
           bindP (whenP (both \<and> stop_first (bu_profile x))
             (modifyP (\<lambda>s. s\<lparr>pa_ambiguities := pa_ambiguities s @ [t]\<rparr>))) (\<lambda>_.
           case hit of
             None \<Rightarrow> returnP None
           | Some (kind, reference) \<Rightarrow> close_position x p reference kind t liquidity (oh_volume b)))"

definition working_exit :: "broker_setup \<Rightarrow> int \<Rightarrow> ohlc \<Rightarrow> liquidity_budget option \<Rightarrow> paper_fill option broker_call" where
  "working_exit x t b liquidity =
     bindP (getP id) (\<lambda>s.
     if pa_position s = None \<or> (delays_protection (bu_profile x) \<and> pa_entry_bar_ms s = Some t) then returnP None
     else exit_cross x t b True liquidity)"

section \<open>Entries\<close>

definition entry_cross :: "pending_order \<Rightarrow> ohlc \<Rightarrow> float64 option" where
  "entry_cross od b =
     (let long = (qo_side od = Buy_Side); level = qo_entry_price od in
      if qo_order_type od \<in> limit_types then
        if (if long then fleq (oh_open b) level else fleq level (oh_open b)) then Some (oh_open b)
        else if fleq (oh_low b) level \<and> fleq level (oh_high b) then Some level else None
      else if qo_order_type od \<in> stop_types then
        if (if long then fleq level (oh_open b) else fleq (oh_open b) level) then Some (oh_open b)
        else if (if long then fleq level (oh_high b) else fleq (oh_low b) level) then Some level else None
      else None)"

definition matched_price :: "broker_setup \<Rightarrow> pending_order \<Rightarrow> ohlc \<Rightarrow> float64 option" where
  "matched_price x od b =
     (if qo_order_type od \<in> market_types \<and> is_costed (bu_profile x) then Some (oh_open b) else entry_cross od b)"

definition normalize_pending_order :: "pending_order \<Rightarrow> instrument_spec \<Rightarrow> float64 \<Rightarrow> pending_order res" where
  "normalize_pending_order od spec reference =
     (if qo_symbol od \<noteq> [] \<and> plain_symbol (qo_symbol od) \<noteq> ns_canonical_symbol spec
      then Inl (ValueError ''order symbol does not match instrument evidence'')
      else
        let ref = Some (decimal_of reference); closing = opposite (qo_side od) in
        bindE (normalize_order spec (qo_side od) (qo_order_type od) (decimal_of (qo_quantity od))
            (decimal_of (qo_entry_price od)) ref) (\<lambda>e.
        bindE (normalize_order spec closing ''stop'' (Fin (no_quantity e)) (decimal_of (qo_stop_price od)) ref) (\<lambda>st.
        bindE (normalize_order spec closing ''stop'' (Fin (no_quantity e)) (decimal_of (qo_target_price od)) ref) (\<lambda>tg.
        Inr (od\<lparr> qo_entry_price := to_float (no_price e), qo_stop_price := to_float (no_price st),
               qo_target_price := to_float (no_price tg), qo_quantity := to_float (no_quantity e) \<rparr>)))))"

definition normalize_fill :: "pending_order \<Rightarrow> float64 \<Rightarrow> instrument_spec \<Rightarrow> (pending_order \<times> float64) res" where
  "normalize_fill od fill_price spec =
     bindE (normalize_order spec (qo_side od) (qo_order_type od) (decimal_of (qo_quantity od))
       (decimal_of fill_price) None) (\<lambda>n.
     Inr (od\<lparr>qo_quantity := to_float (no_quantity n)\<rparr>, to_float (no_price n)))"

text \<open>What is left of the risk budget of an order after the position it adds to.\<close>

definition open_risk :: "broker_setup \<Rightarrow> broker_position \<Rightarrow> float64 \<Rightarrow> float64" where
  "open_risk x p fraction =
     (let stop_fill = adjusted_price (qp_stop_price p) (opposite (qp_side p)) fraction None in
      fadd (fadd (fmul (fabs (fsub (qp_entry_price p) stop_fill)) (qp_quantity p)) (qp_entry_commission p))
        (commission (qp_quantity p) stop_fill (fee_rate x Taker)))"

definition risk_adjusted_order ::
  "broker_setup \<Rightarrow> pending_order \<Rightarrow> float64 \<Rightarrow> liquidity_role \<Rightarrow> float64 \<Rightarrow> broker_position option \<Rightarrow> pending_order res" where
  "risk_adjusted_order x od fill_price role fraction position =
     (case qo_risk_budget od of
        None \<Rightarrow> Inr od
      | Some budget \<Rightarrow>
          if \<not> stop_first (bu_profile x) then Inr od
          else
            let left_over = (case position of None \<Rightarrow> budget | Some p \<Rightarrow> fsub budget (open_risk x p fraction));
                reference = (case position of None \<Rightarrow> qo_stop_price od | Some p \<Rightarrow> qp_stop_price p) in
            bindE (max_quantity_for_stop_risk (fmax (Fin 0) left_over) fill_price reference (qo_side od) fraction
              (fee_rate x role) (fee_rate x Taker)) (\<lambda>q.
            Inr (od\<lparr>qo_quantity := fmin (qo_quantity od) q\<rparr>)))"

definition rejectP :: "refusal \<Rightarrow> 'a option broker_call" where
  "rejectP why = bindP (modifyP (\<lambda>s. s\<lparr> pa_pending := None, pa_entry_rejection := Some why \<rparr>)) (\<lambda>_. returnP None)"

text \<open>\<open>try: ... except ValueError\<close> around a computation whose failure rejects the entry.\<close>

definition or_rejectP :: "'a res \<Rightarrow> 'a option broker_call" where
  "or_rejectP r =
     (case r of
        Inr v \<Rightarrow> returnP (Some v)
      | Inl e \<Rightarrow> if is_value_error e then rejectP (Instrument_Constraint (error_text e)) else raiseP e)"

definition fitted_order ::
  "broker_setup \<Rightarrow> pending_order \<Rightarrow> int \<Rightarrow> ohlc \<Rightarrow> (pending_order \<times> instrument_spec option) option broker_call" where
  "fitted_order x od t b =
     (if bu_specs x = [] then returnP (Some (od, None))
      else or_rejectP
        (bindE (select_instrument_spec (bu_specs x) t) (\<lambda>spec.
         bindE (normalize_pending_order od spec (oh_open b)) (\<lambda>od'. Inr (od', Some spec)))))"

text \<open>The order, the price and the quantity of a costed entry, fitted to the instrument a second time.\<close>

definition fitted_fill ::
  "pending_order \<Rightarrow> float64 \<Rightarrow> float64 \<Rightarrow> instrument_spec option \<Rightarrow> (pending_order \<times> float64 \<times> float64) option broker_call" where
  "fitted_fill od fill_price quantity spec =
     (case spec of
        None \<Rightarrow> returnP (Some (od, fill_price, quantity))
      | Some s \<Rightarrow> or_rejectP
          (bindE (normalize_fill od fill_price s) (\<lambda>(od', price').
           bindE (normalize_fill (od'\<lparr>qo_quantity := fmin quantity (qo_quantity od')\<rparr>) price' s) (\<lambda>(n, _).
           Inr (od', price', qo_quantity n)))))"

definition costed_entry ::
  "broker_setup \<Rightarrow> pending_order \<Rightarrow> float64 \<Rightarrow> float64 \<Rightarrow> liquidity_role \<Rightarrow> slippage_resolution \<Rightarrow> instrument_spec option \<Rightarrow>
     (pending_order \<times> float64 \<times> float64) option broker_call" where
  "costed_entry x od matched quantity role slippage spec =
     (let fraction = adjustment_fraction x slippage;
          limit = (if qo_order_type od \<in> limit_types then Some (qo_entry_price od) else None);
          adjusted = adjusted_price matched (qo_side od) fraction limit in
      bindP (liftP (case spec of None \<Rightarrow> Inr (od, adjusted) | Some s \<Rightarrow> normalize_fill od adjusted s)) (\<lambda>(od1, price1).
      bindP (getP pa_position) (\<lambda>position.
      bindP (liftP (risk_adjusted_order x od1 price1 role fraction position)) (\<lambda>od2.
      let quantity2 = fmin quantity (qo_quantity od2) in
      if fleq quantity2 (Fin 0) then
        bindP (modifyP (\<lambda>s. s\<lparr> pa_pending := None,
          pa_entry_rejection := (if pa_position s = None then Some Risk_Budget_Exhausted else pa_entry_rejection s) \<rparr>)) (\<lambda>_.
        returnP None)
      else
        bindP (fitted_fill od2 price1 quantity2 spec) (\<lambda>fitted.
        case fitted of
          None \<Rightarrow> returnP None
        | Some (od3, price3, quantity3) \<Rightarrow>
            bindP (getP id) (\<lambda>s.
            bindP (liftP (affordability_error x s quantity3 price3 role (Some matched))) (\<lambda>why.
            case why of
              Some w \<Rightarrow> rejectP w
            | None \<Rightarrow> returnP (Some (od3, price3, quantity3)))))))))"

text \<open>An entry that fills on this bar: how, at which price, and how much of it.\<close>

record entry_plan =
  ep_order :: pending_order
  ep_matched :: float64
  ep_price :: float64
  ep_quantity :: float64
  ep_role :: liquidity_role
  ep_slippage :: slippage_resolution

definition planned_entry ::
  "broker_setup \<Rightarrow> pending_order \<Rightarrow> instrument_spec option \<Rightarrow> int \<Rightarrow> ohlc \<Rightarrow> liquidity_budget option \<Rightarrow> entry_plan option broker_call" where
  "planned_entry x od spec t b liquidity =
     (case matched_price x od b of
        None \<Rightarrow> returnP None
      | Some matched \<Rightarrow>
          let role = role_of_type (qo_order_type od);
              quantity = budget_quantity (qo_quantity od) liquidity in
          if fleq quantity (Fin 0) then returnP None
          else
            bindP (liftP (slippage_for x (case qo_timeline od of None \<Rightarrow> t | Some l \<Rightarrow> tl_decision_ms l)
              quantity (oh_volume b))) (\<lambda>slippage.
            bindP (if is_costed (bu_profile x) then costed_entry x od matched quantity role slippage spec
                   else returnP (Some (od, matched, quantity))) (\<lambda>costed.
            returnP (map_option (\<lambda>(od', at_price, quantity'). \<lparr> ep_order = od', ep_matched = matched,
              ep_price = at_price, ep_quantity = quantity', ep_role = role, ep_slippage = slippage \<rparr>) costed))))"

definition protection_breach :: "paper_fill \<Rightarrow> pending_order \<Rightarrow> fill_kind option" where
  "protection_breach f od =
     (if qo_side od = Buy_Side then
        if fleq (pl_price f) (qo_stop_price od) then Some Stop_Loss
        else if fleq (qo_target_price od) (pl_price f) then Some Take_Profit else None
      else
        if fleq (qo_stop_price od) (pl_price f) then Some Stop_Loss
        else if fleq (pl_price f) (qo_target_price od) then Some Take_Profit else None)"

text \<open>The protection of an entry on its own bar: first a fill beyond its bracket, then the bar.\<close>

definition breach_exit ::
  "broker_setup \<Rightarrow> paper_fill \<Rightarrow> pending_order \<Rightarrow> float64 \<Rightarrow> int \<Rightarrow> ohlc \<Rightarrow> liquidity_budget option \<Rightarrow> paper_fill option broker_call" where
  "breach_exit x f od matched t b liquidity =
     bindP (getP pa_position) (\<lambda>position.
     case (protection_breach f od, position) of
       (Some kind, Some p) \<Rightarrow> close_position x p matched kind t liquidity (oh_volume b)
     | _ \<Rightarrow> returnP None)"

definition protection_live :: "pending_order \<Rightarrow> int \<Rightarrow> bool res" where
  "protection_live od t =
     (case qo_timeline od of
        None \<Rightarrow> Inr True
      | Some l \<Rightarrow> (case tl_active_ms l of None \<Rightarrow> Inl TypeError | Some a \<Rightarrow> Inr (a \<le> t)))"

definition entry_bar_exit ::
  "broker_setup \<Rightarrow> paper_fill \<Rightarrow> pending_order \<Rightarrow> float64 \<Rightarrow> int \<Rightarrow> ohlc \<Rightarrow> liquidity_budget option \<Rightarrow> paper_fill option broker_call" where
  "entry_bar_exit x f od matched t b liquidity =
     bindP (breach_exit x f od matched t b liquidity) (\<lambda>breached.
     case breached of
       Some e \<Rightarrow> returnP (Some e)
     | None \<Rightarrow>
         bindP (getP pa_position) (\<lambda>position.
         if position = None then returnP None
         else
           bindP (liftP (protection_live od t)) (\<lambda>live.
           if live then exit_cross x t b False liquidity else returnP None)))"

definition fill_entry :: "broker_setup \<Rightarrow> entry_plan \<Rightarrow> int \<Rightarrow> ohlc \<Rightarrow> liquidity_budget option \<Rightarrow> paper_fill list broker_call" where
  "fill_entry x e t b liquidity =
     bindP (liftP (allocate_fill_quantity (ep_quantity e)
       (if qo_client_order_id (ep_order e) = [] then ''paper-entry'' else qo_client_order_id (ep_order e)) liquidity)) (\<lambda>liquidity'.
     bindP (open_fill x (ep_order e) (ep_matched e) (ep_price e) t (ep_role e) (ep_quantity e) (Some (ep_slippage e))) (\<lambda>(f, od).
     bindP (modifyP (\<lambda>s. s\<lparr> pa_last_close := oh_close b, pa_last_timestamp_ms := t \<rparr>)) (\<lambda>_.
     if delays_protection (bu_profile x) then returnP [f]
     else
       bindP (entry_bar_exit x f od (ep_matched e) t b liquidity') (\<lambda>exit.
       case exit of
         None \<Rightarrow> returnP [f]
       | Some g \<Rightarrow> bindP (modifyP (\<lambda>s. s\<lparr>pa_pending := None\<rparr>)) (\<lambda>_. returnP [f, g])))))"

definition pending_entry :: "broker_setup \<Rightarrow> int \<Rightarrow> ohlc \<Rightarrow> liquidity_budget option \<Rightarrow> paper_fill list broker_call" where
  "pending_entry x t b liquidity =
     bindP (getP pa_pending) (\<lambda>pending.
     case pending of
       None \<Rightarrow> returnP []
     | Some od \<Rightarrow>
         if (case qo_timeline od of None \<Rightarrow> False | Some l \<Rightarrow> t < tl_fill_eligible_ms l) then returnP []
         else
           bindP (fitted_order x od t b) (\<lambda>fitted.
           case fitted of
             None \<Rightarrow> returnP []
           | Some (od', spec) \<Rightarrow>
               bindP (planned_entry x od' spec t b liquidity) (\<lambda>plan.
               case plan of None \<Rightarrow> returnP [] | Some e \<Rightarrow> fill_entry x e t b liquidity)))"

section \<open>The bar\<close>

definition process_bar :: "broker_setup \<Rightarrow> int \<Rightarrow> ohlc \<Rightarrow> paper_fill list broker_call" where
  "process_bar x t b =
     bindP (liftP (liquidity_for x t (oh_volume b))) (\<lambda>liquidity.
     bindP (settle_funding x t) (\<lambda>_.
     bindP (liquidate_if_required x t) (\<lambda>liquidation.
     case liquidation of
       Some f \<Rightarrow> bindP (modifyP (\<lambda>s. s\<lparr>pa_pending := None\<rparr>)) (\<lambda>_. returnP [f])
     | None \<Rightarrow>
         bindP (modifyP (\<lambda>s. s\<lparr> pa_last_close := oh_close b, pa_last_timestamp_ms := t \<rparr>)) (\<lambda>_.
         bindP (working_exit x t b liquidity) (\<lambda>exit.
         case exit of
           Some f \<Rightarrow> bindP (modifyP (\<lambda>s. s\<lparr>pa_pending := None\<rparr>)) (\<lambda>_. returnP [f])
         | None \<Rightarrow> pending_entry x t b liquidity)))))"

end
