(* ===== verification/Broker_Contract.thy ===== *)
theory Broker_Contract
  imports Broker_Bars "HOL-Library.Sublist"
begin

text \<open>
  What every call of the simulated broker keeps, whether it returns or raises. The locale
  \<open>account_relation\<close> is the contract of a relation between the account before and after a call: it
  has to hold of the primitive effects, which are booking an amount, reporting a fill, handing the
  reports over, settling funding, and everything that touches neither the ledger nor the reports.
  The calls of a host are the step relation \<open>broker_step\<close>.
\<close>

section \<open>Calls\<close>

inductive broker_step :: "broker_setup \<Rightarrow> paper_account \<Rightarrow> paper_account \<Rightarrow> bool" for x where
  "broker_step x s (snd (submit_bracket x r s))"
| "broker_step x s (snd (submit_entry x i s))"
| "broker_step x s (snd (fill_market_if_pending x t at_price s))"
| "broker_step x s (snd (process_bar x t b s))"
| "broker_step x s (snd (modify_protection x stop target s))"
| "broker_step x s (snd (modify_stop x stop s))"
| "broker_step x s (snd (place_paper_protection i s))"
| "broker_step x s (snd (flatten_at x t at_price s))"
| "broker_step x s (snd (flatten_session x session s))"
| "broker_step x s (snd (poll_fills session s))"
| "broker_step x s (snd (cancel_all session s))"
| "broker_step x s (snd (reconcile_broker x session s))"
| "broker_step x s (snd (consume_entry_rejection s))"

text \<open>The accounts that a new broker reaches.\<close>

definition broker_reaches :: "broker_setup \<Rightarrow> paper_account \<Rightarrow> paper_account \<Rightarrow> bool" where
  "broker_reaches x = (broker_step x)\<^sup>*\<^sup>*"

section \<open>Relations\<close>

text \<open>Two accounts with the same ledger, reports and funding cursor.\<close>

definition same_books :: "paper_account \<Rightarrow> paper_account \<Rightarrow> bool" where
  "same_books s t \<longleftrightarrow> pa_ledger t = pa_ledger s \<and> pa_fill_events t = pa_fill_events s \<and>
     pa_journaled_sequence t = pa_journaled_sequence s \<and> pa_funding_cursor t = pa_funding_cursor s"

locale account_relation = stable R for R :: "paper_account \<Rightarrow> paper_account \<Rightarrow> bool" +
  fixes x :: broker_setup
  assumes quiet: "same_books s t \<Longrightarrow> R s t"
    and cash: "kind \<noteq> Funding \<Longrightarrow> keeps R (record_cash n kind amount reference_id currency metadata)"
    and report: "keeps R (report_fill f session client symbol role)"
    and polled: "keeps R (poll_fills session)"
    and funded: "keeps R (settle_funding x n)"
begin

lemma quiet_modify: "(\<And>s. same_books s (f s)) \<Longrightarrow> keeps R (modifyP f)"
  by (rule keeps_modify) (rule quiet)

lemma quiet_update: "(\<And>s s'. f s = Inr s' \<Longrightarrow> same_books s s') \<Longrightarrow> keeps R (updateP f)"
  by (rule keepsI) (auto simp: updateP_def stable_refl quiet split: sum.split)

lemmas quiet_rules = quiet_modify [unfolded same_books_def]

lemma keeps_result: "(\<And>e. keeps R (f e)) \<Longrightarrow> (\<And>v. keeps R (g v)) \<Longrightarrow> keeps R (case r of Inl e \<Rightarrow> f e | Inr v \<Rightarrow> g v)"
  by (cases r) simp_all

lemma keeps_reject: "keeps R (rejectP why)" "keeps R (or_rejectP r)"
proof -
  show "keeps R (rejectP why)" for why :: refusal
    unfolding rejectP_def by (intro keeps_rules quiet_rules) simp
  then show "keeps R (or_rejectP r)"
    unfolding or_rejectP_def by (intro keeps_result keeps_rules)
qed

lemma keeps_report_close: "keeps R (report_close f p)"
  unfolding report_close_def Let_def by (intro keeps_rules report quiet_rules) simp

lemma keeps_open: "keeps R (open_fill x od reference fill_price t role quantity slippage)"
  unfolding open_fill_def Let_def by (intro keeps_rules cash report quiet_rules) simp_all

lemma keeps_close: "keeps R (close_position x p reference kind t liquidity volume)"
proof -
  have "keeps R (updateP (reduce_position p quantity fill_price t))" for quantity fill_price
    by (rule quiet_update) (auto simp: reduce_position_def same_books_def Let_def split: if_splits)
  then show ?thesis
    unfolding close_position_def Let_def by (intro keeps_rules cash keeps_report_close) simp_all
qed

lemma keeps_liquidation: "keeps R (liquidate_if_required x t)"
proof -
  have "keeps R (liquidate p spec mark state t)" for p spec mark state
    unfolding liquidate_def Let_def by (intro keeps_rules cash keeps_report_close quiet_rules) simp_all
  then show ?thesis unfolding liquidate_if_required_def by (intro keeps_rules)
qed

lemma keeps_exit: "keeps R (exit_cross x t b gap liquidity)"
  unfolding exit_cross_def Let_def by (intro keeps_rules keeps_close quiet_rules) simp_all

lemma keeps_planned: "keeps R (planned_entry x od spec t b liquidity)"
proof -
  have "keeps R (fitted_fill od at_price quantity spec)" for od at_price quantity spec
    unfolding fitted_fill_def by (intro keeps_rules keeps_reject)
  then have "keeps R (costed_entry x od matched quantity role slippage spec)" for od matched quantity role slippage spec
    unfolding costed_entry_def Let_def by (intro keeps_rules keeps_reject quiet_rules) simp_all
  then show ?thesis unfolding planned_entry_def Let_def by (intro keeps_rules)
qed

lemma keeps_fill_entry: "keeps R (fill_entry x e t b liquidity)"
  unfolding fill_entry_def entry_bar_exit_def breach_exit_def
  by (intro keeps_rules keeps_open keeps_exit keeps_close quiet_rules) simp_all

lemma keeps_bar: "keeps R (process_bar x t b)"
  unfolding process_bar_def working_exit_def pending_entry_def fitted_order_def
  by (intro keeps_rules funded keeps_liquidation keeps_exit keeps_planned keeps_fill_entry keeps_reject quiet_rules) simp_all

text \<open>Every call of a host.\<close>

lemma keeps_submit: "keeps R (submit_bracket x r)" "keeps R (submit_entry x i)"
proof -
  show "keeps R (submit_bracket x r)" for r
    by (rule keepsI) (auto simp: submit_bracket_def stable_refl intro!: quiet simp: same_books_def split: sum.split option.split)
  then show "keeps R (submit_entry x i)" unfolding submit_entry_def by (intro keeps_rules)
qed

lemma keeps_market: "keeps R (fill_market_if_pending x t at_price)"
  unfolding fill_market_if_pending_def by (intro keeps_rules keeps_open)

lemma keeps_protection:
  "keeps R (modify_protection x stop target)" "keeps R (modify_stop x new_stop)" "keeps R (place_paper_protection i)"
proof -
  show "keeps R (modify_protection x stop target)" for stop target
    unfolding modify_protection_def Let_def by (intro keeps_rules quiet_rules) simp_all
  then show "keeps R (modify_stop x new_stop)" unfolding modify_stop_def by (intro keeps_rules)
  show "keeps R (place_paper_protection i)"
    unfolding place_paper_protection_def report_deferred_exit_def by (intro keeps_rules report quiet_rules) simp_all
qed

lemma keeps_flatten: "keeps R (flatten_at x t at_price)" "keeps R (flatten_session x session)"
  unfolding flatten_at_def flatten_session_def by (intro keeps_rules keeps_close quiet_rules; simp)+

lemma keeps_reports: "keeps R (cancel_all session)" "keeps R (reconcile_broker x session)" "keeps R consume_entry_rejection"
  unfolding cancel_all_def reconcile_broker_def consume_entry_rejection_def by (intro keeps_rules quiet_rules; simp)+

lemma step_keeps: "broker_step x s t \<Longrightarrow> R s t"
  by (induction rule: broker_step.induct)
    (use keeps_submit keeps_market keeps_bar keeps_protection keeps_flatten polled keeps_reports in \<open>simp_all add: keeps_def\<close>)

lemma reaches_keeps: "broker_reaches x s t \<Longrightarrow> R s t"
  unfolding broker_reaches_def by (induction rule: rtranclp_induct) (auto intro: stable_refl stable_trans step_keeps)

end

text \<open>
  A relation that does not look at the funding cursor: booking any amount keeps it, so that settling
  funding does.
\<close>

definition same_entries :: "paper_account \<Rightarrow> paper_account \<Rightarrow> bool" where
  "same_entries s t \<longleftrightarrow> pa_ledger t = pa_ledger s \<and> pa_fill_events t = pa_fill_events s \<and>
     pa_journaled_sequence t = pa_journaled_sequence s"

locale bookkeeping = stable R for R :: "paper_account \<Rightarrow> paper_account \<Rightarrow> bool" +
  assumes untouched: "same_entries s t \<Longrightarrow> R s t"
    and booked: "keeps R (record_cash n kind amount reference_id currency metadata)"
    and reported: "keeps R (report_fill f session client symbol role)"
    and taken: "keeps R (poll_fills session)"
begin

lemma keeps_settle: "keeps R (settle_funding x n)"
proof -
  have "keeps R (settle_record r)" for r
    unfolding settle_record_def by (intro keeps_rules booked keeps_modify untouched) (simp add: same_entries_def)
  then have "keeps R (settle_records n rs)" for rs
    by (induction rs) (auto intro!: keeps_rules)
  then show ?thesis unfolding settle_funding_def by (intro keeps_rules)
qed

end

sublocale bookkeeping \<subseteq> account_relation R x for x
  by unfold_locales (use untouched booked reported taken keeps_settle in \<open>auto simp: same_books_def same_entries_def\<close>)

end
