(* ===== verification/Market_Schedule.thy ===== *)
theory Market_Schedule
  imports Market_Evidence
begin

text \<open>
  What the validated evidence guarantees: a complete funding series holds exactly the settlements of
  its schedule inside its window, and a complete mark-price series has a price at each of its times.
\<close>

section \<open>Progressions\<close>

lemma progression_nth:
  fixes ts :: "int list"
  assumes "successively (\<lambda>a b. b - a = i) ts" "k < length ts"
  shows "ts ! k = hd ts + int k * i"
  using assms
proof (induction ts arbitrary: k)
  case (Cons a ts)
  show ?case
  proof (cases k)
    case (Suc j)
    then have j: "j < length ts" using Cons.prems(2) by simp
    then obtain c cs where ts: "ts = c # cs" by (cases ts) auto
    have "ts ! j = hd ts + int j * i" using Cons.IH [OF _ j] Cons.prems(1) by (simp add: ts)
    moreover have "c = a + i" using Cons.prems(1) by (simp add: ts)
    ultimately show ?thesis using Suc by (simp add: ts algebra_simps)
  qed simp
qed simp

text \<open>The members of a progression that fills a window up to less than one step on both sides.\<close>

lemma progression_fills:
  fixes ts :: "int list"
  assumes p: "successively (\<lambda>a b. b - a = i) ts" "ts \<noteq> []" "0 < i"
    and w: "hd ts - lo < i" "hi - last ts < i" "lo \<le> t" "t \<le> hi" "(t - hd ts) mod i = 0"
  shows "t \<in> set ts"
proof -
  obtain m where m: "t - hd ts = i * m" using w(5) by (metis mod_0_imp_dvd dvdE)
  have l: "last ts = hd ts + (int (length ts) - 1) * i"
    using progression_nth [OF p(1), of "length ts - 1"] p(2) by (simp add: last_conv_nth of_nat_diff Suc_leI)
  have "i * (- 1) < i * m" using m w(1,3) by linarith
  then have "- 1 < m" using p(3) by (simp only: mult_less_cancel_left_pos)
  then have m0: "0 \<le> m" by simp
  have "i * m < i * int (length ts)" using m w(2,4) l by (simp add: algebra_simps)
  then have mn: "m < int (length ts)" using p(3) by (simp add: mult_less_cancel_left_pos)
  then have "ts ! nat m = t" using progression_nth [OF p(1), of "nat m"] m m0 by (simp add: algebra_simps nat_less_iff)
  then show ?thesis using mn m0 by (metis nat_less_iff nth_mem)
qed

section \<open>Funding\<close>

definition settlement_times :: "funding_series \<Rightarrow> int list" where
  "settlement_times s = map fg_settlement_ms (fn_records s)"

text \<open>The schedule of a series: that of its first record, or the declared one.\<close>

definition series_interval :: "funding_series \<Rightarrow> int" where
  "series_interval s =
     (case fn_records s of r # _ \<Rightarrow> fg_interval_ms r | [] \<Rightarrow> (case fn_interval_ms s of Some i \<Rightarrow> i | None \<Rightarrow> 0))"

definition series_anchor :: "funding_series \<Rightarrow> int" where
  "series_anchor s =
     (case fn_records s of r # _ \<Rightarrow> fg_settlement_ms r | [] \<Rightarrow> (case fn_anchor_ms s of Some a \<Rightarrow> a | None \<Rightarrow> 0))"

definition scheduled :: "funding_series \<Rightarrow> int \<Rightarrow> bool" where
  "scheduled s t \<longleftrightarrow> (t - series_anchor s) mod series_interval s = 0"

lemma validate_seriesD:
  assumes "validate_series s = Inr u"
  shows "fn_start_ms s \<le> fn_end_ms s" "successively (<) (settlement_times s)"
    "\<forall>t \<in> set (settlement_times s). fn_start_ms s \<le> t \<and> t \<le> fn_end_ms s"
    "fn_records s = [] \<Longrightarrow> fn_coverage_complete s \<Longrightarrow> empty_coverage_check s (fn_interval_ms s) = Inr ()"
    "fn_records s = [] \<Longrightarrow> fn_interval_ms s = Some i \<Longrightarrow> 0 < i"
    "fn_records s = r # rs \<Longrightarrow> fn_coverage_complete s \<Longrightarrow> coverage_check s (fg_interval_ms r) = Inr ()"
  using assms
  by (auto simp: validate_series_def Let_def settlement_times_def list_ex_iff split: if_splits option.splits list.splits)

lemma strictly_sorted: "validate_series s = Inr u \<Longrightarrow> sorted_wrt (<) (settlement_times s)"
  using validate_seriesD(2) by (simp add: successively_conv_sorted_wrt)

lemma empty_schedule:
  assumes "validate_series s = Inr u" "fn_coverage_complete s" "fn_records s = []"
    and "fn_start_ms s \<le> t" "t \<le> fn_end_ms s"
  shows "\<not> scheduled s t"
proof
  assume sch: "scheduled s t"
  obtain i a where i: "fn_interval_ms s = Some i" "fn_anchor_ms s = Some a" "fn_end_ms s - fn_start_ms s < i"
    "fn_end_ms s < fn_start_ms s + (a - fn_start_ms s) mod i"
    using validate_seriesD(4) [OF assms(1,3,2)]
    by (auto simp: empty_coverage_check_def split: option.splits if_splits)
  have "0 < i" using validate_seriesD(5) [OF assms(1,3) i(1)] .
  have "(t - a) mod i = 0" using sch assms(3) i(1,2) by (simp add: scheduled_def series_anchor_def series_interval_def)
  then have "(t - fn_start_ms s) mod i = (a - fn_start_ms s) mod i" by (simp add: mod_eq_dvd_iff mod_0_imp_dvd)
  moreover have "(t - fn_start_ms s) mod i = t - fn_start_ms s" using assms(4,5) i(3) by (simp add: mod_pos_pos_trivial)
  ultimately show False using i(4) assms(5) by linarith
qed

text \<open>
  C40: A funding series that passes validation as complete holds exactly the settlements of its
  schedule between its requested bounds: none is missing, none is invented.
\<close>

theorem complete_series_is_schedule:
  assumes "validate_series s = Inr ()" "fn_coverage_complete s"
    and "\<forall>r \<in> set (fn_records s). funding_record_check r = Inr ()"
  shows "set (settlement_times s) = {t. fn_start_ms s \<le> t \<and> t \<le> fn_end_ms s \<and> scheduled s t}"
proof (cases "fn_records s")
  case Nil
  then show ?thesis using empty_schedule [OF assms(1,2) Nil] by (auto simp: settlement_times_def)
next
  case (Cons r rs)
  let ?ts = "settlement_times s"
  have i: "0 < fg_interval_ms r" using assms(3) by (auto simp: Cons funding_record_check_def split: if_splits)
  have c: "successively (\<lambda>a b. b - a = fg_interval_ms r) ?ts" "hd ?ts - fn_start_ms s < fg_interval_ms r"
    "fn_end_ms s - last ?ts < fg_interval_ms r"
    using validate_seriesD(6) [OF assms(1) Cons assms(2)]
    by (auto simp: coverage_check_def Let_def settlement_times_def)
  have n: "?ts \<noteq> []" "scheduled s t \<longleftrightarrow> (t - hd ?ts) mod fg_interval_ms r = 0" for t
    by (simp_all add: Cons settlement_times_def scheduled_def series_anchor_def series_interval_def)
  have "scheduled s t" if t: "t \<in> set ?ts" for t
  proof -
    obtain k where "k < length ?ts" "t = ?ts ! k" using t by (metis in_set_conv_nth)
    then show ?thesis using progression_nth [OF c(1)] n(2) by simp
  qed
  moreover have "t \<in> set ?ts" if "fn_start_ms s \<le> t" "t \<le> fn_end_ms s" "scheduled s t" for t
    using progression_fills [OF c(1) n(1) i c(2,3)] that n(2) by blast
  ultimately show ?thesis using validate_seriesD(3) [OF assms(1)] by blast
qed

section \<open>Mark prices\<close>

lemma mark_at_scheduled:
  assumes "mark_series_check s = Inr ()" "ms_coverage_complete s"
    and "ms_start_ms s \<le> t" "t \<le> ms_end_ms s" "(t - ms_start_ms s) mod ms_interval_ms s = 0"
  shows "\<exists>r. mark_at s t = Some r \<and> mk_timestamp_ms r = t"
proof -
  let ?i = "ms_interval_ms s" and ?a = "ms_start_ms s"
  have c: "0 < ?i" "map mk_timestamp_ms (ms_records s) = expected_times ?a (ms_end_ms s) ?i"
    using assms(1,2) by (auto simp: mark_series_check_def Let_def split: if_splits)
  obtain m where m: "t - ?a = ?i * m" using assms(5) by (metis mod_0_imp_dvd dvdE)
  have m0: "0 \<le> m" using m assms(3) c(1) by (metis diff_ge_0_iff_ge zero_le_mult_iff not_less order.asym)
  have "m = (t - ?a) div ?i" using m c(1) by simp
  also have "\<dots> \<le> (ms_end_ms s - ?a) div ?i" using assms(4) c(1) by (intro zdiv_mono1) simp_all
  finally have "nat m < nat ((ms_end_ms s - ?a) div ?i + 1)" using m0 by simp
  moreover have "t = ?a + int (nat m) * ?i" using m m0 by (simp add: algebra_simps)
  ultimately have "t \<in> set (map mk_timestamp_ms (ms_records s))" 
    unfolding c(2) expected_times_def set_map set_upt by (intro image_eqI [of _ _ "nat m"]) simp_all
  then have "t \<in> fst ` set (rev (map (\<lambda>r. (mk_timestamp_ms r, r)) (ms_records s)))" by force
  then obtain r where r: "mark_at s t = Some r"
    unfolding mark_at_def by (metis map_of_eq_None_iff not_None_eq)
  then have "(t, r) \<in> set (rev (map (\<lambda>r. (mk_timestamp_ms r, r)) (ms_records s)))"
    unfolding mark_at_def by (rule map_of_SomeD)
  then show ?thesis using r by auto
qed

section \<open>A day of settlements\<close>

definition demo_settlement :: "nat \<Rightarrow> funding_record" where
  "demo_settlement k = \<lparr> fg_symbol = ''BTC/USDT'', fg_rate = 1 / 10000, fg_settlement_ms = 28800000 * int k,
     fg_mark_price = 30000, fg_interval_ms = 28800000, fg_source = ''venue'', fg_calculated_ms = None \<rparr>"

definition demo_funding :: funding_series where
  "demo_funding = \<lparr> fn_exchange = ''binance'', fn_market = ''future'', fn_canonical_symbol = ''BTCUSDT'',
     fn_start_ms = 3600000, fn_end_ms = 86400000, fn_records = map demo_settlement [1, 2, 3],
     fn_coverage_complete = True, fn_interval_ms = Some 28800000, fn_anchor_ms = None, fn_schedule_source = None \<rparr>"

lemma demo_funding_ok: "validate_series demo_funding = Inr ()"
  by code_simp

lemma complete_series_is_schedule_witness:
  "{t. 3600000 \<le> t \<and> t \<le> 86400000 \<and> scheduled demo_funding t} = {28800000, 57600000, 86400000}"
proof -
  have "fn_coverage_complete demo_funding" by (simp add: demo_funding_def)
  moreover have "\<forall>r \<in> set (fn_records demo_funding). funding_record_check r = Inr ()" by code_simp
  moreover have "settlement_times demo_funding = [28800000, 57600000, 86400000]" by code_simp
  ultimately show ?thesis using complete_series_is_schedule [OF demo_funding_ok] by (simp add: demo_funding_def)
qed

end
