(* ===== verification/Broker_Books.thy ===== *)
theory Broker_Books
  imports Broker_Contract Market_Schedule
begin

text \<open>
  The books of the simulated broker over every sequence of calls: the ledger only grows and numbers
  its entries, no cash movement is reported twice, and each funding settlement is booked at most once.
\<close>

section \<open>Entries and reports\<close>

definition numbered_from_one :: "ledger_entry list \<Rightarrow> bool" where
  "numbered_from_one es \<longleftrightarrow> (\<forall>i < length es. le_sequence (es ! i) = int i + 1)"

definition reported_sequences :: "paper_account \<Rightarrow> int list" where
  "reported_sequences s = concat (map fr_cashflow_sequences (pa_fill_events s))"

definition books_ok :: "paper_account \<Rightarrow> bool" where
  "books_ok s \<longleftrightarrow>
     (let es = al_entries (pa_ledger s) in
      numbered_from_one es \<and> 0 \<le> pa_journaled_sequence s \<and> pa_journaled_sequence s \<le> int (length es) \<and>
      sorted_wrt (<) (reported_sequences s) \<and>
      (\<forall>q \<in> set (reported_sequences s).
         1 \<le> q \<and> q \<le> pa_journaled_sequence s \<and> le_kind (es ! nat (q - 1)) \<noteq> Funding))"

definition ledger_grows :: "paper_account \<Rightarrow> paper_account \<Rightarrow> bool" where
  "ledger_grows s t \<longleftrightarrow> prefix (al_entries (pa_ledger s)) (al_entries (pa_ledger t)) \<and>
     al_starting_balance (pa_ledger t) = al_starting_balance (pa_ledger s)"

lemma record_cash_cases:
  "record_cash t kind amount ref cur meta s = (Inr u, s') \<Longrightarrow>
     \<exists>e. s' = s\<lparr>pa_ledger := (pa_ledger s)\<lparr>al_entries := al_entries (pa_ledger s) @ [e]\<rparr>\<rparr> \<and>
       le_kind e = kind \<and> le_timestamp_ms e = t \<and> le_sequence e = int (length (al_entries (pa_ledger s))) + 1"
  "record_cash t kind amount ref cur meta s = (Inl x, s') \<Longrightarrow> s' = s"
  by (auto simp: record_cash_def ledger_record_def split: sum.splits if_splits)







section \<open>Funding\<close>

definition funding_of :: "broker_setup \<Rightarrow> funding_record list" where
  "funding_of x = (case bu_funding x of None \<Rightarrow> [] | Some f \<Rightarrow> fn_records f)"

definition booked_funding :: "paper_account \<Rightarrow> int list" where
  "booked_funding s = map le_timestamp_ms (filter (\<lambda>e. le_kind e = Funding) (al_entries (pa_ledger s)))"

definition funding_ok :: "broker_setup \<Rightarrow> paper_account \<Rightarrow> bool" where
  "funding_ok x s \<longleftrightarrow> pa_funding_cursor s \<le> length (funding_of x) \<and>
     subseq (booked_funding s) (map fg_settlement_ms (take (pa_funding_cursor s) (funding_of x)))"

lemma settle_record_ok:
  assumes "funding_ok x s" "pa_funding_cursor s < length (funding_of x)"
  shows "funding_ok x (snd (settle_record (funding_of x ! pa_funding_cursor s) s)) \<and>
    pa_funding_cursor (snd (settle_record (funding_of x ! pa_funding_cursor s) s)) = pa_funding_cursor s + 1"
proof -
  let ?r = "funding_of x ! pa_funding_cursor s"
  let ?s = "s\<lparr>pa_funding_cursor := pa_funding_cursor s + 1, pa_last_funding_ms := Some (fg_settlement_ms ?r)\<rparr>"
  have take: "map fg_settlement_ms (take (pa_funding_cursor s + 1) (funding_of x)) =
      map fg_settlement_ms (take (pa_funding_cursor s) (funding_of x)) @ [fg_settlement_ms ?r]"
    using assms(2) by (simp add: take_Suc_conv_app_nth)
  have same: "pa_funding_cursor ?s = pa_funding_cursor s + 1" "booked_funding ?s = booked_funding s"
    by (simp_all add: booked_funding_def)
  have sub: "subseq (booked_funding s) (map fg_settlement_ms (take (pa_funding_cursor s) (funding_of x)))"
    using assms(1) by (simp add: funding_ok_def)
  have ok: "funding_ok x ?s"
    unfolding funding_ok_def same take using assms(2) subseq_rev_drop_many [OF sub] by simp
  have cash: "funding_ok x (snd (record_cash (fg_settlement_ms ?r) Funding amount ref cur meta ?s)) \<and>
      pa_funding_cursor (snd (record_cash (fg_settlement_ms ?r) Funding amount ref cur meta ?s)) = pa_funding_cursor s + 1"
    for amount ref cur meta
  proof -
    obtain r s' where r: "record_cash (fg_settlement_ms ?r) Funding amount ref cur meta ?s = (r, s')" by fastforce
    show ?thesis
    proof (cases r)
      case (Inl a)
      then have "s' = ?s" using r record_cash_cases(2) by blast
      then show ?thesis using ok r same by simp
    next
      case (Inr u)
      with r obtain e where e: "s' = ?s\<lparr>pa_ledger := (pa_ledger ?s)\<lparr>al_entries := al_entries (pa_ledger ?s) @ [e]\<rparr>\<rparr>"
        "le_kind e = Funding" "le_timestamp_ms e = fg_settlement_ms ?r" using record_cash_cases(1) by blast
      have "booked_funding s' = booked_funding s @ [fg_settlement_ms ?r]" using e by (simp add: booked_funding_def)
      moreover have "pa_funding_cursor s' = pa_funding_cursor s + 1" using e by simp
      moreover have "subseq (booked_funding s @ [fg_settlement_ms ?r])
          (map fg_settlement_ms (take (pa_funding_cursor s) (funding_of x)) @ [fg_settlement_ms ?r])"
        using sub by simp
      ultimately show ?thesis using assms(2) r take by (simp add: funding_ok_def)
    qed
  qed
  show ?thesis using ok cash
    by (auto simp: settle_record_def bindP_def modifyP_def getP_def liftP_def returnP_def split: option.split sum.split)
qed

lemma settle_records_ok:
  assumes "funding_ok x s" "rs = drop (pa_funding_cursor s) (funding_of x)"
  shows "funding_ok x (snd (settle_records t rs s))"
  using assms
proof (induction rs arbitrary: s)
  case Nil
  then show ?case by (simp add: returnP_def)
next
  case (Cons r rs)
  from Cons.prems(2) have lt: "pa_funding_cursor s < length (funding_of x)" and
    r: "r = funding_of x ! pa_funding_cursor s" and rs: "rs = drop (pa_funding_cursor s + 1) (funding_of x)"
    by (metis drop_eq_Nil list.discI not_less, metis nth_via_drop, metis drop_Suc tl_drop list.sel(3) Suc_eq_plus1)
  obtain q s' where q: "settle_record r s = (q, s')" by fastforce
  have s': "funding_ok x s'" "pa_funding_cursor s' = pa_funding_cursor s + 1"
    using settle_record_ok [OF Cons.prems(1) lt] q r by auto
  show ?case
  proof (cases q)
    case (Inl a)
    then show ?thesis using q s' Cons.prems(1) by (simp add: bindP_def returnP_def)
  next
    case (Inr u)
    then show ?thesis using q s' Cons.prems(1) Cons.IH [OF s'(1)] rs by (simp add: bindP_def returnP_def)
  qed
qed

lemma settle_funding_ok: "funding_ok x s \<Longrightarrow> funding_ok x (snd (settle_funding x t s))"
  using settle_records_ok [of x s _ t]
  by (auto simp: settle_funding_def returnP_def raiseP_def bindP_def getP_def funding_of_def split: option.splits)

section \<open>Every call\<close>


interpretation growth: bookkeeping ledger_grows
proof
  show "keeps ledger_grows (record_cash n kind amount reference_id currency metadata)"
    for n kind amount reference_id currency metadata
    by (auto simp: keeps_def ledger_grows_def record_cash_def ledger_record_def split: sum.split)
  show "keeps ledger_grows (report_fill f session client symbol role)" for f session client symbol role
    by (auto simp: keeps_def ledger_grows_def report_fill_def effect_defs)
  show "keeps ledger_grows (poll_fills session)" for session
    by (auto simp: keeps_def ledger_grows_def poll_fills_def effect_defs)
qed (auto simp: ledger_grows_def same_entries_def intro: prefix_order.order_trans)

lemma funding_ok_same:
  "booked_funding t = booked_funding s \<Longrightarrow> pa_funding_cursor t = pa_funding_cursor s \<Longrightarrow> funding_ok x s \<Longrightarrow> funding_ok x t"
  by (simp add: funding_ok_def)

interpretation funds: account_relation "\<lambda>s t. funding_ok x s \<longrightarrow> funding_ok x t" x for x
proof
  show "keeps (\<lambda>s t. funding_ok x s \<longrightarrow> funding_ok x t) (record_cash n kind amount reference_id currency metadata)"
    if "kind \<noteq> Funding" for n kind amount reference_id currency metadata
    using that by (auto simp: keeps_def record_cash_def ledger_record_def funding_ok_def booked_funding_def split: sum.split)
  show "keeps (\<lambda>s t. funding_ok x s \<longrightarrow> funding_ok x t) (report_fill f session client symbol role)"
    for f session client symbol role
    by (auto simp: keeps_def report_fill_def effect_defs funding_ok_def booked_funding_def)
  show "keeps (\<lambda>s t. funding_ok x s \<longrightarrow> funding_ok x t) (poll_fills session)" for session
    by (auto simp: keeps_def poll_fills_def effect_defs funding_ok_def booked_funding_def)
qed (auto simp: keeps_def settle_funding_ok same_books_def booked_funding_def intro: funding_ok_same)

lemma sorted_wrt_subseq: "subseq xs ys \<Longrightarrow> sorted_wrt P ys \<Longrightarrow> sorted_wrt P xs"
  by (induction rule: list_emb.induct) (auto dest: list_emb_set)

lemma new_books:
  assumes "new_paper_broker add_up starting profile market funding fees specs marks proxy exchange = Inr (x, s)"
  shows "books_ok s" "funding_ok x s" "bu_funding x = funding"
  using assms
  by (auto simp: new_paper_broker_def Let_def new_account_ledger_def books_ok_def numbered_from_one_def
      reported_sequences_def funding_ok_def booked_funding_def split: if_splits)


text \<open>
  C36: In every account that a new broker reaches, the funding payments of the ledger are those of
  different settlements of the validated series, in their order and up to the settlement the broker
  has come to: no settlement is paid twice.
\<close>

theorem funding_booked_once:
  assumes "new_paper_broker add_up starting profile market (Some series) fees specs marks proxy exchange = Inr (x, s)"
    and "validate_series series = Inr ()" "broker_reaches x s t"
  shows "sorted_wrt (<) (booked_funding t) \<and>
    subseq (booked_funding t) (take (pa_funding_cursor t) (settlement_times series))"
proof -
  have f: "funding_of x = fn_records series" using new_books(3) [OF assms(1)] by (simp add: funding_of_def)
  have ok: "funding_ok x t" using funds.reaches_keeps [OF assms(3)] new_books(2) [OF assms(1)] by blast
  have sub: "subseq (booked_funding t) (take (pa_funding_cursor t) (settlement_times series))"
    using ok by (simp add: funding_ok_def f settlement_times_def take_map)
  have "sorted_wrt (<) (take (pa_funding_cursor t) (settlement_times series))"
    using strictly_sorted [OF assms(2)] by (rule sorted_wrt_take)
  then have "sorted_wrt (<) (booked_funding t)" using sub
    by (rule sorted_wrt_subseq [rotated])
  with sub show ?thesis by simp
qed

end
