(* ===== verification/Demo_Broker.thy ===== *)
theory Demo_Broker
  imports Broker_Books Broker_Orders
begin

text \<open>
  A simulated account on which the properties of the broker are exercised: two settlements of
  funding and a close, a costed entry, a stop, a target, and a tightened stop. The numbers are
  binary floats of few bits, so that every operation is exact.
\<close>

section \<open>Exact numbers\<close>

lemma to_float_exact:
  assumes "x = of_int n / 2 ^ k" "\<bar>n\<bar> < 9007199254740992" "k \<le> 1022"
  shows "to_float x = Fin x"
  using fl64_exact [OF assms(1) _ assms(3)] assms(2) by (simp add: to_float_def)

lemma to_float_whole [simp]:
  "to_float 0 = Fin 0" "to_float 1 = Fin 1" "to_float (- 1) = Fin (- 1)"
  "(numeral v :: int) < 9007199254740992 \<Longrightarrow> to_float (numeral v) = Fin (numeral v)"
  "(numeral v :: int) < 9007199254740992 \<Longrightarrow> to_float (- numeral v) = Fin (- numeral v)"
  using to_float_exact [of _ "0" 0] to_float_exact [of _ "1" 0] to_float_exact [of _ "- 1" 0]
    to_float_exact [of _ "numeral v" 0] to_float_exact [of _ "- numeral v" 0] by simp_all

lemma to_float_half [simp]:
  "to_float (1 / 2) = Fin (1 / 2)"
  "(numeral v :: int) < 9007199254740992 \<Longrightarrow> to_float (numeral v / 2) = Fin (numeral v / 2)"
  "(numeral v :: int) < 9007199254740992 \<Longrightarrow> to_float (- (numeral v / 2)) = Fin (- (numeral v / 2))"
  using to_float_exact [of _ "1" 1] to_float_exact [of _ "numeral v" 1] to_float_exact [of _ "- numeral v" 1] by simp_all

lemma to_float_nonneg: "0 \<le> x \<Longrightarrow> \<not> fless (to_float x) (Fin 0)"
proof -
  assume x: "0 \<le> x"
  have "0 \<le> round_half_even (x * c)" if "0 < c" for c :: rat
    using round_half_even_mono [of 0 "x * c"] round_half_even_of_int [of 0] x that by simp
  then have "0 \<le> round64 x" using round_sig_mono [of 2 53 0 x] x by (simp add: round64_def)
  moreover have "round64 0 = 0" by (simp add: round64_def)
  ultimately show ?thesis using x by (cases "x = 0") (auto simp: to_float_def fl64_def Let_def)
qed

lemma dust_nonneg [simp]: "\<not> fless dust (Fin 0)"
  unfolding dust_def by (rule to_float_nonneg) simp

text \<open>A decimal of one digit reads as itself.\<close>

lemma float_text_digit:
  assumes "x = of_int n / 10 ^ k" "x = of_int m / 2 ^ j" "\<bar>n\<bar> < 10" "\<bar>m\<bar> < 2 ^ 53" "j \<le> 1022"
  shows "float_text x = x"
proof (cases "x = 0")
  case False
  have "\<bar>x\<bar> * of_nat 10 ^ k < of_nat 10 ^ 1" using assms(3) unfolding assms(1) by (simp add: abs_mult)
  then have near: "round_sig 10 1 x = x" using round_sig_exact [of 10 1 x n k] assms(1) by simp
  have "fl64 x = Some x" by (rule fl64_exact [OF assms(2,4,5)])
  then have "round64 x = x" by (auto simp: fl64_def Let_def split: if_splits)
  then have "round_trip 1 x = Some x" using near unfolding round_trip_def Let_def by (simp only: if_True simp_thms)
  then have "shortest_from (Suc 15) 1 x = x" by (simp only: shortest_from.simps option.case)
  then show ?thesis using False unfolding float_text_def by (simp only: if_False numeral_eq_Suc pred_numeral_simps BitM.simps)
qed (simp add: float_text_def)

lemma decimal_of_digit: "float_text x = x \<Longrightarrow> decimal_of (Fin x) = Fin x"
  by (simp add: decimal_of_def)

lemma decimal_of_demo [simp]:
  "decimal_of (Fin 0) = Fin 0" "decimal_of (Fin (1 / 2)) = Fin (1 / 2)" "decimal_of (Fin 3) = Fin 3"
  "decimal_of (Fin 4) = Fin 4" "decimal_of (Fin 9) = Fin 9"
  by (rule decimal_of_digit, rule float_text_digit [of _ 0 0 0 0], simp_all)
    (rule decimal_of_digit, rule float_text_digit [of _ 5 1 1 1], simp_all,
     rule decimal_of_digit, rule float_text_digit [of _ 3 0 3 0], simp_all,
     rule decimal_of_digit, rule float_text_digit [of _ 4 0 4 0], simp_all,
     rule decimal_of_digit, rule float_text_digit [of _ 9 0 9 0], simp_all)

section \<open>Funding and a close\<close>

definition demo_start :: paper_account where
  "demo_start = \<lparr> pa_ledger = \<lparr> al_starting_balance = Fin 40000, al_entries = [] \<rparr>, pa_position = None, pa_pending = None,
     pa_last_close = Fin 0, pa_last_timestamp_ms = 0, pa_fill_events = [], pa_deferred_exit = None,
     pa_journaled_sequence = 0, pa_exit_cumulative = Fin 0, pa_last_funding_ms = None, pa_funding_cursor = 0,
     pa_entry_bar_ms = None, pa_entry_rejection = None, pa_ambiguities = [] \<rparr>"

definition demo_setup :: broker_setup where
  "demo_setup = \<lparr> bu_profile = legacy_profile, bu_market = ''future'', bu_exchange = None,
     bu_funding = Some demo_funding, bu_fee_schedule = None, bu_specs = [], bu_mark_prices = None, bu_proxy = None,
     bu_add_up = plain_sum \<rparr>"

definition demo_bracket :: bracket_request where
  "demo_bracket = \<lparr> bq_side = Buy_Side, bq_entry_price = Fin 30000, bq_stop_price = Fin 29000,
     bq_target_price = Fin 31000, bq_quantity = Fin (1 / 2), bq_order_type = ''market'', bq_session_id = ''run'',
     bq_client_order_id = ''entry'', bq_symbol = ''BTC/USDT'', bq_risk_budget = None, bq_decision_ms = None \<rparr>"

definition quiet_bar :: ohlc where
  "quiet_bar = \<lparr> oh_open = Fin 30000, oh_high = Fin 30500, oh_low = Fin 29500, oh_close = Fin 30000,
     oh_volume = None \<rparr>"

definition demo_pending :: paper_account where
  "demo_pending = snd (submit_bracket demo_setup demo_bracket demo_start)"

definition demo_filled :: paper_account where
  "demo_filled = snd (fill_market_if_pending demo_setup 3600000 (Fin 30000) demo_pending)"

definition demo_paid :: paper_account where
  "demo_paid = snd (process_bar demo_setup 28800000 quiet_bar demo_filled)"

definition demo_closed :: paper_account where
  "demo_closed = snd (flatten_at demo_setup 30000000 (Fin 30500) demo_paid)"

lemma demo_pending_value: "demo_pending = demo_start\<lparr>pa_pending := Some (pending_of demo_setup demo_bracket)\<rparr>"
proof -
  have "validate_fee_currency demo_setup (bq_symbol demo_bracket) = Inr ()"
    "plain_symbol (bq_symbol demo_bracket) \<in> set (evidence_symbols demo_setup)"
    "bracket_check demo_setup demo_bracket = Inr ()" "affordability_error demo_setup demo_start
       (bq_quantity demo_bracket) (bq_entry_price demo_bracket) (role_of_type (bq_order_type demo_bracket)) None = Inr None"
    by code_simp+
  moreover have "bu_market demo_setup = ''future''" by (simp add: demo_setup_def)
  ultimately show ?thesis by (simp add: demo_pending_def submit_bracket_def)
qed

lemmas demo_defs = demo_setup_def demo_start_def demo_bracket_def quiet_bar_def legacy_profile_def

lemmas broker_defs = effect_defs Let_def is_costed_def delays_protection_def stop_first_def market_types_def limit_types_def
  stop_types_def

lemma demo_new:
  "new_paper_broker plain_sum (Fin 40000) legacy_profile ''future'' (Some demo_funding) None [] None None None =
     Inr (demo_setup, demo_start)"
proof -
  have e: "evidence_check demo_setup = Inr ()" by code_simp
  have m: "canonical_market ''future'' = Inr ''future''" by code_simp
  show ?thesis using e
    by (simp add: new_paper_broker_def m demo_setup_def [symmetric] new_account_ledger_def positive_float_iff demo_start_def)
qed

lemma demo_filled_value:
  "pa_position demo_filled = Some \<lparr> qp_side = Buy_Side, qp_entry_price = Fin 30000, qp_quantity = Fin (1 / 2),
     qp_stop_price = Fin 29000, qp_target_price = Fin 31000, qp_entry_timestamp_ms = 3600000, qp_session_id = ''run'',
     qp_entry_client_order_id = ''entry'', qp_symbol = ''BTC/USDT'', qp_stop_client_order_id = [],
     qp_target_client_order_id = [], qp_entry_commission = Fin 0, qp_margin = Fin 0, qp_active_ms = None \<rparr>"
  "pa_pending demo_filled = None" "al_entries (pa_ledger demo_filled) = []" "pa_funding_cursor demo_filled = 0"
  "pa_journaled_sequence demo_filled = 0" "map fr_cashflow_sequences (pa_fill_events demo_filled) = [[]]"
  "pa_exit_cumulative demo_filled = Fin 0"
  unfolding demo_filled_def demo_pending_value
  by (simp_all add: fill_market_if_pending_def open_fill_def cost_of_entry_def spec_at_def no_cost_def activated_def
      opened_position_def remainder_of_def report_fill_def pending_of_def broker_defs demo_defs)

lemma demo_rounding [simp]: "qrnd (1 / 2) = 1 / 2" "qrnd (1 / 20000) = 1 / 20000" "qrnd (3 / 2) = 3 / 2" "qrnd (- (3 / 2)) = - (3 / 2)"
  unfolding qrnd_def
  using round_sig_exact [of 10 28 "1 / 2" 5 1] round_sig_exact [of 10 28 "1 / 20000" 5 5]
    round_sig_exact [of 10 28 "3 / 2" 15 1] round_sig_exact [of 10 28 "- (3 / 2)" "- 15" 1] by simp_all

lemma demo_cashflow: "funding_cashflow Buy_Side (Fin (1 / 2)) (1 / 10000) 30000 = Inr (- (3 / 2))"
  by (simp add: funding_cashflow_def qmul_def positive_decimal_def bindE_def)

lemma demo_paid_value:
  "pa_position demo_paid = pa_position demo_filled" "pa_pending demo_paid = None"
  "map le_kind (al_entries (pa_ledger demo_paid)) = [Funding]" "map le_sequence (al_entries (pa_ledger demo_paid)) = [1]"
  "map le_timestamp_ms (al_entries (pa_ledger demo_paid)) = [28800000]"
  "pa_funding_cursor demo_paid = 1" "pa_exit_cumulative demo_paid = Fin 0"
  "pa_journaled_sequence demo_paid = 0" "map fr_cashflow_sequences (pa_fill_events demo_paid) = [[]]"
  unfolding demo_paid_def
  by (simp_all add: process_bar_def liquidity_for_def settle_funding_def settle_record_def record_cash_def ledger_record_def
      liquidate_if_required_def liquidation_due_def working_exit_def exit_cross_def exit_hit_def pending_entry_def
      demo_filled_value demo_cashflow demo_funding_def demo_settlement_def broker_defs demo_defs)

lemma fdiv_exact: "b \<noteq> 0 \<Longrightarrow> fdiv (Fin a) (Fin b) = Inr (to_float (a / b))"
  by (simp add: fdiv_def)

lemmas close_defs = close_position_def close_order_id_def exit_quantity_def budget_quantity_def allocate_fill_quantity_def
  slippage_for_def resolve_slippage_bps_def nonneg_decimal_def spec_at_def cost_of_exit_def no_cost_def record_cash_def
  ledger_record_def reduce_position_def updateP_def close_fill_of_def report_close_def report_fill_def role_of_kind_def
  side_sign_def fsub_def fmul_def fmax_def fdiv_exact

lemma demo_closed_value:
  "pa_position demo_closed = None" "map le_kind (al_entries (pa_ledger demo_closed)) = [Funding, Trade_Pnl]"
  "map le_timestamp_ms (al_entries (pa_ledger demo_closed)) = [28800000, 30000000]"
  "map fr_cashflow_sequences (pa_fill_events demo_closed) = [[], [2]]"
proof -
  obtain e where e: "al_entries (pa_ledger demo_paid) = [e]" "le_kind e = Funding" "le_sequence e = 1"
    "le_timestamp_ms e = 28800000"
    using demo_paid_value by (auto simp: map_eq_Cons_conv)
  obtain r where r: "pa_fill_events demo_paid = [r]" "fr_cashflow_sequences r = []"
    using demo_paid_value by (auto simp: map_eq_Cons_conv)
  show "pa_position demo_closed = None" "map le_kind (al_entries (pa_ledger demo_closed)) = [Funding, Trade_Pnl]"
    "map le_timestamp_ms (al_entries (pa_ledger demo_closed)) = [28800000, 30000000]"
    "map fr_cashflow_sequences (pa_fill_events demo_closed) = [[], [2]]"
    unfolding demo_closed_def
    by (simp_all add: flatten_at_def close_defs demo_paid_value demo_filled_value e r broker_defs demo_defs)
qed

lemma demo_reached: "broker_reaches demo_setup demo_start demo_closed"
proof -
  have "broker_step demo_setup demo_start demo_pending" "broker_step demo_setup demo_pending demo_filled"
    "broker_step demo_setup demo_filled demo_paid" "broker_step demo_setup demo_paid demo_closed"
    unfolding demo_closed_def demo_paid_def demo_filled_def demo_pending_def by (rule broker_step.intros)+
  then show ?thesis unfolding broker_reaches_def by (meson rtranclp.rtrancl_into_rtrancl rtranclp.rtrancl_refl)
qed


lemma funding_booked_once_witness:
  "booked_funding demo_closed = [28800000] \<and> subseq [28800000] (take (pa_funding_cursor demo_closed) (settlement_times demo_funding))"
proof -
  obtain a b where e: "al_entries (pa_ledger demo_closed) = [a, b]" "le_kind a = Funding" "le_kind b = Trade_Pnl"
    "le_timestamp_ms a = 28800000"
    using demo_closed_value(2,3) by (auto simp: map_eq_Cons_conv)
  then have "booked_funding demo_closed = [28800000]" by (simp add: booked_funding_def)
  with funding_booked_once [OF demo_new demo_funding_ok demo_reached] show ?thesis by simp
qed

section \<open>A costed account\<close>

definition costed_setup :: broker_setup where
  "costed_setup = demo_setup\<lparr> bu_funding := None, bu_profile := \<lparr> pp_version = Realistic, pp_commission_bps = Fin 10,
     pp_spread_bps = Fin 0, pp_slippage_bps = Fin 0, pp_leverage = Fin 1 \<rparr> \<rparr>"

definition limit_order :: pending_order where
  "limit_order = (pending_of demo_setup demo_bracket)\<lparr>qo_order_type := ''limit''\<rparr>"

lemmas costed_defs = costed_setup_def limit_order_def pending_of_def demo_defs broker_defs

definition limit_plan :: entry_plan where
  "limit_plan = \<lparr> ep_order = limit_order, ep_matched = Fin 30000, ep_price = Fin 30000, ep_quantity = Fin (1 / 2),
     ep_role = Maker, ep_slippage = \<lparr> sl_bps = 0, sl_model = ''fixed_ohlcv_proxy'', sl_evidence_id = None,
       sl_evidence_status = ''unavailable'', sl_source = None \<rparr> \<rparr>"

lemma limit_planned: "planned_entry costed_setup limit_order None 1000 quiet_bar None demo_start = (Inr (Some limit_plan), demo_start)"
  by (simp add: planned_entry_def matched_price_def entry_cross_def budget_quantity_def role_of_type_def slippage_for_def
      resolve_slippage_bps_def nonneg_decimal_def costed_entry_def adjustment_fraction_def fquot_def adjusted_price_def
      fmul_def fmin_def risk_adjusted_order_def fitted_fill_def affordability_error_def entry_cost_def
      required_margin_def fdiv_exact commission_def fee_rate_def available_def balance_def ledger_balance_def
      plain_sum_def unrealized_def margin_used_def fsub_def limit_plan_def costed_defs)

lemma planned_entry_affordable_witness:
  "affordable costed_setup demo_start limit_plan \<and> better_than_limit limit_order (Fin 30000)"
proof -
  have "is_costed (bu_profile costed_setup)" by (simp add: costed_defs)
  from planned_entry_affordable [OF limit_planned this] show ?thesis
    by (simp add: limit_plan_def) (simp add: costed_defs)
qed

definition held_account :: paper_account where
  "held_account = demo_start\<lparr> pa_position := pa_position demo_filled, pa_pending := Some limit_order \<rparr>"

definition falling_bar :: ohlc where
  "falling_bar = quiet_bar\<lparr>oh_low := Fin 28000\<rparr>"

definition rising_bar :: ohlc where
  "rising_bar = quiet_bar\<lparr>oh_high := Fin 32000\<rparr>"

definition costed_application :: fee_application where
  "costed_application = \<lparr> fp_liquidity_role = Taker, fp_rate_bps = Fin 10, fp_currency = ''quote'',
     fp_evidence_id = ''configured-paper-profile'', fp_evidence_status = Approximation, fp_source = ''paper_profile'',
     fp_discount_treatment = ''not_modelled'', fp_tier_id = ''configured'' \<rparr>"

lemma costed_fee: "resolve_fee costed_setup Taker 5000 = Inr costed_application"
  by code_simp

lemmas bar_defs = process_bar_def liquidity_for_def settle_funding_def liquidate_if_required_def liquidation_due_def
  working_exit_def exit_cross_def exit_hit_def close_defs

lemmas exit_defs = bar_defs adjusted_price_def adjustment_fraction_def fquot_def opposite_def held_account_def
  demo_filled_value costed_application_def cost_split_def commission_def

lemma exits:
  "\<exists>f t. process_bar costed_setup 5000 falling_bar held_account = (Inr [f], t) \<and> pl_kind f = Stop_Loss"
  "\<exists>f t. process_bar costed_setup 5000 rising_bar held_account = (Inr [f], t) \<and> pl_kind f = Take_Profit"
  using costed_fee by (simp_all add: falling_bar_def rising_bar_def exit_defs costed_defs)

lemma exit_clears_entry_witness:
  "\<exists>f t. process_bar costed_setup 5000 falling_bar held_account = (Inr [f], t) \<and> pa_pending t = None \<and>
     pa_pending held_account \<noteq> None"
proof -
  obtain f t where r: "process_bar costed_setup 5000 falling_bar held_account = (Inr [f], t)" "pl_kind f = Stop_Loss"
    using exits(1) by blast
  then have "pa_pending t = None" using exit_clears_entry [OF r(1)] by simp
  with r show ?thesis by (simp add: held_account_def)
qed





end
