(* ===== verification/Spec2Isabelle.thy ===== *)
theory Spec2Isabelle
  imports Spot_Paper Account_Admission Account_Fills Controller_Properties Graph_Properties Bracket_Restore
    Bracket_Disposal Paper_Properties Paper_Paths Matching_Properties Condition_Properties Chain_Properties
    Runtime_Journal Demo_Level Demo_Broker
begin

text \<open>
  Verification of the Spot execution core of the koval engine, of its simulated futures broker, of
  the strategy graph it runs and of the stateful blocks of that graph.
  Paths below are relative to \<open>src/koval/\<close> of the repository.

  \<^bold>\<open>The program.\<close> A strategy is a graph of typed blocks. It is validated
  (\<open>strategy/graph/validation.py\<close>), built and stepped once per bar
  (\<open>strategy/graph/executor.py\<close>). Its Spot orders are executed in one of two lanes. The
  \<^emph>\<open>multi-order lane\<close> (\<open>engine/spot_multi_order/\<close>) runs a DCA or Grid recipe: a pure reducer,
  \<open>advance_spot\<close>, folds one observation (a price, a closed bar, executions, a command, a
  reconciliation, a fee valuation) into the session state, asks the controllers what to do and
  routes their decisions back through the account; the paper session turns candles into
  observations, models the executions, and journals every state before it becomes current. The
  \<^emph>\<open>host-driven bracket\<close> (\<open>engine/spot_execution.py\<close>, \<open>spot_account.py\<close>, \<open>spot_control.py\<close>) holds
  one entry with one linked stop and target at a venue: it writes a record before every request,
  polls fills into an exact ledger, keeps the inventory protected or closes it, and hands the
  session back to its host. Futures strategies run on a \<^emph>\<open>simulated broker\<close>
  (\<open>engine/paper_broker.py\<close>): it takes one bracket at a time, matches it and its protection against
  bars with fees, spread, slippage, funding and liquidation, books every amount in a cash ledger
  (\<open>engine/account_ledger.py\<close>) and reports fills to the engine; the market evidence it consumes is
  validated when it is built. Some blocks of a graph keep state between bars
  (\<open>strategy/nodes/condition_reducers.py\<close>, \<open>cross.py\<close>, \<open>aggregator.py\<close>, \<open>levels.py\<close>); a runtime writes
  what it does into a hash-chained journal (\<open>engine/runtime_journal.py\<close>).

  \<^bold>\<open>The model.\<close> Code that raises is a function into \<open>spot_error + 'a\<close> (\<open>Prelude\<close>); methods that
  keep what they did before an exception are functions from the object to a result and the object
  (\<open>Effects\<close>). Records and datatypes carry the names of the source with a two-letter prefix.
  Dictionaries are association lists in insertion order, updated in place as Python does.
  Decimals are rationals: \<open>Rounding\<close> rounds to \<open>p\<close> significant digits, ties to even, and
  \<open>Spot_Numbers\<close> instantiates it with the 256 digits of \<open>spot_numbers.exact\<close>, so every sum, product
  and quotient below rounds where the code rounds.

    \<^item> \<open>Spot_Models\<close>: \<open>models.py\<close>, the recipe parameters of \<open>strategy/schemas.py\<close>, all validators.
    \<^item> \<open>Spot_Account\<close>: \<open>account.py\<close>. Admission, cancel, replace, lots, fees, fills, the event log
      with its buffer and quarantine, reconciliation.
    \<^item> \<open>Spot_Controllers\<close>, \<open>Spot_State\<close>, \<open>Spot_Execution\<close>, \<open>Spot_Matching\<close>, \<open>Spot_Paper\<close>: the files of
      the same names under \<open>engine/spot_multi_order/\<close>.
    \<^item> \<open>Graph_Model\<close> (\<open>domains.py\<close>, \<open>ports.py\<close>, \<open>node.py\<close>, the kinds of \<open>entities.py\<close>),
      \<open>Graph_Validation\<close> and \<open>Graph_Executor\<close>.
    \<^item> \<open>Spot_Ledger\<close> (\<open>spot_account.py\<close>, the records of \<open>spot_contract.py\<close> and \<open>broker.py\<close>),
      \<open>Spot_Bracket\<close> (the object, its export and hash), \<open>Spot_Lifecycle\<close> (the methods of
      \<open>spot_execution.py\<close>) and \<open>Spot_Control\<close> (\<open>spot_control.py\<close>, restore).
    \<^item> \<open>Temporal_Values\<close> (the values and events of \<open>entities.py\<close>, \<open>nodes/value_contracts.py\<close>),
      \<open>Condition_Reducers\<close> (\<open>nodes/condition_reducers.py\<close>, \<open>nodes/cross.py\<close>) and \<open>Event_Chains\<close>
      (\<open>nodes/aggregator.py\<close>).
    \<^item> \<open>Float64\<close>, \<open>Level_Setup\<close> and \<open>Level_Reducer\<close>: the frozen level, \<open>nodes/levels.py\<close> with its
      contract (\<open>entities.py\<close>), its checkpoint (\<open>graph/level_state.py\<close>), its identities and its price
      predicates (\<open>helpers/levels.py\<close>). A finite binary64 number is a rational, and every sum,
      product and quotient is rounded by \<open>fl64\<close>, which is \<open>None\<close> on overflow. The optional fields
      that the validator of a snapshot binds together (a frozen level, its end, its consumption)
      are nested records.
    \<^item> \<open>Runtime_Journal\<close>: \<open>engine/runtime_journal.py\<close>.
    \<^item> \<open>Decimal_Floats\<close>: float arithmetic with infinities and NaN, decimals in the default context of
      28 digits, and the conversions between the two (\<open>float(d)\<close>, \<open>Decimal(str(x))\<close>).
    \<^item> \<open>Market_Evidence\<close>: market names and identities (\<open>exchanges/markets.py\<close>,
      \<open>exchanges/execution_compatibility.py\<close>, \<open>engine/market_identity.py\<close>), \<open>engine/fee_evidence.py\<close>,
      \<open>engine/funding.py\<close> and \<open>engine/instrument_risk.py\<close>; a constructor that validates is a check.
    \<^item> \<open>Fill_Models\<close>: \<open>engine/paper_profile.py\<close>, \<open>paper_fills.py\<close>, \<open>protection.py\<close>, \<open>execution_proxy.py\<close>
      and \<open>account_ledger.py\<close>.
    \<^item> \<open>Paper_Broker\<close> (data, construction, submission), \<open>Broker_Fills\<close> (opening, closing, protective
      orders, reports) and \<open>Broker_Bars\<close> (\<open>process_bar\<close>): \<open>engine/paper_broker.py\<close>. What the
      constructor fixes is a \<open>broker_setup\<close>, what the methods change a \<open>paper_account\<close>.

  \<^bold>\<open>The properties\<close>, by the text in front of each.

    \<^item> Account (\<open>Account_Facts\<close>, \<open>Account_Events\<close>, \<open>Account_Invariants\<close>, \<open>Account_Money\<close>,
      \<open>Account_Admission\<close>, \<open>Account_Fills\<close>). The public operations are the step relation
      \<open>account_step\<close>; \<open>account_invariant\<close> says what an invariant of it must satisfy, and the event
      log, the order table, the cash and the fee allowance are instances. Solvency, idempotence and
      conflicts of events, quarantine, the exact effect of a fill, and what a reconciliation
      releases are separate theorems.
    \<^item> Controllers (\<open>Controller_Properties\<close>): a terminal action is latched and only closes; a stop
      never loosens within a cycle.
    \<^item> Arithmetic (\<open>Spot_Numbers\<close>) and matching (\<open>Matching_Properties\<close>): rounding to a step is exact
      on bounded decimals, and a modelled execution stays inside the order, the venue and the bar.
    \<^item> Paper (\<open>Paper_Journal\<close>, \<open>Paper_Properties\<close>, \<open>Price_Grid\<close>, \<open>Paper_Paths\<close>): \<open>paper_contract\<close> is
      the contract of a relation that only persisting a \<open>successor\<close> of the current state has to
      keep. The journal is a hash chain, replaying it rebuilds the state, a failed session is
      frozen, prices stay on the tick of the instrument, and the loop over a leg returns.
    \<^item> Graph (\<open>Graph_Cycles\<close>, \<open>Graph_Order\<close>, \<open>Graph_Properties\<close>): the cycle check and the ordering
      terminate and are correct, validation is sound, building a valid graph succeeds, and a step
      solves the data-flow equations.
    \<^item> Bracket (\<open>Bracket_Steps\<close>, \<open>Bracket_Safety\<close>, \<open>Bracket_Protection\<close>, \<open>Bracket_Ledger\<close>,
      \<open>Bracket_Restore\<close>, \<open>Bracket_Disposal\<close>). The calls of a host are the step relation
      \<open>bracket_step\<close>, which includes every call that raises. The locales \<open>evidence\<close>, \<open>trading\<close> and
      \<open>hosting\<close> carry a relation from the primitive effects through all methods; each safety
      property is an interpretation. What holds when a method returns is stated with the triples
      \<open>returns\<close> of \<open>Effects\<close>.
    \<^item> Stateful blocks (\<open>Temporal_Runs\<close>, \<open>Condition_Properties\<close>, \<open>Level_Properties\<close>,
      \<open>Chain_Properties\<close>). A block that keeps its last cursor is a \<open>temporal_reducer\<close>: a repeated bar
      changes nothing, and its state is that of the run without repetitions. The hold, the edge, the
      crossing and the level interpret it. A hold equals its reference over the whole run, a level
      follows the state machine \<open>lifecycle\<close> and gives at most one opportunity, and the setups of the
      aggregator are pieces of the event stream that share no event.
    \<^item> Simulated broker (\<open>Broker_Contract\<close>, \<open>Broker_Books\<close>, \<open>Broker_Orders\<close>). The calls of the engine
      are the step relation \<open>broker_step\<close>, those that raise included. The locale \<open>account_relation\<close>
      carries a relation from the primitive effects (booking, reporting, polling, funding) through
      every method; \<open>bookkeeping\<close> gives it for relations that do not look at the funding cursor. Its
      interpretations say that the ledger only grows, that a cash movement is reported once, and that
      a settlement is paid once. What a bar does to an order (affordable entries, the stop before the
      target, no entry left after an exit) and to the stop is proved with \<open>returns\<close>.
    \<^item> Evidence (\<open>Market_Schedule\<close>): a complete funding series is exactly its schedule, and a complete
      series of mark prices has one at each of its times.
    \<^item> Journal (\<open>Runtime_Journal\<close>): what is written verifies, and the digest of an archive
      determines it.

  The theories \<open>Demo_Session\<close>, \<open>Demo_Basket\<close>, \<open>Demo_Paper\<close>, \<open>Demo_Graph\<close>, \<open>Demo_Bracket\<close>,
  \<open>Demo_Level\<close> and \<open>Demo_Broker\<close> hold the concrete sessions on which the witnesses evaluate the definitions.

  \<^bold>\<open>Parameters.\<close> What the source calls but does not hold is an argument: the content digest
  (SHA-256 of canonical JSON, \<open>digest\<close>, which nothing assumes to be injective), the journal sink
  and the bar function of the strategy (\<open>env\<close>), the venue and the record callback (\<open>ports\<close>, with
  an arbitrary world that each call may change and arbitrary answers), the host (\<open>authorize\<close> and
  the archive check), the factories and evaluations of the blocks that the executor builds, and
  the hash and the retained evidence of a level, and the sum of a list of floats (\<open>float_sum\<close>:
  Python 3.11 adds from the left, later versions compensate the rounding errors, and no property
  depends on which).

  \<^bold>\<open>Loops and bounds.\<close> The drain of a paper session is bounded by 512 as in the source, which
  raises when it is exhausted. The loop over a leg of a candle has no bound in the source
  (\<open>leg_while\<close>); the session of the model runs it with the fuel \<open>leg_bound\<close>, the number of ticks
  the leg spans plus one, and \<open>leg_returns\<close> proves that this is enough: every stop of the loop
  is a limit price, the protective stop or the end, and \<open>session_on_grid\<close> keeps these on the tick.
  The recursion of \<open>_point\<close> has Python's own limit, \<open>recursion_limit\<close>, past which it raises. The
  cycle check and the ordering loop are total functions with proved measures. The loop over the
  settlements of a bar (\<open>settle_records\<close>) is a recursion over those that the cursor has not passed,
  and the search for the shortest decimal of a float tries the 1 to 17 digits that always suffice.

  \<^bold>\<open>Not modelled.\<close> Amounts travel as text in the program and are values here, so the text of a
  number and the shape of JSON documents are outside, and with them \<open>spot_serialization.py\<close>,
  \<open>spot_archive.py\<close> and \<open>conformance.py\<close>, which compare documents. The ledger also feeds a
  projection in floats (\<open>account_state.py\<close>), which no decision of the bracket reads. Of the
  simulated broker \<open>resolved_metadata\<close> and the evidence manifest, which only report, the texts of
  refusals, and the coercions of untyped arguments are left out; a decimal has no limit on its
  exponent, and the sign of a zero float is not kept. The level
  cache and the decision evidence of the executor, with \<open>validate_level_graph_checkpoint\<close>,
  \<open>level_context_duplicate\<close> and \<open>level_graph_binding\<close> that serve them, the other blocks, the loops
  around the brokers (\<open>live_engine.py\<close>, \<open>backtest_engine.py\<close>), the exchange adapters and the command
  line are left out: they are computations on pandas frames, input and output, or glue around the
  parts above.
\<close>

end
